(* ===== verification/Prelude.thy ===== *)
theory Prelude
  imports Complex_Main "HOL-Library.Multiset" "HOL-Library.Word" "HOL-Library.Sublist"
    "HOL-Library.Log_Nat" "HOL-Library.Code_Target_Nat"
begin

text \<open>
  Shared vocabulary of the development: JavaScript errors as values, the loops that stop at
  the first error, the stable sort of \<open>Array.prototype.sort\<close>, insertion-ordered
  dictionaries (\<open>Map\<close> and plain objects) with the interface their clients rely on, and
  the de-duplication \<open>Array.from(new Set(xs))\<close>.
\<close>

named_theorems js_eval \<open>equations that evaluate the string and value primitives on literals\<close>

named_theorems dict_simps \<open>laws of insertion-ordered dictionaries\<close>

section \<open>Errors as values\<close>

text \<open>
  The exceptions the modelled code can raise: a property read of null or undefined or a
  spread of a value that is not iterable (\<open>TypeError\<close>), a malformed percent escape or a
  lone surrogate (\<open>URIError\<close>), and a call stack that is used up (\<open>RangeError\<close>).
\<close>

datatype jserr = TypeError | URIError | RangeError

type_synonym 'a jsr = "jserr + 'a"

definition ebind :: "'a jsr \<Rightarrow> ('a \<Rightarrow> 'b jsr) \<Rightarrow> 'b jsr" where
  "ebind m f = (case m of Inl e \<Rightarrow> Inl e | Inr x \<Rightarrow> f x)"

lemma ebind_simps [simp, js_eval]:
  "ebind (Inl e) f = Inl e" "ebind (Inr x) f = f x"
  by (simp_all add: ebind_def)

lemma ebind_Inr_iff: "ebind m f = Inr y \<longleftrightarrow> (\<exists>x. m = Inr x \<and> f x = Inr y)"
  by (cases m) simp_all

lemma ebind_Inl_iff: "ebind m f = Inl e \<longleftrightarrow> m = Inl e \<or> (\<exists>x. m = Inr x \<and> f x = Inl e)"
  by (cases m) simp_all

lemma ebind_cong [fundef_cong]:
  "m = m' \<Longrightarrow> (\<And>x. m' = Inr x \<Longrightarrow> f x = g x) \<Longrightarrow> ebind m f = ebind m' g"
  by (cases m') simp_all

lemma ebind_assoc: "ebind (ebind m f) g = ebind m (\<lambda>x. ebind (f x) g)"
  by (cases m) simp_all

primrec emap :: "('a \<Rightarrow> 'b jsr) \<Rightarrow> 'a list \<Rightarrow> 'b list jsr" where
  "emap f [] = Inr []"
| "emap f (x # xs) = ebind (f x) (\<lambda>y. ebind (emap f xs) (\<lambda>ys. Inr (y # ys)))"

lemma emap_cong [fundef_cong]:
  "xs = ys \<Longrightarrow> (\<And>x. x \<in> set ys \<Longrightarrow> f x = g x) \<Longrightarrow> emap f xs = emap g ys"
  by (induction ys arbitrary: xs) auto

primrec efold :: "('a \<Rightarrow> 's \<Rightarrow> 's jsr) \<Rightarrow> 'a list \<Rightarrow> 's \<Rightarrow> 's jsr" where
  "efold f [] s = Inr s"
| "efold f (x # xs) s = ebind (f x s) (efold f xs)"

lemma efold_cong [fundef_cong]:
  "xs = ys \<Longrightarrow> s = t \<Longrightarrow> (\<And>x u. x \<in> set ys \<Longrightarrow> f x u = g x u) \<Longrightarrow> efold f xs s = efold g ys t"
proof (induction ys arbitrary: xs s t)
  case (Cons y ys)
  have "efold f ys = efold g ys"
    using Cons.IH [of ys] Cons.prems(3) by (simp add: fun_eq_iff)
  with Cons.prems show ?case by simp
qed simp

lemma emap_Inr_iff: "emap f xs = Inr ys \<longleftrightarrow> list_all2 (\<lambda>x y. f x = Inr y) xs ys"
proof (induction xs arbitrary: ys)
  case (Cons x xs)
  then show ?case
    by (cases ys) (auto simp: ebind_Inr_iff)
qed auto

lemma emap_length: "emap f xs = Inr ys \<Longrightarrow> length ys = length xs"
  by (auto simp: emap_Inr_iff dest: list_all2_lengthD)

lemma emap_set: "emap f xs = Inr ys \<Longrightarrow> y \<in> set ys \<Longrightarrow> \<exists>x\<in>set xs. f x = Inr y"
  unfolding emap_Inr_iff by (induction rule: list_all2_induct) auto

lemma emap_total: "(\<And>x. x \<in> set xs \<Longrightarrow> \<exists>y. f x = Inr y) \<Longrightarrow> \<exists>ys. emap f xs = Inr ys"
proof (induction xs)
  case (Cons x xs)
  from Cons.prems [of x] obtain y where "f x = Inr y" by auto
  moreover from Cons obtain ys where "emap f xs = Inr ys" by auto
  ultimately show ?case by simp
qed simp

lemma emap_InlD: "emap f xs = Inl e \<Longrightarrow> \<exists>x\<in>set xs. f x = Inl e"
  by (induction xs) (auto simp: ebind_Inl_iff)

lemma emap_pure: "(\<And>x. x \<in> set xs \<Longrightarrow> f x = Inr (g x)) \<Longrightarrow> emap f xs = Inr (map g xs)"
  by (induction xs) auto

lemma efold_invariant:
  "efold f xs s = Inr t \<Longrightarrow> P s \<Longrightarrow> (\<And>x u v. x \<in> set xs \<Longrightarrow> P u \<Longrightarrow> f x u = Inr v \<Longrightarrow> P v) \<Longrightarrow> P t"
proof (induction xs arbitrary: s)
  case (Cons x xs)
  then obtain u where u: "f x s = Inr u" "efold f xs u = Inr t" by (auto simp: ebind_Inr_iff)
  show ?case
    by (rule Cons.IH [OF u(2)]) (use Cons.prems u in auto)
qed simp

lemma efold_InlD:
  "efold f xs s = Inl e \<Longrightarrow> \<exists>x\<in>set xs. \<exists>u. f x u = Inl e"
  by (induction xs arbitrary: s) (auto simp: ebind_Inl_iff)

text \<open>
  Two computations that agree wherever the first does not raise \<open>e\<close> (a deeper call stack, say)
  agree as a whole.
\<close>

lemma emap_agree:
  "(\<And>x. x \<in> set xs \<Longrightarrow> f x \<noteq> Inl e \<Longrightarrow> g x = f x) \<Longrightarrow> emap f xs \<noteq> Inl e \<Longrightarrow> emap g xs = emap f xs"
proof (induction xs)
  case (Cons x xs)
  show ?case
  proof (cases "f x")
    case (Inr y)
    with Cons.prems have "emap f xs \<noteq> Inl e" by (auto simp: ebind_def split: sum.splits)
    with Cons have "emap g xs = emap f xs" by simp
    with Inr Cons.prems(1) [of x] show ?thesis by simp
  qed (use Cons.prems in auto)
qed simp

lemma efold_agree:
  "(\<And>x u. x \<in> set xs \<Longrightarrow> f x u \<noteq> Inl e \<Longrightarrow> g x u = f x u) \<Longrightarrow> efold f xs s \<noteq> Inl e \<Longrightarrow> efold g xs s = efold f xs s"
proof (induction xs arbitrary: s)
  case (Cons x xs)
  show ?case
  proof (cases "f x s")
    case (Inr u)
    with Cons.prems have "efold f xs u \<noteq> Inl e" by simp
    with Cons have "efold g xs u = efold f xs u" by simp
    with Inr Cons.prems(1) [of x s] show ?thesis by simp
  qed (use Cons.prems in auto)
qed simp

lemma ebind_agree:
  "(m \<noteq> Inl e \<Longrightarrow> m' = m) \<Longrightarrow> (\<And>x. m = Inr x \<Longrightarrow> f x \<noteq> Inl e \<Longrightarrow> g x = f x) \<Longrightarrow> ebind m f \<noteq> Inl e \<Longrightarrow> ebind m' g = ebind m f"
  by (cases m) auto

lemma emap_fails: "x \<in> set xs \<Longrightarrow> f x = Inl e \<Longrightarrow> \<exists>e'. emap f xs = Inl e'"
  by (induction xs) (auto simp: ebind_def split: sum.splits)

lemma efold_fails:
  "x \<in> set xs \<Longrightarrow> (\<And>u. \<exists>e. f x u = Inl e) \<Longrightarrow> \<exists>e'. efold f xs s = Inl e'"
proof (induction xs arbitrary: s)
  case (Cons y ys)
  show ?case
  proof (cases "f y s")
    case (Inr u)
    with Cons.prems have "x \<in> set ys" by (metis set_ConsD sum.distinct(1))
    with Cons Inr show ?thesis by auto
  qed simp
qed simp

section \<open>The stable sort\<close>

text \<open>
  \<open>xs.sort(cmp)\<close>: a comparator gives the sign of the comparison. For a consistent comparator
  the specification leaves one result, the stable one, which insertion from the right computes.
\<close>

fun insert_by :: "('a \<Rightarrow> 'a \<Rightarrow> int) \<Rightarrow> 'a \<Rightarrow> 'a list \<Rightarrow> 'a list" where
  "insert_by cmp x [] = [x]"
| "insert_by cmp x (y # ys) = (if cmp x y \<le> 0 then x # y # ys else y # insert_by cmp x ys)"

definition sort_by :: "('a \<Rightarrow> 'a \<Rightarrow> int) \<Rightarrow> 'a list \<Rightarrow> 'a list" where
  "sort_by cmp xs = foldr (insert_by cmp) xs []"

lemma sort_by_simps [simp]:
  "sort_by cmp [] = []" "sort_by cmp (x # xs) = insert_by cmp x (sort_by cmp xs)"
  by (simp_all add: sort_by_def)

lemma mset_insert_by [simp]: "mset (insert_by cmp x xs) = add_mset x (mset xs)"
  by (induction xs) auto

lemma mset_sort_by [simp]: "mset (sort_by cmp xs) = mset xs"
  by (induction xs) auto

lemma set_sort_by [simp]: "set (sort_by cmp xs) = set xs"
  by (metis mset_sort_by set_mset_mset)

lemma length_sort_by [simp]: "length (sort_by cmp xs) = length xs"
  by (metis mset_sort_by size_mset)

lemma sort_by_Nil_iff [simp]: "sort_by cmp xs = [] \<longleftrightarrow> xs = []"
  by (metis mset_sort_by mset_zero_iff)

lemma distinct_sort_by [simp]: "distinct (sort_by cmp xs) = distinct xs"
  by (metis mset_sort_by mset_eq_imp_distinct_iff)

locale comparator =
  fixes cmp :: "'a \<Rightarrow> 'a \<Rightarrow> int"
  assumes cmp_swap: "cmp x y \<le> 0 \<longleftrightarrow> 0 \<le> cmp y x"
    and cmp_trans: "cmp x y \<le> 0 \<Longrightarrow> cmp y z \<le> 0 \<Longrightarrow> cmp x z \<le> 0"
begin

lemma cmp_total: "\<not> cmp x y \<le> 0 \<Longrightarrow> cmp y x \<le> 0"
  using cmp_swap [of x y] cmp_swap [of y x] by linarith

lemma cmp_refl: "cmp x x \<le> 0"
  using cmp_total by blast

lemma cmp_zero_sym: "cmp x y = 0 \<longleftrightarrow> cmp y x = 0"
  using cmp_swap [of x y] cmp_swap [of y x] by linarith

lemma set_insert_by: "set (insert_by cmp x xs) = insert x (set xs)"
  by (induction xs) auto

lemma insert_by_sorted:
  "sorted_wrt (\<lambda>x y. cmp x y \<le> 0) xs \<Longrightarrow> sorted_wrt (\<lambda>x y. cmp x y \<le> 0) (insert_by cmp x xs)"
  by (induction xs) (auto simp: set_insert_by dest: cmp_total intro: cmp_trans)

lemma sort_by_sorted: "sorted_wrt (\<lambda>x y. cmp x y \<le> 0) (sort_by cmp xs)"
  by (induction xs) (auto intro: insert_by_sorted)

lemma filter_insert_by:
  assumes "sorted_wrt (\<lambda>x y. cmp x y \<le> 0) xs"
  shows "filter (\<lambda>y. cmp k y = 0) (insert_by cmp x xs) =
    (if cmp k x = 0 then x # filter (\<lambda>y. cmp k y = 0) xs else filter (\<lambda>y. cmp k y = 0) xs)"
  using assms
proof (induction xs)
  case (Cons y ys)
  show ?case
  proof (cases "cmp x y \<le> 0")
    case False
    then have "cmp k x = 0 \<Longrightarrow> cmp k y \<noteq> 0"
      by (metis cmp_swap cmp_trans order_refl)
    with False Cons show ?thesis by auto
  qed simp
qed simp

lemma sort_by_stable:
  "filter (\<lambda>y. cmp k y = 0) (sort_by cmp xs) = filter (\<lambda>y. cmp k y = 0) xs"
  by (induction xs) (simp_all add: filter_insert_by sort_by_sorted)

lemma sort_by_idem: "sort_by cmp (sort_by cmp xs) = sort_by cmp xs"
proof -
  have "sorted_wrt (\<lambda>x y. cmp x y \<le> 0) ys \<Longrightarrow> sort_by cmp ys = ys" for ys
  proof (induction ys)
    case (Cons y ys)
    then show ?case by (cases ys) auto
  qed simp
  then show ?thesis using sort_by_sorted by blast
qed

end

text \<open>Comparing by a key first and by a second comparator on ties (\<open>a - b || cmp(a, b)\<close>).\<close>

definition cmp_or :: "('a \<Rightarrow> 'a \<Rightarrow> int) \<Rightarrow> ('a \<Rightarrow> 'a \<Rightarrow> int) \<Rightarrow> 'a \<Rightarrow> 'a \<Rightarrow> int" where
  "cmp_or c1 c2 x y = (if c1 x y \<noteq> 0 then c1 x y else c2 x y)"

lemma cmp_or_comparator:
  assumes "comparator c1" "comparator c2"
  shows "comparator (cmp_or c1 c2)"
proof -
  note s1 = comparator.cmp_swap [OF assms(1)] and t1 = comparator.cmp_trans [OF assms(1)]
  note s2 = comparator.cmp_swap [OF assms(2)] and t2 = comparator.cmp_trans [OF assms(2)]
  show ?thesis
  proof
    fix x y z
    show "cmp_or c1 c2 x y \<le> 0 \<longleftrightarrow> 0 \<le> cmp_or c1 c2 y x"
      using s1 [of x y] s1 [of y x] s2 [of x y] by (auto simp: cmp_or_def)
    assume le: "cmp_or c1 c2 x y \<le> 0" "cmp_or c1 c2 y z \<le> 0"
    then have a: "c1 x y \<le> 0" "c1 y z \<le> 0" by (auto simp: cmp_or_def split: if_splits)
    have "c1 x z \<le> 0" using t1 a by blast
    moreover have "c1 x z = 0 \<Longrightarrow> c1 x y = 0 \<and> c1 y z = 0"
      using a s1 t1 by (metis antisym order_refl)
    ultimately show "cmp_or c1 c2 x z \<le> 0"
      using le t2 [of x y z] by (auto simp: cmp_or_def split: if_splits)
  qed
qed

lemma comparator_key: "comparator (\<lambda>x y. (f x :: int) - f y)"
  by unfold_locales auto

lemma comparator_inv: "comparator c \<Longrightarrow> comparator (\<lambda>x y. c (f x) (f y))"
  unfolding comparator_def by blast

section \<open>Insertion-ordered dictionaries\<close>

text \<open>
  \<open>Map.set\<close> keeps the position of a key that is already there and appends a new one.
  Entries are read back in that order.
\<close>

type_synonym ('k, 'v) dict = "('k \<times> 'v) list"

fun dict_put :: "'k \<Rightarrow> 'v \<Rightarrow> ('k, 'v) dict \<Rightarrow> ('k, 'v) dict" where
  "dict_put k v [] = [(k, v)]"
| "dict_put k v ((k', v') # d) = (if k = k' then (k, v) # d else (k', v') # dict_put k v d)"

text \<open>Storing the pairs of a list one after the other (\<open>Object.assign\<close>, \<open>Object.fromEntries\<close>, a spread).\<close>

definition put_all :: "('k \<Rightarrow> 'v \<Rightarrow> ('k, 'v) dict \<Rightarrow> ('k, 'v) dict) \<Rightarrow> ('k \<times> 'v) list \<Rightarrow> ('k, 'v) dict \<Rightarrow> ('k, 'v) dict" where
  "put_all put kvs d = fold (\<lambda>(k, v). put k v) kvs d"

lemma put_all_simps [simp]:
  "put_all put [] d = d" "put_all put ((k, v) # kvs) d = put_all put kvs (put k v d)"
  by (simp_all add: put_all_def)

text \<open>
  What the clients of a dictionary rely on: a lookup after a store, keys stored once, and the
  keys of the other entries untouched.
\<close>

locale dictionary =
  fixes put :: "'k \<Rightarrow> 'v \<Rightarrow> ('k, 'v) dict \<Rightarrow> ('k, 'v) dict"
    and ok :: "'k \<Rightarrow> bool"
  assumes get_put: "ok k \<Longrightarrow> map_of (put k v d) k' = (if k' = k then Some v else map_of d k')"
    and keys_put: "ok k \<Longrightarrow> fst ` set (put k v d) = insert k (fst ` set d)"
    and distinct_put: "distinct (map fst d) \<Longrightarrow> distinct (map fst (put k v d))"
begin

lemma get_put_all:
  "\<forall>(k, v) \<in> set kvs. ok k \<Longrightarrow>
   map_of (put_all put kvs d) k = (case map_of (rev kvs) k of Some v \<Rightarrow> Some v | None \<Rightarrow> map_of d k)"
proof (induction kvs arbitrary: d)
  case (Cons kv kvs)
  obtain k' v' where kv: "kv = (k', v')" by (cases kv)
  with Cons show ?case
    by (auto simp: get_put map_add_def split: option.splits)
qed simp

lemma keys_put_all:
  "\<forall>(k, v) \<in> set kvs. ok k \<Longrightarrow> fst ` set (put_all put kvs d) = fst ` set kvs \<union> fst ` set d"
proof (induction kvs arbitrary: d)
  case (Cons kv kvs)
  obtain k v where kv: "kv = (k, v)" by (cases kv)
  have "fst ` set (put_all put kvs (put k v d)) = fst ` set kvs \<union> fst ` set (put k v d)"
    using Cons by simp
  also have "fst ` set (put k v d) = insert k (fst ` set d)"
    using Cons.prems by (intro keys_put) (simp add: kv)
  finally show ?case by (simp add: kv)
qed simp

lemma distinct_put_all:
  "distinct (map fst d) \<Longrightarrow> distinct (map fst (put_all put kvs d))"
  by (induction kvs arbitrary: d) (auto simp: distinct_put)

end

lemma get_dict_put [dict_simps]: "map_of (dict_put k v d) k' = (if k' = k then Some v else map_of d k')"
  by (induction d) auto

lemma dict_put_order:
  "map fst (dict_put k v d) = (if k \<in> set (map fst d) then map fst d else map fst d @ [k])"
  by (induction k v d rule: dict_put.induct) (simp_all split: if_splits)

lemma keys_dict_put [dict_simps]: "fst ` set (dict_put k v d) = insert k (fst ` set d)"
proof -
  have "set (map fst (dict_put k v d)) = insert k (set (map fst d))"
    unfolding dict_put_order by auto
  then show ?thesis by simp
qed

lemma distinct_dict_put [dict_simps]:
  "distinct (map fst d) \<Longrightarrow> distinct (map fst (dict_put k v d))"
  unfolding dict_put_order by auto

interpretation js_map: dictionary dict_put "\<lambda>_. True"
  by unfold_locales (simp_all add: dict_simps)

section \<open>De-duplication\<close>

text \<open>\<open>Array.from(new Set(xs))\<close>: the first occurrence of each element, in order.\<close>

fun uniq :: "'a list \<Rightarrow> 'a list" where
  "uniq [] = []"
| "uniq (x # xs) = x # filter (\<lambda>y. y \<noteq> x) (uniq xs)"

lemma set_uniq [simp]: "set (uniq xs) = set xs"
  by (induction xs) auto

lemma distinct_uniq [simp]: "distinct (uniq xs)"
  by (induction xs) auto

lemma uniq_Nil_iff [simp]: "uniq xs = [] \<longleftrightarrow> xs = []"
  by (cases xs) auto

lemma uniq_distinct: "distinct xs \<Longrightarrow> uniq xs = xs"
  by (induction xs) (auto intro!: filter_True)

section \<open>Generic list facts\<close>

lemma find_filter_hd: "find P xs = (case filter P xs of [] \<Rightarrow> None | x # _ \<Rightarrow> Some x)"
  by (induction xs) auto

lemma list_ex_set: "list_ex P xs \<longleftrightarrow> (\<exists>x\<in>set xs. P x)"
  by (induction xs) auto

section \<open>Encodings\<close>

text \<open>Writing and reading back: an encoder with a decoder that recovers every value that is \<open>ok\<close>.\<close>

locale codec =
  fixes enc :: "'a \<Rightarrow> 'b"
    and dec :: "'b \<Rightarrow> 'a"
    and ok :: "'a \<Rightarrow> bool"
  assumes dec_enc: "ok x \<Longrightarrow> dec (enc x) = x"
begin

lemma enc_inject: "ok x \<Longrightarrow> ok y \<Longrightarrow> enc x = enc y \<longleftrightarrow> x = y"
  using dec_enc by metis

lemma distinct_enc: "\<forall>x\<in>set xs. ok x \<Longrightarrow> distinct (map enc xs) \<longleftrightarrow> distinct xs"
  by (induction xs) (auto simp: enc_inject image_iff)

end

lemma codec_comp:
  assumes "codec enc dec ok" "codec enc' dec' ok'" "\<And>x. ok x \<Longrightarrow> ok' (enc x)"
  shows "codec (enc' \<circ> enc) (dec \<circ> dec') ok"
  using assms by (simp add: codec_def)

end
