(* ===== verification/Js_Strings.thy ===== *)
theory Js_Strings
  imports Prelude
begin

text \<open>
  JavaScript strings as sequences of 16-bit code units, with the operations of
  \<open>String.prototype\<close> that the modelled code calls and the two URI functions
  \<open>encodeURIComponent\<close> and \<open>decodeURIComponent\<close>, whose round trip is proved here.
\<close>

section \<open>Strings and literals\<close>

type_synonym unit16 = "16 word"
type_synonym jstr = "unit16 list"

definition cu :: "char \<Rightarrow> unit16" where
  "cu c = word_of_nat (of_char c)"

definition js :: "string \<Rightarrow> jstr" where
  "js s = map cu s"

lemma cu_inject [simp, js_eval]: "cu c = cu d \<longleftrightarrow> c = d"
proof
  assume "cu c = cu d"
  then have "(of_char c :: nat) mod 2 ^ 16 = of_char d mod 2 ^ 16"
    by (simp add: cu_def word_of_nat_eq_iff take_bit_eq_mod)
  moreover have "(of_char c :: nat) < 2 ^ 16" "(of_char d :: nat) < 2 ^ 16"
    using nat_of_char_less_256 [of c] nat_of_char_less_256 [of d] by (linarith | simp)+
  ultimately show "c = d" by (simp add: of_char_eq_iff)
qed simp

lemma js_inject [simp, js_eval]: "js s = js t \<longleftrightarrow> s = t"
  unfolding js_def by (auto simp: inj_map_eq_map inj_def)

lemma js_Nil [simp, js_eval]: "js [] = []" "js s = [] \<longleftrightarrow> s = []" "[] = js s \<longleftrightarrow> s = []"
  by (auto simp: js_def)

lemma js_append: "js (s @ t) = js s @ js t"
  by (simp add: js_def)

lemma js_Cons: "js (c # s) = cu c # js s"
  by (simp add: js_def)

lemma length_js [simp]: "length (js s) = length s"
  by (simp add: js_def)

lemma unat_cu: "unat (cu c) = of_char c"
proof -
  have "(of_char c :: nat) < 65536" using nat_of_char_less_256 [of c] by linarith
  then show ?thesis by (simp add: cu_def unat_of_nat)
qed

definition ascii :: "jstr \<Rightarrow> bool" where
  "ascii s = list_all (\<lambda>u. u < 128) s"

section \<open>Code unit classes\<close>

definition is_digit :: "unit16 \<Rightarrow> bool" where
  "is_digit u = (48 \<le> u \<and> u \<le> 57)"

definition is_upper :: "unit16 \<Rightarrow> bool" where
  "is_upper u = (65 \<le> u \<and> u \<le> 90)"

definition is_lower :: "unit16 \<Rightarrow> bool" where
  "is_lower u = (97 \<le> u \<and> u \<le> 122)"

definition is_alnum :: "unit16 \<Rightarrow> bool" where
  "is_alnum u = (is_digit u \<or> is_upper u \<or> is_lower u)"

text \<open>The white space and line terminators that \<open>trim\<close> and \<open>\s\<close> cover.\<close>

definition is_space :: "unit16 \<Rightarrow> bool" where
  "is_space u = ((9 \<le> u \<and> u \<le> 13) \<or> u = 32 \<or> u = 160 \<or> u = 5760 \<or> (8192 \<le> u \<and> u \<le> 8202)
     \<or> u = 8232 \<or> u = 8233 \<or> u = 8239 \<or> u = 8287 \<or> u = 12288 \<or> u = 65279)"

definition lower_unit :: "unit16 \<Rightarrow> unit16" where
  "lower_unit u = (if is_upper u then u + 32 else u)"

definition upper_unit :: "unit16 \<Rightarrow> unit16" where
  "upper_unit u = (if is_lower u then u - 32 else u)"

subsection \<open>Evaluation\<close>

text \<open>
  Code equations that read a code unit as an integer once, so that the kernel evaluates string
  functions without reducing literals modulo \<open>2 ^ 16\<close>.
\<close>

fun char_code :: "char \<Rightarrow> int" where
  "char_code (Char b0 b1 b2 b3 b4 b5 b6 b7) =
     (if b0 then 1 else 0) + (if b1 then 2 else 0) + (if b2 then 4 else 0) + (if b3 then 8 else 0)
     + (if b4 then 16 else 0) + (if b5 then 32 else 0) + (if b6 then 64 else 0) + (if b7 then 128 else 0)"

lemma char_code_nat: "char_code c = int (of_char c)"
  by (cases c) (simp add: of_char_def)

lemma uint_cu [code]: "Word.the_int (cu c) = char_code c"
proof -
  have "uint (cu c) = int (unat (cu c))" by simp
  then show ?thesis unfolding unat_cu by (simp add: char_code_nat Word.the_int_def)
qed

lemma unit_le_iff: "u \<le> v \<longleftrightarrow> Word.the_int u \<le> Word.the_int v" for u v :: unit16
  by (simp add: word_le_def Word.the_int_def)

lemma unit_eq_iff: "u = v \<longleftrightarrow> Word.the_int u = Word.the_int v" for u v :: unit16
  by (simp add: Word.the_int_def word_uint_eq_iff)

lemma the_int_numeral: "numeral n < (65536 :: int) \<Longrightarrow> Word.the_int (numeral n :: unit16) = numeral n"
  using take_bit_int_eq_self [of "numeral n" 16] by (simp add: Word.the_int_def)

lemma is_digit_code [code]: "is_digit u = (let n = Word.the_int u in 48 \<le> n \<and> n \<le> 57)"
  by (simp add: is_digit_def unit_le_iff the_int_numeral Let_def)

lemma is_upper_code [code]: "is_upper u = (let n = Word.the_int u in 65 \<le> n \<and> n \<le> 90)"
  by (simp add: is_upper_def unit_le_iff the_int_numeral Let_def)

lemma is_lower_code [code]: "is_lower u = (let n = Word.the_int u in 97 \<le> n \<and> n \<le> 122)"
  by (simp add: is_lower_def unit_le_iff the_int_numeral Let_def)

lemma is_space_code [code]:
  "is_space u = (let n = Word.the_int u in (9 \<le> n \<and> n \<le> 13) \<or> n = 32 \<or> n = 160 \<or> n = 5760 \<or> (8192 \<le> n \<and> n \<le> 8202)
     \<or> n = 8232 \<or> n = 8233 \<or> n = 8239 \<or> n = 8287 \<or> n = 12288 \<or> n = 65279)"
  by (simp add: is_space_def unit_le_iff unit_eq_iff the_int_numeral Let_def)

lemma lower_unit_code [code]:
  "Word.the_int (lower_unit u) = (let n = Word.the_int u in if 65 \<le> n \<and> n \<le> 90 then n + 32 else n)"
proof -
  have "uint (u + 32) = uint u + 32" if "uint u \<le> 90"
    using that by (simp add: uint_word_ariths)
  then show ?thesis by (simp add: lower_unit_def is_upper_code Let_def Word.the_int_def)
qed

lemma upper_unit_code [code]:
  "Word.the_int (upper_unit u) = (let n = Word.the_int u in if 97 \<le> n \<and> n \<le> 122 then n - 32 else n)"
proof -
  have "uint (u - 32) = uint u - 32" if "97 \<le> uint u" "uint u \<le> 122"
    using that by (simp add: uint_word_ariths)
  then show ?thesis by (simp add: upper_unit_def is_lower_code Let_def Word.the_int_def)
qed

section \<open>Operations of String.prototype\<close>

definition trim :: "jstr \<Rightarrow> jstr" where
  "trim s = rev (dropWhile is_space (rev (dropWhile is_space s)))"

lemma trim_Nil [simp, js_eval]: "trim [] = []"
  by (simp add: trim_def)

lemma dropWhile_idem: "dropWhile P (dropWhile P xs) = dropWhile P xs"
  by (induction xs) auto

lemma rev_dropWhile_hd:
  "rev (dropWhile P (rev xs)) = [] \<or> hd (rev (dropWhile P (rev xs))) = hd xs"
proof -
  obtain zs where "xs = rev (dropWhile P (rev xs)) @ zs"
    by (metis rev_append rev_rev_ident takeWhile_dropWhile_id)
  then show ?thesis by (metis hd_append2)
qed

lemma trim_idem [simp]: "trim (trim s) = trim s"
proof -
  let ?d = "dropWhile is_space s"
  let ?t = "rev (dropWhile is_space (rev ?d))"
  have "dropWhile is_space ?t = ?t"
  proof (cases "?t = []")
    case False
    then have "hd ?t = hd ?d" using rev_dropWhile_hd [of is_space ?d] by blast
    moreover have "?d \<noteq> []" using False by (metis dropWhile.simps(1) rev.simps(1))
    ultimately have "\<not> is_space (hd ?t)" by (metis hd_dropWhile)
    then show ?thesis by (simp only: dropWhile_eq_self_iff simp_thms)
  next
    case True
    then show ?thesis by (simp only: dropWhile.simps(1))
  qed
  then show ?thesis by (simp add: trim_def dropWhile_idem)
qed

definition starts_with :: "jstr \<Rightarrow> jstr \<Rightarrow> bool" where
  "starts_with s p = prefix p s"

lemma prefix_code_eval [js_eval]:
  "prefix [] s = True" "prefix (x # p) [] = False" "prefix (x # p) (y # s) = (x = y \<and> prefix p s)"
  by simp_all

fun str_includes :: "jstr \<Rightarrow> jstr \<Rightarrow> bool" where
  "str_includes [] p = (p = [])"
| "str_includes (u # us) p = (prefix p (u # us) \<or> str_includes us p)"

lemma str_includes_iff: "str_includes s p \<longleftrightarrow> (\<exists>a b. s = a @ p @ b)"
proof (induction s)
  case (Cons u us)
  have "(\<exists>a b. u # us = a @ p @ b) \<longleftrightarrow> prefix p (u # us) \<or> (\<exists>a b. us = a @ p @ b)"
  proof (intro iffI; elim exE disjE)
    fix a b assume "u # us = a @ p @ b"
    then show "prefix p (u # us) \<or> (\<exists>a b. us = a @ p @ b)"
      by (cases a) (auto simp: prefix_def)
  next
    assume "prefix p (u # us)"
    then show "\<exists>a b. u # us = a @ p @ b"
      by (auto simp: prefix_def intro: exI [of _ "[]"])
  next
    fix a b assume "us = a @ p @ b"
    then have "u # us = (u # a) @ p @ b" by simp
    then show "\<exists>a b. u # us = a @ p @ b" by blast
  qed
  with Cons show ?case by simp
qed auto

text \<open>\<open>s.indexOf(c, from)\<close> for one code unit; \<open>None\<close> is \<open>-1\<close>.\<close>

definition index_of_unit :: "jstr \<Rightarrow> unit16 \<Rightarrow> nat \<Rightarrow> nat option" where
  "index_of_unit s c from =
     (let n = length (takeWhile (\<lambda>u. u \<noteq> c) (drop from s))
      in if from + n < length s then Some (from + n) else None)"

text \<open>\<open>s.split(sep)\<close> for a separator that is not empty, and \<open>xs.join(sep)\<close>.\<close>

function split_acc :: "jstr \<Rightarrow> jstr \<Rightarrow> jstr \<Rightarrow> jstr list" where
  "split_acc sep acc s =
     (if s = [] \<or> sep = [] then [rev acc @ s]
      else if prefix sep s then rev acc # split_acc sep [] (drop (length sep) s)
      else split_acc sep (hd s # acc) (tl s))"
  by pat_completeness auto
termination
  by (relation "measure (\<lambda>(sep, acc, s). length s)") (auto simp: prefix_def)

declare split_acc.simps [simp del]

definition split_str :: "jstr \<Rightarrow> jstr \<Rightarrow> jstr list" where
  "split_str sep s = split_acc sep [] s"

primrec join :: "jstr \<Rightarrow> jstr list \<Rightarrow> jstr" where
  "join sep [] = []"
| "join sep (s # ss) = s @ concat (map (\<lambda>t. sep @ t) ss)"

lemma split_acc_not_Nil [simp]: "split_acc sep acc s \<noteq> []"
  by (induction sep acc s rule: split_acc.induct) (subst split_acc.simps, auto)

lemma concat_sep: "ss \<noteq> [] \<Longrightarrow> concat (map ((@) sep) ss) = sep @ join sep ss"
  by (cases ss) auto

lemma join_Cons: "ss \<noteq> [] \<Longrightarrow> join sep (s # ss) = s @ sep @ join sep ss"
  by (simp add: concat_sep)

lemma join_split_acc: "join sep (split_acc sep acc s) = rev acc @ s"
proof (induction sep acc s rule: split_acc.induct)
  case (1 sep acc s)
  show ?case
  proof (cases "s = [] \<or> sep = []")
    case False
    show ?thesis
    proof (cases "prefix sep s")
      case True
      then have "sep @ drop (length sep) s = s" by (auto simp: prefix_def)
      with True False 1 show ?thesis by (subst split_acc.simps) (simp add: concat_sep)
    next
      case no: False
      with False 1 show ?thesis by (subst split_acc.simps) (cases s, auto)
    qed
  qed (subst split_acc.simps, auto)
qed

lemma join_split: "join sep (split_str sep s) = s"
  by (simp add: split_str_def join_split_acc)

text \<open>\<open>s.split(sep).join(by)\<close>: every occurrence of \<open>sep\<close> replaced, left to right.\<close>

definition replace_lit :: "jstr \<Rightarrow> jstr \<Rightarrow> jstr \<Rightarrow> jstr" where
  "replace_lit sep by_str s = join by_str (split_str sep s)"

definition replace_unit :: "unit16 \<Rightarrow> jstr \<Rightarrow> jstr \<Rightarrow> jstr" where
  "replace_unit c by_str s = concat (map (\<lambda>u. if u = c then by_str else [u]) s)"

lemma split_acc_absent:
  "sep \<noteq> [] \<Longrightarrow> \<not> str_includes s sep \<Longrightarrow> split_acc sep acc s = [rev acc @ s]"
proof (induction s arbitrary: acc)
  case Nil
  then show ?case by (subst split_acc.simps) simp
next
  case (Cons u us)
  then show ?case by (subst split_acc.simps) simp
qed

lemma replace_lit_absent: "sep \<noteq> [] \<Longrightarrow> \<not> str_includes s sep \<Longrightarrow> replace_lit sep t s = s"
  by (simp add: replace_lit_def split_str_def split_acc_absent)

lemma split_acc_acc:
  "split_acc sep acc s = (rev acc @ hd (split_acc sep [] s)) # tl (split_acc sep [] s)"
proof (induction "length s" arbitrary: acc s rule: less_induct)
  case less
  show ?case
  proof (cases "s = [] \<or> sep = [] \<or> prefix sep s")
    case True
    then show ?thesis by (auto simp: split_acc.simps [of sep acc s] split_acc.simps [of sep "[]" s])
  next
    case False
    then have lt: "length (tl s) < length s" by (cases s) auto
    from less [OF lt, of "hd s # acc"] less [OF lt, of "[hd s]"] False show ?thesis
      by (simp add: split_acc.simps [of sep acc s] split_acc.simps [of sep "[]" s])
  qed
qed

lemma join_split_acc_acc: "join t (split_acc sep acc s) = rev acc @ join t (split_acc sep [] s)"
proof (cases "split_acc sep [] s")
  case (Cons x xs)
  then show ?thesis using split_acc_acc [of sep acc s] by simp
qed simp

lemma replace_lit_Nil [simp]: "replace_lit sep t [] = []"
  by (simp add: replace_lit_def split_str_def split_acc.simps)

lemma replace_lit_match:
  "sep \<noteq> [] \<Longrightarrow> replace_lit sep t (sep @ s) = t @ replace_lit sep t s"
  by (simp add: replace_lit_def split_str_def split_acc.simps [of sep "[]" "sep @ s"] join_Cons concat_sep)

lemma replace_lit_skip:
  "\<not> prefix sep (u # s) \<Longrightarrow> replace_lit sep t (u # s) = u # replace_lit sep t s"
  by (cases "sep = []")
    (simp_all add: replace_lit_def split_str_def split_acc.simps [of sep "[]" "u # s"]
      join_split_acc_acc [of t sep "[u]"])

lemma split_str_part:
  "c \<notin> set p \<Longrightarrow> split_str [c] (p @ c # s) = p # split_str [c] s"
proof -
  have "c \<notin> set p \<Longrightarrow> split_acc [c] acc (p @ c # s) = (rev acc @ p) # split_acc [c] [] s" for acc
  proof (induction p arbitrary: acc)
    case Nil
    then show ?case by (subst split_acc.simps) simp
  next
    case (Cons x p)
    then show ?case by (subst split_acc.simps) auto
  qed
  then show "c \<notin> set p \<Longrightarrow> ?thesis" by (simp add: split_str_def)
qed

lemma str_includes_unit: "str_includes s [c] \<longleftrightarrow> c \<in> set s"
  by (induction s) auto

lemma split_str_none: "c \<notin> set p \<Longrightarrow> split_str [c] p = [p]"
  by (simp add: split_str_def split_acc_absent str_includes_unit)

lemma split_join:
  "ps \<noteq> [] \<Longrightarrow> \<forall>p\<in>set ps. c \<notin> set p \<Longrightarrow> split_str [c] (join [c] ps) = ps"
proof (induction ps)
  case (Cons p ps)
  show ?case
  proof (cases "ps = []")
    case False
    then have "join [c] (p # ps) = p @ c # join [c] ps" by (simp add: join_Cons del: join.simps)
    with Cons False show ?thesis by (simp add: split_str_part del: join.simps)
  qed (use Cons.prems in \<open>simp add: split_str_none\<close>)
qed simp

section \<open>Code points, UTF-8 and percent escapes\<close>

definition is_high :: "unit16 \<Rightarrow> bool" where
  "is_high u = (55296 \<le> u \<and> u \<le> 56319)"

definition is_low :: "unit16 \<Rightarrow> bool" where
  "is_low u = (56320 \<le> u \<and> u \<le> 57343)"

lemma is_high_code [code]: "is_high u = (let n = Word.the_int u in 55296 \<le> n \<and> n \<le> 56319)"
  by (simp add: is_high_def unit_le_iff the_int_numeral Let_def)

lemma is_low_code [code]: "is_low u = (let n = Word.the_int u in 56320 \<le> n \<and> n \<le> 57343)"
  by (simp add: is_low_def unit_le_iff the_int_numeral Let_def)

text \<open>The code points of a string; a lone surrogate is a \<open>URIError\<close>, as in \<open>encodeURIComponent\<close>.\<close>

fun code_points :: "jstr \<Rightarrow> nat list jsr" where
  "code_points [] = Inr []"
| "code_points (u # us) =
     (if is_low u then Inl URIError
      else if is_high u then
        (case us of [] \<Rightarrow> Inl URIError
         | v # vs \<Rightarrow>
            if is_low v
            then ebind (code_points vs)
                   (\<lambda>cs. Inr ((65536 + (unat u - 55296) * 1024 + (unat v - 56320)) # cs))
            else Inl URIError)
      else ebind (code_points us) (\<lambda>cs. Inr (unat u # cs)))"

definition utf16 :: "nat \<Rightarrow> jstr" where
  "utf16 c = (if c < 65536 then [word_of_nat c]
     else [word_of_nat (55296 + (c - 65536) div 1024), word_of_nat (56320 + (c - 65536) mod 1024)])"

definition scalar :: "nat \<Rightarrow> bool" where
  "scalar c = (c < 55296 \<or> (57343 < c \<and> c < 1114112))"

definition utf8 :: "nat \<Rightarrow> nat list" where
  "utf8 c = (if c < 128 then [c]
     else if c < 2048 then [192 + c div 64, 128 + c mod 64]
     else if c < 65536 then [224 + c div 4096, 128 + c div 64 mod 64, 128 + c mod 64]
     else [240 + c div 262144, 128 + c div 4096 mod 64, 128 + c div 64 mod 64, 128 + c mod 64])"

definition hex_unit :: "nat \<Rightarrow> unit16" where
  "hex_unit n = (if n < 10 then word_of_nat (48 + n) else word_of_nat (55 + n))"

definition pct :: "nat \<Rightarrow> jstr" where
  "pct b = [37, hex_unit (b div 16), hex_unit (b mod 16)]"

text \<open>\<open>A-Z a-z 0-9 - _ . ! ~ * ' ( )\<close> are left as they are.\<close>

definition unreserved :: "nat \<Rightarrow> bool" where
  "unreserved c = ((48 \<le> c \<and> c \<le> 57) \<or> (65 \<le> c \<and> c \<le> 90) \<or> (97 \<le> c \<and> c \<le> 122)
     \<or> c = 45 \<or> c = 95 \<or> c = 46 \<or> c = 33 \<or> c = 126 \<or> (39 \<le> c \<and> c \<le> 42))"

definition encode_point :: "nat \<Rightarrow> jstr" where
  "encode_point c = (if unreserved c then [word_of_nat c] else concat (map pct (utf8 c)))"

definition encodeURIComponent :: "jstr \<Rightarrow> jstr jsr" where
  "encodeURIComponent s = ebind (code_points s) (\<lambda>cs. Inr (concat (map encode_point cs)))"

definition hex_value :: "unit16 \<Rightarrow> nat option" where
  "hex_value u = (if is_digit u then Some (unat u - 48)
     else if 65 \<le> u \<and> u \<le> 70 then Some (unat u - 55)
     else if 97 \<le> u \<and> u \<le> 102 then Some (unat u - 87) else None)"

lemma hex_value_code [code]:
  "hex_value u = (let n = Word.the_int u in if 48 \<le> n \<and> n \<le> 57 then Some (nat n - 48)
     else if 65 \<le> n \<and> n \<le> 70 then Some (nat n - 55)
     else if 97 \<le> n \<and> n \<le> 102 then Some (nat n - 87) else None)"
  unfolding hex_value_def is_digit_code unit_le_iff Let_def
  by (simp add: the_int_numeral)

text \<open>\<open>n\<close> percent escapes in a row: their octets and the rest of the string.\<close>

fun take_pcts :: "nat \<Rightarrow> jstr \<Rightarrow> (nat list \<times> jstr) option" where
  "take_pcts 0 s = Some ([], s)"
| "take_pcts (Suc n) s =
     (case s of
        p # a # b # s' \<Rightarrow>
          (if p \<noteq> 37 then None
           else case (hex_value a, hex_value b) of
             (Some x, Some y) \<Rightarrow>
               (case take_pcts n s' of None \<Rightarrow> None | Some (bs, r) \<Rightarrow> Some ((16 * x + y) # bs, r))
           | _ \<Rightarrow> None)
      | _ \<Rightarrow> None)"

definition utf8_length :: "nat \<Rightarrow> nat" where
  "utf8_length b = (if b < 128 then 1 else if b < 192 then 0 else if b < 224 then 2
     else if b < 240 then 3 else if b < 248 then 4 else 0)"

text \<open>The code point of an octet sequence, if the sequence is its valid UTF-8 form.\<close>

definition utf8_point :: "nat list \<Rightarrow> nat option" where
  "utf8_point bs =
     (let c = (case bs of
          [a] \<Rightarrow> a
        | [a, b] \<Rightarrow> (a - 192) * 64 + (b - 128)
        | [a, b, c] \<Rightarrow> (a - 224) * 4096 + (b - 128) * 64 + (c - 128)
        | [a, b, c, d] \<Rightarrow> (a - 240) * 262144 + (b - 128) * 4096 + (c - 128) * 64 + (d - 128)
        | _ \<Rightarrow> 0)
      in if scalar c \<and> utf8 c = bs then Some c else None)"

lemma take_pcts_length: "take_pcts n s = Some (bs, r) \<Longrightarrow> length r + 3 * n = length s \<and> length bs = n"
  by (induction n s arbitrary: bs r rule: take_pcts.induct)
    (auto split: list.splits option.splits if_splits)

function decodeURIComponent :: "jstr \<Rightarrow> jstr jsr" where
  "decodeURIComponent s =
     (case s of [] \<Rightarrow> Inr []
      | u # us \<Rightarrow>
         if u \<noteq> 37 then ebind (decodeURIComponent us) (\<lambda>r. Inr (u # r))
         else (case take_pcts 1 s of
            Some ([b], _) \<Rightarrow>
              (if utf8_length b = 0 then Inl URIError
               else (case take_pcts (utf8_length b) s of None \<Rightarrow> Inl URIError
                  | Some (bs, rest) \<Rightarrow>
                     (case utf8_point bs of None \<Rightarrow> Inl URIError
                      | Some c \<Rightarrow> ebind (decodeURIComponent rest) (\<lambda>r. Inr (utf16 c @ r)))))
          | _ \<Rightarrow> Inl URIError))"
  by pat_completeness auto
termination
  by (relation "measure length") (auto dest: take_pcts_length)

declare decodeURIComponent.simps [simp del]

section \<open>Decoding undoes encoding\<close>

lemma unat_unit: "n < 65536 \<Longrightarrow> unat (word_of_nat n :: unit16) = n"
  by (simp add: unat_of_nat)

lemma unat_hex_unit: "n < 16 \<Longrightarrow> unat (hex_unit n) = (if n < 10 then 48 + n else 55 + n)"
  using unat_unit [of "48 + n"] unat_unit [of "55 + n"] by (simp add: hex_unit_def)

lemma hex_value_hex_unit: "n < 16 \<Longrightarrow> hex_value (hex_unit n) = Some n"
  by (auto simp: hex_value_def is_digit_def word_le_nat_alt unat_hex_unit)

lemma take_pcts_pct:
  "\<forall>b\<in>set bs. b < 256 \<Longrightarrow> take_pcts (length bs) (concat (map pct bs) @ r) = Some (bs, r)"
  by (induction bs) (auto simp: pct_def hex_value_hex_unit)

lemma utf8_bytes: "c < 1114112 \<Longrightarrow> b \<in> set (utf8 c) \<Longrightarrow> b < 256"
  by (auto simp: utf8_def split: if_splits)

lemma utf8_length_ok: "c < 1114112 \<Longrightarrow> utf8_length (hd (utf8 c)) = length (utf8 c)"
  by (auto simp: utf8_def utf8_length_def)

lemma utf8_nonempty [simp]: "utf8 c \<noteq> []"
  by (simp add: utf8_def)

lemma utf8_digits:
  fixes c :: nat
  shows "c div 64 * 64 + c mod 64 = c"
    and "c div 4096 * 4096 + c div 64 mod 64 * 64 + c mod 64 = c"
    and "c div 262144 * 262144 + c div 4096 mod 64 * 4096 + c div 64 mod 64 * 64 + c mod 64 = c"
proof -
  show "c div 64 * 64 + c mod 64 = c" by simp
  have e: "c div 4096 = c div 64 div 64" "c div 262144 = c div 4096 div 64"
    by (simp_all add: div_mult2_eq [symmetric])
  have "c div 64 div 64 * 64 + c div 64 mod 64 = c div 64" by (rule div_mult_mod_eq)
  then show two: "c div 4096 * 4096 + c div 64 mod 64 * 64 + c mod 64 = c"
    using div_mult_mod_eq [of c 64] unfolding e(1) by linarith
  have "c div 4096 div 64 * 64 + c div 4096 mod 64 = c div 4096" by (rule div_mult_mod_eq)
  then show "c div 262144 * 262144 + c div 4096 mod 64 * 4096 + c div 64 mod 64 * 64 + c mod 64 = c"
    using two unfolding e(2) by linarith
qed

lemma utf8_point_utf8:
  assumes "scalar c" shows "utf8_point (utf8 c) = Some c"
proof -
  consider "c < 128" | "128 \<le> c" "c < 2048" | "2048 \<le> c" "c < 65536" | "65536 \<le> c"
    by linarith
  then show ?thesis
  proof cases
    case 2
    then have "utf8 c = [192 + c div 64, 128 + c mod 64]" by (simp add: utf8_def)
    with assms show ?thesis by (simp add: utf8_point_def utf8_digits)
  next
    case 3
    then have "utf8 c = [224 + c div 4096, 128 + c div 64 mod 64, 128 + c mod 64]"
      by (simp add: utf8_def)
    with assms show ?thesis by (simp add: utf8_point_def utf8_digits)
  next
    case 4
    then have "utf8 c = [240 + c div 262144, 128 + c div 4096 mod 64, 128 + c div 64 mod 64, 128 + c mod 64]"
      by (simp add: utf8_def)
    with assms show ?thesis by (simp add: utf8_point_def utf8_digits)
  qed (use assms in \<open>simp add: utf8_point_def utf8_def\<close>)
qed

lemma unat_unit_37: "unat (37 :: unit16) = 37"
  by simp

lemma decode_encode_point:
  assumes "scalar c"
  shows "decodeURIComponent (encode_point c @ s) = ebind (decodeURIComponent s) (\<lambda>r. Inr (utf16 c @ r))"
proof (cases "unreserved c")
  case True
  then have "c < 128" "c \<noteq> 37" by (auto simp: unreserved_def)
  moreover from this have "(word_of_nat c :: unit16) \<noteq> 37"
    using unat_unit [of c] unat_unit_37 by auto
  ultimately show ?thesis
    using True by (subst decodeURIComponent.simps) (simp add: encode_point_def utf16_def)
next
  case False
  have c: "c < 1114112" using assms by (auto simp: scalar_def)
  let ?bs = "utf8 c"
  have e: "encode_point c @ s = concat (map pct ?bs) @ s" using False by (simp add: encode_point_def)
  have all: "take_pcts (length ?bs) (concat (map pct ?bs) @ s) = Some (?bs, s)"
    using take_pcts_pct utf8_bytes c by blast
  obtain b bs where bs: "?bs = b # bs" by (cases ?bs) auto
  have one: "take_pcts 1 (concat (map pct ?bs) @ s) = Some ([b], concat (map pct bs) @ s)"
    using take_pcts_pct [of "[b]" "concat (map pct bs) @ s"] utf8_bytes [OF c, of b] bs by simp
  have l: "utf8_length b = length ?bs" using utf8_length_ok [OF c] bs by simp
  obtain us where us: "concat (map pct ?bs) @ s = 37 # us"
    using bs by (simp add: pct_def)
  show ?thesis
    unfolding e
    by (subst decodeURIComponent.simps)
      (simp add: us all [unfolded us] one [unfolded us] l utf8_point_utf8 [OF assms]
        del: take_pcts.simps One_nat_def)
qed

lemma surrogate_pair:
  assumes "is_high u" "is_low v"
  defines "c \<equiv> 65536 + (unat u - 55296) * 1024 + (unat v - 56320)"
  shows "scalar c" "utf16 c = [u, v]"
proof -
  have u: "55296 \<le> unat u" "unat u \<le> 56319" and v: "56320 \<le> unat v" "unat v \<le> 57343"
    using assms by (simp_all add: is_high_def is_low_def word_le_nat_alt)
  show "scalar c" using u v by (simp add: scalar_def c_def)
  have d: "(c - 65536) div 1024 = unat u - 55296" "(c - 65536) mod 1024 = unat v - 56320"
  proof -
    have "unat v - 56320 < 1024" using v by linarith
    moreover have "c - 65536 = (unat u - 55296) * 1024 + (unat v - 56320)" by (simp add: c_def)
    ultimately show "(c - 65536) div 1024 = unat u - 55296" "(c - 65536) mod 1024 = unat v - 56320"
      by simp_all
  qed
  have "\<not> c < 65536" by (simp add: c_def)
  then have "utf16 c = [word_of_nat (55296 + (unat u - 55296)), word_of_nat (56320 + (unat v - 56320))]"
    by (simp only: utf16_def d if_False)
  also have "\<dots> = [u, v]" using u v by simp
  finally show "utf16 c = [u, v]" .
qed

lemma plain_unit:
  assumes "\<not> is_low u" "\<not> is_high u"
  shows "scalar (unat u)" "utf16 (unat u) = [u]"
proof -
  have "unat u < 65536" using unsigned_less [of u] by simp
  then show "scalar (unat u)" "utf16 (unat u) = [u]"
    using assms by (auto simp: scalar_def utf16_def is_high_def is_low_def word_le_nat_alt)
qed

lemma code_points_utf16:
  "code_points s = Inr cs \<Longrightarrow> (\<forall>c\<in>set cs. scalar c) \<and> concat (map utf16 cs) = s"
proof (induction s arbitrary: cs rule: code_points.induct)
  case (2 u us)
  from 2(3) have low: "\<not> is_low u" by (auto split: if_splits)
  show ?case
  proof (cases "is_high u")
    case True
    with 2(3) low obtain v vs ds where us: "us = v # vs" "is_low v" and ds: "code_points vs = Inr ds"
      and cs: "cs = (65536 + (unat u - 55296) * 1024 + (unat v - 56320)) # ds"
      by (auto simp: ebind_Inr_iff split: list.splits if_splits)
    with 2(1) [OF low True] show ?thesis
      using surrogate_pair [OF True us(2)] by simp
  next
    case False
    with 2(3) low obtain ds where ds: "code_points us = Inr ds" and cs: "cs = unat u # ds"
      by (auto simp: ebind_Inr_iff)
    with 2(2) [OF low False ds] show ?thesis using plain_unit [OF low False] by simp
  qed
qed simp

theorem decode_encode:
  assumes "encodeURIComponent s = Inr e"
  shows "decodeURIComponent e = Inr s"
proof -
  from assms obtain cs where cs: "code_points s = Inr cs" and e: "e = concat (map encode_point cs)"
    by (auto simp: encodeURIComponent_def ebind_Inr_iff)
  have "\<forall>c\<in>set cs. scalar c" using code_points_utf16 [OF cs] by blast
  then have "decodeURIComponent (concat (map encode_point cs)) = Inr (concat (map utf16 cs))"
  proof (induction cs)
    case Nil
    show ?case by (subst decodeURIComponent.simps) simp
  qed (simp add: decode_encode_point)
  then show ?thesis using e code_points_utf16 [OF cs] by simp
qed

end
