(* ===== verification/Js_Numbers.thy ===== *)
theory Js_Numbers
  imports Js_Strings
begin

text \<open>
  JavaScript numbers: IEEE 754 doubles as the rationals they denote, with rounding to nearest
  (ties to even) after every operation, overflow to the infinities and NaN. Negative zero is
  not told apart from zero: no modelled operation can see the difference. \<open>Number(s)\<close> and
  \<open>String(n)\<close> follow the grammar of StringNumericLiteral and the shortest-digits rule of
  Number::toString.
\<close>

section \<open>Doubles\<close>

datatype jnum = Fin rat | NaN | PosInf | NegInf

definition pow_rat :: "nat \<Rightarrow> int \<Rightarrow> rat" where
  "pow_rat b e = (if 0 \<le> e then of_nat (b ^ nat e) else 1 / of_nat (b ^ nat (- e)))"

definition round_even :: "rat \<Rightarrow> int" where
  "round_even y =
     (let f = \<lfloor>y\<rfloor>; r = y - of_int f
      in if r < 1 / 2 then f else if 1 / 2 < r then f + 1 else if even f then f else f + 1)"

text \<open>The exponent of the last place of a positive rational at 53 bits, not below \<open>-1074\<close>.\<close>

definition ulp_exp :: "rat \<Rightarrow> int" where
  "ulp_exp x =
     (let e = (if 1 \<le> x then int (floorlog 2 (nat \<lfloor>x\<rfloor>)) - 53
               else let k = int (floorlog 2 (nat \<lfloor>1 / x\<rfloor>))
                    in if x = pow_rat 2 (1 - k) then - k - 51 else - k - 52)
      in max e (- 1074))"

text \<open>
  The magnitude \<open>m * 2 ^ e\<close> has at most 53 bits in \<open>m\<close>; it reaches \<open>2 ^ 1024\<close> exactly when
  \<open>e\<close> is above 971, or is 971 and rounding carried \<open>m\<close> to \<open>2 ^ 53\<close>.
\<close>

definition to_double :: "rat \<Rightarrow> jnum" where
  "to_double x =
     (if x = 0 then Fin 0
      else let e = ulp_exp \<bar>x\<bar>;
               m = round_even (\<bar>x\<bar> / pow_rat 2 e);
               v = of_int m * pow_rat 2 e
           in if 971 < e \<or> (e = 971 \<and> 9007199254740992 \<le> m)
              then (if x < 0 then NegInf else PosInf)
              else Fin (if x < 0 then - v else v))"

fun num_add :: "jnum \<Rightarrow> jnum \<Rightarrow> jnum" where
  "num_add (Fin a) (Fin b) = to_double (a + b)"
| "num_add NaN _ = NaN"
| "num_add _ NaN = NaN"
| "num_add PosInf NegInf = NaN"
| "num_add NegInf PosInf = NaN"
| "num_add PosInf _ = PosInf"
| "num_add _ PosInf = PosInf"
| "num_add NegInf _ = NegInf"
| "num_add _ NegInf = NegInf"

fun num_neg :: "jnum \<Rightarrow> jnum" where
  "num_neg (Fin a) = Fin (- a)"
| "num_neg NaN = NaN"
| "num_neg PosInf = NegInf"
| "num_neg NegInf = PosInf"

definition num_sub :: "jnum \<Rightarrow> jnum \<Rightarrow> jnum" where
  "num_sub a b = num_add a (num_neg b)"

text \<open>Products of finite numbers are all the modelled code forms.\<close>

fun num_mul :: "jnum \<Rightarrow> jnum \<Rightarrow> jnum" where
  "num_mul (Fin a) (Fin b) = to_double (a * b)"
| "num_mul _ _ = NaN"

fun num_less :: "jnum \<Rightarrow> jnum \<Rightarrow> bool" where
  "num_less (Fin a) (Fin b) = (a < b)"
| "num_less NaN _ = False"
| "num_less _ NaN = False"
| "num_less NegInf NegInf = False"
| "num_less NegInf _ = True"
| "num_less _ NegInf = False"
| "num_less PosInf _ = False"
| "num_less _ PosInf = True"

text \<open>JavaScript's \<open>===\<close> on numbers: NaN is not equal to itself.\<close>

definition num_eq :: "jnum \<Rightarrow> jnum \<Rightarrow> bool" where
  "num_eq a b = (a = b \<and> a \<noteq> NaN)"

text \<open>The sign of a comparator's result; NaN counts as zero.\<close>

fun num_sign :: "jnum \<Rightarrow> int" where
  "num_sign (Fin a) = (if a < 0 then - 1 else if 0 < a then 1 else 0)"
| "num_sign NaN = 0"
| "num_sign PosInf = 1"
| "num_sign NegInf = - 1"

fun is_finite :: "jnum \<Rightarrow> bool" where
  "is_finite (Fin _) = True"
| "is_finite _ = False"

fun is_integer :: "jnum \<Rightarrow> bool" where
  "is_integer (Fin a) = (of_int \<lfloor>a\<rfloor> = a)"
| "is_integer _ = False"

fun num_ceil :: "jnum \<Rightarrow> jnum" where
  "num_ceil (Fin a) = Fin (of_int \<lceil>a\<rceil>)"
| "num_ceil n = n"

fun num_floor :: "jnum \<Rightarrow> jnum" where
  "num_floor (Fin a) = Fin (of_int \<lfloor>a\<rfloor>)"
| "num_floor n = n"

definition num_of_int :: "int \<Rightarrow> jnum" where
  "num_of_int n = Fin (of_int n)"

lemma num_less_trans: "num_less a b \<Longrightarrow> num_less b c \<Longrightarrow> num_less a c"
  by (cases a; cases b; cases c) auto

lemma num_less_irrefl [simp]: "\<not> num_less a a"
  by (cases a) auto

lemma round_even_int [simp]: "round_even (of_int n) = n"
  by (simp add: round_even_def)

lemma pow_rat_pos: "0 < b \<Longrightarrow> 0 < pow_rat b e"
  by (simp add: pow_rat_def)

lemma round_even_bound: "\<bar>of_int (round_even y) - y\<bar> \<le> 1 / 2"
proof -
  have "of_int \<lfloor>y\<rfloor> \<le> y" "y < of_int \<lfloor>y\<rfloor> + 1" by linarith+
  then show ?thesis by (simp add: round_even_def Let_def abs_le_iff)
qed

lemma to_double_scaled:
  assumes "x \<noteq> 0" and "\<bar>x\<bar> = of_int m * pow_rat 2 (ulp_exp \<bar>x\<bar>)" and "ulp_exp \<bar>x\<bar> < 971"
  shows "to_double x = Fin x"
proof -
  have "\<bar>x\<bar> / pow_rat 2 (ulp_exp \<bar>x\<bar>) = of_int m"
    using assms(2) pow_rat_pos [of 2 "ulp_exp \<bar>x\<bar>"] by (simp add: field_simps)
  with assms show ?thesis by (auto simp: to_double_def Let_def)
qed

text \<open>Integers of magnitude up to \<open>2 ^ 53\<close> are doubles.\<close>

lemma to_double_int:
  assumes "\<bar>n\<bar> \<le> 2 ^ 53"
  shows "to_double (of_int n) = Fin (of_int n)"
proof (cases "n = 0")
  case False
  define a where "a = nat \<bar>n\<bar>"
  have a: "0 < a" "a \<le> 2 ^ 53" "\<bar>n\<bar> = int a" using False assms by (auto simp: a_def)
  have x: "\<bar>rat_of_int n\<bar> = of_nat a" using a(3) by (metis of_int_abs of_int_of_nat_eq)
  have ge1: "(1 :: rat) \<le> of_nat a" using a(1) by simp
  have fl: "nat \<lfloor>rat_of_nat a\<rfloor> = a" by simp
  let ?k = "floorlog 2 a"
  have ue: "ulp_exp (of_nat a) = max (int ?k - 53) (- 1074)"
    using ge1 fl by (simp add: ulp_exp_def)
  have k: "?k \<le> 54"
    by (rule floorlog_leI) (use a in auto)
  have ue2: "ulp_exp (of_nat a) = int ?k - 53" unfolding ue by simp
  show ?thesis
  proof (cases "?k \<le> 53")
    case True
    then have "pow_rat 2 (int ?k - 53) = 1 / of_nat (2 ^ (53 - ?k))"
      by (auto simp: pow_rat_def nat_diff_distrib')
    then have "rat_of_nat a = of_int (int (a * 2 ^ (53 - ?k))) * pow_rat 2 (int ?k - 53)" by simp
    then show ?thesis
      by (intro to_double_scaled [where m = "int (a * 2 ^ (53 - ?k))"]) (use False x ue2 True in simp_all)
  next
    case no: False
    then have k54: "?k = 54" using k by simp
    then have "2 ^ 53 \<le> a" using floorlog_geD [of 54 2 a] by simp
    then have "a = 2 ^ 53" using a(2) by simp
    then have "rat_of_nat a = of_int (2 ^ 52) * pow_rat 2 1" by (simp add: pow_rat_def)
    then show ?thesis
      by (intro to_double_scaled [where m = "2 ^ 52"]) (use False x ue2 k54 in simp_all)
  qed
qed (simp add: to_double_def)

section \<open>String to number\<close>

definition digits_value :: "nat \<Rightarrow> nat list \<Rightarrow> nat" where
  "digits_value b ds = foldl (\<lambda>v d. v * b + d) 0 ds"

text \<open>The optional exponent part: its value, or \<open>None\<close> when the rest is not one.\<close>

definition parse_exponent :: "jstr \<Rightarrow> int option" where
  "parse_exponent s =
     (case s of [] \<Rightarrow> Some 0
      | e # r \<Rightarrow>
         (if e \<noteq> 101 \<and> e \<noteq> 69 then None
          else let neg = (case r of u # _ \<Rightarrow> u = 45 | [] \<Rightarrow> False);
                   ds = (case r of u # r' \<Rightarrow> (if u = 45 \<or> u = 43 then r' else r) | [] \<Rightarrow> []);
                   v = int (digits_value 10 (map (\<lambda>u. unat u - 48) ds))
               in if ds \<noteq> [] \<and> list_all is_digit ds then Some (if neg then - v else v) else None))"

definition parse_decimal :: "jstr \<Rightarrow> rat option" where
  "parse_decimal s =
     (let ip = takeWhile is_digit s; r = dropWhile is_digit s;
          fp = (case r of u # r' \<Rightarrow> (if u = 46 then takeWhile is_digit r' else []) | [] \<Rightarrow> []);
          r2 = (case r of u # r' \<Rightarrow> (if u = 46 then dropWhile is_digit r' else r) | [] \<Rightarrow> [])
      in if ip = [] \<and> fp = [] then None
         else (case parse_exponent r2 of None \<Rightarrow> None
            | Some e \<Rightarrow> Some (of_nat (digits_value 10 (map (\<lambda>u. unat u - 48) (ip @ fp)))
                          * pow_rat 10 (e - int (length fp)))))"

definition parse_radix :: "nat \<Rightarrow> jstr \<Rightarrow> jnum" where
  "parse_radix b s =
     (let vs = map hex_value s
      in if s \<noteq> [] \<and> list_all (\<lambda>v. case v of Some n \<Rightarrow> n < b | None \<Rightarrow> False) vs
         then to_double (of_nat (digits_value b (map the vs))) else NaN)"

text \<open>\<open>Number(s)\<close> for a string.\<close>

definition to_number :: "jstr \<Rightarrow> jnum" where
  "to_number str =
     (let s = trim str; lo = map lower_unit (take 2 s)
      in if s = [] then Fin 0
         else if lo = js ''0x'' then parse_radix 16 (drop 2 s)
         else if lo = js ''0o'' then parse_radix 8 (drop 2 s)
         else if lo = js ''0b'' then parse_radix 2 (drop 2 s)
         else let neg = (hd s = 45); r = (if hd s = 45 \<or> hd s = 43 then tl s else s)
              in if r = js ''Infinity'' then (if neg then NegInf else PosInf)
                 else (case parse_decimal r of None \<Rightarrow> NaN
                   | Some v \<Rightarrow> to_double (if neg then - v else v)))"

section \<open>Number to string\<close>

fun dec_digits :: "nat \<Rightarrow> nat list" where
  "dec_digits n = (if n < 10 then [n] else dec_digits (n div 10) @ [n mod 10])"

declare dec_digits.simps [simp del]

definition digit_str :: "nat list \<Rightarrow> jstr" where
  "digit_str ds = map (\<lambda>d. word_of_nat (48 + d)) ds"

definition nat_str :: "nat \<Rightarrow> jstr" where
  "nat_str n = digit_str (dec_digits n)"

text \<open>The decimal exponent \<open>n\<close> of a positive rational: \<open>10 ^ (n - 1) \<le> x < 10 ^ n\<close>.\<close>

definition dec_exp :: "rat \<Rightarrow> int" where
  "dec_exp x =
     (if 1 \<le> x then int (length (dec_digits (nat \<lfloor>x\<rfloor>)))
      else let k = int (length (dec_digits (nat \<lfloor>1 / x\<rfloor>)))
           in if x = pow_rat 10 (1 - k) then 2 - k else 1 - k)"

text \<open>The shortest digits \<open>s\<close> (and their number) whose value rounds to the double \<open>x\<close>.\<close>

fun shortest_from :: "nat \<Rightarrow> nat \<Rightarrow> rat \<Rightarrow> int \<Rightarrow> nat \<times> nat" where
  "shortest_from 0 k x n = (nat \<lfloor>x / pow_rat 10 (n - int k)\<rfloor>, k)"
| "shortest_from (Suc f) k x n =
     (let u = pow_rat 10 (n - int k); s = nat \<lfloor>x / u\<rfloor>;
          lo = (to_double (of_nat s * u) = Fin x); hi = (to_double (of_nat (s + 1) * u) = Fin x)
      in if lo \<and> (\<not> hi \<or> x - of_nat s * u \<le> of_nat (s + 1) * u - x) then (s, k)
         else if hi then (s + 1, k)
         else shortest_from f (Suc k) x n)"

definition positive_str :: "rat \<Rightarrow> jstr" where
  "positive_str x =
     (let n0 = dec_exp x; (s0, k0) = shortest_from 17 1 x n0;
          (s, n) = (if s0 = 10 ^ k0 then (s0 div 10, n0 + 1) else (s0, n0));
          ds = nat_str s; k = int (length ds); e = n - 1;
          es = (if e < 0 then js ''e-'' else js ''e+'') @ nat_str (nat \<bar>e\<bar>)
      in if k \<le> n \<and> n \<le> 21 then ds @ replicate (nat (n - k)) 48
         else if 0 < n \<and> n \<le> 21 then take (nat n) ds @ [46] @ drop (nat n) ds
         else if - 6 < n \<and> n \<le> 0 then js ''0.'' @ replicate (nat (- n)) 48 @ ds
         else if k = 1 then ds @ es
         else take 1 ds @ [46] @ drop 1 ds @ es)"

text \<open>\<open>String(n)\<close>: integers below \<open>10 ^ 21\<close> print their digits.\<close>

fun num_str :: "jnum \<Rightarrow> jstr" where
  "num_str NaN = js ''NaN''"
| "num_str PosInf = js ''Infinity''"
| "num_str NegInf = js ''-Infinity''"
| "num_str (Fin x) =
     (if x = 0 then js ''0'' else if x < 0 then 45 # positive_str (- x) else positive_str x)"

section \<open>Integers print their digits\<close>

lemma dec_digits_bounds: "0 < m \<Longrightarrow> 10 ^ (length (dec_digits m) - 1) \<le> m \<and> m < 10 ^ length (dec_digits m)"
proof (induction m rule: dec_digits.induct)
  case (1 m)
  show ?case
  proof (cases "m < 10")
    case False
    then have pos: "0 < m div 10" by linarith
    obtain l where l: "length (dec_digits (m div 10)) = Suc l"
      by (metis dec_digits.simps length_append_singleton length_Cons)
    from 1(1) [OF False pos] have b: "10 ^ l \<le> m div 10" "m div 10 < 10 ^ Suc l" by (simp_all add: l)
    have d: "length (dec_digits m) = Suc (Suc l)" using False l by (simp add: dec_digits.simps [of m])
    have "10 * 10 ^ l \<le> m" using b(1) by linarith
    moreover have "m < 10 * 10 ^ Suc l" using b(2) by linarith
    ultimately show ?thesis by (simp add: d)
  qed (use 1 in \<open>simp add: dec_digits.simps [of m]\<close>)
qed

lemma dec_digits_pos: "0 < length (dec_digits m)"
  by (subst dec_digits.simps) simp

lemma dec_digits_shift: "0 < s \<Longrightarrow> dec_digits (s * 10 ^ j) = dec_digits s @ replicate j 0"
proof (induction j)
  case (Suc j)
  have e: "dec_digits (10 * v) = dec_digits v @ [0]" if "0 < v" for v
    using that by (subst dec_digits.simps) simp
  have "s * 10 ^ Suc j = 10 * (s * 10 ^ j)" by simp
  then have "dec_digits (s * 10 ^ Suc j) = dec_digits (s * 10 ^ j) @ [0]" using e Suc.prems by (metis mult_pos_pos zero_less_numeral zero_less_power)
  with Suc show ?case by (simp add: replicate_append_same)
qed simp

lemma shortest_from_int:
  fixes m :: nat
  assumes "0 < m" "m < 10 ^ 15" "1 \<le> k" "k \<le> L" "L \<le> f + k" and L: "L = length (dec_digits m)"
  shows "\<exists>s k'. shortest_from f k (of_nat m) (int L) = (s, k') \<and> k' \<le> L \<and> s * 10 ^ (L - k') = m \<and> s < 10 ^ k'"
  using assms(3-5)
proof (induction f arbitrary: k)
  case 0
  then have "k = L" by simp
  moreover have "m < 10 ^ L" using dec_digits_bounds [OF assms(1)] L by simp
  ultimately show ?case by (simp add: pow_rat_def)
next
  case (Suc f)
  define u :: nat where "u = 10 ^ (L - k)"
  have u0: "0 < u" by (simp add: u_def)
  have p: "pow_rat 10 (int L - int k) = rat_of_nat u"
  proof -
    have "nat (int L - int k) = L - k" by simp
    then show ?thesis using Suc.prems(2) by (simp add: pow_rat_def u_def)
  qed
  define s where "s = m div u"
  have fl: "nat \<lfloor>rat_of_nat m / rat_of_nat u\<rfloor> = s"
    unfolding s_def by (simp add: floor_divide_of_nat_eq)
  have um: "u \<le> m"
  proof -
    have "u \<le> 10 ^ (L - 1)" unfolding u_def using Suc.prems(1) by (intro power_increasing) auto
    also have "\<dots> \<le> m" using dec_digits_bounds [OF assms(1)] L by simp
    finally show ?thesis .
  qed
  have lt: "m < (s + 1) * u" unfolding s_def using u0 by (simp add: dividend_less_div_times)
  have le: "s * u \<le> m" unfolding s_def by (rule div_times_less_eq_dividend)
  have bound: "(s + 1) * u \<le> 2 ^ 53"
  proof -
    have "(s + 1) * u \<le> m + u" using le by simp
    also have "\<dots> \<le> 2 * 10 ^ 15" using um assms(2) by linarith
    finally show ?thesis by simp
  qed
  have dbl: "to_double (rat_of_nat a) = Fin (rat_of_nat a)" if "a \<le> 2 ^ 53" for a
    using to_double_int [of "int a"] that by simp
  have lo: "to_double (rat_of_nat s * rat_of_nat u) = Fin (rat_of_nat m) \<longleftrightarrow> s * u = m"
    using dbl [of "s * u"] bound by (simp flip: of_nat_mult) 
  have hi: "to_double (rat_of_nat (s + 1) * rat_of_nat u) \<noteq> Fin (rat_of_nat m)"
  proof -
    have "rat_of_nat (s + 1) * rat_of_nat u = rat_of_nat ((s + 1) * u)" by (rule of_nat_mult [symmetric])
    with dbl [OF bound] lt show ?thesis by (metis jnum.inject(1) less_irrefl of_nat_eq_iff)
  qed
  show ?case
  proof (cases "s * u = m")
    case True
    have "s < 10 ^ k"
    proof -
      have "s * u < 10 ^ L" using True dec_digits_bounds [OF assms(1)] L by simp
      also have "(10::nat) ^ L = 10 ^ k * u" using Suc.prems(2) by (simp add: u_def flip: power_add)
      finally show ?thesis using u0 by simp
    qed
    moreover have "shortest_from (Suc f) k (of_nat m) (int L) = (s, k)"
      using lo hi True by (simp add: p fl)
    ultimately show ?thesis using True Suc.prems(2) by (simp add: u_def)
  next
    case False
    then have "k \<noteq> L" using u_def s_def by auto
    with Suc.prems have "1 \<le> Suc k" "Suc k \<le> L" "L \<le> f + Suc k" by auto
    from Suc.IH [OF this] show ?thesis using lo hi False by (simp add: p fl)
  qed
qed

lemma positive_str_int:
  assumes "0 < m" "m < 10 ^ 15"
  shows "positive_str (of_nat m) = nat_str m"
proof -
  define L where "L = length (dec_digits m)"
  have L1: "1 \<le> L" using dec_digits_pos by (simp add: L_def Suc_leI)
  have "(10::nat) ^ (L - 1) < 10 ^ 15" using dec_digits_bounds [OF assms(1)] assms(2) unfolding L_def by linarith
  then have L15: "L \<le> 15" using power_less_imp_less_exp [of "10::nat" "L - 1" 15] by simp
  have e: "dec_exp (of_nat m) = int L"
  proof -
    have "(1::rat) \<le> of_nat m" using assms(1) by simp
    then show ?thesis by (simp add: dec_exp_def L_def)
  qed
  obtain s k where sf: "shortest_from 17 1 (of_nat m) (int L) = (s, k)" and k: "k \<le> L" "s * 10 ^ (L - k) = m" "s < 10 ^ k"
    using shortest_from_int [OF assms, of 1 L 17] L1 L15 L_def by auto
  have s0: "0 < s" using k(2) assms(1) by (cases s) auto
  have d: "dec_digits m = dec_digits s @ replicate (L - k) 0" using dec_digits_shift [OF s0, of "L - k"] k(2) by simp
  have "L = length (dec_digits s) + (L - k)" using arg_cong [OF d, of length] L_def by simp
  then have ls: "length (nat_str s) = k" using k(1) by (simp add: nat_str_def digit_str_def)
  have "positive_str (of_nat m) = nat_str s @ replicate (L - k) 48"
    unfolding positive_str_def Let_def e sf using ls k L15 by (simp add: nat_diff_distrib')
  also have "\<dots> = nat_str m" by (simp add: nat_str_def digit_str_def d)
  finally show ?thesis .
qed

definition int_str :: "int \<Rightarrow> jstr" where
  "int_str n = (if n < 0 then 45 # nat_str (nat (- n)) else nat_str (nat n))"

lemma num_str_int:
  assumes "\<bar>n\<bar> < 10 ^ 15"
  shows "num_str (Fin (of_int n)) = int_str n"
proof -
  consider "n = 0" | "0 < n" | "n < 0" by linarith
  then show ?thesis
  proof cases
    case 1
    then show ?thesis by (simp add: int_str_def nat_str_def digit_str_def dec_digits.simps [of 0] js_def cu_def)
  next
    case 2
    then obtain m where m: "n = int m" "0 < m" by (metis nat_0_le nat_eq_iff order_less_imp_le zero_less_nat_eq)
    with assms positive_str_int [of m] show ?thesis by (simp add: int_str_def)
  next
    case 3
    then obtain m where m: "n = - int m" "0 < m" by (metis neg_0_less_iff_less nat_0_le nat_eq_iff order_less_imp_le zero_less_nat_eq add.inverse_inverse)
    with assms positive_str_int [of m] show ?thesis by (simp add: int_str_def)
  qed
qed

lemma digits_value_dec: "digits_value 10 (dec_digits n) = n"
proof (induction n rule: dec_digits.induct)
  case (1 n)
  then show ?case by (subst dec_digits.simps) (simp add: digits_value_def)
qed

lemma dec_digits_less: "d \<in> set (dec_digits n) \<Longrightarrow> d < 10"
proof (induction n rule: dec_digits.induct)
  case (1 n)
  then show ?case by (auto simp: dec_digits.simps [of n] split: if_splits)
qed

lemma nat_str_digits: "list_all is_digit (nat_str n)" "map (\<lambda>u. unat u - 48) (nat_str n) = dec_digits n"
proof -
  have u: "unat (word_of_nat (48 + d) :: unit16) = 48 + d" if "d \<in> set (dec_digits n)" for d
    using dec_digits_less [OF that] by (intro unat_unit) simp
  then show "map (\<lambda>u. unat u - 48) (nat_str n) = dec_digits n"
    by (simp add: nat_str_def digit_str_def map_idI o_def del: of_nat_add)
  show "list_all is_digit (nat_str n)"
    using u dec_digits_less by (fastforce simp: nat_str_def digit_str_def list_all_iff is_digit_def word_le_nat_alt simp del: of_nat_add)
qed

lemma nat_str_nonempty [simp]: "nat_str n \<noteq> []"
  using dec_digits_pos [of n] by (auto simp: nat_str_def digit_str_def)

lemma parse_decimal_nat_str: "parse_decimal (nat_str n) = Some (of_nat n)"
proof -
  have t: "takeWhile is_digit (nat_str n) = nat_str n" "dropWhile is_digit (nat_str n) = []"
    using nat_str_digits(1) by (auto simp: list_all_iff takeWhile_eq_all_conv dropWhile_eq_Nil_conv)
  show ?thesis
    by (simp add: parse_decimal_def t parse_exponent_def nat_str_digits(2) digits_value_dec pow_rat_def)
qed

end
