(* ===== verification/Js_Values.thy ===== *)
theory Js_Values
  imports Js_Numbers
begin

text \<open>
  JavaScript values as the OpenAPI code sees them: what \<open>JSON.parse\<close> returns, the
  undefined of a missing property and the built-in functions reached through a prototype.
  Objects and arrays carry their identity, because the schema code keeps a set of the
  objects on the current path; \<open>Loc n\<close> is an object of a parsed document and \<open>Fresh\<close> one the
  code has just made, which is never the same object as another. An object lists its own
  properties in enumeration order: integer keys first, ascending, then insertion order.
\<close>

section \<open>Values\<close>

datatype oid = Loc nat | Fresh

datatype jval =
    JUndef | JNull | JBool bool | JNum jnum | JStr jstr
  | JArr oid "jval list"
  | JObj oid "(jstr \<times> jval) list"
  | JFun jstr

fun truthy :: "jval \<Rightarrow> bool" where
  "truthy JUndef = False"
| "truthy JNull = False"
| "truthy (JBool b) = b"
| "truthy (JNum n) = (n \<noteq> Fin 0 \<and> n \<noteq> NaN)"
| "truthy (JStr s) = (s \<noteq> [])"
| "truthy _ = True"

definition nullish :: "jval \<Rightarrow> bool" where
  "nullish v = (v = JUndef \<or> v = JNull)"

text \<open>\<open>v && typeof v === 'object'\<close>.\<close>

fun is_object :: "jval \<Rightarrow> bool" where
  "is_object (JArr _ _) = True"
| "is_object (JObj _ _) = True"
| "is_object _ = False"

fun is_array :: "jval \<Rightarrow> bool" where
  "is_array (JArr _ _) = True"
| "is_array _ = False"

fun is_string :: "jval \<Rightarrow> bool" where
  "is_string (JStr _) = True"
| "is_string _ = False"

fun identity :: "jval \<Rightarrow> oid" where
  "identity (JArr i _) = i"
| "identity (JObj i _) = i"
| "identity _ = Fresh"

text \<open>\<open>a ?? b\<close> and \<open>a || b\<close>.\<close>

definition coalesce :: "jval \<Rightarrow> jval \<Rightarrow> jval" where
  "coalesce a b = (if nullish a then b else a)"

definition or_else :: "jval \<Rightarrow> jval \<Rightarrow> jval" where
  "or_else a b = (if truthy a then a else b)"

lemma nullish_simps [simp]:
  "nullish JUndef" "nullish JNull" "\<not> nullish (JBool b)" "\<not> nullish (JNum n)" "\<not> nullish (JStr s)"
  "\<not> nullish (JArr i xs)" "\<not> nullish (JObj i fs)" "\<not> nullish (JFun f)"
  by (simp_all add: nullish_def)

lemma is_object_not_nullish: "is_object v \<Longrightarrow> \<not> nullish v"
  by (cases v) auto

lemma is_object_truthy: "is_object v \<Longrightarrow> truthy v"
  by (cases v) auto

section \<open>Property keys\<close>

text \<open>Array indices: canonical decimal numbers below \<open>2 ^ 32 - 1\<close>.\<close>

definition array_index :: "jstr \<Rightarrow> nat option" where
  "array_index k =
     (if k \<noteq> [] \<and> length k \<le> 10 \<and> list_all is_digit k \<and> (hd k \<noteq> 48 \<or> length k = 1)
      then let n = digits_value 10 (map (\<lambda>u. unat u - 48) k)
           in if n < 4294967295 then Some n else None
      else None)"

fun put_index :: "nat \<Rightarrow> jstr \<Rightarrow> 'v \<Rightarrow> (jstr, 'v) dict \<Rightarrow> (jstr, 'v) dict" where
  "put_index i k v [] = [(k, v)]"
| "put_index i k v ((k', v') # d) =
     (case array_index k' of
        Some j \<Rightarrow> (if i < j then (k, v) # (k', v') # d else (k', v') # put_index i k v d)
      | None \<Rightarrow> (k, v) # (k', v') # d)"

text \<open>
  \<open>obj_define\<close> creates or replaces an own property (spread, \<open>Object.fromEntries\<close>, JSON);
  \<open>obj_set\<close> is an assignment \<open>o[k] = v\<close>, which changes the prototype and no own property when
  \<open>k\<close> is \<open>__proto__\<close> and the object has no own property of that name.
\<close>

definition obj_define :: "jstr \<Rightarrow> 'v \<Rightarrow> (jstr, 'v) dict \<Rightarrow> (jstr, 'v) dict" where
  "obj_define k v d =
     (if k \<in> set (map fst d) then dict_put k v d
      else case array_index k of Some i \<Rightarrow> put_index i k v d | None \<Rightarrow> d @ [(k, v)])"

definition proto_key :: jstr where
  "proto_key = js ''__proto__''"

definition obj_set :: "jstr \<Rightarrow> 'v \<Rightarrow> (jstr, 'v) dict \<Rightarrow> (jstr, 'v) dict" where
  "obj_set k v d = (if k = proto_key \<and> k \<notin> set (map fst d) then d else obj_define k v d)"

lemma put_index_get:
  "k \<notin> fst ` set d \<Longrightarrow> map_of (put_index i k v d) k' = (if k' = k then Some v else map_of d k')"
  by (induction i k v d rule: put_index.induct) (auto split: option.splits)

lemma put_index_mset: "mset (put_index i k v d) = add_mset (k, v) (mset d)"
  by (induction i k v d rule: put_index.induct) (auto split: option.splits)

lemma put_index_set [simp]: "set (put_index i k v d) = insert (k, v) (set d)"
  by (metis put_index_mset set_mset_add_mset_insert set_mset_mset)

lemma put_index_distinct:
  assumes "k \<notin> fst ` set d" "distinct (map fst d)"
  shows "distinct (map fst (put_index i k v d))"
proof -
  have "mset (map fst (put_index i k v d)) = add_mset k (mset (map fst d))"
    by (simp only: mset_map put_index_mset image_mset_add_mset fst_conv)
  then have "distinct (map fst (put_index i k v d)) \<longleftrightarrow> distinct (k # map fst d)"
    by (metis mset.simps(2) mset_eq_imp_distinct_iff)
  then show ?thesis using assms by simp
qed

lemma get_obj_define [dict_simps]:
  "map_of (obj_define k v d) k' = (if k' = k then Some v else map_of d k')"
proof (cases "k \<in> set (map fst d)")
  case True
  then show ?thesis by (simp add: obj_define_def dict_simps)
next
  case False
  moreover from False have "map_of d k = None" by (simp add: map_of_eq_None_iff)
  ultimately show ?thesis
    by (auto simp: obj_define_def put_index_get map_add_def split: option.splits)
qed

lemma keys_obj_define [dict_simps]: "fst ` set (obj_define k v d) = insert k (fst ` set d)"
  by (auto simp: obj_define_def keys_dict_put split: option.splits)

lemma distinct_obj_define [dict_simps]:
  "distinct (map fst d) \<Longrightarrow> distinct (map fst (obj_define k v d))"
  by (auto simp: obj_define_def distinct_dict_put put_index_distinct split: option.splits)

interpretation js_object: dictionary obj_define "\<lambda>_. True"
  by unfold_locales (simp_all add: dict_simps)

interpretation js_record: dictionary obj_set "\<lambda>k. k \<noteq> proto_key"
  by unfold_locales (auto simp: obj_set_def dict_simps)

lemma obj_set_keys: "fst ` set fs \<subseteq> fst ` set (obj_set j v fs)"
  unfolding obj_set_def using keys_obj_define [of j v fs] by (simp add: subset_insertI)

lemma obj_set_keys_le: "set (map fst (obj_set k v fs)) \<subseteq> insert k (set (map fst fs))"
  using keys_obj_define [of k v fs] by (simp add: obj_set_def subset_insertI)

section \<open>Property reads\<close>

text \<open>The names that every object, and every array, inherits.\<close>

definition object_members :: "jstr list" where
  "object_members = map js
     [''constructor'', ''__defineGetter__'', ''__defineSetter__'', ''hasOwnProperty'',
      ''__lookupGetter__'', ''__lookupSetter__'', ''isPrototypeOf'', ''propertyIsEnumerable'',
      ''toString'', ''valueOf'', ''toLocaleString'']"

definition array_members :: "jstr list" where
  "array_members = map js
     [''at'', ''concat'', ''copyWithin'', ''fill'', ''find'', ''findIndex'', ''findLast'',
      ''findLastIndex'', ''lastIndexOf'', ''pop'', ''push'', ''reverse'', ''shift'', ''unshift'',
      ''slice'', ''sort'', ''splice'', ''includes'', ''indexOf'', ''join'', ''keys'', ''entries'',
      ''values'', ''forEach'', ''filter'', ''flat'', ''flatMap'', ''map'', ''every'', ''some'',
      ''reduce'', ''reduceRight'', ''toReversed'', ''toSorted'', ''toSpliced'', ''with'']"

definition inherited :: "jstr list \<Rightarrow> jstr \<Rightarrow> jval" where
  "inherited names k =
     (if k = proto_key then JObj Fresh [] else if k \<in> set names then JFun k else JUndef)"

definition own :: "(jstr \<times> jval) list \<Rightarrow> jstr \<Rightarrow> jval" where
  "own fs k = (case map_of fs k of Some v \<Rightarrow> v | None \<Rightarrow> inherited object_members k)"

definition elem_at :: "jval list \<Rightarrow> jstr \<Rightarrow> jval option" where
  "elem_at xs k = (case array_index k of Some i \<Rightarrow> (if i < length xs then Some (xs ! i) else None)
     | None \<Rightarrow> None)"

text \<open>
  \<open>v[k]\<close>. Reading a property of undefined or null is a TypeError. Strings have their units
  and their length; what numbers, booleans and functions inherit beyond the members of every
  object is never read by the modelled code.
\<close>

fun jget :: "jval \<Rightarrow> jstr \<Rightarrow> jval jsr" where
  "jget JUndef k = Inl TypeError"
| "jget JNull k = Inl TypeError"
| "jget (JObj _ fs) k = Inr (own fs k)"
| "jget (JArr _ xs) k = Inr
     (case elem_at xs k of Some v \<Rightarrow> v
      | None \<Rightarrow> if k = js ''length'' then JNum (Fin (of_nat (length xs)))
          else inherited (array_members @ object_members) k)"
| "jget (JStr s) k = Inr
     (case array_index k of
        Some i \<Rightarrow> if i < length s then JStr [s ! i] else JUndef
      | None \<Rightarrow> if k = js ''length'' then JNum (Fin (of_nat (length s)))
          else inherited object_members k)"
| "jget (JFun f) k = Inr (if k = js ''name'' then JStr f else inherited object_members k)"
| "jget v k = Inr (inherited object_members k)"

text \<open>\<open>v?.k\<close>.\<close>

definition jget_opt :: "jval \<Rightarrow> jstr \<Rightarrow> jval" where
  "jget_opt v k = (case jget v k of Inl _ \<Rightarrow> JUndef | Inr w \<Rightarrow> w)"

text \<open>\<open>k in v\<close> for an object.\<close>

definition has_key :: "jval \<Rightarrow> jstr \<Rightarrow> bool" where
  "has_key v k = (case v of
     JObj _ fs \<Rightarrow> k \<in> set (map fst fs) \<or> k \<in> set (proto_key # object_members)
   | JArr _ xs \<Rightarrow> elem_at xs k \<noteq> None \<or> k \<in> set (proto_key # js ''length'' # array_members @ object_members)
   | _ \<Rightarrow> False)"

lemma jget_total: "\<not> nullish v \<Longrightarrow> \<exists>w. jget v k = Inr w"
  by (cases v) auto

lemma jget_nullish: "nullish v \<Longrightarrow> jget v k = Inl TypeError"
  by (cases v) auto

section \<open>Enumeration, conversion, the code's three guards\<close>

definition index_keys :: "'a list \<Rightarrow> jstr list" where
  "index_keys xs = map nat_str [0..<length xs]"

text \<open>\<open>Object.entries(v)\<close>.\<close>

fun entries :: "jval \<Rightarrow> (jstr \<times> jval) list jsr" where
  "entries JUndef = Inl TypeError"
| "entries JNull = Inl TypeError"
| "entries (JObj _ fs) = Inr fs"
| "entries (JArr _ xs) = Inr (zip (index_keys xs) xs)"
| "entries (JStr s) = Inr (zip (index_keys s) (map (\<lambda>u. JStr [u]) s))"
| "entries _ = Inr []"

text \<open>What \<open>...v\<close> copies into an object literal: nothing for undefined and null.\<close>

definition spread_fields :: "jval \<Rightarrow> (jstr \<times> jval) list" where
  "spread_fields v = (case entries v of Inl _ \<Rightarrow> [] | Inr fs \<Rightarrow> fs)"

text \<open>The code points of a string, lone surrogates alone: the iteration order of a string.\<close>

fun string_chars :: "jstr \<Rightarrow> jstr list" where
  "string_chars [] = []"
| "string_chars [u] = [[u]]"
| "string_chars (u # v # us) =
     (if is_high u \<and> is_low v then [u, v] # string_chars us else [u] # string_chars (v # us))"

text \<open>\<open>...v\<close> in an array literal or an argument list: only iterable values.\<close>

fun iterate :: "jval \<Rightarrow> jval list jsr" where
  "iterate (JArr _ xs) = Inr xs"
| "iterate (JStr s) = Inr (map JStr (string_chars s))"
| "iterate _ = Inl TypeError"

text \<open>
  \<open>String(v)\<close> and template literals. An object prints its tag unless an own property hides
  \<open>toString\<close>; then \<open>valueOf\<close> gives the object back and the conversion fails.
\<close>

fun to_str :: "jval \<Rightarrow> jstr jsr" where
  "to_str JUndef = Inr (js ''undefined'')"
| "to_str JNull = Inr (js ''null'')"
| "to_str (JBool b) = Inr (if b then js ''true'' else js ''false'')"
| "to_str (JNum n) = Inr (num_str n)"
| "to_str (JStr s) = Inr s"
| "to_str (JArr _ xs) = ebind (emap (\<lambda>x. if nullish x then Inr [] else to_str x) xs)
     (\<lambda>ss. Inr (join (js '','') ss))"
| "to_str (JObj _ fs) =
     (if js ''toString'' \<in> set (map fst fs) then Inl TypeError else Inr (js ''[object Object]''))"
| "to_str (JFun f) = Inr (js ''function '' @ f @ js ''() { [native code] }'')"

lemma jget_errors: "jget v k = Inl e \<Longrightarrow> e = TypeError"
  by (cases v) auto

lemma iterate_errors: "iterate v = Inl e \<Longrightarrow> e = TypeError"
  by (cases v) auto

lemma entries_errors: "entries v = Inl e \<Longrightarrow> e = TypeError"
  by (cases v) auto

lemma to_str_errors: "to_str v = Inl e \<Longrightarrow> e = TypeError"
proof (induction v rule: to_str.induct)
  case (6 i xs)
  then show ?case by (auto simp: ebind_Inl_iff dest!: emap_InlD split: if_splits)
qed (auto split: if_splits)

section \<open>Parts of a value\<close>

fun subvals :: "jval \<Rightarrow> jval list" where
  "subvals (JArr i xs) = JArr i xs # concat (map subvals xs)"
| "subvals (JObj i fs) = JObj i fs # concat (map (\<lambda>(k, v). subvals v) fs)"
| "subvals v = [v]"

lemma subvals_self [simp]: "v \<in> set (subvals v)"
  by (cases v) auto

lemma subvals_trans: "w \<in> set (subvals v) \<Longrightarrow> u \<in> set (subvals w) \<Longrightarrow> u \<in> set (subvals v)"
  by (induction v rule: subvals.induct) fastforce+

lemma own_subval:
  "own fs k \<in> set (subvals (JObj i fs)) \<or> own fs k \<in> {JUndef, JFun k, JObj Fresh []}"
proof (cases "map_of fs k")
  case (Some v)
  then have "(k, v) \<in> set fs" by (rule map_of_SomeD)
  with Some show ?thesis by (force simp: own_def)
qed (auto simp: own_def inherited_def)

lemma elem_at_subval: "elem_at xs k = Some v \<Longrightarrow> v \<in> set (subvals (JArr i xs))"
  by (auto simp: elem_at_def split: option.splits if_splits intro!: bexI [of _ v])

text \<open>A property of an object is part of it, or one of the values every object inherits.\<close>

lemma jget_opt_cases:
  assumes "is_object v"
  shows "jget_opt v k \<in> set (subvals v) \<or> jget_opt v k \<in> {JUndef, JFun k, JObj Fresh []}
    \<or> (\<exists>n. jget_opt v k = JNum n)"
proof (cases v)
  case (JObj i fs)
  then show ?thesis using own_subval [of fs k i] by (auto simp: jget_opt_def simp del: subvals.simps)
next
  case (JArr i xs)
  show ?thesis
  proof (cases "elem_at xs k")
    case None
    with JArr show ?thesis by (auto simp: jget_opt_def inherited_def simp del: subvals.simps)
  next
    case (Some w)
    with JArr elem_at_subval [OF Some, of i] show ?thesis
      by (simp add: jget_opt_def del: subvals.simps)
  qed
qed (use assms in auto)

text \<open>What \<open>JSON.parse\<close> can return: no undefined, no functions, each key once.\<close>

fun is_json :: "jval \<Rightarrow> bool" where
  "is_json (JArr _ xs) = list_all is_json xs"
| "is_json (JObj _ fs) = (distinct (map fst fs) \<and> list_all (\<lambda>(k, v). is_json v) fs)"
| "is_json JUndef = False"
| "is_json (JFun _) = False"
| "is_json (JNum n) = is_finite n"
| "is_json _ = True"

lemma is_json_subvals: "is_json v \<Longrightarrow> w \<in> set (subvals v) \<Longrightarrow> is_json w"
  by (induction v rule: subvals.induct) (fastforce simp: list_all_iff)+

end
