(* ===== verification/Spec_Resolve.thy ===== *)
theory Spec_Resolve
  imports Js_Values
begin

text \<open>
  \<open>lib/openapi/resolve.ts\<close>: JSON pointers into a document and the chains of local
  \<open>$ref\<close> references. A chain is followed in a loop that remembers the references it has
  used; the loop stops because a document holds finitely many reference strings.
\<close>

section \<open>Pointers\<close>

definition ref_key :: jstr where
  "ref_key = js ''$ref''"

text \<open>\<open>decodeURIComponent(p).replace(/~1/g, '/').replace(/~0/g, '~')\<close>.\<close>

definition pointer_part :: "jstr \<Rightarrow> jstr jsr" where
  "pointer_part p = ebind (decodeURIComponent p)
     (\<lambda>d. Inr (replace_lit (js ''~0'') (js ''~'') (replace_lit (js ''~1'') (js ''/'') d)))"

fun pointer_walk :: "jval \<Rightarrow> jstr list \<Rightarrow> jval" where
  "pointer_walk cur [] = cur"
| "pointer_walk cur (p # ps) = (if is_object cur then pointer_walk (jget_opt cur p) ps else JUndef)"

definition lookupPointer :: "jval \<Rightarrow> jstr \<Rightarrow> jval jsr" where
  "lookupPointer spec ref =
     (if \<not> starts_with ref (js ''#/'') then Inr JUndef
      else ebind (emap pointer_part (split_str (js ''/'') (drop 2 ref)))
             (\<lambda>parts. Inr (pointer_walk spec parts)))"

section \<open>Reference chains\<close>

text \<open>The local reference of a value, if it is an object with a string \<open>$ref\<close>.\<close>

definition ref_of :: "jval \<Rightarrow> jstr option" where
  "ref_of v = (if is_object v then (case jget_opt v ref_key of JStr r \<Rightarrow> Some r | _ \<Rightarrow> None) else None)"

definition doc_refs :: "jval \<Rightarrow> jstr set" where
  "doc_refs spec = {r. Some r \<in> ref_of ` set (subvals spec)}"

lemma finite_doc_refs [simp]: "finite (doc_refs spec)"
proof -
  have "doc_refs spec \<subseteq> the ` ref_of ` set (subvals spec)"
  proof
    fix r assume "r \<in> doc_refs spec"
    then have "Some r \<in> ref_of ` set (subvals spec)" by (simp add: doc_refs_def)
    then show "r \<in> the ` ref_of ` set (subvals spec)" by (metis image_eqI option.sel)
  qed
  then show ?thesis by (rule finite_subset) simp
qed

lemma leaf_no_ref: "v \<in> {JUndef, JFun k, JObj Fresh []} \<or> (\<exists>n. v = JNum n) \<Longrightarrow> ref_of v = None"
  by (auto simp: ref_of_def jget_opt_def own_def inherited_def ref_key_def proto_key_def object_members_def)

lemma pointer_walk_subval:
  "pointer_walk v ps \<in> set (subvals v) \<or> ref_of (pointer_walk v ps) = None"
proof (induction v ps rule: pointer_walk.induct)
  case (2 cur p ps)
  show ?case
  proof (cases "is_object cur")
    case obj: True
    let ?w = "jget_opt cur p"
    show ?thesis
    proof (cases "ref_of (pointer_walk ?w ps) = None")
      case False
      with 2 obj have w: "pointer_walk ?w ps \<in> set (subvals ?w)" by blast
      show ?thesis
      proof (cases "?w \<in> set (subvals cur)")
        case True
        with w obj show ?thesis by (auto intro: subvals_trans)
      next
        case out: False
        then have leaf: "?w \<in> {JUndef, JFun p, JObj Fresh []} \<or> (\<exists>n. ?w = JNum n)"
          using jget_opt_cases [OF obj, of p] by blast
        then have "subvals ?w = [?w]" by auto
        with w have "pointer_walk ?w ps = ?w" by simp
        moreover have "ref_of ?w = None" using leaf by (rule leaf_no_ref)
        ultimately show ?thesis using obj by simp
      qed
    qed (use obj in simp)
  qed (simp add: ref_of_def)
qed simp

lemma lookup_doc_ref:
  "lookupPointer spec ref = Inr t \<Longrightarrow> ref_of t = Some r \<Longrightarrow> r \<in> doc_refs spec"
proof -
  assume t: "lookupPointer spec ref = Inr t" "ref_of t = Some r"
  then obtain ps where "t = pointer_walk spec ps"
    by (auto simp: lookupPointer_def ebind_Inr_iff ref_of_def split: if_splits)
  then have "t \<in> set (subvals spec)" using pointer_walk_subval [of spec ps] t(2) by auto
  then show "r \<in> doc_refs spec" using t(2) by (force simp: doc_refs_def)
qed

text \<open>
  The loop of \<open>resolveRef\<close>. Each turn uses up a reference string of the document; only the
  first may come from outside it.
\<close>

definition chain_measure :: "jval \<Rightarrow> jstr list \<Rightarrow> jval \<Rightarrow> nat" where
  "chain_measure spec seen cur = 2 * card (doc_refs spec - set seen) +
     (case ref_of cur of None \<Rightarrow> 0
      | Some r \<Rightarrow> if r \<in> set seen then 0 else if r \<in> doc_refs spec then 1 else 2)"

lemma chain_measure_step:
  assumes cur: "ref_of cur = Some r" and r: "r \<notin> set seen" and t: "lookupPointer spec r = Inr t"
  shows "chain_measure spec (r # seen) t < chain_measure spec seen cur"
proof -
  have t_doc: "(case ref_of t of None \<Rightarrow> 0
      | Some r' \<Rightarrow> if r' \<in> set (r # seen) then 0 else if r' \<in> doc_refs spec then 1 else 2) \<le> (1::nat)"
    using lookup_doc_ref [OF t] by (auto split: option.splits)
  show ?thesis
  proof (cases "r \<in> doc_refs spec")
    case True
    then have "card (doc_refs spec - set (r # seen)) < card (doc_refs spec - set seen)"
      using r by (intro psubset_card_mono) auto
    then show ?thesis using t_doc cur r True by (simp add: chain_measure_def)
  next
    case False
    then have "doc_refs spec - set (r # seen) = doc_refs spec - set seen" by auto
    then show ?thesis using t_doc cur r False by (simp add: chain_measure_def)
  qed
qed

function resolve_loop :: "jval \<Rightarrow> jstr list \<Rightarrow> jval \<Rightarrow> jval jsr" where
  "resolve_loop spec seen cur =
     (case ref_of cur of
        None \<Rightarrow> Inr cur
      | Some ref \<Rightarrow>
          (if ref \<in> set seen then Inr cur
           else ebind (lookupPointer spec ref)
             (\<lambda>t. if t = JUndef then Inr cur else resolve_loop spec (ref # seen) t)))"
  by pat_completeness auto
termination
  by (relation "measure (\<lambda>(spec, seen, cur). chain_measure spec seen cur)")
    (auto simp: chain_measure_step)

declare resolve_loop.simps [simp del]

definition resolveRef :: "jval \<Rightarrow> jval \<Rightarrow> jval jsr" where
  "resolveRef spec v = resolve_loop spec [] v"

text \<open>\<open>ref.split('/').pop()\<close> of a string \<open>$ref\<close>.\<close>

definition refName :: "jval \<Rightarrow> jstr option" where
  "refName v = (case ref_of v of None \<Rightarrow> None | Some r \<Rightarrow> Some (last (split_str (js ''/'') r)))"

section \<open>What the loop computes\<close>

text \<open>
  One reference followed: \<open>v\<close> refers to \<open>w\<close>. The relation is a partial function, so a chain
  has at most one end.
\<close>

inductive ref_step :: "jval \<Rightarrow> jval \<Rightarrow> jval \<Rightarrow> bool" for spec where
  follow: "ref_of v = Some r \<Longrightarrow> lookupPointer spec r = Inr w \<Longrightarrow> w \<noteq> JUndef \<Longrightarrow> ref_step spec v w"

inductive_cases ref_stepE: "ref_step spec v w"

inductive_simps ref_step_iff: "ref_step spec v w"

lemma ref_step_det: "ref_step spec v w \<Longrightarrow> ref_step spec v w' \<Longrightarrow> w = w'"
  by (auto simp: ref_step_iff)

abbreviation ref_chain :: "jval \<Rightarrow> jval \<Rightarrow> jval \<Rightarrow> bool" where
  "ref_chain spec \<equiv> (ref_step spec)\<^sup>*\<^sup>*"

text \<open>A chain with the references it follows.\<close>

fun ref_path :: "jval \<Rightarrow> jval \<Rightarrow> jstr list \<Rightarrow> jval \<Rightarrow> bool" where
  "ref_path spec v [] w = (v = w)"
| "ref_path spec v (r # rs) w = (ref_of v = Some r \<and>
     (case lookupPointer spec r of Inl e \<Rightarrow> False | Inr t \<Rightarrow> t \<noteq> JUndef \<and> ref_path spec t rs w))"

lemma ref_path_append:
  "ref_path spec v (rs @ qs) w \<longleftrightarrow> (\<exists>u. ref_path spec v rs u \<and> ref_path spec u qs w)"
  by (induction rs arbitrary: v) (auto split: sum.splits)

lemma ref_chain_path: "ref_chain spec v w \<longleftrightarrow> (\<exists>rs. ref_path spec v rs w)"
proof
  assume "ref_chain spec v w"
  then show "\<exists>rs. ref_path spec v rs w"
  proof (induction rule: converse_rtranclp_induct)
    case base
    show ?case by (rule exI [of _ "[]"]) simp
  next
    case (step u t)
    then obtain rs where "ref_path spec t rs w" by blast
    moreover from step.hyps(1) obtain r where "ref_of u = Some r" "lookupPointer spec r = Inr t" "t \<noteq> JUndef"
      by (auto simp: ref_step_iff)
    ultimately show ?case by (intro exI [of _ "r # rs"]) simp
  qed
next
  assume "\<exists>rs. ref_path spec v rs w"
  then obtain rs where "ref_path spec v rs w" ..
  then show "ref_chain spec v w"
    by (induction rs arbitrary: v)
      (auto split: sum.splits intro: converse_rtranclp_into_rtranclp follow)
qed

text \<open>Why the loop stops at \<open>w\<close>: no reference, one already used, or one that leads nowhere.\<close>

definition ref_end :: "jval \<Rightarrow> jval \<Rightarrow> bool" where
  "ref_end spec w = (case ref_of w of None \<Rightarrow> True | Some r \<Rightarrow> lookupPointer spec r = Inr JUndef)"

definition ref_stop :: "jval \<Rightarrow> jstr set \<Rightarrow> jval \<Rightarrow> bool" where
  "ref_stop spec used w = (ref_end spec w \<or> (\<exists>r\<in>used. ref_of w = Some r))"

lemma resolve_loop_iff:
  "resolve_loop spec seen v = Inr w \<longleftrightarrow>
   (\<exists>rs. ref_path spec v rs w \<and> distinct rs \<and> set rs \<inter> set seen = {} \<and> ref_stop spec (set rs \<union> set seen) w)"
  (is "?loop seen v \<longleftrightarrow> (\<exists>rs. ?good seen v rs)")
proof (induction spec seen v rule: resolve_loop.induct)
  case (1 spec seen cur)
  let ?R = "\<lambda>seen v. \<exists>rs. ref_path spec v rs w \<and> distinct rs \<and> set rs \<inter> set seen = {} \<and> ref_stop spec (set rs \<union> set seen) w"
  note unfold = resolve_loop.simps [of spec seen cur]
  show ?case
  proof (cases "ref_stop spec (set seen) cur")
    case True
    have "?R seen cur \<longleftrightarrow> w = cur"
    proof
      assume "?R seen cur"
      then obtain rs where rs: "ref_path spec cur rs w" "set rs \<inter> set seen = {}" by blast
      with True show "w = cur"
        by (cases rs) (auto simp: ref_stop_def ref_end_def split: sum.splits)
    next
      assume "w = cur"
      with True show "?R seen cur" by (intro exI [of _ "[]"]) simp
    qed
    moreover have "resolve_loop spec seen cur = Inr cur"
      using True by (auto simp: unfold ref_stop_def ref_end_def split: option.splits)
    ultimately show ?thesis by auto
  next
    case False
    then obtain r where r: "ref_of cur = Some r" "r \<notin> set seen" "lookupPointer spec r \<noteq> Inr JUndef"
      by (auto simp: ref_stop_def ref_end_def split: option.splits)
    have split: "?R seen cur \<longleftrightarrow> (\<exists>t. lookupPointer spec r = Inr t \<and> ?R (r # seen) t)"
    proof
      assume "?R seen cur"
      then obtain rs where rs: "ref_path spec cur rs w" "distinct rs" "set rs \<inter> set seen = {}"
        "ref_stop spec (set rs \<union> set seen) w" by blast
      with False r obtain qs where "rs = r # qs" by (cases rs) auto
      with rs show "\<exists>t. lookupPointer spec r = Inr t \<and> ?R (r # seen) t"
        by (auto split: sum.splits intro!: exI [of _ qs])
    next
      assume "\<exists>t. lookupPointer spec r = Inr t \<and> ?R (r # seen) t"
      then obtain t rs where "lookupPointer spec r = Inr t" "ref_path spec t rs w" "distinct rs"
        "set rs \<inter> set (r # seen) = {}" "ref_stop spec (set rs \<union> set (r # seen)) w" by blast
      with r show "?R seen cur" by (intro exI [of _ "r # rs"]) auto
    qed
    show ?thesis
    proof (cases "lookupPointer spec r")
      case (Inr t)
      with r have t: "t \<noteq> JUndef" by auto
      have "resolve_loop spec seen cur = resolve_loop spec (r # seen) t"
        using r Inr t by (simp add: unfold)
      also have "\<dots> = Inr w \<longleftrightarrow> ?R (r # seen) t" using "1.IH" [OF r(1,2) Inr t] .
      finally show ?thesis using split Inr by simp
    qed (use r split in \<open>simp add: unfold\<close>)
  qed
qed

lemma resolveRef_iff:
  "resolveRef spec v = Inr w \<longleftrightarrow>
   (\<exists>rs. ref_path spec v rs w \<and> distinct rs \<and> ref_stop spec (set rs) w)"
  by (simp add: resolveRef_def resolve_loop_iff)

lemma ref_path_unique:
  "ref_end spec w \<Longrightarrow> ref_path spec v rs w \<Longrightarrow> ref_path spec v qs w \<Longrightarrow> rs = qs"
proof (induction rs arbitrary: v qs)
  case Nil
  then show ?case by (cases qs) (auto simp: ref_end_def split: sum.splits)
next
  case (Cons r rs)
  then show ?case by (cases qs) (auto simp: ref_end_def split: sum.splits)
qed

lemma ref_path_distinct:
  assumes "ref_end spec w" "ref_path spec v rs w"
  shows "distinct rs"
proof (rule ccontr)
  assume "\<not> distinct rs"
  then obtain xs ys zs y where rs: "rs = xs @ [y] @ ys @ [y] @ zs"
    using not_distinct_decomp by blast
  with assms(2) obtain a where a: "ref_path spec a ([y] @ ys @ [y] @ zs) w"
    unfolding ref_path_append [of spec v xs] rs by blast
  then obtain t where t: "lookupPointer spec y = Inr t" and p: "ref_path spec t (ys @ [y] @ zs) w"
    by (auto split: sum.splits)
  from p obtain b where "ref_path spec b ([y] @ zs) w" unfolding ref_path_append [of spec t ys] by blast
  with t have "ref_path spec t zs w" by simp
  with p have "ys @ [y] @ zs = zs" using ref_path_unique [OF assms(1)] by blast
  then show False by simp
qed

lemma resolveRef_chain_end:
  assumes "ref_chain spec v w" "ref_end spec w"
  shows "resolveRef spec v = Inr w"
  using assms ref_path_distinct by (auto simp: ref_chain_path resolveRef_iff ref_stop_def)

lemma resolveRef_idempotent:
  assumes "resolveRef spec v = Inr w"
  shows "resolveRef spec w = Inr w"
proof -
  from assms obtain rs where rs: "ref_path spec v rs w" "distinct rs" "ref_stop spec (set rs) w"
    by (auto simp: resolveRef_iff)
  show ?thesis
  proof (cases "ref_end spec w")
    case True
    then show ?thesis by (intro resolveRef_chain_end) auto
  next
    case False
    with rs(3) obtain r where r: "r \<in> set rs" "ref_of w = Some r" by (auto simp: ref_stop_def)
    from r(1) obtain xs ys where xs: "rs = xs @ r # ys" by (auto simp: in_set_conv_decomp)
    with rs(1) obtain u where "ref_path spec u (r # ys) w" by (auto simp: ref_path_append)
    with r(2) have "ref_path spec w (r # ys) w" by simp
    with rs(2) xs r(2) show ?thesis
      unfolding resolveRef_iff by (intro exI [of _ "r # ys"]) (auto simp: ref_stop_def)
  qed
qed

lemma resolveRef_no_ref [simp]: "ref_of v = None \<Longrightarrow> resolveRef spec v = Inr v"
  by (intro resolveRef_chain_end) (auto simp: ref_end_def)

lemma resolveRef_not_object: "\<not> is_object v \<Longrightarrow> resolveRef spec v = Inr v"
  by (intro resolveRef_no_ref) (simp add: ref_of_def)

lemma decode_errors: "decodeURIComponent s = Inl e \<Longrightarrow> e = URIError"
proof (induction s rule: decodeURIComponent.induct)
  case (1 s)
  note p = "1.prems" [unfolded decodeURIComponent.simps [of s]]
  show ?case
  proof (cases s)
    case (Cons u us)
    with p 1(1) [OF Cons] 1(2) [OF Cons] show ?thesis
      by (auto simp: ebind_Inl_iff split: if_splits option.splits prod.splits list.splits)
  qed (use p in simp)
qed

lemma lookup_errors: "lookupPointer spec r = Inl e \<Longrightarrow> e = URIError"
  by (auto simp: lookupPointer_def ebind_Inl_iff pointer_part_def split: if_splits
      dest!: emap_InlD decode_errors)

lemma resolve_loop_errors: "resolve_loop spec seen v = Inl e \<Longrightarrow> e = URIError"
proof (induction spec seen v rule: resolve_loop.induct)
  case (1 spec seen cur)
  then show ?case
    by (subst (asm) (2) resolve_loop.simps)
      (auto simp: ebind_Inl_iff lookup_errors split: option.splits if_splits)
qed

lemma resolveRef_errors: "resolveRef spec v = Inl e \<Longrightarrow> e = URIError"
  by (auto simp: resolveRef_def dest: resolve_loop_errors)

section \<open>Pointers reach every part of a document; where errors come from\<close>

text \<open>RFC 6901: \<open>~\<close> is written \<open>~0\<close> and \<open>/\<close> is written \<open>~1\<close>.\<close>

definition escape_part :: "jstr \<Rightarrow> jstr" where
  "escape_part k = concat (map (\<lambda>u. if u = 126 then [126, 48] else if u = 47 then [126, 49] else [u]) k)"

lemma pointer_units [simp]:
  "js ''~0'' = [126, 48]" "js ''~1'' = [126, 49]" "js ''~'' = [126]" "js ''/'' = [47]" "js ''#/'' = [35, 47]"
  by (simp_all add: js_def cu_def)

lemma unescape_slash:
  "replace_lit [126, 49] [47] (escape_part k) = concat (map (\<lambda>u. if u = 126 then [126, 48] else [u]) k)"
proof (induction k)
  case (Cons u k)
  note m = replace_lit_match [of "[126, 49]" "[47]" "escape_part k", simplified]
  have c: "escape_part (u # k) = (if u = 126 then [126, 48] else if u = 47 then [126, 49] else [u]) @ escape_part k"
    by (simp add: escape_part_def)
  show ?case using Cons m by (simp add: c replace_lit_skip)
qed (simp add: escape_part_def)

lemma unescape_tilde:
  "replace_lit [126, 48] [126] (concat (map (\<lambda>u. if u = 126 then [126, 48] else [u]) k)) = k"
proof (induction k)
  case (Cons u k)
  note m = replace_lit_match [of "[126, 48]" "[126]" "concat (map (\<lambda>u. if u = 126 then [126, 48] else [u]) k)", simplified]
  show ?case using Cons m by (simp add: replace_lit_skip)
qed simp

lemma pointer_part_escape:
  "encodeURIComponent (escape_part k) = Inr e \<Longrightarrow> pointer_part e = Inr k"
  using decode_encode [of "escape_part k" e] by (simp add: pointer_part_def unescape_slash unescape_tilde)

lemma hex_unit_not_slash: "n < 16 \<Longrightarrow> hex_unit n \<noteq> 47"
  using unat_hex_unit [of n] by (auto split: if_splits)

lemma encode_point_no_slash:
  assumes "c < 1114112" shows "47 \<notin> set (encode_point c)"
proof (cases "unreserved c")
  case True
  then have "c < 128" "c \<noteq> 47" by (auto simp: unreserved_def)
  then have "(word_of_nat c :: unit16) \<noteq> 47" using unat_unit [of c] by auto
  with True show ?thesis by (simp add: encode_point_def)
next
  case False
  have "47 \<notin> set (pct b)" if "b < 256" for b
    using hex_unit_not_slash [of "b div 16"] hex_unit_not_slash [of "b mod 16"] that by (auto simp: pct_def)
  with utf8_bytes [OF assms] False show ?thesis by (auto simp: encode_point_def)
qed

lemma encode_no_slash: "encodeURIComponent s = Inr e \<Longrightarrow> 47 \<notin> set e"
proof -
  assume "encodeURIComponent s = Inr e"
  then obtain cs where cs: "code_points s = Inr cs" and e: "e = concat (map encode_point cs)"
    by (auto simp: encodeURIComponent_def ebind_Inr_iff)
  have "c < 1114112" if "c \<in> set cs" for c
    using code_points_utf16 [OF cs] that by (auto simp: scalar_def)
  then show "47 \<notin> set e" using encode_point_no_slash e by auto
qed

lemma pointer_reaches:
  assumes "keys \<noteq> []" "emap (\<lambda>k. encodeURIComponent (escape_part k)) keys = Inr es"
  shows "lookupPointer spec (js ''#/'' @ join (js ''/'') es) = Inr (pointer_walk spec keys)"
proof -
  from assms(2) have all: "list_all2 (\<lambda>k e. encodeURIComponent (escape_part k) = Inr e) keys es"
    by (simp add: emap_Inr_iff)
  then have "es \<noteq> []" using assms(1) by auto
  moreover have "\<forall>e\<in>set es. 47 \<notin> set e"
    using emap_set [OF assms(2)] encode_no_slash by blast
  ultimately have "split_str [47] (join [47] es) = es" by (rule split_join)
  moreover have "emap pointer_part es = Inr keys"
    using all by (induction rule: list_all2_induct) (simp_all add: pointer_part_escape)
  ultimately show ?thesis by (simp add: lookupPointer_def starts_with_def)
qed

lemma resolve_error_origin:
  assumes "resolve_loop spec seen v = Inl e"
  shows "\<exists>u r. ref_chain spec v u \<and> ref_of u = Some r \<and> lookupPointer spec r = Inl e"
  using assms
proof (induction spec seen v rule: resolve_loop.induct)
  case (1 spec seen cur)
  then obtain r where r: "ref_of cur = Some r" "r \<notin> set seen"
    by (auto simp: resolve_loop.simps [of spec seen cur] split: option.splits if_splits)
  show ?case
  proof (cases "lookupPointer spec r")
    case (Inl e')
    with 1 r show ?thesis by (auto simp: resolve_loop.simps [of spec seen cur])
  next
    case (Inr t)
    with "1.prems" r have t: "t \<noteq> JUndef" "resolve_loop spec (r # seen) t = Inl e"
      by (auto simp: resolve_loop.simps [of spec seen cur] split: if_splits)
    from "1.IH" [OF r Inr t] obtain u q where "ref_chain spec t u" "ref_of u = Some q" "lookupPointer spec q = Inl e"
      by blast
    moreover have "ref_step spec cur t" using r(1) Inr t(1) by (rule follow)
    ultimately show ?thesis using converse_rtranclp_into_rtranclp by meson
  qed
qed

section \<open>Properties\<close>

definition resolve_doc :: jval where
  "resolve_doc = JObj (Loc 0)
     [(js ''A'', JObj (Loc 1) [(ref_key, JStr (js ''#/a~1b''))]),
      (js ''a/b'', JObj (Loc 2) [(js ''type'', JStr (js ''string''))]),
      (js ''P'', JObj (Loc 3) [(ref_key, JStr (js ''#/Q''))]),
      (js ''Q'', JObj (Loc 4) [(ref_key, JStr (js ''#/P''))]),
      (js ''bad'', JObj (Loc 5) [(ref_key, JStr (js ''#/100%''))])]"

text \<open>\<open>resolveRef\<close> follows a chain of local references to its end: whenever following references one
  by one from \<open>v\<close> reaches a value that has no reference, or one whose pointer leads nowhere, that value
  is the result.\<close>

theorem resolveRef_follows_chain:
  assumes "ref_chain spec v w" "ref_end spec w"
  shows "resolveRef spec v = Inr w"
  using assms by (rule resolveRef_chain_end)

theorem resolveRef_follows_chain_witness:
  "resolveRef resolve_doc (JObj (Loc 9) [(ref_key, JStr (js ''#/A''))]) = Inr (JObj (Loc 2) [(js ''type'', JStr (js ''string''))])"
proof (rule resolveRef_follows_chain)
  have "ref_path resolve_doc (JObj (Loc 9) [(ref_key, JStr (js ''#/A''))]) [js ''#/A'', js ''#/a~1b'']
      (JObj (Loc 2) [(js ''type'', JStr (js ''string''))])"
    by code_simp
  then show "ref_chain resolve_doc (JObj (Loc 9) [(ref_key, JStr (js ''#/A''))]) (JObj (Loc 2) [(js ''type'', JStr (js ''string''))])"
    unfolding ref_chain_path by blast
  show "ref_end resolve_doc (JObj (Loc 2) [(js ''type'', JStr (js ''string''))])" by code_simp
qed

text \<open>Resolving is idempotent, also on cyclic chains: the value \<open>resolveRef\<close> stops at is the value it
  returns when it is given that value.\<close>

theorem resolveRef_stable:
  assumes "resolveRef spec v = Inr w"
  shows "resolveRef spec w = Inr w"
  using assms by (rule resolveRef_idempotent)

theorem resolveRef_stable_witness:
  "resolveRef resolve_doc (JObj (Loc 3) [(ref_key, JStr (js ''#/Q''))]) = Inr (JObj (Loc 3) [(ref_key, JStr (js ''#/Q''))])"
proof (rule resolveRef_stable)
  show "resolveRef resolve_doc (JObj (Loc 9) [(ref_key, JStr (js ''#/Q''))]) = Inr (JObj (Loc 3) [(ref_key, JStr (js ''#/Q''))])"
    by code_simp
qed

text \<open>C30: a JSON pointer written as RFC 6901 asks (\<open>~\<close> and \<open>/\<close> escaped, then percent-encoded) reads back
  exactly the part its keys lead to, for keys with any characters.\<close>

theorem lookupPointer_reaches_part:
  assumes "keys \<noteq> []" "emap (\<lambda>k. encodeURIComponent (escape_part k)) keys = Inr es"
  shows "lookupPointer spec (js ''#/'' @ join (js ''/'') es) = Inr (pointer_walk spec keys)"
  using assms by (rule pointer_reaches)

theorem lookupPointer_reaches_part_witness:
  "lookupPointer resolve_doc (js ''#/'' @ join (js ''/'') [js ''a~1b'', js ''type'']) = Inr (JStr (js ''string''))"
proof -
  have e: "emap (\<lambda>k. encodeURIComponent (escape_part k)) [js ''a/b'', js ''type''] = Inr [js ''a~1b'', js ''type'']"
    by code_simp
  have "pointer_walk resolve_doc [js ''a/b'', js ''type''] = JStr (js ''string'')" by code_simp
  then show ?thesis using lookupPointer_reaches_part [OF _ e, of resolve_doc] by (simp del: pointer_units)
qed

text \<open>The only way \<open>resolveRef\<close> throws is a malformed percent escape in a reference of the chain it
  follows; the exception is then a URIError.\<close>

theorem resolveRef_error_is_malformed_ref:
  assumes "resolveRef spec v = Inl e"
  shows "e = URIError \<and> (\<exists>u r. ref_chain spec v u \<and> ref_of u = Some r \<and> lookupPointer spec r = Inl URIError)"
proof -
  have "e = URIError" using assms by (rule resolveRef_errors)
  with assms resolve_error_origin show ?thesis by (auto simp: resolveRef_def)
qed

theorem resolveRef_error_is_malformed_ref_witness:
  "\<exists>u r. ref_chain resolve_doc (JObj (Loc 9) [(ref_key, JStr (js ''#/bad''))]) u \<and> ref_of u = Some r \<and>
     lookupPointer resolve_doc r = Inl URIError"
proof -
  have "resolveRef resolve_doc (JObj (Loc 9) [(ref_key, JStr (js ''#/bad''))]) = Inl URIError" by code_simp
  from resolveRef_error_is_malformed_ref [OF this] show ?thesis by blast
qed

end
