(* ===== verification/Js_Json.thy ===== *)
theory Js_Json
  imports Js_Values
begin

text \<open>
  \<open>JSON.stringify(v)\<close>, \<open>JSON.stringify(v, null, 2)\<close> and \<open>JSON.parse\<close>. Undefined and functions have no text:
  at the top they give undefined, in an array null, and their properties are left out.
\<close>

definition hex_lower :: "nat \<Rightarrow> unit16" where
  "hex_lower n = (if n < 10 then word_of_nat (48 + n) else word_of_nat (87 + n))"

definition unicode_escape :: "unit16 \<Rightarrow> jstr" where
  "unicode_escape u = [92, 117, hex_lower (unat u div 4096), hex_lower (unat u div 256 mod 16),
     hex_lower (unat u div 16 mod 16), hex_lower (unat u mod 16)]"

definition json_char :: "unit16 \<Rightarrow> jstr" where
  "json_char u =
     (if u = 34 then [92, 34] else if u = 92 then [92, 92]
      else if u = 8 then [92, 98] else if u = 12 then [92, 102]
      else if u = 10 then [92, 110] else if u = 13 then [92, 114] else if u = 9 then [92, 116]
      else if u < 32 then unicode_escape u
      else [u])"

fun json_chars :: "jstr \<Rightarrow> jstr" where
  "json_chars [] = []"
| "json_chars [u] = (if is_high u \<or> is_low u then unicode_escape u else json_char u)"
| "json_chars (u # v # us) =
     (if is_high u \<and> is_low v then u # v # json_chars us
      else (if is_high u \<or> is_low u then unicode_escape u else json_char u) @ json_chars (v # us))"

definition json_quote :: "jstr \<Rightarrow> jstr" where
  "json_quote s = [34] @ json_chars s @ [34]"

definition json_list :: "unit16 \<Rightarrow> unit16 \<Rightarrow> jstr \<Rightarrow> jstr \<Rightarrow> jstr list \<Rightarrow> jstr" where
  "json_list l r gap indent items =
     (if items = [] then [l, r]
      else if gap = [] then [l] @ join [44] items @ [r]
      else [l, 10] @ indent @ gap @ join ([44, 10] @ indent @ gap) items @ [10] @ indent @ [r])"

fun json_text :: "jstr \<Rightarrow> jstr \<Rightarrow> jval \<Rightarrow> jstr option" where
  "json_text gap indent JUndef = None"
| "json_text gap indent (JFun f) = None"
| "json_text gap indent JNull = Some (js ''null'')"
| "json_text gap indent (JBool b) = Some (if b then js ''true'' else js ''false'')"
| "json_text gap indent (JNum n) = Some (if is_finite n then num_str n else js ''null'')"
| "json_text gap indent (JStr s) = Some (json_quote s)"
| "json_text gap indent (JArr i xs) = Some (json_list 91 93 gap indent
     (map (\<lambda>x. case json_text gap (indent @ gap) x of Some t \<Rightarrow> t | None \<Rightarrow> js ''null'') xs))"
| "json_text gap indent (JObj i fs) = Some (json_list 123 125 gap indent
     (concat (map (\<lambda>(k, v). case json_text gap (indent @ gap) v of None \<Rightarrow> []
        | Some t \<Rightarrow> [json_quote k @ (if gap = [] then [58] else [58, 32]) @ t]) fs)))"

definition stringify :: "jval \<Rightarrow> jstr option" where
  "stringify v = json_text [] [] v"

definition stringify2 :: "jval \<Rightarrow> jstr option" where
  "stringify2 v = json_text [32, 32] [] v"

lemma stringify_json: "is_json v \<Longrightarrow> \<exists>s. stringify v = Some s"
  by (cases v) (auto simp: stringify_def)

section \<open>JSON.parse\<close>

text \<open>
  A recursive-descent parser. Its first argument bounds the depth of the recursion; twice the length
  of the input is enough, so that \<open>NoFuel\<close> is never the result of \<open>json_parse\<close>. The objects of
  the result are new ones.
\<close>

datatype 'a parsed = Parsed 'a jstr | Malformed | NoFuel

fun pbind :: "'a parsed \<Rightarrow> ('a \<Rightarrow> jstr \<Rightarrow> 'b parsed) \<Rightarrow> 'b parsed" where
  "pbind (Parsed a s) f = f a s"
| "pbind Malformed f = Malformed"
| "pbind NoFuel f = NoFuel"

lemma pbind_cong [fundef_cong]:
  "m = m' \<Longrightarrow> (\<And>a s. m' = Parsed a s \<Longrightarrow> f a s = g a s) \<Longrightarrow> pbind m f = pbind m' g"
  by (cases m') simp_all

definition json_space :: "unit16 \<Rightarrow> bool" where
  "json_space u = (u = 9 \<or> u = 10 \<or> u = 13 \<or> u = 32)"

definition skip_space :: "jstr \<Rightarrow> jstr" where
  "skip_space s = dropWhile json_space s"

definition json_escape :: "unit16 \<Rightarrow> unit16 option" where
  "json_escape e =
     (if e = 34 then Some 34 else if e = 92 then Some 92 else if e = 47 then Some 47
      else if e = 98 then Some 8 else if e = 102 then Some 12 else if e = 110 then Some 10
      else if e = 114 then Some 13 else if e = 116 then Some 9 else None)"

definition hex4 :: "unit16 \<Rightarrow> unit16 \<Rightarrow> unit16 \<Rightarrow> unit16 \<Rightarrow> unit16 option" where
  "hex4 a b c d = (case (hex_value a, hex_value b, hex_value c, hex_value d) of
     (Some w, Some x, Some y, Some z) \<Rightarrow> Some (word_of_nat (((w * 16 + x) * 16 + y) * 16 + z)) | _ \<Rightarrow> None)"

text \<open>The characters up to the closing quote, and what follows it.\<close>

fun json_string :: "jstr \<Rightarrow> (jstr \<times> jstr) option" where
  "json_string [] = None"
| "json_string (u # us) =
     (if u = 34 then Some ([], us)
      else if u = 92 then
        (case us of
           [] \<Rightarrow> None
         | e # r \<Rightarrow>
             if e = 117 then
               (case r of
                  a # b # c # d # q \<Rightarrow>
                    (case hex4 a b c d of None \<Rightarrow> None
                     | Some v \<Rightarrow> map_option (\<lambda>(s, w). (v # s, w)) (json_string q))
                | _ \<Rightarrow> None)
             else (case json_escape e of None \<Rightarrow> None
                   | Some v \<Rightarrow> map_option (\<lambda>(s, w). (v # s, w)) (json_string r)))
      else if u < 32 then None
      else map_option (\<lambda>(s, w). (u # s, w)) (json_string us))"

text \<open>Numbers: \<open>-?(0|[1-9]\d*)(\.\d+)?([eE][+-]?\d+)?\<close>.\<close>

definition number_unit :: "unit16 \<Rightarrow> bool" where
  "number_unit u = (is_digit u \<or> u = 43 \<or> u = 45 \<or> u = 46 \<or> u = 69 \<or> u = 101)"

definition json_number :: "jstr \<Rightarrow> jnum option" where
  "json_number s =
     (let neg = (case s of u # _ \<Rightarrow> u = 45 | [] \<Rightarrow> False); r = (if neg then tl s else s);
          ip = takeWhile is_digit r; q = dropWhile is_digit r;
          frac = (case q of u # w \<Rightarrow> u \<noteq> 46 \<or> takeWhile is_digit w \<noteq> [] | [] \<Rightarrow> True)
      in if ip \<noteq> [] \<and> (hd ip \<noteq> 48 \<or> length ip = 1) \<and> frac
         then map_option (\<lambda>v. to_double (if neg then - v else v)) (parse_decimal r)
         else None)"

fun parse_value :: "nat \<Rightarrow> jstr \<Rightarrow> jval parsed"
  and parse_elems :: "nat \<Rightarrow> jstr \<Rightarrow> jval list parsed"
  and parse_members :: "nat \<Rightarrow> jstr \<Rightarrow> (jstr \<times> jval) list parsed" where
  "parse_value 0 s = NoFuel"
| "parse_value (Suc n) s =
     (case skip_space s of
        [] \<Rightarrow> Malformed
      | u # us \<Rightarrow>
         if u = 34 then (case json_string us of None \<Rightarrow> Malformed | Some (t, r) \<Rightarrow> Parsed (JStr t) r)
         else if u = 91 then
           (case skip_space us of w # r \<Rightarrow> if w = 93 then Parsed (JArr Fresh []) r
                else pbind (parse_elems n us) (\<lambda>xs q. Parsed (JArr Fresh xs) q)
              | [] \<Rightarrow> Malformed)
         else if u = 123 then
           (case skip_space us of w # r \<Rightarrow> if w = 125 then Parsed (JObj Fresh []) r
                else pbind (parse_members n us) (\<lambda>ms q. Parsed (JObj Fresh (put_all obj_define ms [])) q)
              | [] \<Rightarrow> Malformed)
         else if starts_with (u # us) (js ''null'') then Parsed JNull (drop 3 us)
         else if starts_with (u # us) (js ''true'') then Parsed (JBool True) (drop 3 us)
         else if starts_with (u # us) (js ''false'') then Parsed (JBool False) (drop 4 us)
         else (case json_number (takeWhile number_unit (u # us)) of
                 None \<Rightarrow> Malformed | Some v \<Rightarrow> Parsed (JNum v) (dropWhile number_unit (u # us))))"
| "parse_elems 0 s = NoFuel"
| "parse_elems (Suc n) s =
     pbind (parse_value n s) (\<lambda>v r.
       case skip_space r of
         [] \<Rightarrow> Malformed
       | u # us \<Rightarrow> if u = 44 then pbind (parse_elems n us) (\<lambda>vs q. Parsed (v # vs) q)
           else if u = 93 then Parsed [v] us else Malformed)"
| "parse_members 0 s = NoFuel"
| "parse_members (Suc n) s =
     (case skip_space s of
        [] \<Rightarrow> Malformed
      | u # us \<Rightarrow>
         if u \<noteq> 34 then Malformed
         else (case json_string us of None \<Rightarrow> Malformed
           | Some (k, r) \<Rightarrow>
              (case skip_space r of
                 [] \<Rightarrow> Malformed
               | c # cs \<Rightarrow>
                  if c \<noteq> 58 then Malformed
                  else pbind (parse_value n cs) (\<lambda>v q.
                    case skip_space q of
                      [] \<Rightarrow> Malformed
                    | d # ds \<Rightarrow>
                       if d = 44 then pbind (parse_members n ds) (\<lambda>ms w. Parsed ((k, v) # ms) w)
                       else if d = 125 then Parsed [(k, v)] ds else Malformed))))"

text \<open>\<open>None\<close> is the SyntaxError.\<close>

definition json_parse :: "jstr \<Rightarrow> jval option" where
  "json_parse s = (case parse_value (2 * length s + 2) s of
     Parsed v r \<Rightarrow> if skip_space r = [] then Some v else None | _ \<Rightarrow> None)"

section \<open>The parser always has fuel\<close>

lemma skip_space_le: "length (skip_space s) \<le> length s"
  by (simp add: skip_space_def length_dropWhile_le)

lemma json_string_shorter: "json_string s = Some (t, r) \<Longrightarrow> length r < length s"
  by (induction s arbitrary: t r rule: json_string.induct)
    (fastforce split: if_splits list.splits option.splits)+

lemma skip_Cons_le: "skip_space s = u # us \<Longrightarrow> length us < length s"
  using skip_space_le [of s] by simp

lemma number_rest: "json_number (takeWhile number_unit s) = Some v \<Longrightarrow> length (dropWhile number_unit s) < length s"
proof -
  assume a: "json_number (takeWhile number_unit s) = Some v"
  then have "takeWhile number_unit s \<noteq> []" by (auto simp: json_number_def Let_def)
  then show ?thesis
    by (metis add_diff_cancel_left' diff_less dropWhile_eq_drop length_drop length_greater_0_conv length_takeWhile_le order_less_le_trans takeWhile_dropWhile_id)
qed

lemma pbind_Parsed_iff [simp]: "pbind m f = Parsed v r \<longleftrightarrow> (\<exists>a s. m = Parsed a s \<and> f a s = Parsed v r)"
  by (cases m) auto

lemma pbind_NoFuel_iff: "pbind m f = NoFuel \<longleftrightarrow> m = NoFuel \<or> (\<exists>a s. m = Parsed a s \<and> f a s = NoFuel)"
  by (cases m) auto

lemma parse_shorter:
  "parse_value n s = Parsed v r \<Longrightarrow> length r < length s"
  "parse_elems n s = Parsed vs r \<Longrightarrow> length r < length s"
  "parse_members n s = Parsed ms r \<Longrightarrow> length r < length s"
proof (induction n s and n s and n s arbitrary: v r and vs r and ms r rule: parse_value_parse_elems_parse_members.induct)
  case (2 n s)
  show ?case
  proof (cases "skip_space s")
    case (Cons u us)
    have l: "length us < length s" using skip_Cons_le [OF Cons] .
    have num: "length (dropWhile number_unit (u # us)) < length (u # us)" if "json_number (takeWhile number_unit (u # us)) = Some w" for w
      using number_rest [OF that] .
    from 2(3) Cons l num 2(1) [OF Cons] 2(2) [OF Cons] show ?thesis
      by (auto split: if_splits option.splits list.splits dest!: json_string_shorter skip_Cons_le) (meson less_trans)+
  qed (use 2 in simp)
next
  case (4 n s)
  from 4(3) obtain v1 r1 where v1: "parse_value n s = Parsed v1 r1" by auto
  from 4(1) [OF v1] have l: "length r1 < length s" .
  show ?case
  proof (cases "skip_space r1")
    case (Cons u us)
    have "length us < length r1" using skip_Cons_le [OF Cons] .
    with 4(2) [OF v1 Cons] 4(3) v1 l Cons show ?thesis by (auto split: if_splits)
  qed (use 4(3) v1 in simp)
next
  case (6 n s)
  show ?case
  proof (cases "skip_space s")
    case (Cons u us)
    have lu: "length us < length s" using skip_Cons_le [OF Cons] .
    from 6(3) Cons obtain k r1 where k: "u = 34" "json_string us = Some (k, r1)" by (auto split: if_splits option.splits)
    then have l1: "length r1 < length s" using json_string_shorter lu by fastforce
    show ?thesis
    proof (cases "skip_space r1")
      case c: (Cons c cs)
      have lc: "length cs < length s" using skip_Cons_le [OF c] l1 by linarith
      from 6(3) Cons k c obtain v1 q where v1: "c = 58" "parse_value n cs = Parsed v1 q" by (auto split: if_splits)
      have lq: "length q < length s"
        using 6(1) [OF Cons _ k(2) _ c _ v1(2)] k v1 lc by simp
      show ?thesis
      proof (cases "skip_space q")
        case d: (Cons d ds)
        have ld: "length ds < length s" using skip_Cons_le [OF d] lq by linarith
        show ?thesis
        proof (cases "d = 44")
          case True
          with 6(3) Cons k c v1 d obtain ms' where m: "parse_members n ds = Parsed ms' r" by auto
          have "length r < length ds"
            using 6(2) [OF Cons _ k(2) _ c _ v1(2) d True m] k v1 by simp
          with ld show ?thesis by simp
        next
          case False
          with 6(3) Cons k c v1 d ld show ?thesis by (auto split: if_splits)
        qed
      qed (use 6(3) Cons k c v1 in simp)
    qed (use 6(3) Cons k in simp)
  qed (use 6(3) in simp)
qed simp_all

lemma parse_fuel:
  "2 * length s < n \<Longrightarrow> parse_value n s \<noteq> NoFuel"
  "2 * length s + 1 < n \<Longrightarrow> parse_elems n s \<noteq> NoFuel"
  "2 * length s + 1 < n \<Longrightarrow> parse_members n s \<noteq> NoFuel"
proof (induction n s and n s and n s rule: parse_value_parse_elems_parse_members.induct)
  case (2 n s)
  show ?case
  proof (cases "skip_space s")
    case (Cons u us)
    have l: "length us < length s" using skip_Cons_le [OF Cons] .
    with 2(3) have "2 * length us + 1 < n" by linarith
    with 2(1) [OF Cons] 2(2) [OF Cons] Cons show ?thesis
      by (auto simp: pbind_NoFuel_iff split: if_splits option.splits list.splits)
  qed simp
next
  case (4 n s)
  then have "parse_value n s \<noteq> NoFuel" by simp
  moreover have "parse_elems n us \<noteq> NoFuel" if "parse_value n s = Parsed v r" "skip_space r = u # us" "u = 44" for v r u us
  proof -
    have "length us < length s" using parse_shorter(1) [OF that(1)] skip_Cons_le [OF that(2)] by linarith
    moreover have "length us + 1 \<le> length s - 1" using parse_shorter(1) [OF that(1)] skip_Cons_le [OF that(2)] by linarith
    ultimately show ?thesis using 4(2) [OF that] 4(3) by linarith
  qed
  ultimately show ?case by (auto simp: pbind_NoFuel_iff split: list.splits if_splits)
next
  case (6 n s)
  show ?case
  proof (rule notI)
    assume nf: "parse_members (Suc n) s = NoFuel"
    then obtain u us k r c cs where s: "skip_space s = u # us" "u = 34" "json_string us = Some (k, r)" "skip_space r = c # cs" "c = 58"
      by (auto split: list.splits if_splits option.splits)
    have l: "length cs + 3 \<le> length s"
      using skip_Cons_le [OF s(1)] json_string_shorter [OF s(3)] skip_Cons_le [OF s(4)] by linarith
    have v: "parse_value n cs \<noteq> NoFuel" using 6(1) s l 6(3) by simp
    obtain v1 q where q1: "parse_value n cs = Parsed v1 q"
      using nf s v by (cases "parse_value n cs") auto
    with nf s obtain ds where q: "skip_space q = 44 # ds" "parse_members n ds = NoFuel"
      by (auto simp: pbind_NoFuel_iff split: list.splits if_splits)
    have "length ds + 3 \<le> length s"
      using parse_shorter(1) [OF q1] skip_Cons_le [OF q(1)] l by linarith
    with 6(2) s q q1 6(3) show False by simp
  qed
qed simp_all

text \<open>So only malformed input gives \<open>None\<close>.\<close>

lemma json_parse_None: "json_parse s = None \<longleftrightarrow>
   (parse_value (2 * length s + 2) s = Malformed \<or> (\<exists>v r. parse_value (2 * length s + 2) s = Parsed v r \<and> skip_space r \<noteq> []))"
  using parse_fuel(1) [of s "2 * length s + 2"] by (auto simp: json_parse_def split: parsed.splits)

section \<open>Reading back what was written\<close>

lemma hex_value_lower: "n < 16 \<Longrightarrow> hex_value (hex_lower n) = Some n"
proof -
  assume n: "n < 16"
  then have "unat (hex_lower n) = (if n < 10 then 48 + n else 87 + n)"
    using unat_unit [of "48 + n"] unat_unit [of "87 + n"] by (simp add: hex_lower_def del: of_nat_add)
  with n show ?thesis by (auto simp: hex_value_def is_digit_def word_le_nat_alt)
qed

lemma hex4_escape:
  "hex4 (hex_lower (unat u div 4096)) (hex_lower (unat u div 256 mod 16)) (hex_lower (unat u div 16 mod 16)) (hex_lower (unat u mod 16)) = Some u"
proof -
  have l: "unat u < 65536" using unsigned_less [of u] by simp
  then have "unat u div 4096 < 16" by linarith
  moreover have "((unat u div 4096 * 16 + unat u div 256 mod 16) * 16 + unat u div 16 mod 16) * 16 + unat u mod 16 = unat u"
  proof -
    have "unat u div 4096 = unat u div 256 div 16" "unat u div 256 = unat u div 16 div 16" by (simp_all add: div_mult2_eq [symmetric])
    then show ?thesis by (metis div_mult_mod_eq)
  qed
  ultimately show ?thesis by (simp add: hex4_def hex_value_lower)
qed

lemma json_string_unicode: "json_string (unicode_escape u @ s) = map_option (\<lambda>(t, w). (u # t, w)) (json_string s)"
  by (simp add: unicode_escape_def hex4_escape)

lemma json_string_char: "json_string (json_char u @ s) = map_option (\<lambda>(t, w). (u # t, w)) (json_string s)"
  using json_string_unicode [of u s] by (auto simp: json_char_def json_escape_def)

lemma json_string_chars: "json_string (json_chars s @ 34 # rest) = Some (s, rest)"
proof (induction s rule: json_chars.induct)
  case (3 u v us)
  show ?case
  proof (cases "is_high u \<and> is_low v")
    case True
    then have "55296 \<le> u" "56320 \<le> v" by (simp_all add: is_high_def is_low_def)
    then have "u \<noteq> 34 \<and> u \<noteq> 92 \<and> \<not> u < 32" "v \<noteq> 34 \<and> v \<noteq> 92 \<and> \<not> v < 32"
      by (auto simp: word_le_nat_alt word_less_nat_alt)
    with True 3 show ?thesis by simp
  next
    case False
    then have e: "json_chars (u # v # us) = (if is_high u \<or> is_low u then unicode_escape u else json_char u) @ json_chars (v # us)"
      by auto
    show ?thesis
      unfolding e append_assoc using 3(2) [OF False]
      by (simp add: json_string_unicode json_string_char del: json_string.simps json_chars.simps)
  qed
qed (simp_all add: json_string_unicode json_string_char)

text \<open>
  The values whose text reads back as they are: no undefined or function, integers below \<open>10 ^ 15\<close>,
  objects with their properties in enumeration order.
\<close>

fun storable :: "jval \<Rightarrow> bool" where
  "storable JNull = True"
| "storable (JBool b) = True"
| "storable (JStr s) = True"
| "storable (JNum n) = (case n of Fin a \<Rightarrow> of_int \<lfloor>a\<rfloor> = a \<and> \<bar>a\<bar> < 10 ^ 15 | _ \<Rightarrow> False)"
| "storable (JArr i xs) = (i = Fresh \<and> list_all storable xs)"
| "storable (JObj i fs) = (i = Fresh \<and> put_all obj_define fs [] = fs \<and> list_all (\<lambda>(k, v). storable v) fs)"
| "storable _ = False"

lemma dec_digits_nonempty: "dec_digits m \<noteq> []"
  using dec_digits_pos [of m] by auto

lemma json_number_int:
  assumes "\<bar>n\<bar> < 10 ^ 15"
  shows "json_number (int_str n) = Some (Fin (of_int n))"
proof -
  have d: "list_all is_digit (nat_str m)" for m by (rule nat_str_digits)
  have tw: "takeWhile is_digit (nat_str m) = nat_str m" "dropWhile is_digit (nat_str m) = []" for m
    using d by (auto simp: list_all_iff takeWhile_eq_all_conv dropWhile_eq_Nil_conv)
  have hd: "hd (nat_str m) \<noteq> 45" for m
    using d [of m] by (cases "nat_str m") (auto simp: is_digit_def)
  have lead: "hd (nat_str m) \<noteq> 48 \<or> length (nat_str m) = 1" for m
  proof (induction m rule: dec_digits.induct)
    case (1 m)
    show ?case
    proof (cases "m < 10")
      case True
      then show ?thesis by (simp add: nat_str_def digit_str_def dec_digits.simps [of m])
    next
      case False
      have e: "nat_str m = nat_str (m div 10) @ digit_str [m mod 10]"
        using False by (simp add: nat_str_def digit_str_def dec_digits.simps [of m])
      show ?thesis
      proof (cases "m div 10 < 10")
        case True
        have "0 < m div 10" using False by linarith
        then have "(word_of_nat (48 + m div 10) :: unit16) \<noteq> 48"
          using True unat_unit [of "48 + m div 10"] by (simp add: word_unat_eq_iff del: of_nat_add)
        then show ?thesis using True e by (simp add: nat_str_def digit_str_def dec_digits.simps [of "m div 10"] del: of_nat_add)
      next
        case f: False
        then have "length (nat_str (m div 10)) \<noteq> 1"
          by (simp add: nat_str_def digit_str_def dec_digits.simps [of "m div 10"] dec_digits_nonempty)
        with 1 [OF False] e show ?thesis by (simp add: hd_append2)
      qed
    qed
  qed
  have int: "to_double (of_int n) = Fin (of_int n)" using assms by (intro to_double_int) simp
  show ?thesis
  proof (cases "n < 0")
    case True
    then have "rat_of_nat (nat (- n)) = - of_int n" by simp
    then show ?thesis
      using True int lead by (simp add: int_str_def json_number_def tw parse_decimal_nat_str)
  next
    case False
    obtain u us where u: "nat_str (nat n) = u # us" by (metis list.exhaust nat_str_nonempty)
    then have "u \<noteq> 45" using hd [of "nat n"] by simp
    then show ?thesis
      using False int lead [of "nat n"] tw [of "nat n"] parse_decimal_nat_str [of "nat n"] u
      by (simp add: int_str_def json_number_def)
  qed
qed

lemma int_str_units: "\<forall>u\<in>set (int_str n). number_unit u" "int_str n \<noteq> []"
  using nat_str_digits(1) by (auto simp: int_str_def number_unit_def list_all_iff)

definition stops_number :: "jstr \<Rightarrow> bool" where
  "stops_number r = (case r of [] \<Rightarrow> True | u # _ \<Rightarrow> \<not> number_unit u)"

lemma stops_number_take:
  assumes "stops_number r" "\<forall>u\<in>set s. number_unit u"
  shows "takeWhile number_unit (s @ r) = s" "dropWhile number_unit (s @ r) = r"
  using assms by (auto simp: stops_number_def takeWhile_append dropWhile_append split: list.splits)

lemma storable_text: "storable v \<Longrightarrow> \<exists>t. json_text [] [] v = Some t"
  by (cases v) auto

lemma skip_space_start: "\<not> json_space u \<Longrightarrow> skip_space (u # s) = u # s"
  by (simp add: skip_space_def)

lemma parse_value_number:
  assumes "\<bar>k\<bar> < 10 ^ 15" "stops_number r"
  shows "parse_value (Suc n) (int_str k @ r) = Parsed (JNum (Fin (of_int k))) r"
proof -
  obtain u us where u: "int_str k = u # us" using int_str_units(2) by (metis list.exhaust)
  have "is_digit u \<or> u = 45"
    using u nat_str_digits(1) [of "nat k"] by (auto simp: int_str_def list_all_iff split: if_splits)
  then have "u \<notin> {9, 10, 13, 32, 34, 91, 123, 110, 116, 102}" by (auto simp: is_digit_def)
  moreover have "js ''null'' = 110 # js ''ull''" "js ''true'' = 116 # js ''rue''" "js ''false'' = 102 # js ''alse''"
    by (simp_all add: js_def cu_def)
  ultimately show ?thesis
    using stops_number_take [OF assms(2) int_str_units(1) [of k]] json_number_int [OF assms(1)] u
    by (simp add: skip_space_def json_space_def starts_with_def del: js_def)
qed

lemma parse_value_string: "parse_value (Suc n) (json_quote s @ r) = Parsed (JStr s) r"
  by (simp add: json_quote_def skip_space_def json_space_def json_string_chars)

definition reads_back :: "jval \<Rightarrow> bool" where
  "reads_back v \<longleftrightarrow> (\<forall>n r t. json_text [] [] v = Some t \<longrightarrow> 2 * length t < n \<longrightarrow> stops_number r \<longrightarrow> parse_value n (t @ r) = Parsed v r)"

lemma reads_backD:
  "reads_back v \<Longrightarrow> json_text [] [] v = Some t \<Longrightarrow> 2 * length t < n \<Longrightarrow> stops_number r \<Longrightarrow> parse_value n (t @ r) = Parsed v r"
  by (simp add: reads_back_def)

lemma stops_comma: "stops_number (44 # r)" "stops_number (93 # r)" "stops_number (125 # r)"
  by (simp_all add: stops_number_def number_unit_def is_digit_def)

lemma skip_comma: "skip_space (44 # r) = 44 # r" "skip_space (93 # r) = 93 # r" "skip_space (125 # r) = 125 # r"
  "skip_space (58 # r) = 58 # r" "skip_space (34 # r) = 34 # r" "skip_space (91 # r) = 91 # r" "skip_space (123 # r) = 123 # r"
  by (simp_all add: skip_space_def json_space_def)

lemma parse_elems_back:
  assumes "\<forall>x\<in>set xs. reads_back x \<and> storable x" "xs \<noteq> []"
    and "2 * length (join [44] (map (\<lambda>x. the (json_text [] [] x)) xs)) + 1 < n"
  shows "parse_elems n (join [44] (map (\<lambda>x. the (json_text [] [] x)) xs) @ 93 # r) = Parsed xs r"
  using assms
proof (induction xs arbitrary: n)
  case (Cons x xs)
  obtain t where t: "json_text [] [] x = Some t" using Cons.prems(1) storable_text by auto
  obtain m where m: "n = Suc m" using Cons.prems(3) by (cases n) auto
  have x: "reads_back x" using Cons.prems(1) by simp
  show ?case
  proof (cases "xs = []")
    case True
    with Cons.prems(3) m t have "2 * length t < m" by simp
    from reads_backD [OF x t this stops_comma(2)] True m t show ?thesis by (simp add: skip_comma)
  next
    case False
    let ?rest = "join [44] (map (\<lambda>x. the (json_text [] [] x)) xs)"
    have j: "join [44] (map (\<lambda>x. the (json_text [] [] x)) (x # xs)) = t @ 44 # ?rest"
      using False t by (simp add: join_Cons del: join.simps)
    from Cons.prems(3) [unfolded j] m have l: "2 * length t < m" "2 * length ?rest + 1 < m" by simp_all
    have "parse_elems m (?rest @ 93 # r) = Parsed xs r"
      using Cons.IH [of m] Cons.prems(1) False l by simp
    with reads_backD [OF x t l(1) stops_comma(1)] m j show ?thesis by (simp add: skip_comma)
  qed
qed simp

definition member_text :: "jstr \<times> jval \<Rightarrow> jstr" where
  "member_text p = json_quote (fst p) @ 58 # the (json_text [] [] (snd p))"

lemma parse_members_back:
  assumes "\<forall>p\<in>set fs. reads_back (snd p) \<and> storable (snd p)" "fs \<noteq> []"
    and "2 * length (join [44] (map member_text fs)) + 1 < n"
  shows "parse_members n (join [44] (map member_text fs) @ 125 # r) = Parsed fs r"
  using assms
proof (induction fs arbitrary: n)
  case (Cons p fs)
  obtain k x where p: "p = (k, x)" by (cases p)
  obtain t where t: "json_text [] [] x = Some t" using Cons.prems(1) storable_text p by auto
  obtain m where m: "n = Suc m" using Cons.prems(3) by (cases n) auto
  have x: "reads_back x" using Cons.prems(1) p by simp
  have str: "json_string (json_chars k @ 34 # w) = Some (k, w)" for w by (rule json_string_chars)
  show ?case
  proof (cases "fs = []")
    case True
    with Cons.prems(3) m t p have "2 * length t < m" by (simp add: member_text_def)
    from reads_backD [OF x t this stops_comma(3)] True m t p show ?thesis
      by (simp add: member_text_def json_quote_def skip_comma str)
  next
    case False
    let ?rest = "join [44] (map member_text fs)"
    have j: "join [44] (map member_text (p # fs)) = 34 # json_chars k @ 34 # 58 # t @ 44 # ?rest"
      using False t p by (simp add: join_Cons member_text_def json_quote_def del: join.simps)
    from Cons.prems(3) [unfolded j] m have l: "2 * length t < m" "2 * length ?rest + 1 < m" by simp_all
    have "parse_members m (?rest @ 125 # r) = Parsed fs r"
      using Cons.IH [of m] Cons.prems(1) False l by simp
    with reads_backD [OF x t l(1) stops_comma(1)] m j p show ?thesis by (simp add: skip_comma str)
  qed
qed simp

lemma json_text_array:
  assumes "list_all storable xs"
  shows "json_text [] [] (JArr Fresh xs) =
    Some (if xs = [] then [91, 93] else 91 # join [44] (map (\<lambda>x. the (json_text [] [] x)) xs) @ [93])"
proof -
  have "(case json_text [] [] x of Some t \<Rightarrow> t | None \<Rightarrow> js ''null'') = the (json_text [] [] x)" if "x \<in> set xs" for x
    using that assms storable_text by (fastforce simp: list_all_iff)
  then show ?thesis by (simp add: json_list_def cong: map_cong)
qed

lemma json_text_object:
  assumes "list_all (\<lambda>(k, v). storable v) fs"
  shows "json_text [] [] (JObj Fresh fs) =
    Some (if fs = [] then [123, 125] else 123 # join [44] (map member_text fs) @ [125])"
proof -
  have "concat (map (\<lambda>(k, v). case json_text [] [] v of None \<Rightarrow> []
        | Some t \<Rightarrow> [json_quote k @ [58] @ t]) fs) = map member_text fs"
    using assms
  proof (induction fs)
    case (Cons p fs)
    obtain k v where p: "p = (k, v)" by (cases p)
    with Cons.prems obtain t where "json_text [] [] v = Some t" using storable_text by auto
    with Cons p show ?case by (simp add: member_text_def)
  qed simp
  then have "json_text [] [] (JObj Fresh fs) = Some (json_list 123 125 [] [] (map member_text fs))"
    by (simp cong: option.case_cong)
  then show ?thesis by (simp only: json_list_def) simp
qed

lemma first_unit: "json_space u = False \<Longrightarrow> skip_space (u # s) = u # s"
  by (simp add: skip_space_def)

lemma parse_array_back:
  assumes "\<forall>x\<in>set xs. reads_back x \<and> storable x"
  shows "reads_back (JArr Fresh xs)"
  unfolding reads_back_def
proof (intro allI impI)
  fix n r t assume t: "json_text [] [] (JArr Fresh xs) = Some t" and n: "2 * length t < n"
  obtain m where m: "n = Suc m" using n by (cases n) auto
  have st: "list_all storable xs" using assms by (simp add: list_all_iff)
  show "parse_value n (t @ r) = Parsed (JArr Fresh xs) r"
  proof (cases "xs = []")
    case True
    then show ?thesis using t m json_text_array [OF st] by (simp add: skip_comma)
  next
    case False
    let ?body = "join [44] (map (\<lambda>x. the (json_text [] [] x)) xs)"
    have tt: "t = 91 # ?body @ [93]" using t json_text_array [OF st] False by simp
    with n m have "2 * length ?body + 1 < m" by simp
    from parse_elems_back [OF assms False this, of r]
    have e: "parse_elems m (?body @ 93 # r) = Parsed xs r" .
    obtain u us where u: "skip_space (?body @ 93 # r) = u # us"
      using e False by (cases m; cases "skip_space (?body @ 93 # r)"; cases "m - 1") (auto split: list.splits)
    have "u \<noteq> 93"
    proof
      assume "u = 93"
      obtain k where k: "m = Suc (Suc k)" using e \<open>2 * length ?body + 1 < m\<close> by (cases m; cases "m - 1") auto
      have "json_number (takeWhile number_unit (93 # us)) = None"
        by (simp add: number_unit_def is_digit_def json_number_def)
      then have "parse_value (Suc k) (?body @ 93 # r) = Malformed"
        using u \<open>u = 93\<close> by (simp add: starts_with_def js_def cu_def)
      with e k show False by simp
    qed
    with e u tt m show ?thesis by (simp add: skip_comma)
  qed
qed

lemma parse_object_back:
  assumes "\<forall>p\<in>set fs. reads_back (snd p) \<and> storable (snd p)" "put_all obj_define fs [] = fs"
  shows "reads_back (JObj Fresh fs)"
  unfolding reads_back_def
proof (intro allI impI)
  fix n r t assume t: "json_text [] [] (JObj Fresh fs) = Some t" and n: "2 * length t < n"
  obtain m where m: "n = Suc m" using n by (cases n) auto
  have st: "list_all (\<lambda>(k, v). storable v) fs" using assms by (auto simp: list_all_iff)
  show "parse_value n (t @ r) = Parsed (JObj Fresh fs) r"
  proof (cases "fs = []")
    case True
    then show ?thesis using t m json_text_object [OF st] by (simp add: skip_comma)
  next
    case False
    let ?body = "join [44] (map member_text fs)"
    have tt: "t = 123 # ?body @ [125]" using t json_text_object [OF st] False by simp
    with n m have "2 * length ?body + 1 < m" by simp
    from parse_members_back [OF assms(1) False this, of r]
    have e: "parse_members m (?body @ 125 # r) = Parsed fs r" .
    obtain us where "?body = 34 # us" using False by (cases fs) (auto simp: member_text_def json_quote_def)
    with e tt m assms(2) show ?thesis by (simp add: skip_comma)
  qed
qed

lemma storable_reads_back: "storable v \<Longrightarrow> reads_back v"
proof (induction v)
  case (JArr i xs)
  then show ?case using parse_array_back [of xs] by (auto simp: list_all_iff)
next
  case (JObj i fs)
  then have "\<forall>p\<in>set fs. reads_back (snd p) \<and> storable (snd p)" by (fastforce simp: list_all_iff)
  with JObj.prems show ?case using parse_object_back [of fs] by simp
next
  case (JNum n)
  then obtain a where a: "n = Fin a" "of_int \<lfloor>a\<rfloor> = a" "\<bar>a\<bar> < 10 ^ 15" by (cases n) simp_all
  define k where "k = \<lfloor>a\<rfloor>"
  have k: "n = Fin (of_int k)" unfolding k_def a(2) by (rule a(1))
  have b: "\<bar>k\<bar> < 10 ^ 15"
  proof -
    have "\<bar>rat_of_int k\<bar> < 10 ^ 15" unfolding k_def a(2) by (rule a(3))
    then have "rat_of_int \<bar>k\<bar> < rat_of_int (10 ^ 15)" by simp
    then show ?thesis by (simp only: of_int_less_iff)
  qed
  show ?case
    unfolding reads_back_def
  proof (intro allI impI)
    fix n' r t assume t: "json_text [] [] (JNum n) = Some t" and n: "2 * length t < n'" and r: "stops_number r"
    obtain m where m: "n' = Suc m" using n by (cases n') auto
    have "t = int_str k" using t k num_str_int [OF b] by simp
    then show "parse_value n' (t @ r) = Parsed (JNum n) r"
      using parse_value_number [OF b r] m k by simp
  qed
next
  case (JStr s)
  show ?case
    unfolding reads_back_def
  proof (intro allI impI)
    fix n r t assume "json_text [] [] (JStr s) = Some t" "2 * length t < n"
    then show "parse_value n (t @ r) = Parsed (JStr s) r" using parse_value_string [of "n - 1" s r] by (cases n) auto
  qed
next
  case (JBool b)
  show ?case
    unfolding reads_back_def
  proof (intro allI impI)
    fix n r t assume "json_text [] [] (JBool b) = Some t" "2 * length t < n"
    then show "parse_value n (t @ r) = Parsed (JBool b) r"
      by (cases n; cases b) (auto simp: js_def cu_def skip_space_def json_space_def starts_with_def)
  qed
next
  case JNull
  show ?case
    unfolding reads_back_def
  proof (intro allI impI)
    fix n r t assume "json_text [] [] JNull = Some t" "2 * length t < n"
    then show "parse_value n (t @ r) = Parsed JNull r"
      by (cases n) (auto simp: js_def cu_def skip_space_def json_space_def starts_with_def)
  qed
qed simp_all

theorem json_parse_stringify: "storable v \<Longrightarrow> stringify v = Some t \<Longrightarrow> json_parse t = Some v"
proof -
  assume v: "storable v" "stringify v = Some t"
  have "parse_value (2 * length t + 2) (t @ []) = Parsed v []"
    by (rule reads_backD [OF storable_reads_back [OF v(1)]]) (use v(2) in \<open>simp_all add: stringify_def stops_number_def\<close>)
  then show ?thesis by (simp add: json_parse_def skip_space_def)
qed

interpretation json: codec "\<lambda>v. the (stringify v)" "\<lambda>t. the (json_parse t)" storable
proof
  fix v assume v: "storable v"
  then obtain t where "stringify v = Some t" using storable_text by (auto simp: stringify_def)
  with json_parse_stringify [OF v] show "the (json_parse (the (stringify v))) = v" by simp
qed

end
