(* ===== verification/Spec_Schema.thy ===== *)
theory Spec_Schema
  imports Spec_Resolve Js_Json
begin

text \<open>
  \<open>lib/openapi/schema.ts\<close>: type labels, merged \<open>allOf\<close> schemas and example values.
  \<open>typeLabel\<close> and \<open>mergeAllOf\<close> recurse along the schema without a guard; their first argument
  is the call stack that is left, and a call with none left is the RangeError of a stack
  overflow. \<open>exampleFromSchema\<close> keeps the objects of the current path and needs no such bound
  for itself.
\<close>

definition MAX_DEPTH :: nat where
  "MAX_DEPTH = 8"

section \<open>Types and labels\<close>

fun strings_of :: "jval list \<Rightarrow> jstr list" where
  "strings_of [] = []"
| "strings_of (JStr s # vs) = s # strings_of vs"
| "strings_of (_ # vs) = strings_of vs"

definition schemaTypes :: "jval \<Rightarrow> jstr list" where
  "schemaTypes schema =
     (if \<not> truthy schema then []
      else case jget_opt schema (js ''type'') of
        JArr _ ts \<Rightarrow> strings_of ts
      | JStr t \<Rightarrow> [t]
      | _ \<Rightarrow> (if truthy (jget_opt schema (js ''properties''))
                \<or> truthy (jget_opt schema (js ''additionalProperties'')) then [js ''object'']
             else if truthy (jget_opt schema (js ''items'')) then [js ''array'']
             else []))"

definition isNullable :: "jval \<Rightarrow> bool" where
  "isNullable schema = (truthy schema \<and>
     (jget_opt schema (js ''nullable'') = JBool True \<or> js ''null'' \<in> set (schemaTypes schema)))"

definition plain_types :: "jval \<Rightarrow> jstr list" where
  "plain_types schema = filter (\<lambda>t. t \<noteq> js ''null'') (schemaTypes schema)"

definition first_is :: "jstr list \<Rightarrow> jstr \<Rightarrow> bool" where
  "first_is ts t = (case ts of [] \<Rightarrow> False | x # _ \<Rightarrow> x = t)"

definition nullable_label :: "jval \<Rightarrow> jstr \<Rightarrow> jstr" where
  "nullable_label schema label = (if isNullable schema then label @ js '' | null'' else label)"

text \<open>The label of a schema that is not an array and shows no reference name.\<close>

definition scalar_label :: "jval \<Rightarrow> jstr jsr" where
  "scalar_label schema =
     (let ts = join (js '' | '') (plain_types schema);
          label = (if ts \<noteq> [] then ts
                   else if truthy (jget_opt schema (js ''allOf'')) then js ''object'' else js ''any'');
          format = jget_opt schema (js ''format'')
      in if truthy format
         then ebind (to_str format) (\<lambda>f. Inr (label @ js ''<'' @ f @ js ''>''))
         else Inr label)"

fun typeLabel :: "nat \<Rightarrow> jval \<Rightarrow> jval \<Rightarrow> jstr jsr" where
  "typeLabel 0 spec raw = Inl RangeError"
| "typeLabel (Suc n) spec raw =
     (if \<not> truthy raw then Inr []
      else let name = (case refName raw of None \<Rightarrow> [] | Some m \<Rightarrow> m) in
        ebind (resolveRef spec raw) (\<lambda>schema.
          if \<not> is_object schema then Inr name
          else if is_array (jget_opt schema (js ''oneOf'')) \<or> is_array (jget_opt schema (js ''anyOf''))
          then (case coalesce (jget_opt schema (js ''oneOf'')) (jget_opt schema (js ''anyOf'')) of
              JArr _ variants \<Rightarrow>
                ebind (emap (\<lambda>v. ebind (typeLabel n spec v)
                               (\<lambda>l. Inr (if l = [] then js ''any'' else l))) variants)
                  (\<lambda>ls. Inr (join (js '' | '') ls))
            | _ \<Rightarrow> Inl TypeError)
          else if first_is (plain_types schema) (js ''array'')
          then ebind (typeLabel n spec (jget_opt schema (js ''items'')))
                 (\<lambda>l. Inr (nullable_label schema
                    (js ''array<'' @ (if l = [] then js ''any'' else l) @ js ''>'')))
          else if name \<noteq> [] \<and> (first_is (plain_types schema) (js ''object'')
                  \<or> truthy (jget_opt schema (js ''allOf'')) \<or> plain_types schema = [])
          then Inr (nullable_label schema name)
          else ebind (scalar_label schema) (\<lambda>l. Inr (nullable_label schema l))))"

subsection \<open>When a label needs more stack\<close>

text \<open>The schemas whose labels a label is made of: the variants, or the items.\<close>

inductive label_next :: "jval \<Rightarrow> jval \<Rightarrow> jval \<Rightarrow> bool" for spec where
  variant: "truthy raw \<Longrightarrow> resolveRef spec raw = Inr schema \<Longrightarrow> is_object schema \<Longrightarrow>
    is_array (jget_opt schema (js ''oneOf'')) \<or> is_array (jget_opt schema (js ''anyOf'')) \<Longrightarrow>
    coalesce (jget_opt schema (js ''oneOf'')) (jget_opt schema (js ''anyOf'')) = JArr i vs \<Longrightarrow>
    v \<in> set vs \<Longrightarrow> label_next spec raw v"
| items: "truthy raw \<Longrightarrow> resolveRef spec raw = Inr schema \<Longrightarrow> is_object schema \<Longrightarrow>
    \<not> is_array (jget_opt schema (js ''oneOf'')) \<Longrightarrow> \<not> is_array (jget_opt schema (js ''anyOf'')) \<Longrightarrow>
    first_is (plain_types schema) (js ''array'') \<Longrightarrow>
    label_next spec raw (jget_opt schema (js ''items''))"

inductive_simps label_next_iff: "label_next spec raw v"

definition has_variants :: "jval \<Rightarrow> bool" where
  "has_variants schema = (is_array (jget_opt schema (js ''oneOf'')) \<or> is_array (jget_opt schema (js ''anyOf'')))"

lemma typeLabel_variants:
  "truthy raw \<Longrightarrow> resolveRef spec raw = Inr schema \<Longrightarrow> is_object schema \<Longrightarrow> has_variants schema \<Longrightarrow>
   typeLabel (Suc n) spec raw =
     (case coalesce (jget_opt schema (js ''oneOf'')) (jget_opt schema (js ''anyOf'')) of
        JArr _ variants \<Rightarrow>
          ebind (emap (\<lambda>v. ebind (typeLabel n spec v) (\<lambda>l. Inr (if l = [] then js ''any'' else l))) variants)
            (\<lambda>ls. Inr (join (js '' | '') ls))
      | _ \<Rightarrow> Inl TypeError)"
  by (simp add: Let_def has_variants_def)

lemma typeLabel_items:
  "truthy raw \<Longrightarrow> resolveRef spec raw = Inr schema \<Longrightarrow> is_object schema \<Longrightarrow> \<not> has_variants schema \<Longrightarrow>
   first_is (plain_types schema) (js ''array'') \<Longrightarrow>
   typeLabel (Suc n) spec raw = ebind (typeLabel n spec (jget_opt schema (js ''items'')))
     (\<lambda>l. Inr (nullable_label schema (js ''array<'' @ (if l = [] then js ''any'' else l) @ js ''>'')))"
  by (simp add: Let_def has_variants_def)

lemma typeLabel_leaf:
  "\<not> (\<exists>schema. truthy raw \<and> resolveRef spec raw = Inr schema \<and> is_object schema \<and>
      (has_variants schema \<or> first_is (plain_types schema) (js ''array''))) \<Longrightarrow>
   typeLabel (Suc m) spec raw = typeLabel (Suc n) spec raw"
  by (cases "resolveRef spec raw") (auto simp: Let_def has_variants_def)

lemma scalar_label_errors: "scalar_label schema = Inl e \<Longrightarrow> e = TypeError"
  by (auto simp: scalar_label_def Let_def ebind_Inl_iff dest: to_str_errors split: if_splits)

lemma typeLabel_leaf_ok:
  "\<not> (\<exists>schema. truthy raw \<and> resolveRef spec raw = Inr schema \<and> is_object schema \<and>
      (has_variants schema \<or> first_is (plain_types schema) (js ''array''))) \<Longrightarrow>
   typeLabel (Suc n) spec raw \<noteq> Inl RangeError"
  by (cases "resolveRef spec raw")
    (auto simp: Let_def has_variants_def ebind_Inl_iff dest: scalar_label_errors resolveRef_errors)

declare typeLabel.simps(2) [simp del]

text \<open>The three shapes of a schema: variants, an array, or one whose label needs no other.\<close>

lemma label_shapes [case_names variants items leaf]:
  fixes spec raw :: jval
  obtains (variants) schema where "truthy raw" "resolveRef spec raw = Inr schema" "is_object schema" "has_variants schema"
  | (items) schema where "truthy raw" "resolveRef spec raw = Inr schema" "is_object schema" "\<not> has_variants schema"
      "first_is (plain_types schema) (js ''array'')"
  | (leaf) "\<And>m n. typeLabel (Suc m) spec raw = typeLabel (Suc n) spec raw"
      "\<And>n. typeLabel (Suc n) spec raw \<noteq> Inl RangeError" "\<And>w. \<not> label_next spec raw w"
proof (cases "\<exists>schema. truthy raw \<and> resolveRef spec raw = Inr schema \<and> is_object schema \<and>
    (has_variants schema \<or> first_is (plain_types schema) (js ''array''))")
  case True
  then show ?thesis using that(1,2) by blast
next
  case False
  moreover have "\<not> label_next spec raw w" for w
    using False by (auto simp: label_next_iff has_variants_def)
  ultimately show ?thesis using that(3) typeLabel_leaf typeLabel_leaf_ok by blast
qed

lemma label_next_variant:
  "truthy raw \<Longrightarrow> resolveRef spec raw = Inr schema \<Longrightarrow> is_object schema \<Longrightarrow> has_variants schema \<Longrightarrow>
   coalesce (jget_opt schema (js ''oneOf'')) (jget_opt schema (js ''anyOf'')) = JArr i vs \<Longrightarrow> v \<in> set vs \<Longrightarrow>
   label_next spec raw v"
  by (auto simp: has_variants_def intro: variant)

lemma label_next_items:
  "truthy raw \<Longrightarrow> resolveRef spec raw = Inr schema \<Longrightarrow> is_object schema \<Longrightarrow> \<not> has_variants schema \<Longrightarrow>
   first_is (plain_types schema) (js ''array'') \<Longrightarrow> label_next spec raw (jget_opt schema (js ''items''))"
  by (auto simp: has_variants_def intro: items)

lemma typeLabel_agree:
  assumes nxt: "\<And>v. label_next spec raw v \<Longrightarrow> typeLabel n spec v \<noteq> Inl e \<Longrightarrow> typeLabel m spec v = typeLabel n spec v"
    and ne: "typeLabel (Suc n) spec raw \<noteq> Inl e"
  shows "typeLabel (Suc m) spec raw = typeLabel (Suc n) spec raw"
proof (cases spec raw rule: label_shapes)
  case (variants schema)
  note eqs = typeLabel_variants [OF variants]
  show ?thesis
  proof (cases "coalesce (jget_opt schema (js ''oneOf'')) (jget_opt schema (js ''anyOf''))")
    case (JArr i vs)
    have "emap (\<lambda>v. ebind (typeLabel m spec v) (\<lambda>l. Inr (if l = [] then js ''any'' else l))) vs =
      emap (\<lambda>v. ebind (typeLabel n spec v) (\<lambda>l. Inr (if l = [] then js ''any'' else l))) vs"
    proof (rule emap_agree [where e = e])
      fix v assume "v \<in> set vs"
        and "ebind (typeLabel n spec v) (\<lambda>l. Inr (if l = [] then js ''any'' else l)) \<noteq> Inl e"
      then have "v \<in> set vs" "typeLabel n spec v \<noteq> Inl e" by auto
      then have "typeLabel m spec v = typeLabel n spec v"
        using nxt [OF label_next_variant [OF variants JArr]] by blast
      then show "ebind (typeLabel m spec v) (\<lambda>l. Inr (if l = [] then js ''any'' else l)) =
        ebind (typeLabel n spec v) (\<lambda>l. Inr (if l = [] then js ''any'' else l))" by simp
    qed (use ne eqs JArr in auto)
    then show ?thesis unfolding eqs JArr by simp
  qed (simp_all add: eqs)
next
  case (items schema)
  note eqs = typeLabel_items [OF items]
  have "typeLabel n spec (jget_opt schema (js ''items'')) \<noteq> Inl e" using ne unfolding eqs by auto
  then show ?thesis unfolding eqs using nxt [OF label_next_items [OF items]] by simp
qed

lemma typeLabel_mono:
  "typeLabel n spec raw \<noteq> Inl RangeError \<Longrightarrow> typeLabel (n + k) spec raw = typeLabel n spec raw"
proof (induction n arbitrary: raw)
  case (Suc n)
  then show ?case using typeLabel_agree [of spec raw n RangeError "n + k"] by simp
qed simp

lemma typeLabel_returns:
  assumes closed: "\<And>v w. v \<in> S \<Longrightarrow> label_next spec v w \<Longrightarrow> w \<in> S \<and> rank w < rank v" and "raw \<in> S"
  shows "typeLabel (Suc (rank raw)) spec raw \<noteq> Inl RangeError"
  using assms(2)
proof (induction "rank raw" arbitrary: raw rule: less_induct)
  case less
  have nxt: "typeLabel (rank raw) spec v \<noteq> Inl RangeError" if "label_next spec raw v" for v
  proof -
    have v: "v \<in> S" "rank v < rank raw" using closed [OF less.prems that] by auto
    then obtain k where "rank raw = Suc (rank v) + k" using less_iff_Suc_add by auto
    with less.hyps [OF v(2,1)] typeLabel_mono [of "Suc (rank v)" spec v k] show ?thesis by simp
  qed
  show ?case
  proof (cases spec raw rule: label_shapes)
    case (variants schema)
    note eqs = typeLabel_variants [OF variants]
    show ?thesis
    proof (cases "coalesce (jget_opt schema (js ''oneOf'')) (jget_opt schema (js ''anyOf''))")
      case (JArr i vs)
      with nxt [OF label_next_variant [OF variants JArr]] show ?thesis
        by (auto simp: eqs ebind_Inl_iff dest!: emap_InlD)
    qed (simp_all add: eqs)
  next
    case (items schema)
    with nxt [OF label_next_items [OF items]] show ?thesis
      by (auto simp: typeLabel_items [OF items] ebind_Inl_iff)
  next
    case leaf
    then show ?thesis by blast
  qed
qed

lemma typeLabel_overflows:
  assumes "\<forall>v\<in>S. \<exists>w\<in>S. label_next spec v w" "v \<in> S"
  shows "\<exists>e. typeLabel n spec v = Inl e"
  using assms(2)
proof (induction n arbitrary: v)
  case (Suc n)
  with assms(1) obtain w where w: "w \<in> S" "label_next spec v w" by blast
  from Suc.IH [OF w(1)] obtain e where e: "typeLabel n spec w = Inl e" ..
  show ?case
  proof (cases spec v rule: label_shapes)
    case (variants schema)
    with w(2) obtain i vs where vs: "coalesce (jget_opt schema (js ''oneOf'')) (jget_opt schema (js ''anyOf'')) = JArr i vs"
      "w \<in> set vs" by (auto simp: label_next_iff has_variants_def)
    then have "\<exists>e. emap (\<lambda>v. ebind (typeLabel n spec v) (\<lambda>l. Inr (if l = [] then js ''any'' else l))) vs = Inl e"
      by (intro emap_fails [of w]) (simp_all add: e)
    then show ?thesis unfolding typeLabel_variants [OF variants] vs(1) by auto
  next
    case (items schema)
    with w(2) have "w = jget_opt schema (js ''items'')" by (auto simp: label_next_iff has_variants_def)
    then show ?thesis unfolding typeLabel_items [OF items] using e by simp
  next
    case leaf
    with w(2) show ?thesis by blast
  qed
qed simp
section \<open>allOf\<close>

text \<open>\<open>v.required ?? []\<close>, spread into a list.\<close>

definition required_of :: "jval \<Rightarrow> jval list jsr" where
  "required_of v = ebind (jget v (js ''required''))
     (\<lambda>r. if nullish r then Inr [] else iterate r)"

text \<open>\<open>Object.assign(target, v.properties ?? {})\<close>.\<close>

definition assign_fields :: "(jstr \<times> jval) list \<Rightarrow> (jstr \<times> jval) list \<Rightarrow> (jstr \<times> jval) list" where
  "assign_fields kvs target = put_all obj_set kvs target"

record merge_state =
  ms_fields :: "(jstr \<times> jval) list"
  ms_properties :: "(jstr \<times> jval) list"
  ms_required :: "jval list"

text \<open>The object literal the loop starts from, without its \<open>properties\<close> and \<open>required\<close> values.\<close>

definition merge_start :: "(jstr \<times> jval) list \<Rightarrow> jval \<Rightarrow> jval list \<Rightarrow> merge_state" where
  "merge_start fs props req =
     \<lparr>ms_fields = filter (\<lambda>(k, v). k \<noteq> js ''allOf'')
        (obj_define (js ''required'') JUndef (obj_define (js ''properties'') JUndef fs)),
      ms_properties = put_all obj_define (spread_fields props) [],
      ms_required = req\<rparr>"

text \<open>\<open>if (!merged.k && p.k) merged.k = p.k\<close>.\<close>

definition adopt :: "jstr \<Rightarrow> jval \<Rightarrow> (jstr \<times> jval) list \<Rightarrow> (jstr \<times> jval) list" where
  "adopt k p fs = (if \<not> truthy (own fs k) \<and> truthy (jget_opt p k) then obj_set k (jget_opt p k) fs else fs)"

definition merge_part :: "jval \<Rightarrow> merge_state \<Rightarrow> merge_state jsr" where
  "merge_part p s =
     ebind (jget p (js ''properties'')) (\<lambda>props.
     ebind (required_of p) (\<lambda>req.
       Inr (s\<lparr>ms_properties := assign_fields (spread_fields props) (ms_properties s),
              ms_required := ms_required s @ req,
              ms_fields := adopt (js ''description'') p (adopt (js ''type'') p (ms_fields s))\<rparr>)))"

definition merge_result :: "merge_state \<Rightarrow> jval" where
  "merge_result s = JObj Fresh
     (dict_put (js ''properties'') (JObj Fresh (ms_properties s))
       (dict_put (js ''required'') (JArr Fresh (ms_required s)) (ms_fields s)))"

fun mergeAllOf :: "nat \<Rightarrow> jval \<Rightarrow> jval \<Rightarrow> jval jsr" where
  "mergeAllOf 0 spec raw = Inl RangeError"
| "mergeAllOf (Suc n) spec raw =
     ebind (resolveRef spec raw) (\<lambda>schema.
       case jget_opt schema (js ''allOf'') of
         JArr _ parts \<Rightarrow>
           ebind (required_of schema) (\<lambda>req.
           ebind (efold (\<lambda>part s. ebind (mergeAllOf n spec part) (\<lambda>p. merge_part p s)) parts
                    (merge_start (spread_fields schema) (jget_opt schema (js ''properties'')) req))
             (\<lambda>s. Inr (merge_result s)))
       | _ \<Rightarrow> Inr schema)"

subsection \<open>What a merge keeps, and when it needs more stack\<close>

text \<open>The members whose merge a merge is made of.\<close>

inductive merge_next :: "jval \<Rightarrow> jval \<Rightarrow> jval \<Rightarrow> bool" for spec where
  member: "resolveRef spec raw = Inr schema \<Longrightarrow> jget_opt schema (js ''allOf'') = JArr i parts \<Longrightarrow>
    part \<in> set parts \<Longrightarrow> merge_next spec raw part"

inductive_simps merge_next_iff: "merge_next spec raw part"

lemma mergeAllOf_plain:
  "resolveRef spec raw = Inr schema \<Longrightarrow> \<not> is_array (jget_opt schema (js ''allOf'')) \<Longrightarrow>
   mergeAllOf (Suc n) spec raw = Inr schema"
  by (auto split: jval.splits)

lemma mergeAllOf_parts:
  "resolveRef spec raw = Inr schema \<Longrightarrow> jget_opt schema (js ''allOf'') = JArr i parts \<Longrightarrow>
   mergeAllOf (Suc n) spec raw =
     ebind (required_of schema) (\<lambda>req.
       ebind (efold (\<lambda>part s. ebind (mergeAllOf n spec part) (\<lambda>p. merge_part p s)) parts
           (merge_start (spread_fields schema) (jget_opt schema (js ''properties'')) req))
         (\<lambda>s. Inr (merge_result s)))"
  by simp

lemma mergeAllOf_unresolved:
  "resolveRef spec raw = Inl e \<Longrightarrow> mergeAllOf (Suc n) spec raw = Inl e"
  by simp

declare mergeAllOf.simps(2) [simp del]

lemma merge_shapes [case_names parts plain unresolved]:
  fixes spec raw :: jval
  obtains (parts) schema i parts where "resolveRef spec raw = Inr schema" "jget_opt schema (js ''allOf'') = JArr i parts"
  | (plain) schema where "resolveRef spec raw = Inr schema" "\<not> is_array (jget_opt schema (js ''allOf''))"
  | (unresolved) e where "resolveRef spec raw = Inl e"
proof (cases "resolveRef spec raw")
  case (Inr schema)
  then show ?thesis using that(1,2) by (cases "jget_opt schema (js ''allOf'')") auto
qed (use that(3) in blast)

lemma required_of_errors: "required_of v = Inl e \<Longrightarrow> e = TypeError"
  by (auto simp: required_of_def ebind_Inl_iff dest: jget_errors iterate_errors split: if_splits)

lemma merge_part_errors: "merge_part p s = Inl e \<Longrightarrow> e = TypeError"
  by (auto simp: merge_part_def ebind_Inl_iff dest: jget_errors required_of_errors)

lemma mergeAllOf_agree:
  assumes nxt: "\<And>v. merge_next spec raw v \<Longrightarrow> mergeAllOf n spec v \<noteq> Inl e \<Longrightarrow> mergeAllOf m spec v = mergeAllOf n spec v"
    and ne: "mergeAllOf (Suc n) spec raw \<noteq> Inl e"
  shows "mergeAllOf (Suc m) spec raw = mergeAllOf (Suc n) spec raw"
proof (cases spec raw rule: merge_shapes)
  case (parts schema i parts)
  note eqs = mergeAllOf_parts [OF parts]
  show ?thesis
  proof (cases "required_of schema")
    case (Inr req)
    let ?s = "merge_start (spread_fields schema) (jget_opt schema (js ''properties'')) req"
    have "efold (\<lambda>part s. ebind (mergeAllOf m spec part) (\<lambda>p. merge_part p s)) parts ?s =
      efold (\<lambda>part s. ebind (mergeAllOf n spec part) (\<lambda>p. merge_part p s)) parts ?s"
    proof (rule efold_agree [where e = e])
      fix part s assume "part \<in> set parts" and "ebind (mergeAllOf n spec part) (\<lambda>p. merge_part p s) \<noteq> Inl e"
      then have "merge_next spec raw part" "mergeAllOf n spec part \<noteq> Inl e" using member [OF parts] by auto
      then have "mergeAllOf m spec part = mergeAllOf n spec part" by (rule nxt)
      then show "ebind (mergeAllOf m spec part) (\<lambda>p. merge_part p s) = ebind (mergeAllOf n spec part) (\<lambda>p. merge_part p s)"
        by simp
    qed (use ne eqs Inr in auto)
    then show ?thesis unfolding eqs Inr by simp
  qed (simp add: eqs)
qed (simp_all add: mergeAllOf_plain mergeAllOf_unresolved)

lemma mergeAllOf_mono:
  "mergeAllOf n spec raw \<noteq> Inl RangeError \<Longrightarrow> mergeAllOf (n + k) spec raw = mergeAllOf n spec raw"
proof (induction n arbitrary: raw)
  case (Suc n)
  then show ?case using mergeAllOf_agree [of spec raw n RangeError "n + k"] by simp
qed simp

lemma mergeAllOf_returns:
  assumes closed: "\<And>v w. v \<in> S \<Longrightarrow> merge_next spec v w \<Longrightarrow> w \<in> S \<and> rank w < rank v" and "raw \<in> S"
  shows "mergeAllOf (Suc (rank raw)) spec raw \<noteq> Inl RangeError"
  using assms(2)
proof (induction "rank raw" arbitrary: raw rule: less_induct)
  case less
  have nxt: "mergeAllOf (rank raw) spec v \<noteq> Inl RangeError" if "merge_next spec raw v" for v
  proof -
    have v: "v \<in> S" "rank v < rank raw" using closed [OF less.prems that] by auto
    then obtain k where "rank raw = Suc (rank v) + k" using less_iff_Suc_add by auto
    with less.hyps [OF v(2,1)] mergeAllOf_mono [of "Suc (rank v)" spec v k] show ?thesis by simp
  qed
  show ?case
  proof (cases spec raw rule: merge_shapes)
    case (parts schema i parts)
    with nxt [OF member [OF parts]] show ?thesis
      by (auto simp: mergeAllOf_parts [OF parts] ebind_Inl_iff dest!: efold_InlD required_of_errors merge_part_errors)
  next
    case (unresolved e)
    then show ?thesis by (auto simp: mergeAllOf_unresolved dest: resolveRef_errors)
  qed (simp add: mergeAllOf_plain)
qed

lemma mergeAllOf_overflows:
  assumes "\<forall>v\<in>S. \<exists>w\<in>S. merge_next spec v w" "v \<in> S"
  shows "\<exists>e. mergeAllOf n spec v = Inl e"
  using assms(2)
proof (induction n arbitrary: v)
  case (Suc n)
  with assms(1) obtain w where w: "w \<in> S" "merge_next spec v w" by blast
  from Suc.IH [OF w(1)] obtain e where e: "mergeAllOf n spec w = Inl e" ..
  from w(2) obtain schema i parts where p: "resolveRef spec v = Inr schema" "jget_opt schema (js ''allOf'') = JArr i parts"
    "w \<in> set parts" by (auto simp: merge_next_iff)
  show ?case
  proof (cases "required_of schema")
    case (Inr req)
    have "\<exists>e. efold (\<lambda>part s. ebind (mergeAllOf n spec part) (\<lambda>p. merge_part p s)) parts s0 = Inl e" for s0
      by (rule efold_fails [OF p(3)]) (simp add: e)
    then obtain e' where "efold (\<lambda>part s. ebind (mergeAllOf n spec part) (\<lambda>p. merge_part p s)) parts
        (merge_start (spread_fields schema) (jget_opt schema (js ''properties'')) req) = Inl e'" by blast
    then show ?thesis unfolding mergeAllOf_parts [OF p(1,2)] Inr by simp
  qed (simp add: mergeAllOf_parts [OF p(1,2)])
qed simp

text \<open>A merge keeps every property and every required name of its members.\<close>

lemma assign_fields_keeps: "fst ` set fs \<subseteq> fst ` set (assign_fields kvs fs)"
  unfolding assign_fields_def
proof (induction kvs arbitrary: fs)
  case (Cons kv kvs)
  obtain j v where kv: "kv = (j, v)" by (cases kv)
  have "fst ` set fs \<subseteq> fst ` set (obj_set j v fs)" by (rule obj_set_keys)
  also have "\<dots> \<subseteq> fst ` set (put_all obj_set kvs (obj_set j v fs))" by (rule Cons.IH)
  finally show ?case by (simp add: kv)
qed simp

lemma assign_fields_adds: "fst ` set kvs - {proto_key} \<subseteq> fst ` set (assign_fields kvs fs)"
  unfolding assign_fields_def
proof (induction kvs arbitrary: fs)
  case (Cons kv kvs)
  obtain j v where kv: "kv = (j, v)" by (cases kv)
  have "{j} - {proto_key} \<subseteq> fst ` set (obj_set j v fs)"
    using keys_obj_define [of j v fs] by (auto simp: obj_set_def)
  also have "\<dots> \<subseteq> fst ` set (put_all obj_set kvs (obj_set j v fs))"
    using assign_fields_keeps unfolding assign_fields_def .
  finally have "{j} - {proto_key} \<subseteq> fst ` set (put_all obj_set kvs (obj_set j v fs))" .
  moreover have "fst ` set (kv # kvs) - {proto_key} = ({j} - {proto_key}) \<union> (fst ` set kvs - {proto_key})"
    by (auto simp: kv)
  ultimately show ?case using Cons.IH [of "obj_set j v fs"] by (simp add: kv)
qed simp

definition merged_keys :: "merge_state \<Rightarrow> jstr set" where
  "merged_keys s = fst ` set (ms_properties s)"

text \<open>The member \<open>p\<close> is covered by \<open>t\<close>: its property names and its required names are there.\<close>

definition covers :: "merge_state \<Rightarrow> jval \<Rightarrow> bool" where
  "covers t p = (\<exists>props req. jget p (js ''properties'') = Inr props \<and> required_of p = Inr req \<and>
     fst ` set (spread_fields props) - {proto_key} \<subseteq> merged_keys t \<and> set req \<subseteq> set (ms_required t))"

definition grows :: "merge_state \<Rightarrow> merge_state \<Rightarrow> bool" where
  "grows s t = (merged_keys s \<subseteq> merged_keys t \<and> set (ms_required s) \<subseteq> set (ms_required t))"

lemma covers_grows: "covers s p \<Longrightarrow> grows s t \<Longrightarrow> covers t p"
  unfolding covers_def grows_def
  by (elim exE conjE, intro exI conjI, assumption+) (erule (1) subset_trans)+

lemma merge_part_covers:
  assumes "merge_part p s = Inr t"
  shows "covers t p \<and> grows s t"
proof -
  from assms obtain props req where pr: "jget p (js ''properties'') = Inr props" "required_of p = Inr req"
    and k: "ms_properties t = assign_fields (spread_fields props) (ms_properties s)"
    and r: "ms_required t = ms_required s @ req"
    by (auto simp: merge_part_def ebind_Inr_iff)
  show ?thesis
    using assign_fields_keeps [of "ms_properties s" "spread_fields props"]
      assign_fields_adds [of "spread_fields props" "ms_properties s"]
    by (simp add: covers_def grows_def pr k r merged_keys_def)
qed

lemma merge_fold_covers:
  assumes "efold (\<lambda>part s. ebind (f part) (\<lambda>p. merge_part p s)) parts s = Inr t"
  shows "grows s t \<and> (\<forall>part\<in>set parts. \<exists>p. f part = Inr p \<and> covers t p)"
  using assms
proof (induction parts arbitrary: s)
  case (Cons part parts)
  then obtain p u where p: "f part = Inr p" and u: "merge_part p s = Inr u"
    and t: "efold (\<lambda>part s. ebind (f part) (\<lambda>p. merge_part p s)) parts u = Inr t"
    by (auto simp: ebind_Inr_iff)
  from merge_part_covers [OF u] have cu: "covers u p" "grows s u" by simp_all
  from Cons.IH [OF t] have ih: "grows u t" "\<forall>part\<in>set parts. \<exists>p. f part = Inr p \<and> covers t p" by simp_all
  have "grows s t" using cu(2) ih(1) by (auto simp: grows_def)
  moreover have "covers t p" using cu(1) ih(1) by (rule covers_grows)
  ultimately show ?case using ih(2) p by simp
qed (simp add: grows_def)

lemma own_dict_put: "own (dict_put k v fs) j = (if j = k then v else own fs j)"
  by (simp add: own_def dict_simps)

lemma merge_result_parts:
  "own (dict_put (js ''properties'') p (dict_put (js ''required'') r fs)) (js ''properties'') = p"
  "own (dict_put (js ''properties'') p (dict_put (js ''required'') r fs)) (js ''required'') = r"
  by (simp_all add: own_dict_put)

lemma mergeAllOf_covers:
  assumes "resolveRef spec raw = Inr schema" "jget_opt schema (js ''allOf'') = JArr i parts"
    and m: "mergeAllOf (Suc n) spec raw = Inr m" and part: "part \<in> set parts"
  shows "\<exists>p props req mprops mreq. mergeAllOf n spec part = Inr p \<and>
    jget p (js ''properties'') = Inr props \<and> required_of p = Inr req \<and>
    jget m (js ''properties'') = Inr (JObj Fresh mprops) \<and> jget m (js ''required'') = Inr (JArr Fresh mreq) \<and>
    fst ` set (spread_fields props) - {proto_key} \<subseteq> fst ` set mprops \<and> set req \<subseteq> set mreq"
proof -
  from m obtain req0 s where s: "efold (\<lambda>part s. ebind (mergeAllOf n spec part) (\<lambda>p. merge_part p s)) parts
      (merge_start (spread_fields schema) (jget_opt schema (js ''properties'')) req0) = Inr s"
    and ms: "m = merge_result s"
    by (auto simp: mergeAllOf_parts [OF assms(1,2)] ebind_Inr_iff)
  from merge_fold_covers [OF s] part obtain p where p: "mergeAllOf n spec part = Inr p" "covers s p"
    by blast
  from p(2) obtain props req where "jget p (js ''properties'') = Inr props" "required_of p = Inr req"
    "fst ` set (spread_fields props) - {proto_key} \<subseteq> fst ` set (ms_properties s)" "set req \<subseteq> set (ms_required s)"
    by (auto simp: covers_def merged_keys_def)
  with p(1) show ?thesis
    by (intro exI [of _ p] exI [of _ props] exI [of _ req] exI [of _ "ms_properties s"] exI [of _ "ms_required s"])
      (simp add: ms merge_result_def merge_result_parts)
qed
section \<open>Examples\<close>

definition FORMAT_EXAMPLES :: "(jstr \<times> jval) list" where
  "FORMAT_EXAMPLES = map (\<lambda>(k, v). (js k, JStr (js v)))
     [(''date-time'', ''2026-01-31T09:30:00Z''),
      (''date'', ''2026-01-31''),
      (''time'', ''09:30:00''),
      (''email'', ''user@example.com''),
      (''uuid'', ''3fa85f64-5717-4562-b3fc-2c963f66afa6''),
      (''uri'', ''https://example.com''),
      (''url'', ''https://example.com''),
      (''hostname'', ''example.com''),
      (''ipv4'', ''192.0.2.1''),
      (''ipv6'', ''2001:db8::1''),
      (''byte'', ''ZXhhbXBsZQ=='')]"

datatype ExampleMode = Request | Response

definition exampleValue :: "jval \<Rightarrow> jval \<Rightarrow> jval jsr" where
  "exampleValue spec v = ebind (resolveRef spec v) (\<lambda>resolved.
     if is_object resolved \<and> \<not> is_array resolved \<and> has_key resolved (js ''value'')
     then Inr (jget_opt resolved (js ''value'')) else Inr resolved)"

text \<open>A hidden property: read-only in a request, write-only in a response.\<close>

definition hidden :: "ExampleMode \<Rightarrow> jval \<Rightarrow> bool" where
  "hidden mode p = ((mode = Request \<and> truthy (jget_opt p (js ''readOnly'')))
     \<or> (mode = Response \<and> truthy (jget_opt p (js ''writeOnly''))))"

definition on_path :: "jval \<Rightarrow> oid list \<Rightarrow> bool" where
  "on_path v path = (identity v \<noteq> Fresh \<and> identity v \<in> set path)"

text \<open>The first of \<open>example\<close>, \<open>examples\<close>, \<open>default\<close>, \<open>const\<close> and \<open>enum\<close> that is given.\<close>

definition given_example :: "jval \<Rightarrow> jval \<Rightarrow> jval jsr option" where
  "given_example spec schema =
     (let g = (\<lambda>k. jget_opt schema (js k)) in
      if g ''example'' \<noteq> JUndef then Some (exampleValue spec (g ''example''))
      else case g ''examples'' of JArr _ (x # xs) \<Rightarrow> Some (Inr x)
      | _ \<Rightarrow>
      if g ''default'' \<noteq> JUndef then Some (Inr (g ''default''))
      else if g ''const'' \<noteq> JUndef then Some (Inr (g ''const''))
      else case g ''enum'' of
        JArr _ (x # xs) \<Rightarrow> Some (Inr (case find (\<lambda>v. v \<noteq> JNull) (x # xs) of
            Some v \<Rightarrow> coalesce v x | None \<Rightarrow> x))
      | _ \<Rightarrow> None)"

text \<open>The example of a scalar type.\<close>

definition scalar_example :: "jval \<Rightarrow> jstr list \<Rightarrow> jval jsr" where
  "scalar_example schema types =
     (let m = jget_opt schema (js ''minimum'') in
      if first_is types (js ''integer'')
      then Inr (case m of JNum x \<Rightarrow> JNum (num_ceil x) | _ \<Rightarrow> JNum (Fin 0))
      else if first_is types (js ''number'')
      then Inr (case m of JNum x \<Rightarrow> JNum x | _ \<Rightarrow> JNum (Fin 0))
      else if first_is types (js ''boolean'') then Inr (JBool False)
      else if first_is types (js ''string'')
      then ebind (to_str (jget_opt schema (js ''format'')))
             (\<lambda>f. Inr (coalesce (own FORMAT_EXAMPLES f) (JStr (js ''string''))))
      else Inr JUndef)"

function exampleFromSchema :: "nat \<Rightarrow> jval \<Rightarrow> jval \<Rightarrow> ExampleMode \<Rightarrow> oid list \<Rightarrow> jval jsr" where
  "exampleFromSchema n spec raw mode path =
     (if \<not> truthy raw \<or> MAX_DEPTH \<le> length path then Inr JUndef
      else ebind (resolveRef spec raw) (\<lambda>schema.
        if \<not> is_object schema \<or> on_path schema path then Inr JUndef
        else case given_example spec schema of Some r \<Rightarrow> r
        | None \<Rightarrow>
          let path' = identity schema # path;
              variants = coalesce (jget_opt schema (js ''oneOf'')) (jget_opt schema (js ''anyOf''));
              types = plain_types schema
          in if is_array (jget_opt schema (js ''allOf''))
             then ebind (mergeAllOf n spec schema) (\<lambda>m. exampleFromSchema n spec m mode path')
             else case variants of JArr _ (v # vs) \<Rightarrow> exampleFromSchema n spec v mode path'
             | _ \<Rightarrow>
             if first_is types (js ''object'')
             then ebind (entries (coalesce (jget_opt schema (js ''properties'')) (JObj Fresh []))) (\<lambda>ps.
                  ebind (efold (\<lambda>(key, prop) out.
                     ebind (resolveRef spec prop) (\<lambda>p.
                       if hidden mode p then Inr out
                       else ebind (exampleFromSchema n spec prop mode path') (\<lambda>v.
                         Inr (if v = JUndef then out else obj_set key v out)))) ps [])
                    (\<lambda>out. Inr (JObj Fresh out)))
             else if first_is types (js ''array'')
             then ebind (exampleFromSchema n spec
                           (coalesce (jget_opt schema (js ''items'')) (JObj Fresh [])) mode path')
                    (\<lambda>item. Inr (JArr Fresh (if item = JUndef then [] else [item])))
             else scalar_example schema types))"
  by pat_completeness auto
termination
  by (relation "measure (\<lambda>(n, spec, raw, mode, path). MAX_DEPTH - length path)") auto

declare exampleFromSchema.simps [simp del]

subsection \<open>Errors, and the properties an example leaves out\<close>

lemma exampleValue_errors: "exampleValue spec v = Inl e \<Longrightarrow> e = URIError"
  by (auto simp: exampleValue_def ebind_Inl_iff dest: resolveRef_errors split: if_splits)

lemma given_example_errors: "given_example spec schema = Some (Inl e) \<Longrightarrow> e = URIError"
  by (auto simp: given_example_def Let_def exampleValue_errors
      split: if_splits jval.splits list.splits option.splits)

lemma scalar_example_errors: "scalar_example schema types = Inl e \<Longrightarrow> e = TypeError"
  by (auto simp: scalar_example_def Let_def ebind_Inl_iff split: if_splits jval.splits dest: to_str_errors)

text \<open>The body of the function once the schema is resolved, and what its recursive calls are.\<close>

definition example_step ::
  "nat \<Rightarrow> jval \<Rightarrow> ExampleMode \<Rightarrow> (jval \<Rightarrow> jval jsr) \<Rightarrow> jval \<Rightarrow> jval jsr" where
  "example_step n spec mode rec schema =
     (if is_array (jget_opt schema (js ''allOf'')) then ebind (mergeAllOf n spec schema) rec
      else case coalesce (jget_opt schema (js ''oneOf'')) (jget_opt schema (js ''anyOf'')) of
        JArr _ (v # vs) \<Rightarrow> rec v
      | _ \<Rightarrow>
        if first_is (plain_types schema) (js ''object'')
        then ebind (entries (coalesce (jget_opt schema (js ''properties'')) (JObj Fresh []))) (\<lambda>ps.
             ebind (efold (\<lambda>(key, prop) out. ebind (resolveRef spec prop) (\<lambda>p.
                  if hidden mode p then Inr out
                  else ebind (rec prop) (\<lambda>v. Inr (if v = JUndef then out else obj_set key v out)))) ps [])
               (\<lambda>out. Inr (JObj Fresh out)))
        else if first_is (plain_types schema) (js ''array'')
        then ebind (rec (coalesce (jget_opt schema (js ''items'')) (JObj Fresh [])))
               (\<lambda>item. Inr (JArr Fresh (if item = JUndef then [] else [item])))
        else scalar_example schema (plain_types schema))"

lemma exampleFromSchema_unfold:
  assumes "truthy raw" "length path < MAX_DEPTH" "resolveRef spec raw = Inr schema"
    "is_object schema" "\<not> on_path schema path" "given_example spec schema = None"
  shows "exampleFromSchema n spec raw mode path =
    example_step n spec mode (\<lambda>v. exampleFromSchema n spec v mode (identity schema # path)) schema"
  using assms by (subst exampleFromSchema.simps) (simp add: example_step_def Let_def)

lemma example_shapes [case_names guard given step]:
  fixes spec raw :: jval and path :: "oid list"
  obtains (guard) "\<And>n mode. exampleFromSchema n spec raw mode path = Inr JUndef
      \<or> (\<exists>e. resolveRef spec raw = Inl e \<and> exampleFromSchema n spec raw mode path = Inl e)"
  | (given) schema r where "resolveRef spec raw = Inr schema" "given_example spec schema = Some r"
      "\<And>n mode. exampleFromSchema n spec raw mode path = r"
  | (step) schema where "truthy raw" "length path < MAX_DEPTH" "resolveRef spec raw = Inr schema"
    "is_object schema" "\<not> on_path schema path" "given_example spec schema = None"
proof (cases "truthy raw \<and> length path < MAX_DEPTH")
  case True
  show ?thesis
  proof (cases "resolveRef spec raw")
    case (Inl e)
    then show ?thesis using True that(1) by (simp add: exampleFromSchema.simps [of _ spec raw _ path])
  next
    case (Inr schema)
    show ?thesis
    proof (cases "is_object schema \<and> \<not> on_path schema path")
      case ok: True
      show ?thesis
      proof (cases "given_example spec schema")
        case None
        with True ok Inr show ?thesis using that(3) by blast
      next
        case (Some r)
        with True ok Inr show ?thesis
          using that(2) by (simp add: exampleFromSchema.simps [of _ spec raw _ path])
      qed
    qed (use True Inr that(1) in \<open>auto simp: exampleFromSchema.simps [of _ spec raw _ path]\<close>)
  qed
next
  case False
  then have "exampleFromSchema n spec raw mode path = Inr JUndef" for n mode
    by (subst exampleFromSchema.simps) auto
  then show ?thesis using that(1) by blast
qed

text \<open>A value with no \<open>allOf\<close> in any of its parts, and the values the code reaches from it.\<close>

definition no_allOf :: "jval \<Rightarrow> bool" where
  "no_allOf v = (\<forall>w\<in>set (subvals v). \<not> is_array (jget_opt w (js ''allOf'')))"

lemma no_allOf_leaf: "v \<in> {JUndef, JNull, JFun k, JObj Fresh []} \<or> (\<exists>n. v = JNum n) \<or> (\<exists>s. v = JStr s) \<Longrightarrow> no_allOf v"
  by (auto simp: no_allOf_def jget_opt_def own_def inherited_def proto_key_def split: option.splits if_splits)

lemma no_allOf_str [simp]: "no_allOf (JStr s)"
  by (intro no_allOf_leaf) simp

lemma no_allOf_part: "no_allOf v \<Longrightarrow> w \<in> set (subvals v) \<Longrightarrow> no_allOf w"
  by (auto simp: no_allOf_def dest: subvals_trans)

lemma no_allOf_get: "no_allOf v \<Longrightarrow> is_object v \<Longrightarrow> no_allOf (jget_opt v k)"
  using jget_opt_cases [of v k] no_allOf_leaf no_allOf_part by blast

lemma no_allOf_walk: "no_allOf v \<Longrightarrow> no_allOf (pointer_walk v ps)"
  by (induction v ps rule: pointer_walk.induct) (auto simp: no_allOf_get no_allOf_leaf)

lemma no_allOf_resolve:
  assumes "no_allOf spec" "no_allOf v" "resolveRef spec v = Inr w"
  shows "no_allOf w"
proof -
  from assms(3) obtain rs where "ref_path spec v rs w" by (auto simp: resolveRef_iff)
  then show ?thesis using assms(2)
  proof (induction rs arbitrary: v)
    case (Cons r rs)
    then obtain t where t: "lookupPointer spec r = Inr t" "ref_path spec t rs w" by (auto split: sum.splits)
    then have "no_allOf t"
      using no_allOf_walk [OF assms(1)] no_allOf_leaf [of JUndef]
      by (auto simp: lookupPointer_def ebind_Inr_iff split: if_splits)
    with Cons.IH t(2) show ?case by blast
  qed simp
qed

lemma no_allOf_entries: "no_allOf v \<Longrightarrow> entries v = Inr ps \<Longrightarrow> (k, w) \<in> set ps \<Longrightarrow> no_allOf w"
proof (cases v)
  case (JObj i fs)
  assume "no_allOf v" "entries v = Inr ps" "(k, w) \<in> set ps"
  moreover from this JObj have "w \<in> set (subvals v)" by (auto intro!: bexI [of _ "(k, w)"])
  ultimately show ?thesis using no_allOf_part by blast
next
  case (JArr i xs)
  assume "no_allOf v" "entries v = Inr ps" "(k, w) \<in> set ps"
  moreover from this JArr have "w \<in> set (subvals v)" by (auto dest!: set_zip_rightD intro!: bexI [of _ w])
  ultimately show ?thesis using no_allOf_part by blast
qed (auto dest!: set_zip_rightD)

lemma example_step_ok:
  assumes rec: "\<And>v. no_allOf v \<Longrightarrow> rec v \<noteq> Inl RangeError" and schema: "no_allOf schema" "is_object schema"
  shows "example_step n spec mode rec schema \<noteq> Inl RangeError"
proof -
  have get: "no_allOf (jget_opt schema k)" for k using schema by (rule no_allOf_get)
  have coal: "no_allOf (coalesce (jget_opt schema k) (JObj Fresh []))" for k
    using get no_allOf_leaf by (simp add: coalesce_def)
  have var: "no_allOf v" if "coalesce (jget_opt schema k) (jget_opt schema l) = JArr i (v # vs)" for k l i v vs
  proof -
    have "no_allOf (JArr i (v # vs))" using get that by (metis coalesce_def)
    then show ?thesis by (rule no_allOf_part) simp
  qed
  have "efold (\<lambda>(key, prop) out. ebind (resolveRef spec prop) (\<lambda>p.
      if hidden mode p then Inr out
      else ebind (rec prop) (\<lambda>v. Inr (if v = JUndef then out else obj_set key v out)))) ps s \<noteq> Inl RangeError"
    if "entries (coalesce (jget_opt schema (js ''properties'')) (JObj Fresh [])) = Inr ps" for ps s
    using no_allOf_entries [OF coal that] rec
    by (auto simp: ebind_Inl_iff dest!: efold_InlD dest: resolveRef_errors split: if_splits)
  moreover have "\<not> is_array (jget_opt schema (js ''allOf''))" using schema(1) by (simp add: no_allOf_def)
  ultimately show ?thesis
    unfolding example_step_def
    by (auto simp: ebind_Inl_iff rec [OF coal] rec [OF var] dest: entries_errors scalar_example_errors
        split: jval.splits list.splits)
qed

lemma example_no_overflow:
  assumes "no_allOf spec" "no_allOf raw"
  shows "exampleFromSchema n spec raw mode path \<noteq> Inl RangeError"
  using assms(2)
proof (induction "MAX_DEPTH - length path" arbitrary: raw path rule: less_induct)
  case less
  show ?case
  proof (cases spec raw path rule: example_shapes)
    case guard
    then show ?thesis by (metis jserr.distinct(5) resolveRef_errors sum.inject(1) sum.distinct(1))
  next
    case (given schema r)
    then show ?thesis using given_example_errors [of spec schema RangeError] by auto
  next
    case (step schema)
    have "exampleFromSchema n spec v mode (identity schema # path) \<noteq> Inl RangeError" if "no_allOf v" for v
      using step(2) that by (intro less) simp_all
    moreover have "no_allOf schema" using no_allOf_resolve assms(1) less.prems step(3) by blast
    ultimately show ?thesis
      unfolding exampleFromSchema_unfold [OF step] using step(4) by (intro example_step_ok)
  qed
qed

lemma example_hides:
  assumes step: "truthy raw" "length path < MAX_DEPTH" "resolveRef spec raw = Inr schema"
    "is_object schema" "\<not> on_path schema path" "given_example spec schema = None"
    and obj: "\<not> is_array (jget_opt schema (js ''allOf''))"
      "\<not> is_array (coalesce (jget_opt schema (js ''oneOf'')) (jget_opt schema (js ''anyOf'')))"
      "first_is (plain_types schema) (js ''object'')"
    and res: "exampleFromSchema n spec raw mode path = Inr v"
  shows "\<exists>out ps. v = JObj Fresh out \<and> entries (coalesce (jget_opt schema (js ''properties'')) (JObj Fresh [])) = Inr ps \<and>
    (\<forall>k\<in>set (map fst out). \<exists>prop p. (k, prop) \<in> set ps \<and> resolveRef spec prop = Inr p \<and> \<not> hidden mode p)"
proof -
  let ?rec = "\<lambda>v. exampleFromSchema n spec v mode (identity schema # path)"
  let ?f = "\<lambda>(key, prop) out. ebind (resolveRef spec prop) (\<lambda>p.
      if hidden mode p then Inr out
      else ebind (?rec prop) (\<lambda>v. Inr (if v = JUndef then out else obj_set key v out)))"
  have "example_step n spec mode ?rec schema = Inr v"
    using res exampleFromSchema_unfold [OF step] by simp
  then obtain ps out where ps: "entries (coalesce (jget_opt schema (js ''properties'')) (JObj Fresh [])) = Inr ps"
    and out: "efold ?f ps [] = Inr out" and v: "v = JObj Fresh out"
    using obj by (auto simp: example_step_def ebind_Inr_iff split: jval.splits list.splits)
  let ?P = "\<lambda>out. \<forall>k\<in>set (map fst out). \<exists>prop p. (k, prop) \<in> set ps \<and> resolveRef spec prop = Inr p \<and> \<not> hidden mode p"
  have "?P out"
  proof (rule efold_invariant [OF out])
    fix x u w assume x: "x \<in> set ps" and u: "?P u" and w: "?f x u = Inr w"
    obtain key pv where kp: "x = (key, pv)" by (cases x)
    from w kp obtain p where p: "resolveRef spec pv = Inr p" by (auto simp: ebind_Inr_iff)
    show "?P w"
    proof (cases "hidden mode p")
      case True
      with w kp p u show ?thesis by simp
    next
      case False
      with w kp p have "w = u \<or> (\<exists>y. w = obj_set key y u)" by (auto simp: ebind_Inr_iff split: if_splits)
      then have "set (map fst w) \<subseteq> insert key (set (map fst u))"
        using obj_set_keys_le [of key _ u] by auto
      then show ?thesis using u x kp p False by blast
    qed
  qed simp
  with ps v show ?thesis by blast
qed

section \<open>Example text\<close>

definition stringifyExample :: "jval \<Rightarrow> jstr option" where
  "stringifyExample v = (case v of JUndef \<Rightarrow> Some [] | JStr s \<Rightarrow> Some s | _ \<Rightarrow> stringify2 v)"

definition exampleText :: "jval \<Rightarrow> jstr option" where
  "exampleText v = (if nullish v then Some [] else case v of JStr s \<Rightarrow> Some s | _ \<Rightarrow> stringify v)"

section \<open>Properties\<close>

lemma example_allOf_fails:
  assumes "truthy raw" "length path < MAX_DEPTH" "resolveRef spec raw = Inr schema"
    "is_object schema" "\<not> on_path schema path" "given_example spec schema = None"
    and "is_array (jget_opt schema (js ''allOf''))" "mergeAllOf n spec schema = Inl e"
  shows "exampleFromSchema n spec raw mode path = Inl e"
  unfolding exampleFromSchema_unfold [OF assms(1-6)] using assms(7,8) by (simp add: example_step_def)

definition ref_to :: "nat \<Rightarrow> string \<Rightarrow> jval" where
  "ref_to i r = JObj (Loc i) [(ref_key, JStr (js r))]"

definition list_schema :: jval where
  "list_schema = JObj (Loc 1) [(js ''type'', JStr (js ''array'')), (js ''items'', ref_to 2 ''#/B'')]"

definition json_schema_array :: jval where
  "json_schema_array = JObj (Loc 4) [(js ''type'', JStr (js ''array'')), (js ''items'', ref_to 5 ''#/Json'')]"

definition json_schema :: jval where
  "json_schema = JObj (Loc 6) [(js ''oneOf'', JArr (Loc 7)
     [JObj (Loc 8) [(js ''type'', JStr (js ''string''))], json_schema_array])]"

definition self_allOf :: jval where
  "self_allOf = JObj (Loc 9) [(js ''allOf'', JArr (Loc 10) [ref_to 11 ''#/Loop''])]"

definition user_schema :: jval where
  "user_schema = JObj (Loc 12) [(js ''type'', JStr (js ''object'')),
     (js ''properties'', JObj (Loc 13)
        [(js ''id'', JObj (Loc 14) [(js ''type'', JStr (js ''integer'')), (js ''readOnly'', JBool True)]),
         (js ''name'', JObj (Loc 15) [(js ''type'', JStr (js ''string''))])])]"

definition both_schema :: jval where
  "both_schema = JObj (Loc 16) [(js ''allOf'', JArr (Loc 17) [ref_to 18 ''#/User''])]"

definition schema_doc :: jval where
  "schema_doc = JObj (Loc 0)
     [(js ''A'', list_schema), (js ''B'', JObj (Loc 3) [(js ''type'', JStr (js ''string''))]),
      (js ''Json'', json_schema), (js ''Loop'', self_allOf), (js ''User'', user_schema), (js ''Both'', both_schema)]"

text \<open>A label returns when the schema is not recursive: if a set of schemas holds every variant and
  every item schema of its members at a lower rank, a call stack of one more than the rank of
  \<open>raw\<close> is enough, and \<open>typeLabel\<close> does not overflow.\<close>

theorem typeLabel_needs_rank_stack:
  assumes "\<And>v w. v \<in> S \<Longrightarrow> label_next spec v w \<Longrightarrow> w \<in> S \<and> rank w < rank v" "raw \<in> S"
  shows "typeLabel (Suc (rank raw)) spec raw \<noteq> Inl RangeError"
  using assms by (rule typeLabel_returns)

theorem typeLabel_needs_rank_stack_witness:
  "typeLabel 2 schema_doc list_schema \<noteq> Inl RangeError \<and> typeLabel 2 schema_doc list_schema = Inr (js ''array<string>'')"
proof
  have r: "resolveRef schema_doc list_schema = Inr list_schema"
    "resolveRef schema_doc (ref_to 2 ''#/B'') = Inr (JObj (Loc 3) [(js ''type'', JStr (js ''string''))])"
    by code_simp+
  let ?rank = "\<lambda>v. if v = list_schema then 1 else (0::nat)"
  have "typeLabel (Suc (?rank list_schema)) schema_doc list_schema \<noteq> Inl RangeError"
  proof (rule typeLabel_needs_rank_stack [where S = "{list_schema, ref_to 2 ''#/B''}" and rank = ?rank and raw = list_schema])
    fix v w assume "v \<in> {list_schema, ref_to 2 ''#/B''}" and n: "label_next schema_doc v w"
    moreover have "\<not> label_next schema_doc (ref_to 2 ''#/B'') w"
      by (auto simp: label_next_iff r, code_simp+)
    ultimately have v: "v = list_schema" by auto
    have "\<not> is_array (jget_opt list_schema (js ''oneOf''))" "\<not> is_array (jget_opt list_schema (js ''anyOf''))"
      "jget_opt list_schema (js ''items'') = ref_to 2 ''#/B''" "ref_to 2 ''#/B'' \<noteq> list_schema"
      by code_simp+
    with n show "w \<in> {list_schema, ref_to 2 ''#/B''} \<and> ?rank w < ?rank v"
      by (auto simp: v label_next_iff r)
  qed simp
  then show "typeLabel 2 schema_doc list_schema \<noteq> Inl RangeError" by (simp add: numeral_2_eq_2)
  show "typeLabel 2 schema_doc list_schema = Inr (js ''array<string>'')" by code_simp
qed

text \<open>A label of a recursive schema never returns: in a set of schemas each of which has a variant or
  an item schema in the set, \<open>typeLabel\<close> fails at every stack depth. The usual schema of any JSON
  value (a string, or an array of JSON values) is one.\<close>

theorem typeLabel_recursive_overflows:
  assumes "\<forall>v\<in>S. \<exists>w\<in>S. label_next spec v w" "v \<in> S"
  shows "\<exists>e. typeLabel n spec v = Inl e"
  using assms by (rule typeLabel_overflows)

theorem typeLabel_recursive_overflows_witness:
  "\<forall>n. \<exists>e. typeLabel n schema_doc (ref_to 5 ''#/Json'') = Inl e"
proof
  fix n
  have r: "resolveRef schema_doc (ref_to 5 ''#/Json'') = Inr json_schema"
    "resolveRef schema_doc json_schema_array = Inr json_schema_array" by code_simp+
  have "coalesce (jget_opt json_schema (js ''oneOf'')) (jget_opt json_schema (js ''anyOf'')) =
      JArr (Loc 7) [JObj (Loc 8) [(js ''type'', JStr (js ''string''))], json_schema_array]" by code_simp
  then have a: "label_next schema_doc (ref_to 5 ''#/Json'') json_schema_array"
    by (intro variant [OF _ r(1)]) (simp_all, code_simp+)
  have i: "jget_opt json_schema_array (js ''items'') = ref_to 5 ''#/Json''" by code_simp
  have "label_next schema_doc json_schema_array (jget_opt json_schema_array (js ''items''))"
    by (rule items [OF _ r(2)]; code_simp)
  then have b: "label_next schema_doc json_schema_array (ref_to 5 ''#/Json'')" by (simp add: i)
  show "\<exists>e. typeLabel n schema_doc (ref_to 5 ''#/Json'') = Inl e"
    by (rule typeLabel_recursive_overflows [where S = "{ref_to 5 ''#/Json'', json_schema_array}"])
      (use a b in auto)
qed

text \<open>Building an example fails on a schema that reaches itself through \<open>allOf\<close>: when each schema of a
  set has an \<open>allOf\<close> member in the set, \<open>exampleFromSchema\<close> throws for it at every stack depth,
  although its path check stops every other kind of recursion.\<close>

theorem example_allOf_recursion_fails:
  assumes "\<forall>v\<in>S. \<exists>w\<in>S. merge_next spec v w" "schema \<in> S"
    and "truthy raw" "resolveRef spec raw = Inr schema" "is_object schema"
    and "given_example spec schema = None" "is_array (jget_opt schema (js ''allOf''))"
  shows "\<exists>e. exampleFromSchema n spec raw mode [] = Inl e"
proof -
  from mergeAllOf_overflows [OF assms(1,2)] obtain e where "mergeAllOf n spec schema = Inl e" by blast
  with assms(3-7) have "exampleFromSchema n spec raw mode [] = Inl e"
    by (intro example_allOf_fails) (simp_all add: MAX_DEPTH_def on_path_def)
  then show ?thesis ..
qed

theorem example_allOf_recursion_fails_witness:
  "\<forall>n. \<exists>e. exampleFromSchema n schema_doc (ref_to 11 ''#/Loop'') Request [] = Inl e"
proof
  fix n
  have r: "resolveRef schema_doc (ref_to 11 ''#/Loop'') = Inr self_allOf" "resolveRef schema_doc self_allOf = Inr self_allOf"
    by code_simp+
  have p: "jget_opt self_allOf (js ''allOf'') = JArr (Loc 10) [ref_to 11 ''#/Loop'']" by code_simp
  have "merge_next schema_doc (ref_to 11 ''#/Loop'') (ref_to 11 ''#/Loop'')"
    "merge_next schema_doc self_allOf (ref_to 11 ''#/Loop'')"
    by (rule member [OF _ p]; simp add: r)+
  then show "\<exists>e. exampleFromSchema n schema_doc (ref_to 11 ''#/Loop'') Request [] = Inl e"
    by (intro example_allOf_recursion_fails [where S = "{ref_to 11 ''#/Loop'', self_allOf}", OF _ _ _ r(1)])
      (simp, simp, code_simp+)
qed

text \<open>Apart from that, recursive schemas do not overflow: in a document without \<open>allOf\<close>, \<open>exampleFromSchema\<close>
  never runs out of stack, whatever refers to whatever; it returns, or throws a URIError or
  TypeError the document causes.\<close>

theorem example_recursion_is_bounded:
  assumes "no_allOf spec" "no_allOf raw"
  shows "exampleFromSchema n spec raw mode path \<noteq> Inl RangeError"
  using assms by (rule example_no_overflow)

definition node_doc :: jval where
  "node_doc = JObj (Loc 0) [(js ''Node'', JObj (Loc 1) [(js ''type'', JStr (js ''object'')),
     (js ''properties'', JObj (Loc 2) [(js ''id'', JObj (Loc 3) [(js ''type'', JStr (js ''integer''))]),
        (js ''next'', ref_to 4 ''#/Node'')])])]"

theorem example_recursion_is_bounded_witness:
  "exampleFromSchema 0 node_doc (ref_to 5 ''#/Node'') Request [] \<noteq> Inl RangeError \<and>
   exampleFromSchema 0 node_doc (ref_to 5 ''#/Node'') Request [] = Inr (JObj Fresh [(js ''id'', JNum (Fin 0))])"
proof
  have "no_allOf node_doc" "no_allOf (ref_to 5 ''#/Node'')" by (unfold no_allOf_def; code_simp)+
  then show "exampleFromSchema 0 node_doc (ref_to 5 ''#/Node'') Request [] \<noteq> Inl RangeError"
    by (rule example_recursion_is_bounded)
  show "exampleFromSchema 0 node_doc (ref_to 5 ''#/Node'') Request [] = Inr (JObj Fresh [(js ''id'', JNum (Fin 0))])"
    by code_simp
qed

text \<open>A request example leaves out every read-only property and a response example every write-only
  one: each key of an example built from an object schema is a property that is not hidden in
  the mode.\<close>

theorem example_hides_properties:
  assumes "truthy raw" "length path < MAX_DEPTH" "resolveRef spec raw = Inr schema"
    and "is_object schema" "\<not> on_path schema path" "given_example spec schema = None"
    and "\<not> is_array (jget_opt schema (js ''allOf''))"
    and "\<not> is_array (coalesce (jget_opt schema (js ''oneOf'')) (jget_opt schema (js ''anyOf'')))"
    and "first_is (plain_types schema) (js ''object'')"
    and "exampleFromSchema n spec raw mode path = Inr v"
  shows "\<exists>out ps. v = JObj Fresh out \<and>
    entries (coalesce (jget_opt schema (js ''properties'')) (JObj Fresh [])) = Inr ps \<and>
    (\<forall>k\<in>set (map fst out). \<exists>prop p. (k, prop) \<in> set ps \<and> resolveRef spec prop = Inr p \<and> \<not> hidden mode p)"
  using assms by (rule example_hides)

theorem example_hides_properties_witness:
  "\<exists>out ps. JObj Fresh [(js ''name'', JStr (js ''string''))] = JObj Fresh out \<and>
    entries (coalesce (jget_opt user_schema (js ''properties'')) (JObj Fresh [])) = Inr ps \<and>
    (\<forall>k\<in>set (map fst out). \<exists>prop p. (k, prop) \<in> set ps \<and> resolveRef schema_doc prop = Inr p \<and> \<not> hidden Request p)"
  by (rule example_hides_properties [where n = 0 and raw = user_schema and path = "[]"]; code_simp)

text \<open>C31: the merge of an \<open>allOf\<close> schema keeps every property and every required name of every member.\<close>

theorem mergeAllOf_keeps_members:
  assumes "resolveRef spec raw = Inr schema" "jget_opt schema (js ''allOf'') = JArr i parts"
    and "mergeAllOf (Suc n) spec raw = Inr m" "part \<in> set parts"
  shows "\<exists>p props req mprops mreq. mergeAllOf n spec part = Inr p \<and>
    jget p (js ''properties'') = Inr props \<and> required_of p = Inr req \<and>
    jget m (js ''properties'') = Inr (JObj Fresh mprops) \<and> jget m (js ''required'') = Inr (JArr Fresh mreq) \<and>
    fst ` set (spread_fields props) - {proto_key} \<subseteq> fst ` set mprops \<and> set req \<subseteq> set mreq"
  using assms by (rule mergeAllOf_covers)

theorem mergeAllOf_keeps_members_witness:
  "\<exists>m mprops. mergeAllOf 2 schema_doc both_schema = Inr m \<and> jget m (js ''properties'') = Inr (JObj Fresh mprops) \<and>
    {js ''id'', js ''name''} \<subseteq> fst ` set mprops"
proof -
  have r: "resolveRef schema_doc both_schema = Inr both_schema"
    and a: "jget_opt both_schema (js ''allOf'') = JArr (Loc 17) [ref_to 18 ''#/User'']"
    and u: "mergeAllOf 1 schema_doc (ref_to 18 ''#/User'') = Inr user_schema"
    by code_simp+
  have "case mergeAllOf (Suc 1) schema_doc both_schema of Inl e \<Rightarrow> False | Inr m \<Rightarrow> True" by code_simp
  then obtain m where m: "mergeAllOf (Suc 1) schema_doc both_schema = Inr m" by (auto split: sum.splits)
  have "fst ` set (spread_fields (jget_opt user_schema (js ''properties''))) - {proto_key} = {js ''id'', js ''name''}"
    by code_simp
  moreover have "jget user_schema (js ''properties'') = Inr (jget_opt user_schema (js ''properties''))" by code_simp
  ultimately show ?thesis
    using mergeAllOf_keeps_members [OF r a m, of "ref_to 18 ''#/User''"] u m by (auto simp: numeral_2_eq_2)
qed

end
