(* ===== verification/Js_Locale.thy ===== *)
theory Js_Locale
  imports Js_Strings
begin

text \<open>
  Operations whose result depends on the browser's Unicode and locale data. The code sorts with
  \<open>localeCompare\<close>; what it relies on is that the result is a consistent comparator, which the
  locale \<open>comparator\<close> of the prelude states and every theorem about a sort assumes. The
  comparison by code units, which \<open>sort\<close> without a comparator uses, is one of them.
\<close>

fun unit_cmp :: "jstr \<Rightarrow> jstr \<Rightarrow> int" where
  "unit_cmp [] [] = 0"
| "unit_cmp [] (b # y) = - 1"
| "unit_cmp (a # x) [] = 1"
| "unit_cmp (a # x) (b # y) = (if a < b then - 1 else if b < a then 1 else unit_cmp x y)"

lemma unit_cmp_swap: "unit_cmp x y = - unit_cmp y x"
  by (induction x y rule: unit_cmp.induct) auto

lemma unit_cmp_eq: "unit_cmp x y = 0 \<longleftrightarrow> x = y"
  by (induction x y rule: unit_cmp.induct) auto

lemma unit_cmp_trans: "unit_cmp x y \<le> 0 \<Longrightarrow> unit_cmp y z \<le> 0 \<Longrightarrow> unit_cmp x z \<le> 0"
proof (induction x y arbitrary: z rule: unit_cmp.induct)
  case (4 a x b y)
  then show ?case by (cases z) (auto split: if_splits)
next
  case (1 z)
  then show ?case by simp
next
  case (2 b y z)
  then show ?case by (cases z) auto
next
  case (3 a x z)
  then show ?case by simp
qed

interpretation unit_order: comparator unit_cmp
proof
  show "unit_cmp x y \<le> 0 \<longleftrightarrow> 0 \<le> unit_cmp y x" for x y using unit_cmp_swap [of x y] by linarith
qed (rule unit_cmp_trans)

end
