(* ===== verification/Spec_Normalize.thy ===== *)
theory Spec_Normalize
  imports Spec_Schema Js_Locale
begin

text \<open>
  \<open>lib/openapi/types.ts\<close> and \<open>lib/openapi/normalize.ts\<close>: one operation model for OpenAPI 2.0, 3.0
  and 3.1 documents. Every place of the code that can throw on a malformed document is an
  \<open>Inl\<close>. \<open>localeCompare\<close> is the parameter \<open>lc\<close>: the order depends on the browser's locale.
\<close>

section \<open>The operation model\<close>

datatype ParameterLocation = PathParam | QueryParam | HeaderParam | CookieParam

record Parameter =
  p_name :: jstr
  p_in :: ParameterLocation
  p_required :: bool
  p_deprecated :: bool
  p_description :: jstr
  p_schema :: jval
  p_example :: jval

record NamedExample =
  x_name :: jstr
  x_summary :: "jstr option"
  x_value :: jval

text \<open>A content type is a string in a well-formed document; 2.0 documents list them unchecked.\<close>

record MediaType =
  m_contentType :: jval
  m_schema :: jval
  m_example :: jval
  m_examples :: "NamedExample list"

record RequestBody =
  b_required :: bool
  b_description :: jstr
  b_content :: "MediaType list"

record HeaderDoc =
  h_name :: jstr
  h_description :: jstr
  h_schema :: jval

record Response =
  r_status :: jstr
  r_description :: jstr
  r_content :: "MediaType list"
  r_headers :: "HeaderDoc list"

record SecurityScheme =
  s_key :: jstr
  s_type :: jstr
  s_name :: "jstr option"
  s_in :: "jstr option"
  s_scheme :: "jstr option"
  s_description :: "jstr option"

record Operation =
  o_key :: jstr
  o_method :: jstr
  o_path :: jstr
  o_operationId :: "jstr option"
  o_summary :: jstr
  o_description :: jstr
  o_tags :: "jstr list"
  o_deprecated :: bool
  o_parameters :: "Parameter list"
  o_requestBody :: "RequestBody option"
  o_responses :: "Response list"
  o_security :: "SecurityScheme list list"

record TagDoc =
  t_name :: jstr
  t_description :: jstr

record NormalizedSpec =
  n_openapi :: jstr
  n_title :: jstr
  n_version :: jstr
  n_description :: jstr
  n_tags :: "TagDoc list"
  n_operations :: "Operation list"
  n_raw :: jval

section \<open>Guards\<close>

definition METHODS :: "jstr list" where
  "METHODS = map js [''get'', ''put'', ''post'', ''delete'', ''options'', ''head'', ''patch'', ''trace'']"

definition location_name :: "ParameterLocation \<Rightarrow> jstr" where
  "location_name l = (case l of PathParam \<Rightarrow> js ''path'' | QueryParam \<Rightarrow> js ''query''
     | HeaderParam \<Rightarrow> js ''header'' | CookieParam \<Rightarrow> js ''cookie'')"

definition LOCATIONS :: "ParameterLocation list" where
  "LOCATIONS = [PathParam, QueryParam, HeaderParam, CookieParam]"

text \<open>\<open>LOCATIONS.includes(v)\<close>, as the location found.\<close>

definition location_of :: "jval \<Rightarrow> ParameterLocation option" where
  "location_of v = find (\<lambda>l. v = JStr (location_name l)) LOCATIONS"

fun asArray :: "jval \<Rightarrow> jval list" where
  "asArray (JArr _ xs) = xs"
| "asArray _ = []"

fun asObject :: "jval \<Rightarrow> jval" where
  "asObject (JObj i fs) = JObj i fs"
| "asObject _ = JObj Fresh []"

fun text_of :: "jval \<Rightarrow> jstr" where
  "text_of (JStr s) = s"
| "text_of _ = []"

text \<open>\<open>text(v) || undefined\<close>.\<close>

definition opt_text :: "jval \<Rightarrow> jstr option" where
  "opt_text v = (if text_of v = [] then None else Some (text_of v))"

definition field :: "jval \<Rightarrow> string \<Rightarrow> jval" where
  "field v k = jget_opt v (js k)"

fun obj_entries :: "jval \<Rightarrow> (jstr \<times> jval) list" where
  "obj_entries (JObj _ fs) = fs"
| "obj_entries _ = []"

section \<open>Parameters\<close>

text \<open>Operation parameters override path-level ones with the same location and name.\<close>

definition mergeParameters :: "jval \<Rightarrow> jval list \<Rightarrow> jval list \<Rightarrow> jval list jsr" where
  "mergeParameters spec shared owned =
     ebind (efold (\<lambda>raw out.
        ebind (resolveRef spec raw) (\<lambda>r.
        let p = asObject r in
          if \<not> truthy (field p ''name'') \<or> \<not> truthy (field p ''in'') then Inr out
          else ebind (to_str (field p ''in'')) (\<lambda>i. ebind (to_str (field p ''name'')) (\<lambda>n.
                 Inr (dict_put (i @ js '':'' @ n) p out))))) (shared @ owned) [])
       (\<lambda>out. Inr (map snd out))"

definition toParameter :: "jval \<Rightarrow> jval \<Rightarrow> ParameterLocation \<Rightarrow> bool \<Rightarrow> Parameter jsr" where
  "toParameter spec p loc swagger2 =
     (let schema = (if swagger2
            then JObj Fresh (map (\<lambda>k. (js k, field p k))
              [''type'', ''format'', ''enum'', ''items'', ''default'', ''minimum'', ''maximum''])
            else field p ''schema'');
          ex = coalesce (field p ''example'') (field p ''x-example'')
      in ebind (if ex = JUndef \<and> is_object (field p ''examples'')
                then ebind (entries (field p ''examples''))
                  (\<lambda>es. ebind (resolveRef spec (case es of [] \<Rightarrow> JUndef | (k, v) # _ \<Rightarrow> v))
                    (\<lambda>r. Inr (field (asObject r) ''value'')))
                else Inr ex) (\<lambda>example.
         ebind (to_str (field p ''name'')) (\<lambda>name. Inr
           \<lparr>p_name = name, p_in = loc,
            p_required = (loc = PathParam \<or> field p ''required'' = JBool True),
            p_deprecated = (field p ''deprecated'' = JBool True),
            p_description = text_of (field p ''description''),
            p_schema = schema, p_example = example\<rparr>)))"

text \<open>\<open>allParams.filter(p => LOCATIONS.includes(p.in)).map(...)\<close>.\<close>

definition toParameters :: "jval \<Rightarrow> jval list \<Rightarrow> bool \<Rightarrow> Parameter list jsr" where
  "toParameters spec ps swagger2 =
     emap (\<lambda>(p, l). toParameter spec p l swagger2)
       (concat (map (\<lambda>p. case location_of (field p ''in'') of None \<Rightarrow> [] | Some l \<Rightarrow> [(p, l)]) ps))"

section \<open>Bodies and responses\<close>

definition mediaTypes :: "jval \<Rightarrow> jval \<Rightarrow> MediaType list jsr" where
  "mediaTypes spec content =
     emap (\<lambda>(contentType, raw).
       ebind (resolveRef spec raw) (\<lambda>r. let media = asObject r in
       ebind (emap (\<lambda>(name, ex). ebind (resolveRef spec ex) (\<lambda>e'. let e = asObject e' in
            Inr \<lparr>x_name = name, x_summary = opt_text (field e ''summary''), x_value = field e ''value''\<rparr>))
          (obj_entries (asObject (field media ''examples'')))) (\<lambda>examples.
       Inr \<lparr>m_contentType = JStr contentType, m_schema = field media ''schema'',
            m_example = field media ''example'', m_examples = examples\<rparr>)))
       (obj_entries (asObject content))"

definition openapi3Body :: "jval \<Rightarrow> jval \<Rightarrow> RequestBody option jsr" where
  "openapi3Body spec raw =
     (if \<not> truthy raw then Inr None
      else ebind (resolveRef spec raw) (\<lambda>r. let body = asObject r in
           ebind (mediaTypes spec (field body ''content'')) (\<lambda>content.
             Inr (Some \<lparr>b_required = (field body ''required'' = JBool True),
                        b_description = text_of (field body ''description''), b_content = content\<rparr>))))"

text \<open>\<open>types.length ? Array.from(new Set(types)) : ['application/json']\<close>.\<close>

definition types_or_json :: "jval list \<Rightarrow> jval list" where
  "types_or_json types = (if types = [] then [JStr (js ''application/json'')] else uniq types)"

definition is_file :: "jval \<Rightarrow> bool" where
  "is_file p = (field p ''type'' = JStr (js ''file''))"

definition form_field :: "jval \<Rightarrow> jval" where
  "form_field p = JObj Fresh
     [(js ''type'', if is_file p then JStr (js ''string'') else field p ''type''),
      (js ''format'', if is_file p then JStr (js ''binary'') else field p ''format''),
      (js ''description'', field p ''description'')]"

definition swagger2Body :: "jval list \<Rightarrow> jval list \<Rightarrow> RequestBody option jsr" where
  "swagger2Body params consumes =
     (let form = filter (\<lambda>p. field p ''in'' = JStr (js ''formData'')) params in
      case find (\<lambda>p. field p ''in'' = JStr (js ''body'')) params of
        Some body \<Rightarrow> Inr (Some
          \<lparr>b_required = (field body ''required'' = JBool True),
           b_description = text_of (field body ''description''),
           b_content = map (\<lambda>ct. \<lparr>m_contentType = ct, m_schema = field body ''schema'',
             m_example = field body ''x-example'', m_examples = []\<rparr>) (types_or_json consumes)\<rparr>)
      | None \<Rightarrow>
          if form \<noteq> []
          then ebind (emap (\<lambda>p. ebind (to_str (field p ''name'')) (\<lambda>n. Inr (n, form_field p))) form) (\<lambda>fields.
            let schema = JObj Fresh
                  [(js ''type'', JStr (js ''object'')),
                   (js ''properties'', JObj Fresh (put_all obj_define fields [])),
                   (js ''required'', JArr Fresh
                      (map (\<lambda>p. field p ''name'') (filter (\<lambda>p. truthy (field p ''required'')) form)))];
                ct = (if list_ex is_file form then js ''multipart/form-data''
                      else js ''application/x-www-form-urlencoded'')
            in Inr (Some \<lparr>b_required = list_ex (\<lambda>p. truthy (field p ''required'')) form, b_description = [],
                  b_content = [\<lparr>m_contentType = JStr ct, m_schema = schema, m_example = JUndef, m_examples = []\<rparr>]\<rparr>))
          else Inr None)"

text \<open>\<open>/^([1-5](\d\d|XX)|default)$/i\<close>.\<close>

definition is_status :: "jstr \<Rightarrow> bool" where
  "is_status s = (map lower_unit s = js ''default'' \<or>
     (case s of [a, b, c] \<Rightarrow> 49 \<le> a \<and> a \<le> 53 \<and>
        ((is_digit b \<and> is_digit c) \<or> (lower_unit b = 120 \<and> lower_unit c = 120)) | _ \<Rightarrow> False))"

definition cmp_status :: "(jstr \<Rightarrow> jstr \<Rightarrow> int) \<Rightarrow> Response \<Rightarrow> Response \<Rightarrow> int" where
  "cmp_status lc a b =
     (if r_status a = js ''default'' then 1 else if r_status b = js ''default'' then - 1
      else lc (r_status a) (r_status b))"

definition response_content :: "jval \<Rightarrow> jval \<Rightarrow> bool \<Rightarrow> jval list \<Rightarrow> MediaType list jsr" where
  "response_content spec r swagger2 produces =
     (if \<not> swagger2 then mediaTypes spec (field r ''content'')
      else if \<not> truthy (field r ''schema'') then Inr []
      else emap (\<lambda>ct. ebind (to_str ct) (\<lambda>k. Inr
             \<lparr>m_contentType = ct, m_schema = field r ''schema'',
              m_example = jget_opt (asObject (field r ''examples'')) k, m_examples = []\<rparr>))
             (types_or_json produces))"

definition response_headers :: "jval \<Rightarrow> jval \<Rightarrow> HeaderDoc list jsr" where
  "response_headers spec r =
     emap (\<lambda>(name, h). ebind (resolveRef spec h) (\<lambda>v. let header = asObject v in
        Inr \<lparr>h_name = name, h_description = text_of (field header ''description''),
             h_schema = coalesce (field header ''schema'') header\<rparr>))
       (obj_entries (asObject (field r ''headers'')))"

definition responses :: "(jstr \<Rightarrow> jstr \<Rightarrow> int) \<Rightarrow> jval \<Rightarrow> jval \<Rightarrow> bool \<Rightarrow> jval list \<Rightarrow> Response list jsr" where
  "responses lc spec raw swagger2 produces =
     ebind (emap (\<lambda>(status, v).
         ebind (resolveRef spec v) (\<lambda>r'. let r = asObject r' in
         ebind (response_content spec r swagger2 produces) (\<lambda>content.
         ebind (response_headers spec r) (\<lambda>headers.
         Inr \<lparr>r_status = status, r_description = text_of (field r ''description''),
              r_content = content, r_headers = headers\<rparr>))))
       (filter (\<lambda>(status, v). is_status status) (obj_entries (asObject raw))))
     (\<lambda>rs. Inr (sort_by (cmp_status lc) rs))"

section \<open>Security schemes\<close>

definition securitySchemes :: "jval \<Rightarrow> bool \<Rightarrow> (jstr, SecurityScheme) dict jsr" where
  "securitySchemes spec swagger2 =
     (let defs = (if swagger2 then asObject (field spec ''securityDefinitions'')
                  else asObject (field (asObject (field spec ''components'')) ''securitySchemes''))
      in efold (\<lambda>(key, raw) out. ebind (resolveRef spec raw) (\<lambda>v. let s = asObject v in
           Inr (dict_put key \<lparr>s_key = key, s_type = text_of (field s ''type''),
              s_name = opt_text (field s ''name''), s_in = opt_text (field s ''in''),
              s_scheme = opt_text (field s ''scheme''),
              s_description = opt_text (field s ''description'')\<rparr> out))) (obj_entries defs) [])"

definition required_schemes :: "(jstr, SecurityScheme) dict \<Rightarrow> jval \<Rightarrow> SecurityScheme list" where
  "required_schemes schemes req =
     concat (map (\<lambda>(k, v). case map_of schemes k of None \<Rightarrow> [] | Some s \<Rightarrow> [s]) (obj_entries (asObject req)))"

section \<open>Operations\<close>

text \<open>One turn of the inner loop of \<open>normalizeSpec\<close>, with the key still empty.\<close>

definition normalize_operation ::
  "(jstr \<Rightarrow> jstr \<Rightarrow> int) \<Rightarrow> jval \<Rightarrow> bool \<Rightarrow> (jstr, SecurityScheme) dict \<Rightarrow> jstr \<Rightarrow> jval list \<Rightarrow> jstr \<Rightarrow> jval \<Rightarrow> Operation jsr" where
  "normalize_operation lc spec swagger2 schemes path shared meth op =
     (let consumes = (if swagger2 then asArray (field op ''consumes'') @ asArray (field spec ''consumes'') else []);
          produces = (if swagger2 then asArray (field op ''produces'') @ asArray (field spec ''produces'') else []);
          security = coalesce (field op ''security'') (field spec ''security'')
      in ebind (mergeParameters spec shared (asArray (field op ''parameters''))) (\<lambda>allParams.
         ebind (toParameters spec allParams swagger2) (\<lambda>parameters.
         ebind (if swagger2 then swagger2Body allParams consumes
                else openapi3Body spec (field op ''requestBody'')) (\<lambda>body.
         ebind (responses lc spec (field op ''responses'') swagger2 produces) (\<lambda>rs. Inr
           \<lparr>o_key = [], o_method = map upper_unit meth, o_path = path,
            o_operationId = opt_text (field op ''operationId''),
            o_summary = text_of (field op ''summary''), o_description = text_of (field op ''description''),
            o_tags = strings_of (asArray (field op ''tags'')),
            o_deprecated = (field op ''deprecated'' = JBool True),
            o_parameters = parameters, o_requestBody = body, o_responses = rs,
            o_security = map (required_schemes schemes) (asArray security)\<rparr>)))))"

text \<open>The operations of one path item, in the order of \<open>METHODS\<close>.\<close>

definition normalize_path ::
  "(jstr \<Rightarrow> jstr \<Rightarrow> int) \<Rightarrow> jval \<Rightarrow> bool \<Rightarrow> (jstr, SecurityScheme) dict \<Rightarrow> jstr \<Rightarrow> jval \<Rightarrow> Operation list jsr" where
  "normalize_path lc spec swagger2 schemes path rawItem =
     ebind (resolveRef spec rawItem) (\<lambda>r. let item = asObject r in
       emap (\<lambda>meth. normalize_operation lc spec swagger2 schemes path (asArray (field item ''parameters''))
               meth (jget_opt item meth))
         (filter (\<lambda>meth. is_object (jget_opt item meth)) METHODS))"

definition method_index :: "jstr \<Rightarrow> int" where
  "method_index m =
     (let n = length (takeWhile (\<lambda>x. x \<noteq> map lower_unit m) METHODS)
      in if n < length METHODS then int n else - 1)"

definition cmp_operation :: "(jstr \<Rightarrow> jstr \<Rightarrow> int) \<Rightarrow> Operation \<Rightarrow> Operation \<Rightarrow> int" where
  "cmp_operation lc = cmp_or (\<lambda>a b. lc (o_path a) (o_path b))
     (\<lambda>a b. method_index (o_method a) - method_index (o_method b))"

definition id_counts :: "Operation list \<Rightarrow> (jstr, nat) dict" where
  "id_counts ops = fold (\<lambda>op counts. case o_operationId op of None \<Rightarrow> counts
     | Some i \<Rightarrow> dict_put i ((case map_of counts i of None \<Rightarrow> 0 | Some n \<Rightarrow> n) + 1) counts) ops []"

definition method_path :: "Operation \<Rightarrow> jstr" where
  "method_path op = o_method op @ js '' '' @ o_path op"

text \<open>The operationId when unique, otherwise \<open>METHOD /path\<close>.\<close>

definition assignKeys :: "Operation list \<Rightarrow> Operation list" where
  "assignKeys ops =
     (let counts = id_counts ops in
      map (\<lambda>op. op\<lparr>o_key := (case o_operationId op of
          None \<Rightarrow> method_path op
        | Some i \<Rightarrow> if map_of counts i = Some 1 then i else method_path op)\<rparr>) ops)"

text \<open>\<open>asArray(spec.tags).map(...).filter(t => t.name)\<close>: a null tag makes the property read throw.\<close>

definition tag_docs :: "jval \<Rightarrow> TagDoc list jsr" where
  "tag_docs v =
     ebind (emap (\<lambda>t. ebind (jget t (js ''name'')) (\<lambda>n. ebind (jget t (js ''description'')) (\<lambda>d.
        Inr \<lparr>t_name = text_of n, t_description = text_of d\<rparr>))) (asArray v))
       (\<lambda>ts. Inr (filter (\<lambda>t. t_name t \<noteq> []) ts))"

definition version_text :: "jval \<Rightarrow> jstr" where
  "version_text v = (case v of JNum n \<Rightarrow> num_str n | _ \<Rightarrow> text_of v)"

definition normalizeSpec :: "(jstr \<Rightarrow> jstr \<Rightarrow> int) \<Rightarrow> jval \<Rightarrow> NormalizedSpec jsr" where
  "normalizeSpec lc raw =
     (let spec = asObject raw; swagger2 = is_string (field spec ''swagger''); info = asObject (field spec ''info'')
      in ebind (securitySchemes spec swagger2) (\<lambda>schemes.
         ebind (emap (\<lambda>(path, item). normalize_path lc spec swagger2 schemes path item)
                  (obj_entries (asObject (field spec ''paths'')))) (\<lambda>opss.
         ebind (tag_docs (field spec ''tags'')) (\<lambda>tags. Inr
           \<lparr>n_openapi = (if text_of (field spec ''openapi'') \<noteq> [] then text_of (field spec ''openapi'')
                        else text_of (field spec ''swagger'')),
            n_title = text_of (field info ''title''), n_version = version_text (field info ''version''),
            n_description = text_of (field info ''description''), n_tags = tags,
            n_operations = assignKeys (sort_by (cmp_operation lc) (concat opss)), n_raw = spec\<rparr>))))"

section \<open>Groups by tag\<close>

definition op_tag :: "jstr \<Rightarrow> Operation \<Rightarrow> jstr" where
  "op_tag untagged op = (case o_tags op of [] \<Rightarrow> untagged | t # _ \<Rightarrow> t)"

definition tag_groups :: "jstr \<Rightarrow> Operation list \<Rightarrow> (jstr, Operation list) dict" where
  "tag_groups untagged ops = fold (\<lambda>op groups.
     dict_put (op_tag untagged op)
       ((case map_of groups (op_tag untagged op) of None \<Rightarrow> [] | Some os \<Rightarrow> os) @ [op]) groups) ops []"

text \<open>\<open>order.indexOf(t)\<close>, with \<open>1e9\<close> for a tag the document does not declare.\<close>

definition tag_rank :: "jstr list \<Rightarrow> jstr \<Rightarrow> int" where
  "tag_rank order t =
     (let n = length (takeWhile (\<lambda>x. x \<noteq> t) order) in if n < length order then int n else 1000000000)"

definition cmp_tag :: "(jstr \<Rightarrow> jstr \<Rightarrow> int) \<Rightarrow> jstr \<Rightarrow> jstr list \<Rightarrow> jstr \<Rightarrow> jstr \<Rightarrow> int" where
  "cmp_tag lc untagged order a b =
     (if a = untagged then 1 else if b = untagged then - 1
      else if tag_rank order a - tag_rank order b \<noteq> 0 then tag_rank order a - tag_rank order b
      else lc a b)"

definition operationsByTag ::
  "(jstr \<Rightarrow> jstr \<Rightarrow> int) \<Rightarrow> NormalizedSpec \<Rightarrow> jstr \<Rightarrow> (jstr \<times> Operation list) list" where
  "operationsByTag lc spec untagged =
     sort_by (\<lambda>a b. cmp_tag lc untagged (map t_name (n_tags spec)) (fst a) (fst b))
       (tag_groups untagged (n_operations spec))"

text \<open>The operation an API opens on: the first in the tree, deprecated ones only when all are.\<close>

definition firstOperation :: "(jstr \<Rightarrow> jstr \<Rightarrow> int) \<Rightarrow> NormalizedSpec \<Rightarrow> Operation option" where
  "firstOperation lc spec =
     (let live = filter (\<lambda>op. \<not> o_deprecated op) (n_operations spec);
          shown = (if live \<noteq> [] then spec\<lparr>n_operations := live\<rparr> else spec)
      in case operationsByTag lc shown [65535] of
           (_, op # _) # _ \<Rightarrow> Some op | _ \<Rightarrow> None)"

lemma sort_by_cong:
  assumes "distinct xs" "\<And>x y. x \<in> set xs \<Longrightarrow> y \<in> set xs \<Longrightarrow> x \<noteq> y \<Longrightarrow> cmp x y \<le> 0 \<longleftrightarrow> cmp' x y \<le> 0"
  shows "sort_by cmp xs = sort_by cmp' xs"
  using assms
proof (induction xs)
  case (Cons x xs)
  have "insert_by cmp x ys = insert_by cmp' x ys" if "set ys \<subseteq> set xs" for ys
    using that Cons.prems by (induction ys) auto
  with Cons show ?case by simp
qed simp

section \<open>Operations: one for each meth of each path, in order\<close>

lemma normalize_operation_fields:
  assumes "normalize_operation lc spec swagger2 schemes path shared meth op = Inr r"
  shows "o_path r = path \<and> o_method r = map upper_unit meth \<and> o_operationId r = opt_text (field op ''operationId'')"
  using assms by (auto simp: normalize_operation_def Let_def ebind_Inr_iff)

text \<open>The path and method pairs a document declares.\<close>

definition declared :: "jval \<Rightarrow> (jstr \<times> jval) list \<Rightarrow> (jstr \<times> jstr) list" where
  "declared spec paths = concat (map (\<lambda>(path, raw).
     case resolveRef spec raw of Inl e \<Rightarrow> []
     | Inr item \<Rightarrow> map (\<lambda>m. (path, map upper_unit m)) (filter (\<lambda>m. is_object (jget_opt (asObject item) m)) METHODS)) paths)"

lemma normalize_path_declared:
  assumes "normalize_path lc spec swagger2 schemes path raw = Inr ops"
  shows "map (\<lambda>op. (o_path op, o_method op)) ops = declared spec [(path, raw)]"
proof -
  from assms obtain r where r: "resolveRef spec raw = Inr r"
    and e: "emap (\<lambda>meth. normalize_operation lc spec swagger2 schemes path (asArray (field (asObject r) ''parameters''))
               meth (jget_opt (asObject r) meth))
         (filter (\<lambda>meth. is_object (jget_opt (asObject r) meth)) METHODS) = Inr ops"
    by (auto simp: normalize_path_def Let_def ebind_Inr_iff)
  from e have "list_all2 (\<lambda>m op. o_path op = path \<and> o_method op = map upper_unit m)
      (filter (\<lambda>meth. is_object (jget_opt (asObject r) meth)) METHODS) ops"
    unfolding emap_Inr_iff by (rule list_all2_mono) (auto dest: normalize_operation_fields)
  then have "map (\<lambda>op. (o_path op, o_method op)) ops =
      map (\<lambda>m. (path, map upper_unit m)) (filter (\<lambda>meth. is_object (jget_opt (asObject r) meth)) METHODS)"
    by (induction rule: list_all2_induct) auto
  then show ?thesis by (simp add: declared_def r)
qed

lemma normalize_paths_declared:
  "emap (\<lambda>(path, item). normalize_path lc spec swagger2 schemes path item) paths = Inr opss \<Longrightarrow>
   map (\<lambda>op. (o_path op, o_method op)) (concat opss) = declared spec paths"
proof (induction paths arbitrary: opss)
  case (Cons p paths)
  obtain path raw where p: "p = (path, raw)" by (cases p)
  from Cons.prems obtain ops rest where "normalize_path lc spec swagger2 schemes path raw = Inr ops"
    "emap (\<lambda>(path, item). normalize_path lc spec swagger2 schemes path item) paths = Inr rest" "opss = ops # rest"
    by (auto simp: p ebind_Inr_iff)
  with Cons.IH normalize_path_declared show ?case by (auto simp: p declared_def)
qed (simp add: declared_def)

lemma assignKeys_pairs: "map (\<lambda>op. (o_path op, o_method op)) (assignKeys ops) = map (\<lambda>op. (o_path op, o_method op)) ops"
  by (simp add: assignKeys_def Let_def)

lemma normalizeSpec_operations:
  assumes "normalizeSpec lc raw = Inr n"
  obtains schemes opss where
    "emap (\<lambda>(path, item). normalize_path lc (asObject raw) (is_string (field (asObject raw) ''swagger'')) schemes path item)
       (obj_entries (asObject (field (asObject raw) ''paths''))) = Inr opss"
    "n_operations n = assignKeys (sort_by (cmp_operation lc) (concat opss))"
  using assms by (auto simp: normalizeSpec_def Let_def ebind_Inr_iff)

lemma normalizeSpec_pairs:
  assumes "normalizeSpec lc raw = Inr n"
  shows "mset (map (\<lambda>op. (o_path op, o_method op)) (n_operations n)) =
    mset (declared (asObject raw) (obj_entries (asObject (field (asObject raw) ''paths''))))"
proof -
  from assms obtain schemes opss where e:
    "emap (\<lambda>(path, item). normalize_path lc (asObject raw) (is_string (field (asObject raw) ''swagger'')) schemes path item)
       (obj_entries (asObject (field (asObject raw) ''paths''))) = Inr opss"
    and n: "n_operations n = assignKeys (sort_by (cmp_operation lc) (concat opss))"
    by (rule normalizeSpec_operations)
  have "mset (map (\<lambda>op. (o_path op, o_method op)) (n_operations n)) =
      mset (map (\<lambda>op. (o_path op, o_method op)) (concat opss))"
    unfolding n assignKeys_pairs by (simp only: mset_map mset_sort_by)
  with normalize_paths_declared [OF e] show ?thesis by simp
qed

lemma cmp_operation_comparator: "comparator lc \<Longrightarrow> comparator (cmp_operation lc)"
  unfolding cmp_operation_def
  by (intro cmp_or_comparator comparator_inv [of lc o_path] comparator_key [of "\<lambda>op. method_index (o_method op)"])

lemma cmp_operation_o_key: "cmp_operation lc (a\<lparr>o_key := x\<rparr>) (b\<lparr>o_key := y\<rparr>) = cmp_operation lc a b"
  by (simp add: cmp_operation_def cmp_or_def)

lemma normalizeSpec_sorted:
  assumes "comparator lc" "normalizeSpec lc raw = Inr n"
  shows "sorted_wrt (\<lambda>a b. cmp_operation lc a b \<le> 0) (n_operations n)"
proof -
  from assms(2) obtain opss where n: "n_operations n = assignKeys (sort_by (cmp_operation lc) (concat opss))"
    by (rule normalizeSpec_operations)
  have "sorted_wrt (\<lambda>a b. cmp_operation lc a b \<le> 0) (sort_by (cmp_operation lc) (concat opss))"
    using comparator.sort_by_sorted [OF cmp_operation_comparator [OF assms(1)]] .
  then show ?thesis
    unfolding n assignKeys_def Let_def by (simp add: sorted_wrt_map cmp_operation_o_key)
qed

section \<open>Keys\<close>

lemma id_counts_fold:
  "map_of (fold (\<lambda>op counts. case o_operationId op of None \<Rightarrow> counts
     | Some i \<Rightarrow> dict_put i ((case map_of counts i of None \<Rightarrow> 0 | Some n \<Rightarrow> n) + 1) counts) ops d) i =
   (let c = length (filter (\<lambda>op. o_operationId op = Some i) ops) in
    if c = 0 then map_of d i else Some ((case map_of d i of None \<Rightarrow> 0 | Some n \<Rightarrow> n) + c))"
proof (induction ops arbitrary: d)
  case (Cons op ops)
  then show ?case
    by (cases "o_operationId op") (auto simp: Let_def get_dict_put split: option.splits)
qed simp

lemma id_counts_count:
  "map_of (id_counts ops) i = Some 1 \<longleftrightarrow> length (filter (\<lambda>op. o_operationId op = Some i) ops) = 1"
  by (auto simp: id_counts_def id_counts_fold Let_def)

definition op_key :: "Operation list \<Rightarrow> Operation \<Rightarrow> jstr" where
  "op_key ops op = (case o_operationId op of None \<Rightarrow> method_path op
     | Some i \<Rightarrow> if length (filter (\<lambda>op. o_operationId op = Some i) ops) = 1 then i else method_path op)"

lemma assignKeys_keys: "map o_key (assignKeys ops) = map (op_key ops) ops"
  unfolding assignKeys_def Let_def op_key_def by (auto simp: id_counts_count [unfolded One_nat_def] split: option.splits)

lemma two_in_filter:
  "distinct xs \<Longrightarrow> x \<in> set xs \<Longrightarrow> y \<in> set xs \<Longrightarrow> P x \<Longrightarrow> P y \<Longrightarrow> x \<noteq> y \<Longrightarrow> length (filter P xs) \<noteq> 1"
proof
  assume a: "distinct xs" "x \<in> set xs" "y \<in> set xs" "P x" "P y" "x \<noteq> y" and "length (filter P xs) = 1"
  then obtain z where z: "filter P xs = [z]" by (auto simp: length_Suc_conv)
  have "x \<in> set (filter P xs)" "y \<in> set (filter P xs)" using a by auto
  with z a(6) show False by simp
qed

lemma distinct_map_pairs:
  "distinct (map f xs) \<Longrightarrow> (\<And>x y. x \<in> set xs \<Longrightarrow> y \<in> set xs \<Longrightarrow> x \<noteq> y \<Longrightarrow> g x \<noteq> g y) \<Longrightarrow> distinct (map g xs)"
  by (auto simp: distinct_map inj_on_def)

text \<open>
  Keys are distinct when methods have no space, the operations have different methods or paths, and
  no operationId is spelled like the \<open>METHOD /path\<close> of another operation.
\<close>

lemma append_sep_inject:
  "c \<notin> set a \<Longrightarrow> c \<notin> set b \<Longrightarrow> a @ c # x = b @ c # y \<longleftrightarrow> a = b \<and> x = y"
proof (induction a arbitrary: b)
  case Nil
  then show ?case by (cases b) auto
next
  case (Cons u a)
  then show ?case by (cases b) auto
qed

lemma assignKeys_distinct:
  assumes "distinct (map (\<lambda>op. (o_path op, o_method op)) ops)"
    and "\<forall>op\<in>set ops. 32 \<notin> set (o_method op)"
    and "\<forall>a\<in>set ops. \<forall>b\<in>set ops. o_operationId a \<noteq> Some (method_path b)"
  shows "distinct (map o_key (assignKeys ops))"
  unfolding assignKeys_keys
proof (rule distinct_map_pairs [OF assms(1)])
  fix a b assume ab: "a \<in> set ops" "b \<in> set ops" "a \<noteq> b"
  have sp: "js '' '' = [32]" by (simp add: js_def cu_def)
  have d: "distinct ops" using assms(1) by (auto simp: distinct_map)
  have "(o_path a, o_method a) \<noteq> (o_path b, o_method b)"
    using assms(1) ab by (auto simp: distinct_map inj_on_def)
  then have mp: "method_path a \<noteq> method_path b"
    using assms(2) ab by (auto simp: method_path_def sp append_sep_inject)
  have a: "op_key ops a = method_path a \<or> o_operationId a = Some (op_key ops a) \<and> length (filter (\<lambda>op. o_operationId op = o_operationId a) ops) = 1"
    and b: "op_key ops b = method_path b \<or> o_operationId b = Some (op_key ops b) \<and> length (filter (\<lambda>op. o_operationId op = o_operationId b) ops) = 1"
    by (auto simp: op_key_def split: option.splits)
  show "op_key ops a \<noteq> op_key ops b"
  proof
    assume eq: "op_key ops a = op_key ops b"
    show False
      using a
    proof
      assume "op_key ops a = method_path a"
      with b eq mp assms(3) ab show False by metis
    next
      assume a': "o_operationId a = Some (op_key ops a) \<and> length (filter (\<lambda>op. o_operationId op = o_operationId a) ops) = 1"
      with b eq assms(3) ab have "o_operationId b = o_operationId a" by metis
      then have "length (filter (\<lambda>op. o_operationId op = o_operationId a) ops) \<noteq> 1"
        using two_in_filter [OF d ab(1,2), of "\<lambda>op. o_operationId op = o_operationId a"] ab(3) by blast
      with a' show False by blast
    qed
  qed
qed

subsection \<open>Parameters: the last one with a location and name wins\<close>

text \<open>The key \<open>mergeParameters\<close> stores a parameter under.\<close>

definition param_key :: "jval \<Rightarrow> jstr jsr" where
  "param_key p = ebind (to_str (field p ''in'')) (\<lambda>i. ebind (to_str (field p ''name'')) (\<lambda>n. Inr (i @ js '':'' @ n)))"

definition named :: "jval \<Rightarrow> bool" where
  "named p = (truthy (field p ''name'') \<and> truthy (field p ''in''))"

definition param_entry :: "jval \<Rightarrow> jval \<Rightarrow> (jstr \<times> jval) list jsr" where
  "param_entry spec raw = ebind (resolveRef spec raw) (\<lambda>r. let p = asObject r in
     if named p then ebind (param_key p) (\<lambda>k. Inr [(k, p)]) else Inr [])"

lemma param_entry_key: "param_entry spec raw = Inr es \<Longrightarrow> (k, p) \<in> set es \<Longrightarrow> param_key p = Inr k"
  by (auto simp: param_entry_def Let_def ebind_Inr_iff split: if_splits)

lemma efold_put_all:
  "efold (\<lambda>x d. ebind (f x) (\<lambda>es. Inr (put_all put es d))) xs d =
   ebind (emap f xs) (\<lambda>es. Inr (put_all put (concat es) d))"
proof (induction xs arbitrary: d)
  case (Cons x xs)
  then show ?case by (cases "f x") (simp_all add: ebind_assoc put_all_def)
qed simp

lemma merge_step:
  "ebind (resolveRef spec raw) (\<lambda>r. let p = asObject r in
     if \<not> truthy (field p ''name'') \<or> \<not> truthy (field p ''in'') then Inr out
     else ebind (to_str (field p ''in'')) (\<lambda>i. ebind (to_str (field p ''name'')) (\<lambda>n.
            Inr (dict_put (i @ js '':'' @ n) p out)))) =
   ebind (param_entry spec raw) (\<lambda>es. Inr (put_all dict_put es out))"
  by (auto simp: param_entry_def param_key_def named_def Let_def ebind_assoc intro!: ebind_cong)

lemma mergeParameters_entries:
  "mergeParameters spec shared owned =
   ebind (emap (param_entry spec) (shared @ owned)) (\<lambda>es. Inr (map snd (put_all dict_put (concat es) [])))"
  unfolding mergeParameters_def merge_step efold_put_all ebind_assoc by simp

lemma put_all_keys_ok:
  assumes "\<forall>(k, v)\<in>set es. P k v" "\<forall>(k, v)\<in>set d. P k v" "distinct (map fst d)"
  shows "\<forall>(k, v)\<in>set (put_all dict_put es d). P k v"
proof safe
  fix k v assume kv: "(k, v) \<in> set (put_all dict_put es d)"
  have "distinct (map fst (put_all dict_put es d))" using assms(3) by (rule js_map.distinct_put_all)
  with kv have "map_of (put_all dict_put es d) k = Some v" by simp
  then have "(k, v) \<in> set es \<or> (k, v) \<in> set d"
    by (auto simp: js_map.get_put_all split: option.splits dest: map_of_SomeD)
  with assms show "P k v" by auto
qed

lemma mergeParameters_dict:
  assumes "mergeParameters spec shared owned = Inr ps"
  obtains es d where "emap (param_entry spec) (shared @ owned) = Inr es" "d = put_all dict_put (concat es) []"
    "ps = map snd d" "distinct (map fst d)" "\<forall>(k, p)\<in>set d. param_key p = Inr k"
proof -
  from assms obtain es where es: "emap (param_entry spec) (shared @ owned) = Inr es"
    and ps: "ps = map snd (put_all dict_put (concat es) [])"
    by (auto simp: mergeParameters_entries ebind_Inr_iff)
  have "\<forall>(k, p)\<in>set (concat es). param_key p = Inr k"
    using emap_set [OF es] param_entry_key by fastforce
  then have "\<forall>(k, p)\<in>set (put_all dict_put (concat es) []). param_key p = Inr k"
    by (rule put_all_keys_ok) simp_all
  moreover have "distinct (map fst (put_all dict_put (concat es) []))"
    by (rule js_map.distinct_put_all) simp
  ultimately show thesis using that es ps by blast
qed

lemma mergeParameters_distinct:
  assumes "mergeParameters spec shared owned = Inr ps"
  shows "distinct (map param_key ps)"
proof -
  obtain d where d: "ps = map snd d" "distinct (map fst d)" "\<forall>(k, p)\<in>set d. param_key p = Inr k"
    using assms by (rule mergeParameters_dict)
  then have "map param_key ps = map (\<lambda>x. Inr (fst x)) d" by auto
  then have "map param_key ps = map Inr (map fst d)" by simp
  with d(2) show ?thesis by (simp add: distinct_map inj_on_def)
qed

lemma mergeParameters_last:
  assumes m: "mergeParameters spec shared owned = Inr ps"
    and split: "shared @ owned = pre @ raw # post" and raw: "param_entry spec raw = Inr [(k, p)]"
    and post: "\<forall>r\<in>set post. \<forall>q. param_entry spec r \<noteq> Inr [(k, q)]"
  shows "p \<in> set ps"
proof -
  obtain es d where es: "emap (param_entry spec) (shared @ owned) = Inr es"
    and d: "d = put_all dict_put (concat es) []" "ps = map snd d"
    using m by (rule mergeParameters_dict)
  from es obtain e1 e2 where e: "es = e1 @ [(k, p)] # e2" "emap (param_entry spec) post = Inr e2"
    unfolding split emap_Inr_iff list_all2_append1 list_all2_Cons1 using raw by auto
  have "k \<notin> fst ` set (concat e2)"
  proof
    assume "k \<in> fst ` set (concat e2)"
    then obtain x q where x: "x \<in> set e2" "(k, q) \<in> set x" by auto
    from emap_set [OF e(2) x(1)] obtain r where r: "r \<in> set post" "param_entry spec r = Inr x" by auto
    then have "x = [(k, q)]" using x(2)
      by (auto simp: param_entry_def Let_def ebind_Inr_iff split: if_splits)
    with post r show False by blast
  qed
  then have "map_of (rev (concat e2)) k = None" by (simp add: map_of_eq_None_iff)
  then have "map_of d k = Some p"
    unfolding d(1) e(1) by (simp add: js_map.get_put_all map_add_def split: option.splits)
  then show ?thesis unfolding d(2) by (auto dest: map_of_SomeD simp: image_iff intro: bexI [of _ "(k, p)"])
qed

lemma location_of_name: "location_of v = Some l \<Longrightarrow> v = JStr (location_name l)"
  by (auto simp: location_of_def LOCATIONS_def split: if_splits)

lemma toParameter_fields:
  assumes "toParameter spec p l swagger2 = Inr q"
  shows "p_in q = l \<and> to_str (field p ''name'') = Inr (p_name q) \<and> (l = PathParam \<longrightarrow> p_required q)"
  using assms by (auto simp: toParameter_def Let_def ebind_Inr_iff)

lemma toParameters_distinct:
  assumes "distinct (map param_key ps)" "toParameters spec ps swagger2 = Inr qs"
  shows "distinct (map (\<lambda>q. (p_in q, p_name q)) qs)"
proof -
  let ?k = "\<lambda>q. Inr (location_name (p_in q) @ js '':'' @ p_name q) :: jstr jsr"
  let ?sel = "\<lambda>p. case location_of (field p ''in'') of None \<Rightarrow> [] | Some l \<Rightarrow> [(p, l)]"
  have d: "distinct (map (param_key \<circ> fst) (concat (map ?sel ps)))"
  proof -
    have "map (param_key \<circ> fst) (concat (map ?sel ps)) =
        map param_key (filter (\<lambda>p. location_of (field p ''in'') \<noteq> None) ps)"
      by (induction ps) (auto split: option.splits)
    then show ?thesis using distinct_map_filter [OF assms(1)] by simp
  qed
  have sel: "location_of (field (fst x) ''in'') = Some (snd x)" if "x \<in> set (concat (map ?sel ps))" for x
    using that by (auto split: option.splits)
  from assms(2) have "list_all2 (\<lambda>(p, l) q. toParameter spec p l swagger2 = Inr q) (concat (map ?sel ps)) qs"
    by (simp add: toParameters_def emap_Inr_iff case_prod_unfold)
  then have "list_all2 (\<lambda>x q. param_key (fst x) = ?k q) (concat (map ?sel ps)) qs"
  proof (rule list.rel_mono_strong)
    fix x q assume x: "x \<in> set (concat (map ?sel ps))" and q: "(\<lambda>(p, l) q. toParameter spec p l swagger2 = Inr q) x q"
    then have "toParameter spec (fst x) (snd x) swagger2 = Inr q" by (simp add: case_prod_unfold)
    with toParameter_fields [OF this] location_of_name [OF sel [OF x]]
    show "param_key (fst x) = ?k q" by (simp add: param_key_def)
  qed
  then have "map ?k qs = map (param_key \<circ> fst) (concat (map ?sel ps))"
    by (induction rule: list_all2_induct) auto
  with d have "distinct (map ?k qs)" by simp
  then show ?thesis by (auto simp: distinct_map inj_on_def)
qed

lemma normalize_operation_parameters:
  assumes "normalize_operation lc spec swagger2 schemes path shared meth op = Inr r"
  shows "distinct (map (\<lambda>q. (p_in q, p_name q)) (o_parameters r))"
    and "\<forall>q\<in>set (o_parameters r). p_in q = PathParam \<longrightarrow> p_required q"
proof -
  from assms obtain ps where ps: "mergeParameters spec shared (asArray (field op ''parameters'')) = Inr ps"
    and qs: "toParameters spec ps swagger2 = Inr (o_parameters r)"
    by (auto simp: normalize_operation_def Let_def ebind_Inr_iff)
  show "distinct (map (\<lambda>q. (p_in q, p_name q)) (o_parameters r))"
    using toParameters_distinct [OF mergeParameters_distinct [OF ps] qs] .
  show "\<forall>q\<in>set (o_parameters r). p_in q = PathParam \<longrightarrow> p_required q"
    using emap_set [OF qs [unfolded toParameters_def]] toParameter_fields by fastforce
qed

lemma assignKeys_set: "op \<in> set (assignKeys ops) \<Longrightarrow> \<exists>op0\<in>set ops. op = op0\<lparr>o_key := o_key op\<rparr>"
proof -
  assume "op \<in> set (assignKeys ops)"
  then obtain op0 k where "op0 \<in> set ops" "op = op0\<lparr>o_key := k\<rparr>" by (auto simp: assignKeys_def Let_def)
  then show ?thesis by (intro bexI [of _ op0]) simp_all
qed

lemma normalizeSpec_each:
  assumes "normalizeSpec lc raw = Inr n" "op \<in> set (n_operations n)"
  obtains spec swagger2 schemes path shared meth v op0 where
    "normalize_operation lc spec swagger2 schemes path shared meth v = Inr op0"
    "meth \<in> set METHODS" "op = op0\<lparr>o_key := o_key op\<rparr>"
proof -
  from assms(1) obtain schemes opss where
    e: "emap (\<lambda>(path, item). normalize_path lc (asObject raw) (is_string (field (asObject raw) ''swagger'')) schemes path item)
       (obj_entries (asObject (field (asObject raw) ''paths''))) = Inr opss"
    and n: "n_operations n = assignKeys (sort_by (cmp_operation lc) (concat opss))"
    by (rule normalizeSpec_operations)
  from assms(2) obtain op0 where op: "op0 \<in> set (concat opss)" "op = op0\<lparr>o_key := o_key op\<rparr>"
    using assignKeys_set unfolding n by fastforce
  then obtain ops where ops: "ops \<in> set opss" "op0 \<in> set ops" by auto
  from emap_set [OF e ops(1)] obtain path item where p: "normalize_path lc (asObject raw) (is_string (field (asObject raw) ''swagger'')) schemes path item = Inr ops" by auto
  then obtain r where e: "emap (\<lambda>meth. normalize_operation lc (asObject raw) (is_string (field (asObject raw) ''swagger'')) schemes path (asArray (field (asObject r) ''parameters''))
               meth (jget_opt (asObject r) meth))
         (filter (\<lambda>meth. is_object (jget_opt (asObject r) meth)) METHODS) = Inr ops"
    by (auto simp: normalize_path_def Let_def ebind_Inr_iff)
  from emap_set [OF e ops(2)] obtain meth where m: "meth \<in> set METHODS"
    "normalize_operation lc (asObject raw) (is_string (field (asObject raw) ''swagger'')) schemes path (asArray (field (asObject r) ''parameters''))
               meth (jget_opt (asObject r) meth) = Inr op0" by auto
  from that [OF m(2,1) op(2)] show thesis .
qed

subsection \<open>Responses: valid statuses, the default last\<close>

text \<open>
  With several \<open>default\<close> keys \<open>cmp_status\<close> would contradict itself; a document has one, and on
  responses of distinct statuses it agrees with the consistent comparator below.
\<close>

definition default_rank :: "jstr \<Rightarrow> int" where
  "default_rank s = (if s = js ''default'' then 1 else 0)"

definition status_order :: "(jstr \<Rightarrow> jstr \<Rightarrow> int) \<Rightarrow> jstr \<Rightarrow> jstr \<Rightarrow> int" where
  "status_order lc = cmp_or (\<lambda>a b. default_rank a - default_rank b) lc"

lemma status_order_comparator: "comparator lc \<Longrightarrow> comparator (status_order lc)"
  unfolding status_order_def by (intro cmp_or_comparator comparator_key)

lemma sort_status:
  assumes "distinct (map r_status rs)"
  shows "sort_by (cmp_status lc) rs = sort_by (\<lambda>a b. status_order lc (r_status a) (r_status b)) rs"
proof (rule sort_by_cong)
  show "distinct rs" using assms by (simp add: distinct_map)
  fix x y assume xy: "x \<in> set rs" "y \<in> set rs" "x \<noteq> y"
  with assms have "r_status x \<noteq> r_status y" by (auto simp: distinct_map inj_on_def)
  then show "cmp_status lc x y \<le> 0 \<longleftrightarrow> status_order lc (r_status x) (r_status y) \<le> 0"
    by (auto simp: cmp_status_def status_order_def cmp_or_def default_rank_def)
qed

lemma responses_statuses:
  assumes "responses lc spec raw swagger2 produces = Inr rs"
  obtains rs0 where "rs = sort_by (cmp_status lc) rs0"
    "map r_status rs0 = filter is_status (map fst (obj_entries (asObject raw)))"
proof -
  from assms obtain rs0 where e: "emap (\<lambda>(status, v).
         ebind (resolveRef spec v) (\<lambda>r'. let r = asObject r' in
         ebind (response_content spec r swagger2 produces) (\<lambda>content.
         ebind (response_headers spec r) (\<lambda>headers.
         Inr \<lparr>r_status = status, r_description = text_of (field r ''description''),
              r_content = content, r_headers = headers\<rparr>))))
       (filter (\<lambda>(status, v). is_status status) (obj_entries (asObject raw))) = Inr rs0"
    and rs: "rs = sort_by (cmp_status lc) rs0"
    by (auto simp: responses_def ebind_Inr_iff)
  from e have "list_all2 (\<lambda>p r. fst p = r_status r)
      (filter (\<lambda>(status, v). is_status status) (obj_entries (asObject raw))) rs0"
    unfolding emap_Inr_iff by (rule list_all2_mono) (auto simp: ebind_Inr_iff Let_def)
  then have "map r_status rs0 = map fst (filter (\<lambda>(status, v). is_status status) (obj_entries (asObject raw)))"
    by (induction rule: list_all2_induct) auto
  also have "\<dots> = filter is_status (map fst (obj_entries (asObject raw)))"
    by (induction "obj_entries (asObject raw)") (auto simp: filter_map o_def case_prod_unfold)
  finally show thesis using that rs by blast
qed

lemma responses_sorted:
  assumes "comparator lc" "distinct (map fst (obj_entries (asObject raw)))"
    and "responses lc spec raw swagger2 produces = Inr rs"
  shows "mset (map r_status rs) = mset (filter is_status (map fst (obj_entries (asObject raw))))"
    and "sorted_wrt (\<lambda>a b. status_order lc a b \<le> 0) (map r_status rs)"
proof -
  obtain rs0 where rs: "rs = sort_by (cmp_status lc) rs0"
    and m: "map r_status rs0 = filter is_status (map fst (obj_entries (asObject raw)))"
    using assms(3) by (rule responses_statuses)
  have d: "distinct (map r_status rs0)" unfolding m using assms(2) by (rule distinct_filter)
  have "mset rs = mset rs0" unfolding rs by (rule mset_sort_by)
  then show "mset (map r_status rs) = mset (filter is_status (map fst (obj_entries (asObject raw))))"
    using m by (metis mset_map)
  have "comparator (\<lambda>a b. status_order lc (r_status a) (r_status b))"
    by (rule comparator_inv [OF status_order_comparator [OF assms(1)]])
  then show "sorted_wrt (\<lambda>a b. status_order lc a b \<le> 0) (map r_status rs)"
    unfolding rs sort_status [OF d] sorted_wrt_map by (rule comparator.sort_by_sorted)
qed

section \<open>Groups by tag partition the operations\<close>

definition tag_order :: "(jstr \<Rightarrow> jstr \<Rightarrow> int) \<Rightarrow> jstr \<Rightarrow> jstr list \<Rightarrow> jstr \<Rightarrow> jstr \<Rightarrow> int" where
  "tag_order lc untagged order =
     cmp_or (\<lambda>a b. (if a = untagged then 1 else 0) - (if b = untagged then 1 else 0))
       (cmp_or (\<lambda>a b. tag_rank order a - tag_rank order b) lc)"

lemma tag_order_comparator: "comparator lc \<Longrightarrow> comparator (tag_order lc untagged order)"
  unfolding tag_order_def by (intro cmp_or_comparator comparator_key)

lemma fold_groups_get:
  "map_of (fold (\<lambda>op groups.
     dict_put (f op) ((case map_of groups (f op) of None \<Rightarrow> [] | Some os \<Rightarrow> os) @ [op]) groups) ops d) t =
   (if filter (\<lambda>op. f op = t) ops = [] then map_of d t
    else Some ((case map_of d t of None \<Rightarrow> [] | Some os \<Rightarrow> os) @ filter (\<lambda>op. f op = t) ops))"
  by (induction ops arbitrary: d) (auto simp: dict_simps split: option.splits)

lemma fold_groups_distinct:
  "distinct (map fst d) \<Longrightarrow> distinct (map fst (fold (\<lambda>op groups.
     dict_put (f op) ((case map_of groups (f op) of None \<Rightarrow> [] | Some os \<Rightarrow> os) @ [op]) groups) ops d))"
  by (induction ops arbitrary: d) (auto simp: distinct_dict_put)

lemma tag_groups_get:
  "map_of (tag_groups untagged ops) t =
     (let os = filter (\<lambda>op. op_tag untagged op = t) ops in if os = [] then None else Some os)"
  unfolding tag_groups_def fold_groups_get by (simp add: Let_def)

lemma tag_groups_distinct: "distinct (map fst (tag_groups untagged ops))"
  unfolding tag_groups_def by (rule fold_groups_distinct) simp

lemma tag_groups_iff:
  "(t, os) \<in> set (tag_groups untagged ops) \<longleftrightarrow> os = filter (\<lambda>op. op_tag untagged op = t) ops \<and> os \<noteq> []"
proof -
  have "(t, os) \<in> set (tag_groups untagged ops) \<longleftrightarrow> map_of (tag_groups untagged ops) t = Some os"
    using tag_groups_distinct by (metis map_of_eq_Some_iff)
  then show ?thesis by (auto simp: tag_groups_get Let_def)
qed

lemma operationsByTag_sort:
  "operationsByTag lc spec untagged =
   sort_by (\<lambda>a b. tag_order lc untagged (map t_name (n_tags spec)) (fst a) (fst b)) (tag_groups untagged (n_operations spec))"
  unfolding operationsByTag_def
proof (rule sort_by_cong)
  let ?g = "tag_groups untagged (n_operations spec)"
  show "distinct ?g" using tag_groups_distinct by (metis distinct_map)
  fix x y assume xy: "x \<in> set ?g" "y \<in> set ?g" "x \<noteq> y"
  with tag_groups_distinct have "fst x \<noteq> fst y" by (metis distinct_map inj_onD)
  then show "cmp_tag lc untagged (map t_name (n_tags spec)) (fst x) (fst y) \<le> 0 \<longleftrightarrow>
      tag_order lc untagged (map t_name (n_tags spec)) (fst x) (fst y) \<le> 0"
    by (auto simp: cmp_tag_def tag_order_def cmp_or_def)
qed

lemma operationsByTag_sorted:
  assumes "comparator lc"
  shows "sorted_wrt (\<lambda>a b. tag_order lc untagged (map t_name (n_tags spec)) a b \<le> 0)
           (map fst (operationsByTag lc spec untagged))"
  unfolding sorted_wrt_map operationsByTag_sort
  by (rule comparator.sort_by_sorted, rule comparator_inv, rule tag_order_comparator, rule assms)

lemma operationsByTag_iff:
  "(t, os) \<in> set (operationsByTag lc spec untagged) \<longleftrightarrow>
   os = filter (\<lambda>op. op_tag untagged op = t) (n_operations spec) \<and> os \<noteq> []"
  by (simp add: operationsByTag_def tag_groups_iff)

lemma operationsByTag_Nil: "operationsByTag lc spec untagged = [] \<longleftrightarrow> n_operations spec = []"
proof -
  have "tag_groups untagged (n_operations spec) = [] \<longleftrightarrow> n_operations spec = []"
  proof
    assume e: "tag_groups untagged (n_operations spec) = []"
    show "n_operations spec = []"
    proof (cases "n_operations spec")
      case (Cons op ops)
      have "(op_tag untagged op, filter (\<lambda>o'. op_tag untagged o' = op_tag untagged op) (n_operations spec)) \<in> set (tag_groups untagged (n_operations spec))"
        unfolding tag_groups_iff by (simp add: Cons)
      with e show ?thesis by simp
    qed
  qed (simp add: tag_groups_def)
  then show ?thesis by (simp add: operationsByTag_def)
qed

lemma firstOperation_in:
  assumes "n_operations spec \<noteq> []"
  obtains op where "firstOperation lc spec = Some op" "op \<in> set (n_operations spec)"
    "o_deprecated op \<Longrightarrow> \<forall>q\<in>set (n_operations spec). o_deprecated q"
proof -
  define live where "live = filter (\<lambda>op. \<not> o_deprecated op) (n_operations spec)"
  define shown where "shown = (if live \<noteq> [] then spec\<lparr>n_operations := live\<rparr> else spec)"
  have ne: "n_operations shown \<noteq> []" using assms by (simp add: shown_def)
  then have "operationsByTag lc shown [65535] \<noteq> []" by (simp add: operationsByTag_Nil)
  then obtain t os gs where g: "operationsByTag lc shown [65535] = (t, os) # gs" by (metis list.exhaust surj_pair)
  then have "(t, os) \<in> set (operationsByTag lc shown [65535])" by simp
  then have os: "os = filter (\<lambda>op. op_tag [65535] op = t) (n_operations shown)" "os \<noteq> []"
    unfolding operationsByTag_iff by blast+
  then obtain op rest where o: "os = op # rest" by (meson list.exhaust)
  then have "op \<in> set os" by simp
  then have "op \<in> set (n_operations shown)" by (simp add: os(1))
  then have "op \<in> set (n_operations spec)" "o_deprecated op \<Longrightarrow> \<forall>q\<in>set (n_operations spec). o_deprecated q"
    by (auto simp: shown_def live_def filter_empty_conv split: if_splits)
  moreover have "firstOperation lc spec = Some op"
    unfolding firstOperation_def Let_def live_def [symmetric] shown_def [symmetric] by (simp add: g o)
  ultimately show thesis using that by blast
qed

section \<open>The keys of a document\<close>

lemma distinct_declared: "distinct (map fst paths) \<Longrightarrow> distinct (declared spec paths)"
proof (induction paths)
  case (Cons p paths)
  obtain path raw where p: "p = (path, raw)" by (cases p)
  have "distinct (map (map upper_unit) METHODS)"
    by code_simp
  then have "distinct (map (\<lambda>m. (path, map upper_unit m)) METHODS)" by (simp add: distinct_map inj_on_def)
  then have d: "distinct (map (\<lambda>m. (path, map upper_unit m)) (filter P METHODS))" for P
    by (rule distinct_map_filter)
  have "x \<in> set (declared spec paths) \<Longrightarrow> fst x \<in> fst ` set paths" for x
    by (auto simp: declared_def split: sum.splits) (metis fst_conv image_eqI)
  moreover have "path \<notin> fst ` set paths" using Cons.prems by (simp add: p)
  ultimately have "\<forall>x\<in>set (declared spec paths). fst x \<noteq> path" by metis
  moreover have "declared spec (p # paths) = declared spec [p] @ declared spec paths" by (simp add: declared_def)
  moreover have "distinct (declared spec [p]) \<and> (\<forall>x\<in>set (declared spec [p]). fst x = path)"
    using d by (auto simp: declared_def p split: sum.splits)
  moreover have "distinct (declared spec paths)" using Cons by simp
  ultimately show ?case by (auto simp: distinct_append)
qed (simp add: declared_def)

lemma METHODS_no_space: "m \<in> set METHODS \<Longrightarrow> 32 \<notin> set (map upper_unit m)"
proof -
  have "list_all (\<lambda>m. 32 \<notin> set (map upper_unit m)) METHODS" by code_simp
  then show "m \<in> set METHODS \<Longrightarrow> 32 \<notin> set (map upper_unit m)" by (simp add: list_all_iff)
qed

lemma normalizeSpec_distinct_pairs:
  assumes "normalizeSpec lc raw = Inr n" "distinct (map fst (obj_entries (asObject (field (asObject raw) ''paths''))))"
  shows "distinct (map (\<lambda>op. (o_path op, o_method op)) (n_operations n))"
  using normalizeSpec_pairs [OF assms(1)] distinct_declared [OF assms(2)] mset_eq_imp_distinct_iff by blast

lemma normalizeSpec_method_one_word:
  assumes "normalizeSpec lc raw = Inr n" "op \<in> set (n_operations n)"
  shows "32 \<notin> set (o_method op)"
proof -
  from normalizeSpec_each [OF assms] obtain spec swagger2 schemes path shared meth v op0 where
    o: "normalize_operation lc spec swagger2 schemes path shared meth v = Inr op0"
    "meth \<in> set METHODS" "op = op0\<lparr>o_key := o_key op\<rparr>" .
  from o(3) obtain k where "op = op0\<lparr>o_key := k\<rparr>" by blast
  then have "o_method op = map upper_unit meth"
    using normalize_operation_fields [OF o(1)] by simp
  then show ?thesis using METHODS_no_space [OF o(2)] by simp
qed

lemma normalizeSpec_distinct_keys:
  assumes "normalizeSpec lc raw = Inr n" "distinct (map fst (obj_entries (asObject (field (asObject raw) ''paths''))))"
    and "\<forall>a\<in>set (n_operations n). \<forall>b\<in>set (n_operations n). o_operationId a \<noteq> Some (method_path b)"
  shows "distinct (map o_key (n_operations n))"
proof -
  obtain opss where n: "n_operations n = assignKeys (sort_by (cmp_operation lc) (concat opss))"
    using assms(1) by (rule normalizeSpec_operations)
  let ?ops = "sort_by (cmp_operation lc) (concat opss)"
  have "\<forall>op\<in>set (n_operations n). 32 \<notin> set (o_method op)"
    using normalizeSpec_method_one_word [OF assms(1)] by blast
  then have sp: "\<forall>op\<in>set ?ops. 32 \<notin> set (o_method op)"
    unfolding n assignKeys_def Let_def by simp
  have "\<forall>a\<in>set ?ops. \<forall>b\<in>set ?ops. o_operationId a \<noteq> Some (method_path b)"
    using assms(3) unfolding n assignKeys_def Let_def by (simp add: method_path_def)
  moreover have "distinct (map (\<lambda>op. (o_path op, o_method op)) ?ops)"
    using normalizeSpec_distinct_pairs [OF assms(1,2)] unfolding n assignKeys_pairs .
  ultimately show ?thesis unfolding n using sp by (intro assignKeys_distinct) blast+
qed

text \<open>A document with two paths, path-level parameters, tags and statuses.\<close>

definition p_doc :: "nat \<Rightarrow> string \<Rightarrow> string \<Rightarrow> string \<Rightarrow> jval" where
  "p_doc l i n d = JObj (Loc l) [(js ''name'', JStr (js n)), (js ''in'', JStr (js i)), (js ''description'', JStr (js d))]"

definition op_doc :: "nat \<Rightarrow> string \<Rightarrow> string list \<Rightarrow> bool \<Rightarrow> jval list \<Rightarrow> jval" where
  "op_doc l i tags dep ps = JObj (Loc l)
     [(js ''operationId'', JStr (js i)), (js ''tags'', JArr (Loc (l + 1)) (map (\<lambda>t. JStr (js t)) tags)),
      (js ''deprecated'', JBool dep), (js ''parameters'', JArr (Loc (l + 2)) ps),
      (js ''responses'', JObj (Loc (l + 3)) [(js ''200'', JObj (Loc (l + 4)) []), (js ''default'', JObj (Loc (l + 5)) []),
         (js ''4XX'', JObj (Loc (l + 6)) []), (js ''x-note'', JNull)])]"

definition pets_doc :: jval where
  "pets_doc = JObj (Loc 0)
     [(js ''openapi'', JStr (js ''3.0.0'')),
      (js ''tags'', JArr (Loc 1) [JObj (Loc 2) [(js ''name'', JStr (js ''pets''))]]),
      (js ''paths'', JObj (Loc 3)
        [(js ''/pets/{id}'', JObj (Loc 4)
           [(js ''parameters'', JArr (Loc 5) [p_doc 6 ''path'' ''id'' ''shared'', p_doc 7 ''query'' ''q'' ''shared'']),
            (js ''delete'', op_doc 10 ''drop'' [] False []),
            (js ''get'', op_doc 20 ''show'' [''pets''] False [p_doc 8 ''query'' ''q'' ''own''])]),
         (js ''/owners'', JObj (Loc 9) [(js ''get'', op_doc 30 ''list'' [''owners''] True [])])])]"

definition pets :: NormalizedSpec where
  "pets = (case normalizeSpec unit_cmp pets_doc of Inr n \<Rightarrow> n
     | Inl e \<Rightarrow> \<lparr>n_openapi = [], n_title = [], n_version = [], n_description = [], n_tags = [], n_operations = [], n_raw = JUndef\<rparr>)"

lemma pets_normalized: "normalizeSpec unit_cmp pets_doc = Inr pets"
proof -
  have "case normalizeSpec unit_cmp pets_doc of Inl e \<Rightarrow> False | Inr n \<Rightarrow> True" by code_simp
  then show ?thesis by (auto simp: pets_def split: sum.splits)
qed

lemma pets_keys: "map o_key (n_operations pets) = map js [''list'', ''show'', ''drop'']"
  by code_simp

lemma pets_paths: "distinct (map fst (obj_entries (asObject (field (asObject pets_doc) ''paths''))))"
  by code_simp

section \<open>Properties\<close>

text \<open>A normalized document lists exactly one operation for each path and method that the document declares
  an object for, and lists them ordered by path and then by method.\<close>

theorem normalizeSpec_lists_declared:
  assumes "comparator lc" "normalizeSpec lc raw = Inr n"
  shows "mset (map (\<lambda>op. (o_path op, o_method op)) (n_operations n)) =
      mset (declared (asObject raw) (obj_entries (asObject (field (asObject raw) ''paths''))))
    \<and> sorted_wrt (\<lambda>a b. cmp_operation lc a b \<le> 0) (n_operations n)"
  using normalizeSpec_pairs normalizeSpec_sorted assms by blast

theorem normalizeSpec_lists_declared_witness:
  "mset (map (\<lambda>op. (o_path op, o_method op)) (n_operations pets)) =
      mset [(js ''/pets/{id}'', js ''GET''), (js ''/pets/{id}'', js ''DELETE''), (js ''/owners'', js ''GET'')]"
proof -
  have d: "declared (asObject pets_doc) (obj_entries (asObject (field (asObject pets_doc) ''paths''))) =
      [(js ''/pets/{id}'', js ''GET''), (js ''/pets/{id}'', js ''DELETE''), (js ''/owners'', js ''GET'')]"
    by code_simp
  show ?thesis
    using normalizeSpec_lists_declared [OF unit_order.comparator_axioms pets_normalized] unfolding d by (rule conjunct1)
qed

text \<open>C33: operation keys are unique, as the viewer's links need, as long as no operationId is
  spelled like the METHOD and path of another operation.\<close>

theorem normalizeSpec_keys_unique:
  assumes "normalizeSpec lc raw = Inr n" "distinct (map fst (obj_entries (asObject (field (asObject raw) ''paths''))))"
    and "\<forall>a\<in>set (n_operations n). \<forall>b\<in>set (n_operations n). o_operationId a \<noteq> Some (method_path b)"
  shows "distinct (map o_key (n_operations n))"
  using assms by (rule normalizeSpec_distinct_keys)

theorem normalizeSpec_keys_unique_witness: "distinct (map o_key (n_operations pets))"
proof (rule normalizeSpec_keys_unique [OF pets_normalized pets_paths])
  have "list_all (\<lambda>a. list_all (\<lambda>b. o_operationId a \<noteq> Some (method_path b)) (n_operations pets)) (n_operations pets)"
    by code_simp
  then show "\<forall>a\<in>set (n_operations pets). \<forall>b\<in>set (n_operations pets). o_operationId a \<noteq> Some (method_path b)"
    by (simp add: list_all_iff)
qed

definition clash_doc :: jval where
  "clash_doc = JObj (Loc 0) [(js ''paths'', JObj (Loc 1)
     [(js ''/a'', JObj (Loc 2) [(js ''get'', JObj (Loc 3) [(js ''operationId'', JStr (js ''GET /b''))])]),
      (js ''/b'', JObj (Loc 4) [(js ''get'', JObj (Loc 5) [])])])]"

text \<open>Without that condition they are not: an operationId that reads \<open>GET /b\<close> on another path gives two
  operations one key.\<close>

theorem normalizeSpec_keys_can_clash:
  "\<exists>n a b. normalizeSpec unit_cmp clash_doc = Inr n \<and> n_operations n = [a, b] \<and>
     o_path a \<noteq> o_path b \<and> o_key a = o_key b"
proof -
  have "case normalizeSpec unit_cmp clash_doc of Inl e \<Rightarrow> False
      | Inr n \<Rightarrow> (case n_operations n of [a, b] \<Rightarrow> o_path a \<noteq> o_path b \<and> o_key a = o_key b | _ \<Rightarrow> False)"
    by code_simp
  then show ?thesis by (auto split: sum.splits list.splits)
qed

text \<open>C32: a parameter of the operation overrides one of the path with the same location and name:
  the last one declared under a key is kept, and each key is kept once.\<close>

theorem mergeParameters_last_wins:
  assumes "mergeParameters spec shared owned = Inr ps" "shared @ owned = pre @ raw # post"
    and "resolveRef spec raw = Inr r" "named (asObject r)" "param_key (asObject r) = Inr k"
    and "\<forall>q\<in>set post. \<forall>p. param_entry spec q \<noteq> Inr [(k, p)]"
  shows "asObject r \<in> set ps \<and> (\<forall>p\<in>set ps. param_key p = Inr k \<longrightarrow> p = asObject r) \<and> distinct (map param_key ps)"
proof -
  have "param_entry spec raw = Inr [(k, asObject r)]"
    using assms(3-5) by (simp add: param_entry_def Let_def)
  then have "asObject r \<in> set ps" using mergeParameters_last assms(1,2,6) by blast
  with mergeParameters_distinct [OF assms(1)] assms(5) show ?thesis
    by (metis distinct_map inj_onD)
qed

theorem mergeParameters_last_wins_witness:
  "\<exists>ps. mergeParameters JNull [p_doc 6 ''query'' ''q'' ''shared''] [p_doc 8 ''query'' ''q'' ''own''] = Inr ps \<and>
     p_doc 8 ''query'' ''q'' ''own'' \<in> set ps"
proof -
  have "case mergeParameters JNull [p_doc 6 ''query'' ''q'' ''shared''] [p_doc 8 ''query'' ''q'' ''own''] of Inl e \<Rightarrow> False | Inr ps \<Rightarrow> True"
    by code_simp
  then obtain ps where ps: "mergeParameters JNull [p_doc 6 ''query'' ''q'' ''shared''] [p_doc 8 ''query'' ''q'' ''own''] = Inr ps"
    by (auto split: sum.splits)
  have r: "resolveRef JNull (p_doc 8 ''query'' ''q'' ''own'') = Inr (p_doc 8 ''query'' ''q'' ''own'')"
    and n: "named (asObject (p_doc 8 ''query'' ''q'' ''own''))"
    and k: "param_key (asObject (p_doc 8 ''query'' ''q'' ''own'')) = Inr (js ''query:q'')"
    and a: "asObject (p_doc 8 ''query'' ''q'' ''own'') = p_doc 8 ''query'' ''q'' ''own''"
    by code_simp+
  then show ?thesis
    using mergeParameters_last_wins [OF ps _ r n k, of "[p_doc 6 ''query'' ''q'' ''shared'']" "[]"] ps
    by (simp add: a)
qed

text \<open>In every operation of a normalized document a parameter is determined by its location and name, and
  path parameters are required whatever the document says.\<close>

theorem operation_parameters_wf:
  assumes "normalizeSpec lc raw = Inr n" "op \<in> set (n_operations n)"
  shows "distinct (map (\<lambda>q. (p_in q, p_name q)) (o_parameters op)) \<and>
    (\<forall>q\<in>set (o_parameters op). p_in q = PathParam \<longrightarrow> p_required q)"
proof -
  obtain spec swagger2 schemes path shared meth v op0 where
    o: "normalize_operation lc spec swagger2 schemes path shared meth v = Inr op0" "op = op0\<lparr>o_key := o_key op\<rparr>"
    using normalizeSpec_each [OF assms] .
  from o(2) obtain k where "op = op0\<lparr>o_key := k\<rparr>" by blast
  with normalize_operation_parameters [OF o(1)] show ?thesis by simp
qed

theorem operation_parameters_wf_witness:
  "distinct (map (\<lambda>q. (p_in q, p_name q)) (o_parameters (n_operations pets ! 1))) \<and>
   map p_required (o_parameters (n_operations pets ! 1)) = [True, False]"
proof
  have "length (n_operations pets) = 3" by code_simp
  then have "n_operations pets ! 1 \<in> set (n_operations pets)" by simp
  from operation_parameters_wf [OF pets_normalized this]
  show "distinct (map (\<lambda>q. (p_in q, p_name q)) (o_parameters (n_operations pets ! 1)))" ..
  show "map p_required (o_parameters (n_operations pets ! 1)) = [True, False]" by code_simp
qed

lemma status_order_default_last:
  "distinct ss \<Longrightarrow> sorted_wrt (\<lambda>a b. status_order lc a b \<le> 0) ss \<Longrightarrow>
   sorted_wrt (\<lambda>a b. a \<noteq> js ''default'' \<and> (b = js ''default'' \<or> lc a b \<le> 0)) ss"
proof (induction ss)
  case (Cons s ss)
  have "s \<noteq> js ''default'' \<and> (x = js ''default'' \<or> lc s x \<le> 0)" if "x \<in> set ss" for x
  proof -
    from that Cons.prems have "status_order lc s x \<le> 0" "s \<noteq> x" by auto
    then show ?thesis by (auto simp: status_order_def cmp_or_def default_rank_def split: if_splits)
  qed
  with Cons show ?case by simp
qed simp

text \<open>The responses shown are those with a valid status, in status order with the default response last.\<close>

theorem responses_default_last:
  assumes "comparator lc" "distinct (map fst (obj_entries (asObject raw)))"
    and "responses lc spec raw swagger2 produces = Inr rs"
  shows "mset (map r_status rs) = mset (filter is_status (map fst (obj_entries (asObject raw)))) \<and>
    sorted_wrt (\<lambda>a b. a \<noteq> js ''default'' \<and> (b = js ''default'' \<or> lc a b \<le> 0)) (map r_status rs)"
proof
  show m: "mset (map r_status rs) = mset (filter is_status (map fst (obj_entries (asObject raw))))"
    using responses_sorted(1) [OF assms] .
  have "distinct (map r_status rs)"
    using m distinct_filter [OF assms(2)] by (metis mset_eq_imp_distinct_iff)
  with responses_sorted(2) [OF assms]
  show "sorted_wrt (\<lambda>a b. a \<noteq> js ''default'' \<and> (b = js ''default'' \<or> lc a b \<le> 0)) (map r_status rs)"
    by (intro status_order_default_last)
qed

definition status_doc :: jval where
  "status_doc = JObj Fresh [(js ''404'', JNull), (js ''default'', JNull), (js ''5xx'', JNull), (js ''600'', JNull), (js ''200'', JNull)]"

theorem responses_default_last_witness:
  "\<exists>rs. responses unit_cmp JNull status_doc False [] = Inr rs \<and>
     map r_status rs = map js [''200'', ''404'', ''5xx'', ''default''] \<and>
     sorted_wrt (\<lambda>a b. a \<noteq> js ''default'' \<and> (b = js ''default'' \<or> unit_cmp a b \<le> 0)) (map r_status rs)"
proof -
  have "case responses unit_cmp JNull status_doc False [] of Inl e \<Rightarrow> False
      | Inr rs \<Rightarrow> map r_status rs = map js [''200'', ''404'', ''5xx'', ''default'']" by code_simp
  then obtain rs where rs: "responses unit_cmp JNull status_doc False [] = Inr rs"
    "map r_status rs = map js [''200'', ''404'', ''5xx'', ''default'']" by (auto split: sum.splits)
  have "distinct (map fst (obj_entries (asObject status_doc)))" by code_simp
  from responses_default_last [OF unit_order.comparator_axioms this rs(1)] rs show ?thesis by blast
qed

text \<open>Grouping by tag loses and repeats no operation: the groups have distinct tags, each is
  the list of all operations with that first tag in document order, every operation is in a group, and
  the groups come in the order of the document's tags with the untagged ones last.\<close>

theorem operationsByTag_partitions:
  assumes "comparator lc"
  shows "distinct (map fst (operationsByTag lc spec untagged)) \<and>
    (\<forall>(t, os)\<in>set (operationsByTag lc spec untagged). os = filter (\<lambda>op. op_tag untagged op = t) (n_operations spec) \<and> os \<noteq> []) \<and>
    fst ` set (operationsByTag lc spec untagged) = op_tag untagged ` set (n_operations spec) \<and>
    sorted_wrt (\<lambda>a b. tag_order lc untagged (map t_name (n_tags spec)) a b \<le> 0) (map fst (operationsByTag lc spec untagged))"
proof (intro conjI)
  have "mset (map fst (operationsByTag lc spec untagged)) = mset (map fst (tag_groups untagged (n_operations spec)))"
    by (simp only: operationsByTag_def mset_map mset_sort_by)
  then show "distinct (map fst (operationsByTag lc spec untagged))"
    using tag_groups_distinct mset_eq_imp_distinct_iff by blast
  show "\<forall>(t, os)\<in>set (operationsByTag lc spec untagged). os = filter (\<lambda>op. op_tag untagged op = t) (n_operations spec) \<and> os \<noteq> []"
    using operationsByTag_iff by blast
  show "fst ` set (operationsByTag lc spec untagged) = op_tag untagged ` set (n_operations spec)"
  proof (intro equalityI subsetI)
    fix t assume "t \<in> fst ` set (operationsByTag lc spec untagged)"
    then obtain os where "os = filter (\<lambda>op. op_tag untagged op = t) (n_operations spec)" "os \<noteq> []"
      using operationsByTag_iff by fastforce
    then show "t \<in> op_tag untagged ` set (n_operations spec)" by (auto simp: filter_empty_conv)
  next
    fix t assume "t \<in> op_tag untagged ` set (n_operations spec)"
    then have "filter (\<lambda>op. op_tag untagged op = t) (n_operations spec) \<noteq> []" by (auto simp: filter_empty_conv)
    then have "(t, filter (\<lambda>op. op_tag untagged op = t) (n_operations spec)) \<in> set (operationsByTag lc spec untagged)"
      by (simp add: operationsByTag_iff)
    then show "t \<in> fst ` set (operationsByTag lc spec untagged)" by force
  qed
qed (rule operationsByTag_sorted [OF assms])

theorem operationsByTag_partitions_witness:
  "map fst (operationsByTag unit_cmp pets []) = [js ''pets'', js ''owners'', []] \<and>
   distinct (map fst (operationsByTag unit_cmp pets []))"
proof
  show "map fst (operationsByTag unit_cmp pets []) = [js ''pets'', js ''owners'', []]" by code_simp
  show "distinct (map fst (operationsByTag unit_cmp pets []))"
    using operationsByTag_partitions [OF unit_order.comparator_axioms] by blast
qed

text \<open>An API with operations opens on one of them, on a deprecated one only if all are deprecated.\<close>

theorem firstOperation_prefers_live:
  assumes "n_operations spec \<noteq> []"
  shows "\<exists>op\<in>set (n_operations spec). firstOperation lc spec = Some op \<and>
    (o_deprecated op \<longrightarrow> (\<forall>q\<in>set (n_operations spec). o_deprecated q))"
  using firstOperation_in [OF assms] by metis

theorem firstOperation_prefers_live_witness:
  "\<exists>op\<in>set (n_operations pets). firstOperation unit_cmp pets = Some op \<and> \<not> o_deprecated op \<and> o_key op = js ''show''"
proof -
  have "n_operations pets \<noteq> []" by code_simp
  then obtain op where op: "op \<in> set (n_operations pets)" "firstOperation unit_cmp pets = Some op"
    using firstOperation_prefers_live by blast
  moreover have "case firstOperation unit_cmp pets of None \<Rightarrow> False | Some op \<Rightarrow> \<not> o_deprecated op \<and> o_key op = js ''show''"
    by code_simp
  ultimately show ?thesis by auto
qed

text \<open>A null in the tag list makes the whole document unreadable: \<open>normalizeSpec\<close> throws.\<close>

theorem normalizeSpec_null_tag_throws:
  assumes "JNull \<in> set (asArray (field (asObject raw) ''tags''))"
  shows "\<exists>e. normalizeSpec lc raw = Inl e"
proof -
  have "\<exists>e. tag_docs (field (asObject raw) ''tags'') = Inl e"
  proof -
    let ?f = "\<lambda>t. ebind (jget t (js ''name'')) (\<lambda>n. ebind (jget t (js ''description'')) (\<lambda>d.
        Inr \<lparr>t_name = text_of n, t_description = text_of d\<rparr>))"
    have "?f JNull = Inl TypeError" by simp
    from emap_fails [where f = ?f, OF assms this] obtain e
      where "emap ?f (asArray (field (asObject raw) ''tags'')) = Inl e" by blast
    then show ?thesis by (simp add: tag_docs_def)
  qed
  then show ?thesis
    unfolding normalizeSpec_def Let_def by (auto simp: ebind_def split: sum.splits)
qed

theorem normalizeSpec_null_tag_throws_witness:
  "\<exists>e. normalizeSpec unit_cmp (JObj Fresh [(js ''tags'', JArr Fresh [JNull])]) = Inl e"
  by (rule normalizeSpec_null_tag_throws) code_simp

end
