(* ===== verification/Js_Text.thy ===== *)
theory Js_Text
  imports Js_Strings
begin

text \<open>
  Text as octets: UTF-8 as \<open>TextEncoder\<close> writes and \<open>TextDecoder\<close> reads it (malformed input
  becomes U+FFFD), base 64 as \<open>btoa\<close> and \<open>atob\<close> do it, and the form encoding of
  \<open>URLSearchParams\<close>. Octets are natural numbers below 256. Each pair of directions has its
  round trip.
\<close>

section \<open>UTF-8\<close>

text \<open>The scalar values of a string, lone surrogates replaced by U+FFFD.\<close>

fun scalar_values :: "jstr \<Rightarrow> nat list" where
  "scalar_values [] = []"
| "scalar_values [u] = [if is_high u \<or> is_low u then 65533 else unat u]"
| "scalar_values (u # v # us) =
     (if is_high u \<and> is_low v then (65536 + (unat u - 55296) * 1024 + (unat v - 56320)) # scalar_values us
      else (if is_high u \<or> is_low u then 65533 else unat u) # scalar_values (v # us))"

definition utf8_encode :: "jstr \<Rightarrow> nat list" where
  "utf8_encode s = concat (map utf8 (scalar_values s))"

text \<open>
  The decoder reads octet by octet: \<open>k\<close> continuation octets are missing, \<open>cp\<close> are the bits so
  far and the next octet must lie between \<open>lo\<close> and \<open>hi\<close>. \<open>utf8_lead\<close> gives this state after a
  first octet, \<open>None\<close> for one that starts no sequence.
\<close>

definition utf8_lead :: "nat \<Rightarrow> (nat \<times> nat \<times> nat \<times> nat) option" where
  "utf8_lead b =
     (if 194 \<le> b \<and> b \<le> 223 then Some (1, b - 192, 128, 191)
      else if 224 \<le> b \<and> b \<le> 239 then
        Some (2, b - 224, if b = 224 then 160 else 128, if b = 237 then 159 else 191)
      else if 240 \<le> b \<and> b \<le> 244 then
        Some (3, b - 240, if b = 240 then 144 else 128, if b = 244 then 143 else 191)
      else None)"

fun utf8_read :: "nat \<times> nat \<times> nat \<times> nat \<Rightarrow> nat list \<Rightarrow> nat list" where
  "utf8_read (k, cp, lo, hi) [] = (if k = 0 then [] else [65533])"
| "utf8_read (k, cp, lo, hi) (b # bs) =
     (if k \<noteq> 0 \<and> lo \<le> b \<and> b \<le> hi then
        (let cp' = cp * 64 + (b - 128) in
         if k = 1 then cp' # utf8_read (0, 0, 0, 0) bs else utf8_read (k - 1, cp', 128, 191) bs)
      else (if k = 0 then [] else [65533]) @
        (if b < 128 then b # utf8_read (0, 0, 0, 0) bs
         else case utf8_lead b of None \<Rightarrow> 65533 # utf8_read (0, 0, 0, 0) bs
           | Some st \<Rightarrow> utf8_read st bs))"

definition utf8_decode :: "nat list \<Rightarrow> jstr" where
  "utf8_decode bs = concat (map utf16 (utf8_read (0, 0, 0, 0) bs))"

text \<open>\<open>new TextDecoder('utf-8').decode(bytes)\<close>: a leading byte order mark is dropped.\<close>

definition text_decode :: "nat list \<Rightarrow> jstr" where
  "text_decode bs = utf8_decode (if take 3 bs = [239, 187, 191] then drop 3 bs else bs)"

definition well_formed :: "jstr \<Rightarrow> bool" where
  "well_formed s = (case code_points s of Inl e \<Rightarrow> False | Inr cs \<Rightarrow> True)"

lemma well_formed_iff: "well_formed s \<longleftrightarrow> (\<exists>cs. code_points s = Inr cs)"
  by (auto simp: well_formed_def split: sum.splits)

lemma scalar_values_code_points: "code_points s = Inr cs \<Longrightarrow> scalar_values s = cs"
proof (induction s arbitrary: cs rule: scalar_values.induct)
  case (3 u v us)
  note p = 3(3) [unfolded code_points.simps(2) [of u "v # us"]]
  show ?case
  proof (cases "is_high u")
    case True
    with 3(3) obtain ds where "is_low v" "code_points us = Inr ds"
      "cs = (65536 + (unat u - 55296) * 1024 + (unat v - 56320)) # ds"
      by (auto simp: ebind_Inr_iff split: if_splits)
    with 3(1) [OF _ ] True show ?thesis by simp
  next
    case False
    with p obtain ds where "\<not> is_low u" "code_points (v # us) = Inr ds" "cs = unat u # ds"
      by (auto simp: ebind_Inr_iff simp del: code_points.simps split: if_splits)
    with 3(2) False show ?thesis by simp
  qed
qed (auto split: if_splits)

lemma utf8_read_point:
  assumes "scalar c"
  shows "utf8_read (0, 0, 0, 0) (utf8 c @ bs) = c # utf8_read (0, 0, 0, 0) bs"
proof -
  consider "c < 128" | "128 \<le> c" "c < 2048" | "2048 \<le> c" "c < 65536" | "65536 \<le> c"
    by linarith
  then show ?thesis
  proof cases
    case 2
    then have "utf8 c = [192 + c div 64, 128 + c mod 64]" by (simp add: utf8_def)
    moreover have "2 \<le> c div 64" "c div 64 \<le> 31" using 2 by linarith+
    moreover have "c mod 64 \<le> 63" by simp
    ultimately show ?thesis by (simp add: utf8_lead_def utf8_digits)
  next
    case 3
    then have "utf8 c = [224 + c div 4096, 128 + c div 64 mod 64, 128 + c mod 64]"
      by (simp add: utf8_def)
    moreover have "c div 4096 \<le> 15" using 3 by linarith
    moreover have "c mod 64 \<le> 63" "c div 64 mod 64 \<le> 63" by simp_all
    moreover have "c div 4096 = 0 \<Longrightarrow> 32 \<le> c div 64 mod 64"
    proof -
      assume z: "c div 4096 = 0"
      then have "c div 64 < 64" by (simp add: div_eq_0_iff)
      moreover have "32 \<le> c div 64" using 3 by linarith
      ultimately show ?thesis by simp
    qed
    moreover have "c div 4096 = 13 \<Longrightarrow> c div 64 mod 64 \<le> 31"
    proof -
      assume z: "c div 4096 = 13"
      then have "c < 57344" by linarith
      with assms have "c < 55296" by (simp add: scalar_def)
      then have "c div 64 < 864" by linarith
      moreover have "c div 64 div 64 = 13" using z by (simp add: div_mult2_eq [symmetric])
      then have "c div 64 = 13 * 64 + c div 64 mod 64" by (metis div_mult_mod_eq mult.commute)
      ultimately show ?thesis by linarith
    qed
    ultimately show ?thesis
      using utf8_digits(2) [of c] by (simp add: utf8_lead_def Let_def algebra_simps)
  next
    case 4
    then have "utf8 c = [240 + c div 262144, 128 + c div 4096 mod 64, 128 + c div 64 mod 64, 128 + c mod 64]"
      by (simp add: utf8_def)
    moreover have c: "c < 1114112" using assms by (auto simp: scalar_def)
    then have "c div 262144 \<le> 4" by linarith
    moreover have "c mod 64 \<le> 63" "c div 64 mod 64 \<le> 63" "c div 4096 mod 64 \<le> 63" by simp_all
    moreover have "c div 262144 = 0 \<Longrightarrow> 16 \<le> c div 4096 mod 64"
    proof -
      assume "c div 262144 = 0"
      then have "c div 4096 < 64" by linarith
      moreover have "16 \<le> c div 4096" using 4 by linarith
      ultimately show ?thesis by simp
    qed
    moreover have "c div 262144 = 4 \<Longrightarrow> c div 4096 mod 64 \<le> 15"
    proof -
      assume z: "c div 262144 = 4"
      then have "c div 4096 div 64 = 4" by (simp add: div_mult2_eq [symmetric])
      then have "c div 4096 = 4 * 64 + c div 4096 mod 64" by (metis div_mult_mod_eq mult.commute)
      moreover have "c div 4096 < 272" using c by linarith
      ultimately show ?thesis by linarith
    qed
    ultimately show ?thesis
      using utf8_digits(3) [of c] by (simp add: utf8_lead_def Let_def algebra_simps)
  qed (simp add: utf8_def)
qed

lemma utf8_read_encode: "\<forall>c\<in>set cs. scalar c \<Longrightarrow> utf8_read (0, 0, 0, 0) (concat (map utf8 cs)) = cs"
  by (induction cs) (simp_all add: utf8_read_point)

lemma utf8_decode_encode:
  assumes "well_formed s"
  shows "utf8_decode (utf8_encode s) = s"
proof -
  from assms obtain cs where cs: "code_points s = Inr cs" by (auto simp: well_formed_iff)
  then have "utf8_encode s = concat (map utf8 cs)" by (simp add: utf8_encode_def scalar_values_code_points)
  with code_points_utf16 [OF cs] show ?thesis by (simp add: utf8_decode_def utf8_read_encode)
qed

section \<open>Base 64\<close>

definition b64_char :: "nat \<Rightarrow> unit16" where
  "b64_char n = (if n < 26 then word_of_nat (65 + n) else if n < 52 then word_of_nat (71 + n)
     else if n < 62 then word_of_nat (n - 4) else if n = 62 then 43 else 47)"

definition b64_value :: "unit16 \<Rightarrow> nat option" where
  "b64_value u = (let n = unat u in
     if 65 \<le> n \<and> n \<le> 90 then Some (n - 65) else if 97 \<le> n \<and> n \<le> 122 then Some (n - 71)
     else if 48 \<le> n \<and> n \<le> 57 then Some (n + 4) else if n = 43 then Some 62 else if n = 47 then Some 63 else None)"

fun btoa :: "nat list \<Rightarrow> jstr" where
  "btoa [] = []"
| "btoa [a] = [b64_char (a div 4), b64_char (a mod 4 * 16), 61, 61]"
| "btoa [a, b] = [b64_char (a div 4), b64_char (a mod 4 * 16 + b div 16), b64_char (b mod 16 * 4), 61]"
| "btoa (a # b # c # bs) =
     [b64_char (a div 4), b64_char (a mod 4 * 16 + b div 16), b64_char (b mod 16 * 4 + c div 64), b64_char (c mod 64)] @ btoa bs"

text \<open>\<open>atob\<close>: \<open>None\<close> is its InvalidCharacterError.\<close>

fun sextets :: "nat list \<Rightarrow> nat list option" where
  "sextets [] = Some []"
| "sextets [a] = None"
| "sextets [a, b] = Some [a * 4 + b div 16]"
| "sextets [a, b, c] = Some [a * 4 + b div 16, b mod 16 * 16 + c div 4]"
| "sextets (a # b # c # d # ss) =
     map_option ((@) [a * 4 + b div 16, b mod 16 * 16 + c div 4, c mod 4 * 64 + d]) (sextets ss)"

definition is_ascii_space :: "unit16 \<Rightarrow> bool" where
  "is_ascii_space u = (u \<in> {9, 10, 12, 13, 32})"

definition strip_padding :: "jstr \<Rightarrow> jstr" where
  "strip_padding s =
     (if length s mod 4 = 0 then
        (case rev s of p # q # r \<Rightarrow> if p = 61 then (if q = 61 then rev r else rev (q # r)) else s | _ \<Rightarrow> s)
      else s)"

definition atob :: "jstr \<Rightarrow> nat list option" where
  "atob s =
     (let vs = map b64_value (strip_padding (filter (\<lambda>u. \<not> is_ascii_space u) s))
      in if list_all (\<lambda>v. v \<noteq> None) vs then sextets (map the vs) else None)"

lemma b64_value_char: "n < 64 \<Longrightarrow> b64_value (b64_char n) = Some n"
proof -
  assume n: "n < 64"
  have u: "unat (word_of_nat k :: unit16) = k" if "k < 200" for k using that by (intro unat_unit) simp
  consider "n < 26" | "26 \<le> n" "n < 52" | "52 \<le> n" "n < 62" | "n = 62" | "n = 63" using n by linarith
  then show ?thesis by cases (simp_all add: b64_char_def b64_value_def u Let_def del: of_nat_add of_nat_diff, presburger)
qed

lemma b64_char_plain: "n < 64 \<Longrightarrow> \<not> is_ascii_space (b64_char n) \<and> b64_char n \<noteq> 61"
proof -
  assume n: "n < 64"
  then have v: "b64_value (b64_char n) = Some n" by (rule b64_value_char)
  have "b64_value u = None" if "is_ascii_space u \<or> u = 61" for u
    using that by (auto simp: is_ascii_space_def b64_value_def)
  with v show ?thesis by (metis option.distinct(1))
qed

text \<open>The sextets that \<open>btoa\<close> writes, without the padding.\<close>

fun btoa_values :: "nat list \<Rightarrow> nat list" where
  "btoa_values [] = []"
| "btoa_values [a] = [a div 4, a mod 4 * 16]"
| "btoa_values [a, b] = [a div 4, a mod 4 * 16 + b div 16, b mod 16 * 4]"
| "btoa_values (a # b # c # bs) =
     [a div 4, a mod 4 * 16 + b div 16, b mod 16 * 4 + c div 64, c mod 64] @ btoa_values bs"

lemma octet_div:
  "(a :: nat) < 256 \<Longrightarrow> a div 4 < 64" "(a :: nat) < 256 \<Longrightarrow> a div 16 < 16" "(a :: nat) < 256 \<Longrightarrow> a div 64 < 4"
  by linarith+

lemma btoa_values_bound: "\<forall>b\<in>set bs. b < 256 \<Longrightarrow> \<forall>v\<in>set (btoa_values bs). v < 64"
proof (induction bs rule: btoa_values.induct)
  case (2 a)
  have "a mod 4 < 4" by simp
  then have "a mod 4 * 16 < 64" by linarith
  with 2 show ?case by (simp add: octet_div)
next
  case (3 a b)
  have "a mod 4 < 4" "b mod 16 < 16" by simp_all
  moreover have "b div 16 < 16" using 3 by (simp add: octet_div)
  ultimately have "a mod 4 * 16 + b div 16 < 64" "b mod 16 * 4 < 64" by linarith+
  with 3 show ?case by (simp add: octet_div)
next
  case (4 a b c bs)
  have "a mod 4 < 4" "b mod 16 < 16" "c mod 64 < 64" by simp_all
  moreover have "b div 16 < 16" "c div 64 < 4" using 4 by (simp_all add: octet_div)
  ultimately have "a mod 4 * 16 + b div 16 < 64" "b mod 16 * 4 + c div 64 < 64" by linarith+
  with 4 show ?case by (simp add: octet_div)
qed simp

lemma sextets_btoa: "\<forall>b\<in>set bs. b < 256 \<Longrightarrow> sextets (btoa_values bs) = Some bs"
proof (induction bs rule: btoa_values.induct)
  case (2 a)
  then show ?case by simp
next
  case (3 a b)
  then have "b div 16 < 16" by (simp add: octet_div)
  then have "(a mod 4 * 16 + b div 16) div 16 = a mod 4" "(a mod 4 * 16 + b div 16) mod 16 = b div 16" by simp_all
  then show ?case by simp
next
  case (4 a b c bs)
  then have "b div 16 < 16" "c div 64 < 4" by (simp_all add: octet_div)
  then have "(a mod 4 * 16 + b div 16) div 16 = a mod 4" "(a mod 4 * 16 + b div 16) mod 16 = b div 16"
    "(b mod 16 * 4 + c div 64) div 4 = b mod 16" "(b mod 16 * 4 + c div 64) mod 4 = c div 64" by simp_all
  with 4 show ?case by simp
qed simp

definition padding :: "nat \<Rightarrow> jstr" where
  "padding n = (if n mod 3 = 0 then [] else if n mod 3 = 1 then [61, 61] else [61])"

lemma btoa_split: "btoa bs = map b64_char (btoa_values bs) @ padding (length bs)"
proof (induction bs rule: btoa_values.induct)
  case (4 a b c bs)
  have "padding (length (a # b # c # bs)) = padding (length bs)"
    by (simp add: padding_def mod_Suc)
  with 4 show ?case by simp
qed (simp_all add: padding_def)

lemma btoa_length: "length (btoa bs) mod 4 = 0"
  by (induction bs rule: btoa.induct) simp_all

lemma padding_cases: "padding n = [] \<or> padding n = [61] \<or> padding n = [61, 61]"
  by (simp add: padding_def)

lemma strip_btoa:
  assumes "\<forall>b\<in>set bs. b < 256"
  shows "strip_padding (btoa bs) = map b64_char (btoa_values bs)"
proof -
  define pad where "pad = padding (length bs)"
  have s: "btoa bs = map b64_char (btoa_values bs) @ pad"
    and pad: "pad = [] \<or> pad = [61] \<or> pad = [61, 61]" and l: "length (btoa bs) mod 4 = 0"
    using padding_cases btoa_length by (simp_all add: pad_def btoa_split)
  have last: "vs \<noteq> [] \<Longrightarrow> \<forall>v\<in>set vs. v < 64 \<Longrightarrow> last (map b64_char vs) \<noteq> 61" for vs
    using b64_char_plain by (simp add: last_map)
  note b = btoa_values_bound [OF assms]
  from pad show ?thesis
  proof (elim disjE)
    assume p: "pad = []"
    show ?thesis
    proof (cases "rev (btoa bs)")
      case (Cons u r)
      then have "last (btoa bs) = u" "btoa_values bs \<noteq> []" using p s by (auto simp: last_rev hd_rev [symmetric])
      then have "u \<noteq> 61" using last [OF _ b] p s by simp
      then show ?thesis using Cons p s by (auto simp: strip_padding_def split: list.split)
    qed (use p s in \<open>simp add: strip_padding_def\<close>)
  next
    assume p: "pad = [61]"
    then have "btoa_values bs \<noteq> []" using l s by auto
    then obtain vs v where v: "btoa_values bs = vs @ [v]" by (metis rev_exhaust)
    with b b64_char_plain have "b64_char v \<noteq> 61" by simp
    with p l s v show ?thesis by (simp add: strip_padding_def)
  next
    assume p: "pad = [61, 61]"
    with l s show ?thesis by (simp add: strip_padding_def)
  qed
qed

lemma atob_btoa:
  assumes "\<forall>b\<in>set bs. b < 256"
  shows "atob (btoa bs) = Some bs"
proof -
  note b = btoa_values_bound [OF assms]
  have pad: "set (padding (length bs)) \<subseteq> {61}" by (simp add: padding_def)
  have "\<forall>u\<in>set (btoa bs). \<not> is_ascii_space u"
    using b b64_char_plain pad unfolding btoa_split by (auto simp: is_ascii_space_def)
  then have f: "filter (\<lambda>u. \<not> is_ascii_space u) (btoa bs) = btoa bs" by simp
  have "map (\<lambda>x. the (b64_value (b64_char x))) (btoa_values bs) = btoa_values bs"
    using b by (intro map_idI) (simp add: b64_value_char)
  then have "atob (btoa bs) = sextets (btoa_values bs)"
    using b by (simp add: atob_def f strip_btoa [OF assms] Let_def list_all_iff o_def b64_value_char)
  then show ?thesis using sextets_btoa [OF assms] by simp
qed

section \<open>URLSearchParams\<close>

text \<open>
  A parameter list and its text: \<open>name=value\<close> pairs joined by \<open>&\<close>, a space as \<open>+\<close>, other octets
  than letters, digits and \<open>* - . _\<close> as percent escapes. The parser works on the UTF-8 octets of
  its input and takes a percent sign that starts no escape as it is.
\<close>

definition hex_digit :: "nat \<Rightarrow> nat" where
  "hex_digit n = (if n < 10 then 48 + n else 55 + n)"

definition form_safe :: "nat \<Rightarrow> bool" where
  "form_safe b = ((48 \<le> b \<and> b \<le> 57) \<or> (65 \<le> b \<and> b \<le> 90) \<or> (97 \<le> b \<and> b \<le> 122)
     \<or> b = 42 \<or> b = 45 \<or> b = 46 \<or> b = 95)"

definition form_octet :: "nat \<Rightarrow> nat list" where
  "form_octet b = (if b = 32 then [43] else if form_safe b then [b]
     else [37, hex_digit (b div 16), hex_digit (b mod 16)])"

definition form_octets :: "jstr \<Rightarrow> nat list" where
  "form_octets s = concat (map form_octet (utf8_encode s))"

fun join_octets :: "nat list list \<Rightarrow> nat list" where
  "join_octets [] = []"
| "join_octets [p] = p"
| "join_octets (p # ps) = p @ [38] @ join_octets ps"

definition form_serialize :: "(jstr \<times> jstr) list \<Rightarrow> jstr" where
  "form_serialize ps = map word_of_nat (join_octets (map (\<lambda>(k, v). form_octets k @ [61] @ form_octets v) ps))"

definition octet_hex :: "nat \<Rightarrow> nat option" where
  "octet_hex b = (if 48 \<le> b \<and> b \<le> 57 then Some (b - 48) else if 65 \<le> b \<and> b \<le> 70 then Some (b - 55)
     else if 97 \<le> b \<and> b \<le> 102 then Some (b - 87) else None)"

fun percent_decode :: "nat list \<Rightarrow> nat list" where
  "percent_decode [] = []"
| "percent_decode (b # bs) =
     (if b = 37 then
        (case bs of
           x # y # r \<Rightarrow>
             (case (octet_hex x, octet_hex y) of
                (Some m, Some n) \<Rightarrow> (16 * m + n) # percent_decode r
              | _ \<Rightarrow> b # percent_decode bs)
         | _ \<Rightarrow> b # percent_decode bs)
      else b # percent_decode bs)"

definition form_text :: "nat list \<Rightarrow> jstr" where
  "form_text bs = utf8_decode (percent_decode (map (\<lambda>b. if b = 43 then 32 else b) bs))"

fun split_octets :: "nat list \<Rightarrow> nat list list" where
  "split_octets [] = [[]]"
| "split_octets (b # bs) =
     (if b = 38 then [] # split_octets bs
      else case split_octets bs of p # ps \<Rightarrow> (b # p) # ps | [] \<Rightarrow> [[b]])"

definition form_pair :: "nat list \<Rightarrow> jstr \<times> jstr" where
  "form_pair p = (form_text (takeWhile (\<lambda>b. b \<noteq> 61) p), form_text (drop 1 (dropWhile (\<lambda>b. b \<noteq> 61) p)))"

definition form_parse :: "jstr \<Rightarrow> (jstr \<times> jstr) list" where
  "form_parse s = map form_pair (filter (\<lambda>p. p \<noteq> []) (split_octets (utf8_encode s)))"

text \<open>\<open>get\<close>, \<open>getAll\<close>, \<open>append\<close>, \<open>set\<close> and \<open>delete\<close>.\<close>

definition params_get :: "jstr \<Rightarrow> (jstr \<times> jstr) list \<Rightarrow> jstr option" where
  "params_get k ps = map_of ps k"

definition params_all :: "jstr \<Rightarrow> (jstr \<times> jstr) list \<Rightarrow> jstr list" where
  "params_all k ps = map snd (filter (\<lambda>p. fst p = k) ps)"

definition params_append :: "jstr \<Rightarrow> jstr \<Rightarrow> (jstr \<times> jstr) list \<Rightarrow> (jstr \<times> jstr) list" where
  "params_append k v ps = ps @ [(k, v)]"

fun params_set :: "jstr \<Rightarrow> jstr \<Rightarrow> (jstr \<times> jstr) list \<Rightarrow> (jstr \<times> jstr) list" where
  "params_set k v [] = [(k, v)]"
| "params_set k v (p # ps) =
     (if fst p = k then (k, v) # filter (\<lambda>q. fst q \<noteq> k) ps else p # params_set k v ps)"

definition params_delete :: "jstr \<Rightarrow> (jstr \<times> jstr) list \<Rightarrow> (jstr \<times> jstr) list" where
  "params_delete k ps = filter (\<lambda>p. fst p \<noteq> k) ps"

lemma form_octet_range: "b < 256 \<Longrightarrow> c \<in> set (form_octet b) \<Longrightarrow> c < 128 \<and> c \<noteq> 38 \<and> c \<noteq> 61"
proof -
  assume b: "b < 256" and c: "c \<in> set (form_octet b)"
  have h: "48 \<le> hex_digit n \<and> hex_digit n < 128 \<and> hex_digit n \<noteq> 61" if "n < 16" for n
    using that by (simp add: hex_digit_def)
  have "b div 16 < 16" using b by simp
  then have "48 \<le> hex_digit (b div 16) \<and> hex_digit (b div 16) < 128 \<and> hex_digit (b div 16) \<noteq> 61"
    "48 \<le> hex_digit (b mod 16) \<and> hex_digit (b mod 16) < 128 \<and> hex_digit (b mod 16) \<noteq> 61"
    using h by simp_all
  moreover have "c = 43 \<or> (c = b \<and> form_safe b) \<or> c = 37 \<or> c = hex_digit (b div 16) \<or> c = hex_digit (b mod 16)"
    using c by (auto simp: form_octet_def split: if_splits)
  ultimately show ?thesis by (auto simp: form_safe_def)
qed

lemma octet_hex_digit: "n < 16 \<Longrightarrow> octet_hex (hex_digit n) = Some n \<and> hex_digit n \<noteq> 43"
  by (auto simp: octet_hex_def hex_digit_def)

lemma percent_decode_octet:
  assumes "b < 256"
  shows "percent_decode (map (\<lambda>b. if b = 43 then 32 else b) (form_octet b) @ bs) = b # percent_decode bs"
proof -
  have "b div 16 < 16" "b mod 16 < 16" using assms by linarith+
  then have h: "octet_hex (hex_digit (b div 16)) = Some (b div 16)" "octet_hex (hex_digit (b mod 16)) = Some (b mod 16)"
    "hex_digit (b div 16) \<noteq> 43" "hex_digit (b mod 16) \<noteq> 43"
    using octet_hex_digit by blast+
  consider "b = 32" | "b \<noteq> 32" "form_safe b" | "b \<noteq> 32" "\<not> form_safe b" by blast
  then show ?thesis
  proof cases
    case 2
    then have "b \<noteq> 37" "b \<noteq> 43" by (auto simp: form_safe_def)
    with 2 show ?thesis by (simp add: form_octet_def)
  qed (simp_all add: form_octet_def h)
qed

lemma percent_decode_octets:
  "\<forall>b\<in>set bs. b < 256 \<Longrightarrow>
   percent_decode (map (\<lambda>b. if b = 43 then 32 else b) (concat (map form_octet bs))) = bs"
proof (induction bs)
  case (Cons b bs)
  then show ?case using percent_decode_octet [of b] by simp
qed simp

lemma utf8_encode_octets: "well_formed s \<Longrightarrow> \<forall>b\<in>set (utf8_encode s). b < 256"
proof -
  assume "well_formed s"
  then obtain cs where cs: "code_points s = Inr cs" by (auto simp: well_formed_iff)
  then have "\<forall>c\<in>set cs. c < 1114112" using code_points_utf16 [OF cs] by (auto simp: scalar_def)
  then show ?thesis by (auto simp: utf8_encode_def scalar_values_code_points [OF cs] dest: utf8_bytes)
qed

lemma form_text_octets: "well_formed s \<Longrightarrow> form_text (form_octets s) = s"
  by (simp add: form_text_def form_octets_def percent_decode_octets utf8_encode_octets utf8_decode_encode)

lemma form_octets_range: "well_formed s \<Longrightarrow> c \<in> set (form_octets s) \<Longrightarrow> c < 128 \<and> c \<noteq> 38 \<and> c \<noteq> 61"
  using utf8_encode_octets [of s] form_octet_range by (auto simp: form_octets_def)

lemma form_pair_octets:
  assumes "well_formed k" "well_formed v"
  shows "form_pair (form_octets k @ 61 # form_octets v) = (k, v)"
proof -
  have "\<forall>b\<in>set (form_octets k). b \<noteq> 61" using form_octets_range assms(1) by blast
  then have "takeWhile (\<lambda>b. b \<noteq> 61) (form_octets k @ 61 # form_octets v) = form_octets k"
    "dropWhile (\<lambda>b. b \<noteq> 61) (form_octets k @ 61 # form_octets v) = 61 # form_octets v"
    by (simp_all add: takeWhile_append dropWhile_append)
  then show ?thesis using assms by (simp add: form_pair_def form_text_octets)
qed

lemma split_octets_part: "38 \<notin> set p \<Longrightarrow> split_octets p = [p]"
  by (induction p) auto

lemma split_octets_append: "38 \<notin> set p \<Longrightarrow> split_octets (p @ 38 # bs) = p # split_octets bs"
  by (induction p) auto

lemma split_join_octets: "ps \<noteq> [] \<Longrightarrow> \<forall>p\<in>set ps. 38 \<notin> set p \<Longrightarrow> split_octets (join_octets ps) = ps"
  by (induction ps rule: join_octets.induct) (auto simp: split_octets_part split_octets_append)

lemma join_octets_set: "c \<in> set (join_octets ps) \<Longrightarrow> c = 38 \<or> (\<exists>p\<in>set ps. c \<in> set p)"
  by (induction ps rule: join_octets.induct) auto

lemma scalar_values_plain: "\<forall>u\<in>set s. \<not> is_high u \<and> \<not> is_low u \<Longrightarrow> scalar_values s = map unat s"
  by (induction s rule: scalar_values.induct) auto

lemma utf8_encode_ascii: "\<forall>b\<in>set bs. b < 128 \<Longrightarrow> utf8_encode (map word_of_nat bs) = bs"
proof -
  assume a: "\<forall>b\<in>set bs. b < 128"
  have u: "unat (word_of_nat b :: unit16) = b" "\<not> is_high (word_of_nat b)" "\<not> is_low (word_of_nat b)" if "b < 128" for b
  proof -
    show e: "unat (word_of_nat b :: unit16) = b" using that by (intro unat_unit) simp
    show "\<not> is_high (word_of_nat b)" "\<not> is_low (word_of_nat b)"
      using that by (simp_all add: is_high_def is_low_def word_le_nat_alt e)
  qed
  have "scalar_values (map word_of_nat bs) = map unat (map word_of_nat bs :: jstr)"
    using a u by (intro scalar_values_plain) auto
  also have "\<dots> = bs" using a u(1) by (simp add: map_idI)
  finally have "scalar_values (map word_of_nat bs) = bs" .
  moreover have "concat (map utf8 bs) = bs" using a by (induction bs) (auto simp: utf8_def)
  ultimately show ?thesis by (simp add: utf8_encode_def)
qed

theorem form_parse_serialize:
  assumes "\<forall>(k, v)\<in>set ps. well_formed k \<and> well_formed v"
  shows "form_parse (form_serialize ps) = ps"
proof (cases "ps = []")
  case False
  let ?parts = "map (\<lambda>(k, v). form_octets k @ [61] @ form_octets v) ps"
  have range: "c < 128 \<and> c \<noteq> 38" if "p \<in> set ?parts" "c \<in> set p" for p c
  proof -
    from that(1) assms obtain k v where "p = form_octets k @ 61 # form_octets v" "well_formed k" "well_formed v" by auto
    with that(2) form_octets_range show ?thesis by auto
  qed
  have "\<forall>b\<in>set (join_octets ?parts). b < 128"
  proof
    fix b assume "b \<in> set (join_octets ?parts)"
    then consider "b = 38" | p where "p \<in> set ?parts" "b \<in> set p" using join_octets_set by blast
    then show "b < 128" by cases (simp_all add: conjunct1 [OF range])
  qed
  then have e: "utf8_encode (form_serialize ps) = join_octets ?parts"
    by (simp add: form_serialize_def utf8_encode_ascii)
  have "split_octets (join_octets ?parts) = ?parts" using False
  proof (intro split_join_octets ballI)
    show "38 \<notin> set p" if "p \<in> set ?parts" for p using range [OF that, of 38] by blast
  qed simp
  moreover have "filter (\<lambda>p. p \<noteq> []) ?parts = ?parts" by (intro filter_True) auto
  moreover have "map form_pair ?parts = ps" using assms form_pair_octets by (simp add: map_idI case_prod_unfold)
  ultimately show ?thesis by (simp add: form_parse_def e)
qed (simp add: form_parse_def form_serialize_def utf8_encode_def)

interpretation utf8_text: codec utf8_encode utf8_decode well_formed
  by unfold_locales (rule utf8_decode_encode)

interpretation form_text: codec form_serialize form_parse "\<lambda>ps. \<forall>(k, v)\<in>set ps. well_formed k \<and> well_formed v"
  by unfold_locales (rule form_parse_serialize)

section \<open>Parameters after a change\<close>

lemma params_get_set: "params_get k (params_set k' v ps) = (if k = k' then Some v else params_get k ps)"
proof -
  have "map_of (filter (\<lambda>q. fst q \<noteq> k') ps) k = map_of ps k" if "k \<noteq> k'" for ps :: "(jstr \<times> jstr) list"
    using that by (induction ps) auto
  then show ?thesis unfolding params_get_def by (induction ps) auto
qed

lemma params_get_delete: "params_get k (params_delete k' ps) = (if k = k' then None else params_get k ps)"
  by (induction ps) (auto simp: params_get_def params_delete_def)

lemma params_all_delete: "params_all k (params_delete k' ps) = (if k = k' then [] else params_all k ps)"
  by (induction ps) (auto simp: params_all_def params_delete_def)

lemma params_all_set: "k \<noteq> k' \<Longrightarrow> params_all k (params_set k' v ps) = params_all k ps"
proof (induction ps)
  case (Cons p ps)
  then show ?case using params_all_delete [of k k' ps] by (auto simp: params_all_def params_delete_def)
qed (simp add: params_all_def)

end
