(* ===== verification/Spec_Request.thy ===== *)
theory Spec_Request
  imports Spec_Normalize Js_Text Js_Json
begin

text \<open>
  \<open>lib/openapi/request.ts\<close>: the request that the try-it panel builds from the typed values. The
  values are a dictionary from parameter ids (\<open>in:name\<close>, which no object inherits) to texts.
  \<open>toLowerCase\<close> is the parameter \<open>lower\<close>; what is used of it is its effect on ASCII.
\<close>

type_synonym param_values = "(jstr, jstr) dict"

definition paramId :: "Parameter \<Rightarrow> jstr" where
  "paramId p = location_name (p_in p) @ js '':'' @ p_name p"

definition value_of :: "param_values \<Rightarrow> Parameter \<Rightarrow> jstr" where
  "value_of vs p = (case map_of vs (paramId p) of None \<Rightarrow> [] | Some v \<Rightarrow> v)"

section \<open>Starting values\<close>

text \<open>\<open>v[0]\<close> of an array.\<close>

fun first_elem :: "jval \<Rightarrow> jval" where
  "first_elem (JArr i (x # xs)) = x"
| "first_elem v = JUndef"

text \<open>The example, default or enum the document gives; \<open>None\<close> is undefined (a function has no JSON text).\<close>

definition parameterDefault :: "jval \<Rightarrow> Parameter \<Rightarrow> jstr option jsr" where
  "parameterDefault spec p =
     ebind (resolveRef spec (p_schema p)) (\<lambda>r.
       let schema = coalesce r (JObj Fresh []);
           examples = field schema ''examples'';
           candidates = [p_example p, field schema ''example'', first_elem examples, field schema ''default'']
       in case find (\<lambda>v. \<not> nullish v) candidates of
            Some v \<Rightarrow> Inr (exampleText v) | None \<Rightarrow> Inr (Some []))"

section \<open>The address\<close>

definition placeholder :: "jstr \<Rightarrow> jstr" where
  "placeholder name = js ''{'' @ name @ js ''}''"

definition fill :: "param_values \<Rightarrow> Parameter \<Rightarrow> jstr \<Rightarrow> jstr jsr" where
  "fill vs p path = ebind (encodeURIComponent (value_of vs p))
     (\<lambda>e. Inr (join e (split_str (placeholder (p_name p)) path)))"

definition resolvePath :: "jstr \<Rightarrow> Parameter list \<Rightarrow> param_values \<Rightarrow> jstr jsr" where
  "resolvePath template params vs = efold (fill vs) (filter (\<lambda>p. p_in p = PathParam) params) template"

definition query_pairs :: "Parameter list \<Rightarrow> param_values \<Rightarrow> (jstr \<times> jstr) list" where
  "query_pairs params vs =
     fold (\<lambda>p query. let v = trim (value_of vs p) in if v = [] then query else params_append (p_name p) v query)
       (filter (\<lambda>p. p_in p = QueryParam) params) []"

definition queryString :: "Parameter list \<Rightarrow> param_values \<Rightarrow> jstr" where
  "queryString params vs = form_serialize (query_pairs params vs)"

section \<open>Headers\<close>

record HeaderRow =
  hr_name :: jstr
  hr_value :: jstr

text \<open>An object is assigned: a later header of the same spelling replaces an earlier one.\<close>

definition requestHeaders ::
  "Operation \<Rightarrow> param_values \<Rightarrow> HeaderRow list \<Rightarrow> jstr \<Rightarrow> jstr \<Rightarrow> bool \<Rightarrow> (jstr, jstr) dict" where
  "requestHeaders op vs extra accept contentType withBody =
     (let h0 = (if accept \<noteq> [] then obj_set (js ''Accept'') accept [] else []);
          h1 = (if withBody \<and> contentType \<noteq> [] then obj_set (js ''Content-Type'') contentType h0 else h0);
          h2 = fold (\<lambda>p h. let v = trim (value_of vs p) in if v = [] then h else obj_set (p_name p) v h)
                 (filter (\<lambda>p. p_in p = HeaderParam) (o_parameters op)) h1
      in fold (\<lambda>r h. if trim (hr_name r) \<noteq> [] \<and> trim (hr_value r) \<noteq> []
                then obj_set (trim (hr_name r)) (trim (hr_value r)) h else h) extra h2)"

definition STANDARD_HEADERS :: "jstr list" where
  "STANDARD_HEADERS = map js [''content-type'', ''accept'', ''accept-language'', ''user-agent'']"

definition headerAllowed :: "(jstr \<Rightarrow> jstr) \<Rightarrow> jstr \<Rightarrow> jstr list \<Rightarrow> bool \<Rightarrow> bool" where
  "headerAllowed lower name allowed forwardAllX =
     (let l = lower name in
      l \<in> set STANDARD_HEADERS \<or> list_ex (\<lambda>a. lower a = l) allowed \<or>
      (forwardAllX \<and> starts_with l (js ''x-'') \<and> \<not> starts_with l (js ''x-forwarded'')
         \<and> l \<noteq> js ''x-http-method-override''))"

text \<open>A case-insensitive pattern without the \<open>u\<close> flag folds ASCII letters only.\<close>

definition ascii_lower :: "jstr \<Rightarrow> jstr" where
  "ascii_lower s = map lower_unit s"

definition SENSITIVE :: "jstr list" where
  "SENSITIVE = map js [''authorization'', ''cookie'', ''token'', ''secret'', ''password'', ''apikey'', ''api-key'',
     ''api_key'', ''session'', ''signature'']"

definition isSensitiveHeader :: "jstr \<Rightarrow> bool" where
  "isSensitiveHeader name = list_ex (str_includes (ascii_lower name)) SENSITIVE"

section \<open>Validation\<close>

datatype problem = RequiredMissing | NotInteger | NotNumber | NotBoolean | NotInEnum | NotJson

record ValidationError =
  v_id :: jstr
  v_name :: jstr
  v_message :: problem

text \<open>\<open>/^-?\d+$/\<close>.\<close>

definition is_integer_text :: "jstr \<Rightarrow> bool" where
  "is_integer_text s = (let d = (case s of c # r \<Rightarrow> if c = 45 then r else s | [] \<Rightarrow> []) in d \<noteq> [] \<and> list_all is_digit d)"

text \<open>\<open>Array.isArray(schema.type) ? schema.type.find(t => t !== 'null') : schema.type\<close>.\<close>

definition checked_type :: "jval \<Rightarrow> jval" where
  "checked_type schema = (case field schema ''type'' of
     JArr _ ts \<Rightarrow> (case find (\<lambda>t. t \<noteq> JStr (js ''null'')) ts of Some t \<Rightarrow> t | None \<Rightarrow> JUndef)
   | t \<Rightarrow> t)"

text \<open>\<open>schema.enum.length && !schema.enum.map(String).includes(value)\<close> for an array.\<close>

definition outside_enum :: "jval \<Rightarrow> jstr \<Rightarrow> bool jsr" where
  "outside_enum v s = (case v of
     JArr _ xs \<Rightarrow> if xs = [] then Inr False else ebind (emap to_str xs) (\<lambda>ts. Inr (s \<notin> set ts))
   | _ \<Rightarrow> Inr False)"

definition value_problem :: "jval \<Rightarrow> jstr \<Rightarrow> problem option jsr" where
  "value_problem schema s =
     ebind (outside_enum (field schema ''enum'') s) (\<lambda>bad.
       let t = checked_type schema in
       if bad then Inr (Some NotInEnum)
       else if t = JStr (js ''integer'') \<and> \<not> is_integer_text s then Inr (Some NotInteger)
       else if t = JStr (js ''number'') \<and> \<not> is_finite (to_number s) then Inr (Some NotNumber)
       else if t = JStr (js ''boolean'') \<and> s \<notin> {js ''true'', js ''false''} then Inr (Some NotBoolean)
       else Inr None)"

text \<open>One turn of the loop: the error of a parameter, if it has one.\<close>

definition check_parameter :: "jval \<Rightarrow> param_values \<Rightarrow> Parameter \<Rightarrow> ValidationError list jsr" where
  "check_parameter spec vs p =
     (let s = trim (value_of vs p);
          err = (\<lambda>m. \<lparr>v_id = paramId p, v_name = p_name p, v_message = m\<rparr>)
      in if s = [] then Inr (if p_required p then [err RequiredMissing] else [])
         else ebind (resolveRef spec (p_schema p)) (\<lambda>r.
              ebind (value_problem (coalesce r (JObj Fresh [])) s) (\<lambda>m.
              Inr (case m of None \<Rightarrow> [] | Some m \<Rightarrow> [err m]))))"

definition validateParameters :: "jval \<Rightarrow> Parameter list \<Rightarrow> param_values \<Rightarrow> ValidationError list jsr" where
  "validateParameters spec params vs = ebind (emap (check_parameter spec vs) params) (\<lambda>es. Inr (concat es))"

section \<open>Bodies\<close>

definition encodeBase64Utf8 :: "jstr \<Rightarrow> jstr" where
  "encodeBase64Utf8 s = btoa (utf8_encode s)"

definition decodeBase64Utf8 :: "jstr \<Rightarrow> jstr" where
  "decodeBase64Utf8 s = (case atob s of None \<Rightarrow> s | Some bytes \<Rightarrow> text_decode bytes)"

text \<open>\<open>/[/+]json\b/i\<close>.\<close>

definition is_word_unit :: "unit16 \<Rightarrow> bool" where
  "is_word_unit u = (is_alnum u \<or> u = 95)"

fun json_suffix :: "jstr \<Rightarrow> bool" where
  "json_suffix [] = False"
| "json_suffix (u # us) =
     ((u = 47 \<or> u = 43) \<and> starts_with (ascii_lower us) (js ''json'') \<and>
        (case drop 4 us of [] \<Rightarrow> True | w # _ \<Rightarrow> \<not> is_word_unit w) \<or> json_suffix us)"

definition isJsonContentType :: "jstr \<Rightarrow> bool" where
  "isJsonContentType contentType = json_suffix contentType"

text \<open>\<open>JSON.parse\<close> throws for a malformed text; the body is then shown as it is.\<close>

definition prettyBody :: "jstr \<Rightarrow> jstr \<Rightarrow> jstr" where
  "prettyBody body contentType =
     (let trimmed = trim body in
      if trimmed = [] then []
      else if isJsonContentType contentType \<or> starts_with trimmed (js ''{'') \<or> starts_with trimmed (js ''['')
      then (case json_parse trimmed of None \<Rightarrow> body | Some v \<Rightarrow> the (stringify2 v))
      else body)"

section \<open>Filling in the path\<close>

text \<open>
  A template as a list of pieces: literal text and holes, neither with braces inside. Filling
  replaces every hole of a name at once, and what it inserts is never read again.
\<close>

datatype piece = Lit jstr | Hole jstr

fun piece_text :: "piece \<Rightarrow> jstr" where
  "piece_text (Lit s) = s"
| "piece_text (Hole n) = placeholder n"

definition render :: "piece list \<Rightarrow> jstr" where
  "render ps = concat (map piece_text ps)"

definition brace_free :: "jstr \<Rightarrow> bool" where
  "brace_free s = (123 \<notin> set s \<and> 125 \<notin> set s)"

fun piece_ok :: "piece \<Rightarrow> bool" where
  "piece_ok (Lit s) = brace_free s"
| "piece_ok (Hole n) = brace_free n"

fun put_piece :: "jstr \<Rightarrow> jstr \<Rightarrow> piece \<Rightarrow> piece" where
  "put_piece n e (Lit s) = Lit s"
| "put_piece n e (Hole m) = (if m = n then Lit e else Hole m)"

lemma placeholder_units: "placeholder n = 123 # n @ [125]"
  by (simp add: placeholder_def js_def cu_def)

lemma replace_skip_text:
  "123 \<notin> set a \<Longrightarrow> replace_lit (123 # sep) e (a @ s) = a @ replace_lit (123 # sep) e s"
proof (induction a)
  case (Cons u a)
  then have "\<not> prefix (123 # sep) (u # a @ s)" by auto
  with Cons show ?case by (simp add: replace_lit_skip)
qed simp

lemma prefix_hole:
  assumes "125 \<notin> set n" "125 \<notin> set m" "prefix (n @ [125]) (m @ 125 # s)"
  shows "m = n"
  using assms
proof (induction n arbitrary: m)
  case Nil
  then show ?case by (cases m) auto
next
  case (Cons u n)
  then show ?case by (cases m) auto
qed

lemma replace_render:
  assumes "\<forall>p\<in>set ps. piece_ok p" "brace_free n"
  shows "replace_lit (placeholder n) e (render ps) = render (map (put_piece n e) ps)"
  using assms(1)
proof (induction ps)
  case Nil
  then show ?case by (simp add: render_def)
next
  case (Cons p ps)
  then have IH: "replace_lit (123 # n @ [125]) e (concat (map piece_text ps)) = concat (map (piece_text \<circ> put_piece n e) ps)"
    by (simp add: render_def placeholder_units)
  show ?case
  proof (cases p)
    case (Lit s)
    with Cons.prems IH show ?thesis
      by (simp add: render_def placeholder_units brace_free_def replace_skip_text)
  next
    case (Hole m)
    show ?thesis
    proof (cases "m = n")
      case True
      have "replace_lit (123 # n @ [125]) e ((123 # n @ [125]) @ concat (map piece_text ps)) =
          e @ replace_lit (123 # n @ [125]) e (concat (map piece_text ps))"
        by (rule replace_lit_match) simp
      with True Hole IH show ?thesis by (simp add: render_def placeholder_units)
    next
      case False
      let ?rest = "concat (map piece_text ps)"
      from Cons.prems Hole have m: "brace_free m" by simp
      then have "\<not> prefix (123 # n @ [125]) (123 # m @ 125 # ?rest)"
        using prefix_hole [of n m ?rest] False assms(2) by (auto simp: brace_free_def)
      then have "replace_lit (123 # n @ [125]) e (123 # m @ 125 # ?rest) =
          123 # replace_lit (123 # n @ [125]) e ((m @ [125]) @ ?rest)"
        by (simp add: replace_lit_skip)
      also have "replace_lit (123 # n @ [125]) e ((m @ [125]) @ ?rest) = (m @ [125]) @ replace_lit (123 # n @ [125]) e ?rest"
        using m by (intro replace_skip_text) (simp add: brace_free_def)
      finally show ?thesis using False Hole IH by (simp add: render_def placeholder_units)
    qed
  qed
qed

text \<open>The units of an encoded value: unreserved characters and percent escapes.\<close>

definition uri_safe :: "unit16 \<Rightarrow> bool" where
  "uri_safe u = (is_alnum u \<or> u \<in> set (js ''-_.!~*()'') \<or> u = 39 \<or> u = 37)"

lemma hex_unit_safe: "n < 16 \<Longrightarrow> is_alnum (hex_unit n)"
  by (auto simp: is_alnum_def is_digit_def is_upper_def word_le_nat_alt unat_hex_unit)

lemma encode_point_safe:
  assumes "scalar c"
  shows "\<forall>u\<in>set (encode_point c). uri_safe u"
proof (cases "unreserved c")
  case True
  then have "c < 128" by (auto simp: unreserved_def)
  then have u: "unat (word_of_nat c :: unit16) = c" by (intro unat_unit) simp
  have marks: "list_all (\<lambda>n. uri_safe (word_of_nat n)) [45, 95, 46, 33, 126, 39, 40, 41, 42]" by code_simp
  have "is_alnum (word_of_nat c) \<or> c \<in> set [45, 95, 46, 33, 126, 39, 40, 41, 42]"
    using True unfolding unreserved_def is_alnum_def is_digit_def is_upper_def is_lower_def word_le_nat_alt u by auto
  then have "uri_safe (word_of_nat c)"
  proof
    assume "is_alnum (word_of_nat c)"
    then show ?thesis by (simp only: uri_safe_def simp_thms)
  next
    assume "c \<in> set [45, 95, 46, 33, 126, 39, 40, 41, 42]"
    with marks show ?thesis unfolding list_all_iff by (rule bspec)
  qed
  with True show ?thesis by (simp add: encode_point_def)
next
  case False
  have c: "c < 1114112" using assms by (auto simp: scalar_def)
  show ?thesis
  proof
    fix u assume "u \<in> set (encode_point c)"
    with False obtain b where b: "b \<in> set (utf8 c)" "u \<in> set (pct b)" by (auto simp: encode_point_def)
    then have "b < 256" using utf8_bytes [OF c] by blast
    then have "is_alnum (hex_unit (b div 16))" "is_alnum (hex_unit (b mod 16))" by (simp_all add: hex_unit_safe)
    with b(2) show "uri_safe u" by (auto simp: pct_def uri_safe_def)
  qed
qed

lemma encode_safe:
  assumes "encodeURIComponent s = Inr e"
  shows "\<forall>u\<in>set e. uri_safe u"
proof -
  from assms obtain cs where "code_points s = Inr cs" "e = concat (map encode_point cs)"
    by (auto simp: encodeURIComponent_def ebind_Inr_iff)
  then show ?thesis using code_points_utf16 encode_point_safe by fastforce
qed

lemma uri_safe_not_special: "uri_safe u \<Longrightarrow> u \<notin> {47, 63, 35, 123, 125}"
  by (auto simp: uri_safe_def js_def cu_def is_alnum_def is_digit_def is_upper_def is_lower_def)

lemma encode_brace_free: "encodeURIComponent s = Inr e \<Longrightarrow> brace_free e"
  using encode_safe uri_safe_not_special by (fastforce simp: brace_free_def)

lemma encode_total: "well_formed s \<longleftrightarrow> (\<exists>e. encodeURIComponent s = Inr e)"
  by (auto simp: well_formed_iff encodeURIComponent_def ebind_Inr_iff)

lemma encode_error: "\<not> well_formed s \<Longrightarrow> encodeURIComponent s = Inl URIError"
proof -
  have "code_points s = Inl e \<Longrightarrow> e = URIError" for e
    by (induction s arbitrary: e rule: code_points.induct)
      (auto simp: ebind_Inl_iff split: if_splits list.splits)
  then show "\<not> well_formed s \<Longrightarrow> encodeURIComponent s = Inl URIError"
    by (auto simp: well_formed_def encodeURIComponent_def split: sum.splits)
qed

definition encoded :: "jstr \<Rightarrow> jstr" where
  "encoded s = (case encodeURIComponent s of Inr e \<Rightarrow> e | Inl _ \<Rightarrow> [])"

text \<open>What a template becomes: holes named by a path parameter hold its encoded value.\<close>

fun filled :: "Parameter list \<Rightarrow> param_values \<Rightarrow> piece \<Rightarrow> piece" where
  "filled ps vs (Lit s) = Lit s"
| "filled ps vs (Hole n) = (case find (\<lambda>p. p_name p = n) ps of None \<Rightarrow> Hole n | Some p \<Rightarrow> Lit (encoded (value_of vs p)))"

lemma fill_render:
  assumes "\<forall>p\<in>set ps. piece_ok p" "brace_free (p_name q)" "well_formed (value_of vs q)"
  shows "fill vs q (render ps) = Inr (render (map (put_piece (p_name q) (encoded (value_of vs q))) ps))"
proof -
  obtain e where "encodeURIComponent (value_of vs q) = Inr e" using assms(3) encode_total by blast
  then show ?thesis
    using replace_render [OF assms(1,2)] by (simp add: fill_def encoded_def replace_lit_def)
qed

lemma put_piece_ok: "well_formed v \<Longrightarrow> piece_ok p \<Longrightarrow> piece_ok (put_piece n (encoded v) p)"
  using encode_brace_free encode_total by (cases p) (auto simp: encoded_def)

lemma efold_fill:
  assumes "\<forall>p\<in>set ps. piece_ok p" "\<forall>q\<in>set qs. brace_free (p_name q) \<and> well_formed (value_of vs q)"
  shows "efold (fill vs) qs (render ps) = Inr (render (map (filled qs vs) ps))"
  using assms
proof (induction qs arbitrary: ps)
  case Nil
  have "filled [] vs p = p" for p by (cases p) simp_all
  then show ?case by simp
next
  case (Cons q qs)
  let ?ps = "map (put_piece (p_name q) (encoded (value_of vs q))) ps"
  have "filled qs vs (put_piece (p_name q) (encoded (value_of vs q)) p) = filled (q # qs) vs p" for p
    by (cases p) auto
  moreover have "\<forall>p\<in>set ?ps. piece_ok p" using Cons.prems put_piece_ok by auto
  ultimately show ?case
    using Cons.prems Cons.IH [of ?ps] fill_render [of ps q vs] by (simp add: o_def)
qed

lemma fill_ok_iff: "(\<exists>r. fill vs q path = Inr r) \<longleftrightarrow> well_formed (value_of vs q)"
  using encode_total by (auto simp: fill_def ebind_Inr_iff)

lemma efold_fill_error:
  "efold (fill vs) qs path = Inl e \<longleftrightarrow> e = URIError \<and> (\<exists>q\<in>set qs. \<not> well_formed (value_of vs q))"
proof (induction qs arbitrary: path)
  case (Cons q qs)
  show ?case
  proof (cases "well_formed (value_of vs q)")
    case True
    then obtain r where "fill vs q path = Inr r" using fill_ok_iff by blast
    with True Cons show ?thesis by simp
  next
    case False
    then show ?thesis by (auto simp: fill_def encode_error)
  qed
qed simp

section \<open>Query and headers\<close>

lemma query_pairs_list:
  "query_pairs params vs =
   map (\<lambda>p. (p_name p, trim (value_of vs p))) (filter (\<lambda>p. p_in p = QueryParam \<and> trim (value_of vs p) \<noteq> []) params)"
proof -
  have "fold (\<lambda>p query. let v = trim (value_of vs p) in if v = [] then query else params_append (p_name p) v query) ps d =
      d @ map (\<lambda>p. (p_name p, trim (value_of vs p))) (filter (\<lambda>p. trim (value_of vs p) \<noteq> []) ps)" for ps d
    by (induction ps arbitrary: d) (auto simp: params_append_def Let_def)
  then show ?thesis by (simp add: query_pairs_def conj_commute)
qed

text \<open>The headers as one list of assignments.\<close>

definition header_rows :: "Operation \<Rightarrow> param_values \<Rightarrow> HeaderRow list \<Rightarrow> jstr \<Rightarrow> jstr \<Rightarrow> bool \<Rightarrow> (jstr \<times> jstr) list" where
  "header_rows op vs extra accept contentType withBody =
     (if accept \<noteq> [] then [(js ''Accept'', accept)] else []) @
     (if withBody \<and> contentType \<noteq> [] then [(js ''Content-Type'', contentType)] else []) @
     map (\<lambda>p. (p_name p, trim (value_of vs p)))
       (filter (\<lambda>p. p_in p = HeaderParam \<and> trim (value_of vs p) \<noteq> []) (o_parameters op)) @
     map (\<lambda>r. (trim (hr_name r), trim (hr_value r)))
       (filter (\<lambda>r. trim (hr_name r) \<noteq> [] \<and> trim (hr_value r) \<noteq> []) extra)"

lemma put_all_append: "put_all put (xs @ ys) d = put_all put ys (put_all put xs d)"
  by (simp add: put_all_def)

lemma requestHeaders_rows:
  "requestHeaders op vs extra accept contentType withBody =
   put_all obj_set (header_rows op vs extra accept contentType withBody) []"
proof -
  have params: "fold (\<lambda>p h. let v = trim (value_of vs p) in if v = [] then h else obj_set (p_name p) v h) ps d =
      put_all obj_set (map (\<lambda>p. (p_name p, trim (value_of vs p))) (filter (\<lambda>p. trim (value_of vs p) \<noteq> []) ps)) d" for ps d
    by (induction ps arbitrary: d) (auto simp: Let_def)
  have rows: "fold (\<lambda>r h. if trim (hr_name r) \<noteq> [] \<and> trim (hr_value r) \<noteq> []
                then obj_set (trim (hr_name r)) (trim (hr_value r)) h else h) rs d =
      put_all obj_set (map (\<lambda>r. (trim (hr_name r), trim (hr_value r)))
       (filter (\<lambda>r. trim (hr_name r) \<noteq> [] \<and> trim (hr_value r) \<noteq> []) rs)) d" for rs d
    by (induction rs arbitrary: d) auto
  have f: "filter (\<lambda>p. trim (value_of vs p) \<noteq> []) (filter (\<lambda>p. p_in p = HeaderParam) ps) =
      filter (\<lambda>p. p_in p = HeaderParam \<and> trim (value_of vs p) \<noteq> []) ps" for ps
    by (simp add: conj_commute)
  show ?thesis
    unfolding requestHeaders_def header_rows_def params rows f put_all_append by (simp add: Let_def)
qed

section \<open>Validation\<close>

text \<open>What a typed text must satisfy for a schema.\<close>

definition acceptable :: "jval \<Rightarrow> jstr \<Rightarrow> bool" where
  "acceptable schema s =
     ((checked_type schema = JStr (js ''integer'') \<longrightarrow> is_integer_text s) \<and>
      (checked_type schema = JStr (js ''number'') \<longrightarrow> is_finite (to_number s)) \<and>
      (checked_type schema = JStr (js ''boolean'') \<longrightarrow> s = js ''true'' \<or> s = js ''false'') \<and>
      (case field schema ''enum'' of JArr _ xs \<Rightarrow> xs = [] \<or> (\<exists>x\<in>set xs. to_str x = Inr s) | _ \<Rightarrow> True))"

lemma outside_enum_iff:
  "outside_enum v s = Inr b \<Longrightarrow>
   b \<longleftrightarrow> \<not> (case v of JArr _ xs \<Rightarrow> xs = [] \<or> (\<exists>x\<in>set xs. to_str x = Inr s) | _ \<Rightarrow> True)"
proof (cases v)
  case (JArr i xs)
  assume o: "outside_enum v s = Inr b"
  show ?thesis
  proof (cases "xs = []")
    case False
    with o JArr obtain ts where ts: "emap to_str xs = Inr ts" "b \<longleftrightarrow> s \<notin> set ts"
      by (auto simp: outside_enum_def ebind_Inr_iff)
    from ts(1) have "list_all2 (\<lambda>x t. to_str x = Inr t) xs ts" by (simp add: emap_Inr_iff)
    then have "s \<in> set ts \<longleftrightarrow> (\<exists>x\<in>set xs. to_str x = Inr s)"
      by (induction rule: list_all2_induct) auto
    with JArr False ts(2) show ?thesis by simp
  qed (use o JArr in \<open>simp add: outside_enum_def\<close>)
qed (simp_all add: outside_enum_def)

lemma value_problem_none: "value_problem schema s = Inr None \<longleftrightarrow> acceptable schema s \<and> (\<exists>b. outside_enum (field schema ''enum'') s = Inr b)"
proof -
  have "value_problem schema s = Inr None \<longleftrightarrow> acceptable schema s" if "outside_enum (field schema ''enum'') s = Inr b" for b
    using outside_enum_iff [OF that] that by (auto simp: value_problem_def acceptable_def Let_def)
  moreover have "value_problem schema s \<noteq> Inr None" if "outside_enum (field schema ''enum'') s = Inl e" for e
    using that by (simp add: value_problem_def)
  ultimately show ?thesis by (metis sum.exhaust)
qed

lemma check_parameter_ok:
  assumes "check_parameter spec vs p = Inr []"
  shows "if trim (value_of vs p) = [] then \<not> p_required p
    else \<exists>r. resolveRef spec (p_schema p) = Inr r \<and> acceptable (coalesce r (JObj Fresh [])) (trim (value_of vs p))"
proof (cases "trim (value_of vs p) = []")
  case False
  with assms obtain r m where "resolveRef spec (p_schema p) = Inr r" "value_problem (coalesce r (JObj Fresh [])) (trim (value_of vs p)) = Inr m"
    "m = None" by (auto simp: check_parameter_def Let_def ebind_Inr_iff split: option.splits)
  with False value_problem_none show ?thesis by auto
qed (use assms in \<open>auto simp: check_parameter_def split: if_splits\<close>)

lemma check_parameter_errors:
  assumes "check_parameter spec vs p = Inr es"
  shows "length es \<le> 1 \<and> (\<forall>e\<in>set es. v_id e = paramId p \<and> v_name e = p_name p)"
proof (cases "trim (value_of vs p) = []")
  case True
  with assms show ?thesis by (cases "p_required p") (auto simp: check_parameter_def)
next
  case False
  then obtain m where "es = (case m of None \<Rightarrow> [] | Some m \<Rightarrow> [\<lparr>v_id = paramId p, v_name = p_name p, v_message = m\<rparr>])"
    using assms unfolding check_parameter_def Let_def if_not_P [OF False] ebind_Inr_iff by blast
  then show ?thesis by (cases m) simp_all
qed

lemma concat_at_most_one:
  "list_all2 (\<lambda>p es. length es \<le> 1 \<and> (\<forall>e\<in>set es. f e = g p)) ps ess \<Longrightarrow> subseq (map f (concat ess)) (map g ps)"
proof (induction rule: list_all2_induct)
  case (Cons p ps es ess)
  then show ?case by (cases es) auto
qed simp

lemma validate_subseq:
  assumes "validateParameters spec params vs = Inr es"
  shows "subseq (map v_id es) (map paramId params)"
proof -
  from assms obtain ess where ess: "emap (check_parameter spec vs) params = Inr ess" and es: "es = concat ess"
    by (auto simp: validateParameters_def ebind_Inr_iff)
  from ess have "list_all2 (\<lambda>p es. length es \<le> 1 \<and> (\<forall>e\<in>set es. v_id e = paramId p)) params ess"
    unfolding emap_Inr_iff by (rule list_all2_mono) (use check_parameter_errors in blast)
  then show ?thesis unfolding es by (rule concat_at_most_one)
qed

lemma validate_none:
  assumes "validateParameters spec params vs = Inr []" "p \<in> set params"
  shows "check_parameter spec vs p = Inr []"
proof -
  from assms(1) obtain ess where ess: "emap (check_parameter spec vs) params = Inr ess" and e: "\<forall>es\<in>set ess. es = []"
    by (auto simp: validateParameters_def ebind_Inr_iff)
  from ess have "list_all2 (\<lambda>p es. check_parameter spec vs p = Inr es) params ess" by (simp add: emap_Inr_iff)
  then show ?thesis using e assms(2) by (induction rule: list_all2_induct) auto
qed

section \<open>Base 64 text\<close>

lemma bom_lead:
  assumes "scalar c" "take 3 (utf8 c @ bs) = [239, 187, 191]"
  shows "c = 65279"
proof -
  have r: "utf8_read (0, 0, 0, 0) (utf8 c @ bs) = c # utf8_read (0, 0, 0, 0) bs" by (rule utf8_read_point [OF assms(1)])
  define rest where "rest = drop 3 (utf8 c @ bs)"
  have "utf8 c @ bs = [239, 187, 191] @ rest" unfolding rest_def using assms(2) by (metis append_take_drop_id)
  also have "[239, 187, 191] = utf8 65279" by (simp add: utf8_def)
  finally have "utf8_read (0, 0, 0, 0) (utf8 c @ bs) = 65279 # utf8_read (0, 0, 0, 0) rest"
    using utf8_read_point [of 65279 rest] by (simp add: scalar_def)
  with r show ?thesis by simp
qed

lemma text_decode_encode:
  assumes "well_formed s"
  shows "text_decode (utf8_encode s) = (case s of [] \<Rightarrow> [] | u # r \<Rightarrow> if u = 65279 then r else s)"
proof -
  from assms obtain cs where cs: "code_points s = Inr cs" by (auto simp: well_formed_iff)
  have e: "utf8_encode s = concat (map utf8 cs)" by (simp add: utf8_encode_def scalar_values_code_points [OF cs])
  note u = code_points_utf16 [OF cs]
  show ?thesis
  proof (cases cs)
    case Nil
    with u e show ?thesis by (simp add: text_decode_def utf8_decode_def)
  next
    case (Cons c ds)
    with u have s: "s = utf16 c @ concat (map utf16 ds)" "scalar c" "\<forall>d\<in>set ds. scalar d" by auto
    have dec: "utf8_decode (concat (map utf8 ds)) = concat (map utf16 ds)"
      using s(3) by (simp add: utf8_decode_def utf8_read_encode)
    have bom: "utf8 65279 = [239, 187, 191]" "utf16 65279 = [65279]" by (simp_all add: utf8_def utf16_def)
    show ?thesis
    proof (cases "c = 65279")
      case True
      with s e Cons dec bom show ?thesis by (simp add: text_decode_def)
    next
      case False
      then have "take 3 (utf8_encode s) \<noteq> [239, 187, 191]" using bom_lead [OF s(2)] e Cons by auto
      then have "text_decode (utf8_encode s) = s" using utf8_decode_encode [OF assms] by (simp add: text_decode_def)
      moreover have "hd s \<noteq> 65279 \<and> s \<noteq> []"
      proof -
        have "c < 1114112" using s(2) by (auto simp: scalar_def)
        have "utf16 c \<noteq> [] \<and> hd (utf16 c) \<noteq> 65279"
        proof (cases "c < 65536")
          case True
          then have "unat (word_of_nat c :: unit16) = c" by (rule unat_unit)
          with True False show ?thesis by (auto simp: utf16_def word_unat_eq_iff)
        next
          case big: False
          have "(c - 65536) div 1024 < 1024" using \<open>c < 1114112\<close> by linarith
          then have "unat (word_of_nat (55296 + (c - 65536) div 1024) :: unit16) = 55296 + (c - 65536) div 1024"
            by (intro unat_unit) linarith
          with \<open>(c - 65536) div 1024 < 1024\<close> big show ?thesis by (simp add: utf16_def word_unat_eq_iff)
        qed
        then show ?thesis unfolding s(1) by simp
      qed
      ultimately show ?thesis by (cases s) auto
    qed
  qed
qed

section \<open>Properties\<close>

definition a_param :: "ParameterLocation \<Rightarrow> string \<Rightarrow> bool \<Rightarrow> jval \<Rightarrow> Parameter" where
  "a_param l n req schema = \<lparr>p_name = js n, p_in = l, p_required = req, p_deprecated = False, p_description = [],
     p_schema = schema, p_example = JUndef\<rparr>"

definition schema_of :: "string \<Rightarrow> jval" where
  "schema_of t = JObj (Loc 0) [(js ''type'', JStr (js t))]"

text \<open>Filling a path template replaces exactly the holes that name a path parameter, each by the encoded value as
  typed; an inserted value is never read as a hole again, whatever it contains.\<close>

theorem resolvePath_fills_holes:
  assumes "\<forall>p\<in>set ps. piece_ok p"
    and "\<forall>q\<in>set params. p_in q = PathParam \<longrightarrow> brace_free (p_name q) \<and> well_formed (value_of vs q)"
  shows "resolvePath (render ps) params vs = Inr (render (map (filled (filter (\<lambda>q. p_in q = PathParam) params) vs) ps))"
  unfolding resolvePath_def using assms by (intro efold_fill) auto

theorem resolvePath_fills_holes_witness:
  "resolvePath (js ''/a/{x}/{y}/{z}'') [a_param PathParam ''x'' True JUndef, a_param PathParam ''y'' True JUndef]
     [(js ''path:x'', js ''{y}''), (js ''path:y'', js ''1/2'')] = Inr (js ''/a/%7By%7D/1%2F2/{z}'')"
proof -
  let ?ps = "[Lit (js ''/a/''), Hole (js ''x''), Lit (js ''/''), Hole (js ''y''), Lit (js ''/''), Hole (js ''z'')]"
  let ?params = "[a_param PathParam ''x'' True JUndef, a_param PathParam ''y'' True JUndef]"
  let ?vs = "[(js ''path:x'', js ''{y}''), (js ''path:y'', js ''1/2'')]"
  have "\<forall>p\<in>set ?ps. piece_ok p" "\<forall>q\<in>set ?params. p_in q = PathParam \<longrightarrow> brace_free (p_name q) \<and> well_formed (value_of ?vs q)"
    by (simp only: ball_simps list.set insert_iff empty_iff; code_simp)+
  from resolvePath_fills_holes [OF this]
  have "resolvePath (render ?ps) ?params ?vs = Inr (render (map (filled (filter (\<lambda>q. p_in q = PathParam) ?params) ?vs) ?ps))" .
  moreover have "render ?ps = js ''/a/{x}/{y}/{z}''" by code_simp
  moreover have "render (map (filled (filter (\<lambda>q. p_in q = PathParam) ?params) ?vs) ?ps) = js ''/a/%7By%7D/1%2F2/{z}''" by code_simp
  ultimately show ?thesis by simp
qed



text \<open>C35: filling fails exactly when the value of some path parameter has a lone surrogate, and then with a URIError.\<close>

theorem resolvePath_fails_iff:
  "resolvePath template params vs = Inl e \<longleftrightarrow>
   e = URIError \<and> (\<exists>q\<in>set params. p_in q = PathParam \<and> \<not> well_formed (value_of vs q))"
  unfolding resolvePath_def efold_fill_error by auto

text \<open>Reading the query string back gives the non-blank query values, trimmed, in parameter order.\<close>

theorem queryString_roundtrip:
  assumes "\<forall>p\<in>set params. p_in p = QueryParam \<longrightarrow> well_formed (p_name p) \<and> well_formed (trim (value_of vs p))"
  shows "form_parse (queryString params vs) =
    map (\<lambda>p. (p_name p, trim (value_of vs p))) (filter (\<lambda>p. p_in p = QueryParam \<and> trim (value_of vs p) \<noteq> []) params)"
proof -
  have "\<forall>(k, v)\<in>set (query_pairs params vs). well_formed k \<and> well_formed v"
    using assms by (auto simp: query_pairs_list)
  then show ?thesis unfolding queryString_def by (simp add: form_text.dec_enc query_pairs_list)
qed

theorem queryString_roundtrip_witness:
  "form_parse (queryString [a_param QueryParam ''a&b'' False JUndef, a_param QueryParam ''n'' False JUndef, a_param PathParam ''x'' True JUndef]
     [(js ''query:a&b'', js '' 1 + 2=3 ''), (js ''query:n'', js ''  '')]) = [(js ''a&b'', js ''1 + 2=3'')]"
proof -
  let ?ps = "[a_param QueryParam ''a&b'' False JUndef, a_param QueryParam ''n'' False JUndef, a_param PathParam ''x'' True JUndef]"
  let ?vs = "[(js ''query:a&b'', js '' 1 + 2=3 ''), (js ''query:n'', js ''  '')]"
  have "\<forall>p\<in>set ?ps. p_in p = QueryParam \<longrightarrow> well_formed (p_name p) \<and> well_formed (trim (value_of ?vs p))"
    by (simp only: ball_simps list.set insert_iff empty_iff; code_simp)
  from queryString_roundtrip [OF this] have "form_parse (queryString ?ps ?vs) =
    map (\<lambda>p. (p_name p, trim (value_of ?vs p))) (filter (\<lambda>p. p_in p = QueryParam \<and> trim (value_of ?vs p) \<noteq> []) ?ps)" .
  also have "\<dots> = [(js ''a&b'', js ''1 + 2=3'')]" by code_simp
  finally show ?thesis .
qed

text \<open>Each header sent holds the last non-blank assignment of its name: extra rows override parameters, parameters
  override the content type and the accepted type.\<close>

theorem requestHeaders_last_assignment:
  assumes "proto_key \<notin> fst ` set (header_rows op vs extra accept contentType withBody)"
  shows "map_of (requestHeaders op vs extra accept contentType withBody) k =
      map_of (rev (header_rows op vs extra accept contentType withBody)) k \<and>
    distinct (map fst (requestHeaders op vs extra accept contentType withBody))"
proof
  have "\<forall>(k, v)\<in>set (header_rows op vs extra accept contentType withBody). k \<noteq> proto_key"
    using assms by force
  from js_record.get_put_all [OF this, of "[]" k]
  show "map_of (requestHeaders op vs extra accept contentType withBody) k =
      map_of (rev (header_rows op vs extra accept contentType withBody)) k"
    by (simp add: requestHeaders_rows split: option.splits)
  show "distinct (map fst (requestHeaders op vs extra accept contentType withBody))"
    unfolding requestHeaders_rows by (rule js_record.distinct_put_all) simp
qed

definition header_op :: Operation where
  "header_op = \<lparr>o_key = [], o_method = js ''GET'', o_path = js ''/a'', o_operationId = None, o_summary = [],
     o_description = [], o_tags = [], o_deprecated = False,
     o_parameters = [a_param HeaderParam ''Accept'' False JUndef, a_param HeaderParam ''X-Id'' False JUndef],
     o_requestBody = None, o_responses = [], o_security = []\<rparr>"

theorem requestHeaders_last_assignment_witness:
  "map_of (requestHeaders header_op [(js ''header:X-Id'', js ''1'')] [\<lparr>hr_name = js '' X-Id '', hr_value = js ''2''\<rparr>]
     (js ''text/csv'') [] False) (js ''X-Id'') = Some (js ''2'')"
proof -
  have k: "proto_key \<notin> fst ` set (header_rows header_op [(js ''header:X-Id'', js ''1'')] [\<lparr>hr_name = js '' X-Id '', hr_value = js ''2''\<rparr>]
     (js ''text/csv'') [] False)" by code_simp
  have "map_of (rev (header_rows header_op [(js ''header:X-Id'', js ''1'')] [\<lparr>hr_name = js '' X-Id '', hr_value = js ''2''\<rparr>]
     (js ''text/csv'') [] False)) (js ''X-Id'') = Some (js ''2'')" by code_simp
  then show ?thesis using requestHeaders_last_assignment [OF k] by simp
qed

definition GUARDED :: "jstr list" where
  "GUARDED = map js [''authorization'', ''cookie'', ''x-forwarded-for'', ''x-forwarded-host'', ''x-http-method-override'']"





text \<open>Validation reports at most one error for each parameter, in parameter order.\<close>

theorem validation_errors_in_order:
  assumes "validateParameters spec params vs = Inr es"
  shows "subseq (map v_id es) (map paramId params)"
  using assms by (rule validate_subseq)

theorem validation_errors_in_order_witness:
  "subseq [js ''path:a'', js ''query:c''] [js ''path:a'', js ''query:b'', js ''query:c'']"
proof -
  let ?ps = "[a_param PathParam ''a'' True JUndef, a_param QueryParam ''b'' False JUndef, a_param QueryParam ''c'' False (schema_of ''boolean'')]"
  have "case validateParameters JNull ?ps [(js ''query:c'', js ''yes'')] of Inl e \<Rightarrow> False
      | Inr es \<Rightarrow> map v_id es = [js ''path:a'', js ''query:c'']" by code_simp
  then obtain es where es: "validateParameters JNull ?ps [(js ''query:c'', js ''yes'')] = Inr es"
    "map v_id es = [js ''path:a'', js ''query:c'']" by (auto split: sum.splits)
  have "map paramId ?ps = [js ''path:a'', js ''query:b'', js ''query:c'']" by code_simp
  with validation_errors_in_order [OF es(1)] es(2) show ?thesis by simp
qed

text \<open>Decoding the base 64 form of a text gives the text back, except that a leading byte order mark is lost.\<close>

theorem base64_roundtrip:
  assumes "well_formed s"
  shows "decodeBase64Utf8 (encodeBase64Utf8 s) = (case s of [] \<Rightarrow> [] | u # r \<Rightarrow> if u = 65279 then r else s)"
proof -
  have "atob (btoa (utf8_encode s)) = Some (utf8_encode s)"
    by (rule atob_btoa [OF utf8_encode_octets [OF assms]])
  then show ?thesis
    by (simp add: decodeBase64Utf8_def encodeBase64Utf8_def text_decode_encode [OF assms])
qed

theorem base64_roundtrip_witness:
  "decodeBase64Utf8 (encodeBase64Utf8 (65279 # js ''hi'')) = js ''hi''"
proof -
  have "well_formed (65279 # js ''hi'')" by code_simp
  from base64_roundtrip [OF this] show ?thesis by simp
qed

end
