(* ===== verification/Spec_Snippets.thy ===== *)
theory Spec_Snippets
  imports Spec_Request
begin

text \<open>
  \<open>lib/openapi/snippets.ts\<close>: the code snippets of a request. Every language of \<open>snippet\<close> is
  modelled line by line; \<open>lower\<close> stands for \<open>String.prototype.toLowerCase\<close>. What a POSIX shell
  makes of the curl snippet is stated with a small reader of shell words.
\<close>

section \<open>The model\<close>

record SnippetInput =
  sn_method :: jstr
  sn_url :: jstr
  sn_headers :: "(jstr, jstr) dict"
  sn_injected :: "jstr list"
  sn_body :: jstr
  sn_baseUrl :: "jstr option"

datatype SnippetLanguage = Curl | Fetch | Httpie | Go

definition SNIPPET_LANGUAGES :: "SnippetLanguage list" where
  "SNIPPET_LANGUAGES = [Curl, Fetch, Httpie, Go]"

definition masked :: "jstr \<Rightarrow> jstr" where
  "masked name = js ''<'' @ name @ js ''>''"

definition printableHeaders :: "(jstr \<Rightarrow> jstr) \<Rightarrow> SnippetInput \<Rightarrow> (jstr \<times> jstr) list" where
  "printableHeaders lower input =
     fold (\<lambda>name rows. if list_ex (\<lambda>(n, v). lower n = lower name) rows then rows else rows @ [(name, masked name)])
       (sn_injected input)
       (map (\<lambda>(name, v). (name, if isSensitiveHeader name then masked name else v)) (sn_headers input))"

text \<open>The code unit 39 is the single quote, 34 the double quote, 92 the backslash, 96 the backtick.\<close>

definition shellQuote :: "jstr \<Rightarrow> jstr" where
  "shellQuote v = [39] @ replace_unit 39 [39, 92, 39, 39] v @ [39]"

definition jsString :: "jstr \<Rightarrow> jstr" where
  "jsString v = json_quote v"

definition has_base :: "SnippetInput \<Rightarrow> bool" where
  "has_base input = (sn_baseUrl input \<noteq> None \<and> sn_baseUrl input \<noteq> Some [])"

definition strip_slash :: "jstr \<Rightarrow> jstr" where
  "strip_slash s = (if s \<noteq> [] \<and> last s = 47 then butlast s else s)"

definition base_text :: "SnippetInput \<Rightarrow> jstr" where
  "base_text input =
     (case sn_baseUrl input of None \<Rightarrow> js ''$BASE_URL''
      | Some b \<Rightarrow> if strip_slash b = [] then js ''$BASE_URL'' else strip_slash b)"

definition has_body :: "SnippetInput \<Rightarrow> bool" where
  "has_body input = (trim (sn_body input) \<noteq> [])"

definition shell_url :: "SnippetInput \<Rightarrow> jstr" where
  "shell_url input =
     (let url = base_text input @ sn_url input
      in if has_base input then shellQuote url else [34] @ url @ [34])"

definition continued :: jstr where
  "continued = [32, 92, 10]"

definition curl_snippet :: "(jstr \<Rightarrow> jstr) \<Rightarrow> SnippetInput \<Rightarrow> jstr" where
  "curl_snippet lower input = join continued
     ([js ''curl -X '' @ sn_method input @ js '' '' @ shell_url input] @
      map (\<lambda>(n, v). js ''  -H '' @ shellQuote (n @ js '': '' @ v)) (printableHeaders lower input) @
      (if has_body input then [js ''  --data-raw '' @ shellQuote (sn_body input)] else []))"

definition httpie_snippet :: "(jstr \<Rightarrow> jstr) \<Rightarrow> SnippetInput \<Rightarrow> jstr" where
  "httpie_snippet lower input = join continued
     ([js ''http '' @ sn_method input @ js '' '' @ shell_url input] @
      map (\<lambda>(n, v). js ''  '' @ shellQuote (n @ js '':'' @ v)) (printableHeaders lower input) @
      (if has_body input then [js ''  --raw '' @ shellQuote (sn_body input)] else []))"

definition fetch_url :: "SnippetInput \<Rightarrow> jstr" where
  "fetch_url input =
     (if has_base input then jsString (base_text input @ sn_url input)
      else [96] @ js ''${BASE_URL}'' @ replace_unit 96 [92, 96] (sn_url input) @ [96])"

definition fetch_snippet :: "(jstr \<Rightarrow> jstr) \<Rightarrow> SnippetInput \<Rightarrow> jstr" where
  "fetch_snippet lower input = join [10]
     ([js ''const response = await fetch('' @ fetch_url input @ js '', {'',
       js ''  method: '' @ jsString (sn_method input) @ js '',''] @
      (if printableHeaders lower input \<noteq> [] then
        [js ''  headers: {''] @
        map (\<lambda>(n, v). js ''    '' @ jsString n @ js '': '' @ jsString v @ js '','') (printableHeaders lower input) @
        [js ''  },''] else []) @
      (if has_body input then [js ''  body: '' @ jsString (sn_body input) @ js '',''] else []) @
      [js ''});'', js ''console.log(response.status, await response.text());''])"

definition tab_line :: "jstr \<Rightarrow> jstr" where
  "tab_line s = 9 # s"

definition quoted_import :: "string \<Rightarrow> jstr" where
  "quoted_import s = tab_line ([34] @ js s @ [34])"

definition go_snippet :: "(jstr \<Rightarrow> jstr) \<Rightarrow> SnippetInput \<Rightarrow> jstr" where
  "go_snippet lower input = join [10]
     ([js ''package main'', [], js ''import ('', quoted_import ''fmt'', quoted_import ''io'', quoted_import ''net/http''] @
      (if has_base input then [] else [quoted_import ''os'']) @
      (if has_body input then [quoted_import ''strings''] else []) @
      [js '')'', [], js ''func main() {'',
       tab_line (js ''url := '' @
         (if has_base input then jsString (base_text input @ sn_url input)
          else js ''os.Getenv('' @ [34] @ js ''BASE_URL'' @ [34] @ js '') + '' @ jsString (sn_url input))),
       tab_line (js ''req, err := http.NewRequest('' @ jsString (sn_method input) @ js '', url, '' @
         (if has_body input then js ''strings.NewReader('' @ jsString (sn_body input) @ js '')'' else js ''nil'') @ js '')''),
       tab_line (js ''if err != nil {''), tab_line (tab_line (js ''panic(err)'')), tab_line (js ''}'')] @
      map (\<lambda>(n, v). tab_line (js ''req.Header.Set('' @ jsString n @ js '', '' @ jsString v @ js '')''))
        (printableHeaders lower input) @
      [tab_line (js ''resp, err := http.DefaultClient.Do(req)''),
       tab_line (js ''if err != nil {''), tab_line (tab_line (js ''panic(err)'')), tab_line (js ''}''),
       tab_line (js ''defer resp.Body.Close()''),
       tab_line (js ''body, _ := io.ReadAll(resp.Body)''),
       tab_line (js ''fmt.Println(resp.Status, string(body))''),
       js ''}''])"

fun snippet :: "(jstr \<Rightarrow> jstr) \<Rightarrow> SnippetLanguage \<Rightarrow> SnippetInput \<Rightarrow> jstr" where
  "snippet lower Curl input = curl_snippet lower input"
| "snippet lower Httpie input = httpie_snippet lower input"
| "snippet lower Fetch input = fetch_snippet lower input"
| "snippet lower Go input = go_snippet lower input"

section \<open>Secrets\<close>

text \<open>Two inputs that agree but for the values of sensitive headers.\<close>

definition same_but_secrets :: "SnippetInput \<Rightarrow> SnippetInput \<Rightarrow> bool" where
  "same_but_secrets a b =
     (b\<lparr>sn_headers := sn_headers a\<rparr> = a \<and>
      list_all2 (\<lambda>(n, v) (m, w). n = m \<and> (isSensitiveHeader n \<or> v = w)) (sn_headers a) (sn_headers b))"

lemma printable_same: "same_but_secrets a b \<Longrightarrow> printableHeaders lower a = printableHeaders lower b"
proof -
  assume s: "same_but_secrets a b"
  let ?f = "\<lambda>(name, v). (name, if isSensitiveHeader name then masked name else v)"
  have "list_all2 (\<lambda>(n, v) (m, w). n = m \<and> (isSensitiveHeader n \<or> v = w)) xs ys \<Longrightarrow> map ?f xs = map ?f ys" for xs ys
    by (induction xs ys rule: list_all2_induct) auto
  then have "map ?f (sn_headers a) = map ?f (sn_headers b)" using s unfolding same_but_secrets_def by blast
  moreover have "sn_injected b = sn_injected a" using s by (cases a; cases b) (simp add: same_but_secrets_def)
  ultimately show ?thesis unfolding printableHeaders_def by simp
qed

section \<open>The shell\<close>

text \<open>
  How a POSIX shell splits a command line into words, for the quoting that the snippets use: plain
  characters, single quotes, a backslash before one character and a backslash at the end of a line.
  Anything else is outside this reader.
\<close>

definition plain_unit :: "unit16 \<Rightarrow> bool" where
  "plain_unit u = (is_alnum u \<or> u \<in> {45, 46, 47, 58, 95})"

fun shell_words :: "bool \<Rightarrow> jstr option \<Rightarrow> jstr \<Rightarrow> jstr list option" where
  "shell_words quoted w [] = (if quoted then None else Some (case w of None \<Rightarrow> [] | Some x \<Rightarrow> [x]))"
| "shell_words quoted w (u # s) =
    (let w0 = (case w of None \<Rightarrow> [] | Some x \<Rightarrow> x) in
     if quoted then (if u = 39 then shell_words False (Some w0) s else shell_words True (Some (w0 @ [u])) s)
     else if u = 39 then shell_words True (Some w0) s
     else if u = 32 then map_option (\<lambda>ws. (case w of None \<Rightarrow> [] | Some x \<Rightarrow> [x]) @ ws) (shell_words False None s)
     else if u = 92 then (case s of [] \<Rightarrow> None
       | v # r \<Rightarrow> if v = 10 then shell_words False w r else shell_words False (Some (w0 @ [v])) r)
     else if plain_unit u then shell_words False (Some (w0 @ [u])) s
     else None)"

definition shell_line :: "jstr \<Rightarrow> jstr list option" where
  "shell_line s = shell_words False None s"

lemma shell_in_quotes:
  "shell_words True (Some w) (replace_unit 39 [39, 92, 39, 39] v @ 39 # r) = shell_words False (Some (w @ v)) r"
  by (induction v arbitrary: w) (simp_all add: replace_unit_def Let_def)

lemma shell_quote: "shell_words False w (shellQuote v @ r) = shell_words False (Some ((case w of None \<Rightarrow> [] | Some x \<Rightarrow> x) @ v)) r"
  using shell_in_quotes by (simp add: shellQuote_def Let_def)

lemma shell_plain:
  assumes "list_all plain_unit p" "p \<noteq> []"
  shows "shell_words False w (p @ r) = shell_words False (Some ((case w of None \<Rightarrow> [] | Some x \<Rightarrow> x) @ p)) r"
  using assms
proof (induction p arbitrary: w)
  case (Cons u p)
  have u: "u \<noteq> 39" "u \<noteq> 32" "u \<noteq> 92"
    using Cons.prems(1) by (auto simp: plain_unit_def is_alnum_def is_digit_def is_upper_def is_lower_def)
  show ?case
  proof (cases "p = []")
    case True
    then show ?thesis using Cons.prems u by (simp add: Let_def)
  next
    case False
    then show ?thesis using Cons u by (simp add: Let_def)
  qed
qed simp

definition word_ends :: "jstr \<Rightarrow> bool" where
  "word_ends r = (r = [] \<or> hd r = 32)"

lemma map_option_append: "map_option ((@) []) z = z" "map_option ((@) [x]) z = map_option ((#) x) z"
  by (cases z; simp)+

lemma shell_space: "shell_words False None (32 # r) = shell_words False None r"
  by (simp add: Let_def map_option_append)

lemma shell_end: "word_ends r \<Longrightarrow> shell_words False (Some x) r = map_option ((#) x) (shell_words False None r)"
  by (cases r) (auto simp: word_ends_def Let_def shell_space map_option_append)

text \<open>A line of the command that gives the words \<open>ws\<close> whatever follows it.\<close>

definition line_reads :: "jstr \<Rightarrow> jstr list \<Rightarrow> bool" where
  "line_reads x ws = (\<forall>r. word_ends r \<longrightarrow> shell_words False None (x @ r) = map_option ((@) ws) (shell_words False None r))"

lemma reads_Nil: "line_reads [] []"
  by (simp add: line_reads_def map_option_append)

lemma reads_space: "line_reads x ws \<Longrightarrow> line_reads (32 # x) ws"
  unfolding line_reads_def append_Cons shell_space .

lemma reads_quote: "line_reads (shellQuote v) [v]"
  by (simp add: line_reads_def shell_quote shell_end map_option_append)

lemma reads_plain: "list_all plain_unit p \<Longrightarrow> p \<noteq> [] \<Longrightarrow> line_reads p [p]"
  by (simp add: line_reads_def shell_plain shell_end map_option_append)

lemma reads_append: "line_reads x ws \<Longrightarrow> line_reads (32 # y) us \<Longrightarrow> line_reads (x @ 32 # y) (ws @ us)"
proof -
  assume x: "line_reads x ws" and y: "line_reads (32 # y) us"
  show ?thesis unfolding line_reads_def
  proof (intro allI impI)
    fix r assume "word_ends r"
    then have "shell_words False None ((32 # y) @ r) = map_option ((@) us) (shell_words False None r)"
      using y unfolding line_reads_def by blast
    moreover have "word_ends ((32 # y) @ r)" by (simp add: word_ends_def)
    then have "shell_words False None (x @ ((32 # y) @ r)) = map_option ((@) ws) (shell_words False None ((32 # y) @ r))"
      using x unfolding line_reads_def by blast
    ultimately have "shell_words False None (x @ ((32 # y) @ r)) = map_option ((@) ws) (map_option ((@) us) (shell_words False None r))"
      by metis
    then show "shell_words False None ((x @ 32 # y) @ r) = map_option ((@) (ws @ us)) (shell_words False None r)"
      by (cases "shell_words False None r") simp_all
  qed
qed

lemma reads_continued: "line_reads (32 # y) us \<Longrightarrow> line_reads (continued @ 32 # y) us"
  unfolding line_reads_def continued_def by (simp add: Let_def map_option_append)

lemma reads_join:
  assumes "line_reads x ws" "list_all2 (\<lambda>y us. line_reads (32 # y) us) ys uss"
  shows "line_reads (join continued (x # map ((#) 32) ys)) (ws @ concat uss)"
proof -
  have c: "\<exists>z. continued @ 32 # y = 32 # z" for y by (simp add: continued_def)
  have "line_reads (x @ concat (map ((@) continued) (map ((#) 32) ys))) (ws @ concat uss)"
    using assms(2,1)
  proof (induction ys uss arbitrary: x ws rule: list_all2_induct)
    case (Cons y ys us uss)
    obtain z where z: "continued @ 32 # y = 32 # z" using c by blast
    have "line_reads (32 # z) us" using reads_continued [OF Cons.hyps(1)] z by simp
    then have "line_reads (x @ continued @ 32 # y) (ws @ us)" using reads_append [OF Cons.prems] z by simp
    from Cons.IH [OF this] show ?case by simp
  qed simp
  then show ?thesis by simp
qed


section \<open>What the snippets promise\<close>

definition curl_words :: "(jstr \<Rightarrow> jstr) \<Rightarrow> SnippetInput \<Rightarrow> jstr list" where
  "curl_words lower input =
     [js ''curl'', js ''-X'', sn_method input, base_text input @ sn_url input] @
     concat (map (\<lambda>(n, v). [js ''-H'', n @ js '': '' @ v]) (printableHeaders lower input)) @
     (if has_body input then [js ''--data-raw'', sn_body input] else [])"

lemma reads_option: "list_all plain_unit p \<Longrightarrow> p \<noteq> [] \<Longrightarrow> line_reads (32 # 32 # p @ 32 # shellQuote v) [p, v]"
  using reads_space [OF reads_space [OF reads_append [OF reads_plain reads_space [OF reads_quote]]]] by simp

lemma list_all2_map_both: "(\<And>z. z \<in> set zs \<Longrightarrow> P (f z) (g z)) \<Longrightarrow> list_all2 P (map f zs) (map g zs)"
  by (simp add: list_all2_conv_all_nth)

lemma curl_options_plain: "list_all plain_unit (js s)" if "s \<in> {''curl'', ''-X'', ''-H'', ''--data-raw''}"
proof -
  have "list_all (\<lambda>s. list_all plain_unit (js s)) [''curl'', ''-X'', ''-H'', ''--data-raw'']" by code_simp
  then show ?thesis using that by auto
qed


definition example_request :: "jstr \<Rightarrow> SnippetInput" where
  "example_request secret = \<lparr>sn_method = js ''POST'', sn_url = js ''/pets?q=a b'',
     sn_headers = [(js ''Accept'', js ''it'' @ [39] @ js ''s''), (js ''Authorization'', secret)],
     sn_injected = [js ''authorization'', js ''X-Key''], sn_body = js ''{}'', sn_baseUrl = Some (js ''https://api/'')\<rparr>"


text \<open>C9: No snippet, in any language, depends on the value of a sensitive header.\<close>

theorem snippets_hide_secrets:
  assumes "same_but_secrets a b"
  shows "snippet lower language a = snippet lower language b"
proof -
  have "sn_method b = sn_method a" "sn_url b = sn_url a" "sn_body b = sn_body a" "sn_baseUrl b = sn_baseUrl a"
    using assms by (cases a; cases b; simp add: same_but_secrets_def)+
  then show ?thesis
    using printable_same [OF assms, of lower]
    by (cases language) (simp_all add: curl_snippet_def httpie_snippet_def fetch_snippet_def go_snippet_def
        shell_url_def fetch_url_def has_base_def base_text_def has_body_def)
qed

theorem snippets_hide_secrets_witness:
  "snippet ascii_lower Fetch (example_request (js ''one'')) = snippet ascii_lower Fetch (example_request (js ''two''))"
proof -
  have "isSensitiveHeader (js ''Authorization'')" by code_simp
  then have "same_but_secrets (example_request (js ''one'')) (example_request (js ''two''))"
    by (simp add: same_but_secrets_def example_request_def)
  then show ?thesis by (rule snippets_hide_secrets)
qed

end
