(* ===== verification/Spec_History.thy ===== *)
theory Spec_History
  imports Js_Json
begin

text \<open>
  \<open>lib/storage.ts\<close> and \<open>lib/history.ts\<close>: preferences in the browser's \<open>localStorage\<close> and the try-it
  history kept in them. The store is a state: its items and whether reading or writing throws
  (private mode, blocked or full storage). Ids of APIs are natural numbers, whose text is their digits.
\<close>

section \<open>Preferences\<close>

record Storage =
  items :: "(jstr, jstr) dict"
  get_throws :: bool
  set_throws :: bool

definition readPref :: "jstr \<Rightarrow> Storage \<Rightarrow> jstr option" where
  "readPref k st = (if get_throws st then None else map_of (items st) k)"

definition writePref :: "jstr \<Rightarrow> jstr \<Rightarrow> Storage \<Rightarrow> Storage" where
  "writePref k v st = (if set_throws st then st else st\<lparr>items := dict_put k v (items st)\<rparr>)"

text \<open>
  What the users of preferences rely on: a value written is read back unless the store fails, other
  preferences keep their value, and a failing store changes nothing.
\<close>

locale preferences =
  fixes read :: "jstr \<Rightarrow> 's \<Rightarrow> jstr option"
    and "write" :: "jstr \<Rightarrow> jstr \<Rightarrow> 's \<Rightarrow> 's"
    and works :: "'s \<Rightarrow> bool"
  assumes read_write: "works st \<Longrightarrow> read k (write k' v st) = (if k = k' then Some v else read k st)"
    and works_write: "works (write k v st) = works st"
    and write_fails: "\<not> works st \<Longrightarrow> read k (write k' v st) = read k st \<or> read k (write k' v st) = Some v \<and> k = k'"
begin

lemma read_write_other: "k \<noteq> k' \<Longrightarrow> read k (write k' v st) = read k st"
  using read_write write_fails by metis

lemma read_write_cases: "read k (write k' v st) = read k st \<or> read k (write k' v st) = Some v \<and> k = k'"
  using read_write write_fails by metis

lemma read_write_twice: "works st \<Longrightarrow> read k (write k w (write k v st)) = Some w"
  by (simp add: read_write works_write)

end

definition storage_works :: "Storage \<Rightarrow> bool" where
  "storage_works st = (\<not> get_throws st \<and> \<not> set_throws st)"

interpretation prefs: preferences readPref writePref storage_works
  by unfold_locales (auto simp: readPref_def writePref_def storage_works_def dict_simps)

section \<open>The request history\<close>

definition HISTORY_LIMIT :: nat where
  "HISTORY_LIMIT = 20"

definition SAVE_DETAILS_KEY :: jstr where
  "SAVE_DETAILS_KEY = js ''portal.history.saveDetails''"

text \<open>The entry that the caller passes and the details it may keep.\<close>

record HistoryEntry =
  he_at :: jstr
  he_method :: jstr
  he_path :: jstr
  he_status :: jnum
  he_durationMs :: "jnum option"

record Details =
  d_values :: "(jstr, jstr) dict"
  d_body :: jstr

definition history_key :: "nat \<Rightarrow> jstr \<Rightarrow> jstr" where
  "history_key apiId opKey = js ''portal.history.'' @ nat_str apiId @ js ''.'' @ opKey"

definition saveDetailsEnabled :: "Storage \<Rightarrow> bool" where
  "saveDetailsEnabled st = (readPref SAVE_DETAILS_KEY st = Some (js ''1''))"

definition setSaveDetails :: "bool \<Rightarrow> Storage \<Rightarrow> Storage" where
  "setSaveDetails on st = writePref SAVE_DETAILS_KEY (if on then js ''1'' else js ''0'') st"

text \<open>What is stored is parsed but not checked: the entries are values.\<close>

definition readHistory :: "nat \<Rightarrow> jstr \<Rightarrow> Storage \<Rightarrow> jval list" where
  "readHistory apiId opKey st =
     (case json_parse (case readPref (history_key apiId opKey) st of None \<Rightarrow> js ''[]'' | Some t \<Rightarrow> t) of
        Some (JArr _ vs) \<Rightarrow> take HISTORY_LIMIT vs | _ \<Rightarrow> [])"

definition stored_entry :: "HistoryEntry \<Rightarrow> Details option \<Rightarrow> jval" where
  "stored_entry e details = JObj Fresh
     ([(js ''at'', JStr (he_at e)), (js ''method'', JStr (he_method e)), (js ''path'', JStr (he_path e)),
       (js ''status'', JNum (he_status e)),
       (js ''durationMs'', case he_durationMs e of None \<Rightarrow> JUndef | Some n \<Rightarrow> JNum n)] @
      (case details of None \<Rightarrow> []
       | Some d \<Rightarrow> [(js ''values'', JObj Fresh (map (\<lambda>(k, v). (k, JStr v)) (d_values d))), (js ''body'', JStr (d_body d))]))"

definition addHistory :: "nat \<Rightarrow> jstr \<Rightarrow> HistoryEntry \<Rightarrow> Details \<Rightarrow> Storage \<Rightarrow> jval list \<times> Storage" where
  "addHistory apiId opKey e details st =
     (let stored = stored_entry e (if saveDetailsEnabled st then Some details else None);
          next_list = take HISTORY_LIMIT (stored # readHistory apiId opKey st)
      in (next_list, writePref (history_key apiId opKey) (the (stringify (JArr Fresh next_list))) st))"

definition clearHistory :: "nat \<Rightarrow> jstr \<Rightarrow> Storage \<Rightarrow> Storage" where
  "clearHistory apiId opKey st = writePref (history_key apiId opKey) (js ''[]'') st"

section \<open>What is read back\<close>

lemma put_all_define_id:
  "distinct (map fst fs) \<Longrightarrow> \<forall>k\<in>fst ` set fs. array_index k = None \<Longrightarrow> put_all obj_define fs [] = fs"
proof -
  have "distinct (map fst (d @ fs)) \<Longrightarrow> \<forall>k\<in>fst ` set fs. array_index k = None \<Longrightarrow> put_all obj_define fs d = d @ fs" for d
  proof (induction fs arbitrary: d)
    case (Cons p fs)
    obtain k v where p: "p = (k, v)" by (cases p)
    have "obj_define k v d = d @ [(k, v)]" using Cons.prems p by (auto simp: obj_define_def)
    with Cons.IH [of "d @ [(k, v)]"] Cons.prems p show ?case by simp
  qed simp
  then show "distinct (map fst fs) \<Longrightarrow> \<forall>k\<in>fst ` set fs. array_index k = None \<Longrightarrow> put_all obj_define fs [] = fs"
    by (metis append_Nil)
qed

text \<open>Numbers of entries are integers; the values of a request have distinct ids, which are no array indices.\<close>

definition entry_ok :: "HistoryEntry \<Rightarrow> bool" where
  "entry_ok e = (storable (JNum (he_status e)) \<and> (case he_durationMs e of None \<Rightarrow> True | Some n \<Rightarrow> storable (JNum n)))"

definition details_ok :: "Details \<Rightarrow> bool" where
  "details_ok d = (distinct (map fst (d_values d)) \<and> list_all (\<lambda>(k, v). array_index k = None) (d_values d))"

text \<open>An entry as it is read back: a missing duration is no property any more.\<close>

definition kept_entry :: "HistoryEntry \<Rightarrow> Details option \<Rightarrow> jval" where
  "kept_entry e details = JObj Fresh
     ([(js ''at'', JStr (he_at e)), (js ''method'', JStr (he_method e)), (js ''path'', JStr (he_path e)),
       (js ''status'', JNum (he_status e))] @
      (case he_durationMs e of None \<Rightarrow> [] | Some n \<Rightarrow> [(js ''durationMs'', JNum n)]) @
      (case details of None \<Rightarrow> []
       | Some d \<Rightarrow> [(js ''values'', JObj Fresh (map (\<lambda>(k, v). (k, JStr v)) (d_values d))), (js ''body'', JStr (d_body d))]))"

lemma kept_text: "json_text [] [] (stored_entry e d) = json_text [] [] (kept_entry e d)"
  by (cases "he_durationMs e"; cases d) (simp_all add: stored_entry_def kept_entry_def)

definition entry_keys :: "jstr list" where
  "entry_keys = map js [''at'', ''method'', ''path'', ''status'', ''durationMs'', ''values'', ''body'']"

lemma entry_keys_plain: "k \<in> set entry_keys \<Longrightarrow> array_index k = None"
proof -
  have "list_all (\<lambda>k. array_index k = None) entry_keys" by code_simp
  then show "k \<in> set entry_keys \<Longrightarrow> array_index k = None" by (simp add: list_all_iff)
qed

lemma kept_entry_keys:
  assumes "kept_entry e d = JObj Fresh fs"
  shows "distinct (map fst fs)" "fst ` set fs \<subseteq> set entry_keys"
  using assms by (cases "he_durationMs e"; cases d; force simp: kept_entry_def entry_keys_def)+

lemma kept_storable:
  assumes "entry_ok e" "case d of None \<Rightarrow> True | Some x \<Rightarrow> details_ok x"
  shows "storable (kept_entry e d)"
proof -
  obtain fs where fs: "kept_entry e d = JObj Fresh fs" by (simp add: kept_entry_def)
  have "put_all obj_define fs [] = fs"
    using kept_entry_keys [OF fs] entry_keys_plain by (intro put_all_define_id) auto
  moreover have "list_all (\<lambda>(k, v). storable v) fs"
  proof -
    have "storable (JObj Fresh (map (\<lambda>(k, v). (k, JStr v)) (d_values x)))" if "details_ok x" for x
    proof -
      have "put_all obj_define (map (\<lambda>(k, v). (k, JStr v)) (d_values x)) [] = map (\<lambda>(k, v). (k, JStr v)) (d_values x)"
      proof (rule put_all_define_id)
        have m: "map fst (map (\<lambda>(k, v). (k, JStr v)) (d_values x)) = map fst (d_values x)" by (auto simp: case_prod_unfold)
        show "distinct (map fst (map (\<lambda>(k, v). (k, JStr v)) (d_values x)))"
          unfolding m using that by (simp add: details_ok_def)
        show "\<forall>k\<in>fst ` set (map (\<lambda>(k, v). (k, JStr v)) (d_values x)). array_index k = None"
          using that by (fastforce simp: details_ok_def list_all_iff)
      qed
      then show ?thesis by (auto simp: list_all_iff)
    qed
    with assms fs show ?thesis
      by (cases "he_durationMs e"; cases d) (auto simp: kept_entry_def entry_ok_def simp del: storable.simps(4,6))
  qed
  ultimately show ?thesis by (simp add: fs)
qed

lemma stringify_stored:
  assumes "list_all storable vs"
  shows "stringify (JArr Fresh (stored_entry e d # vs)) = stringify (JArr Fresh (kept_entry e d # vs))"
  by (simp add: stringify_def kept_text)

text \<open>The history that a store holds under a key, when it is well-formed.\<close>

definition holds :: "nat \<Rightarrow> jstr \<Rightarrow> jval list \<Rightarrow> Storage \<Rightarrow> bool" where
  "holds apiId opKey vs st = (list_all storable vs \<and>
     (readPref (history_key apiId opKey) st = stringify (JArr Fresh vs)
      \<or> vs = [] \<and> readPref (history_key apiId opKey) st = None))"

lemma parse_array: "list_all storable vs \<Longrightarrow> stringify (JArr Fresh vs) = Some t \<Longrightarrow> json_parse t = Some (JArr Fresh vs)"
  by (rule json_parse_stringify) simp_all

lemma parse_empty: "json_parse (js ''[]'') = Some (JArr Fresh [])"
  by (rule parse_array) (simp_all add: stringify_def json_list_def js_def cu_def)

lemma readHistory_holds: "holds apiId opKey vs st \<Longrightarrow> readHistory apiId opKey st = take HISTORY_LIMIT vs"
proof -
  assume h: "holds apiId opKey vs st"
  obtain t where t: "stringify (JArr Fresh vs) = Some t" by (simp add: stringify_def)
  from h consider "readPref (history_key apiId opKey) st = Some t" | "vs = []" "readPref (history_key apiId opKey) st = None"
    using t by (auto simp: holds_def)
  then show ?thesis
  proof cases
    case 1
    moreover have "json_parse t = Some (JArr Fresh vs)" using h t parse_array by (simp add: holds_def)
    ultimately show ?thesis by (simp add: readHistory_def)
  qed (simp add: readHistory_def parse_empty)
qed

lemma readHistory_bound: "length (readHistory apiId opKey st) \<le> HISTORY_LIMIT"
  by (auto simp: readHistory_def split: option.splits jval.splits)

definition kept_details :: "Storage \<Rightarrow> Details \<Rightarrow> Details option" where
  "kept_details st d = (if saveDetailsEnabled st then Some d else None)"

lemma addHistory_holds:
  assumes "entry_ok e" "details_ok d" "holds apiId opKey vs st" "storage_works st"
  shows "holds apiId opKey (take HISTORY_LIMIT (kept_entry e (kept_details st d) # vs)) (snd (addHistory apiId opKey e d st))"
proof -
  let ?k = "kept_entry e (kept_details st d)"
  let ?s = "stored_entry e (kept_details st d)"
  have k: "storable ?k" using assms(1,2) by (intro kept_storable) (auto simp: kept_details_def)
  have vs: "list_all storable vs" using assms(3) by (simp add: holds_def)
  obtain n where n: "HISTORY_LIMIT = Suc n" by (simp add: HISTORY_LIMIT_def numeral_eq_Suc)
  have r: "readHistory apiId opKey st = take HISTORY_LIMIT vs" using assms(3) by (rule readHistory_holds)
  have st: "list_all storable (take m vs)" for m using vs set_take_subset by (fastforce simp: list_all_iff)
  obtain t where t: "stringify (JArr Fresh (?k # take n vs)) = Some t" by (simp add: stringify_def)
  have "snd (addHistory apiId opKey e d st) = writePref (history_key apiId opKey) t st"
  proof -
    have "take HISTORY_LIMIT (x # take HISTORY_LIMIT vs) = x # take n vs" for x :: jval
      unfolding n by (simp add: min_def)
    then show ?thesis
      using stringify_stored [OF st, of e "kept_details st d" n] t
      by (simp add: addHistory_def Let_def r kept_details_def)
  qed
  then have "readPref (history_key apiId opKey) (snd (addHistory apiId opKey e d st)) = Some t"
    using prefs.read_write [OF assms(4)] by simp
  then show ?thesis using t k st [of n] unfolding holds_def n by simp
qed

section \<open>A session in one browser\<close>

text \<open>
  What a user does to the history, one action after the other: try a request, clear the list of an
  operation, and switch the saving of details on or off.
\<close>

datatype HistoryAction = Add nat jstr HistoryEntry Details | Clear nat jstr | SaveDetails bool

fun act :: "HistoryAction \<Rightarrow> Storage \<Rightarrow> Storage" where
  "act (Add apiId opKey e d) st = snd (addHistory apiId opKey e d st)"
| "act (Clear apiId opKey) st = clearHistory apiId opKey st"
| "act (SaveDetails on) st = setSaveDetails on st"

fun action_ok :: "HistoryAction \<Rightarrow> bool" where
  "action_ok (Add apiId opKey e d) = (entry_ok e \<and> details_ok d)"
| "action_ok _ = True"

text \<open>
  The abstract history: whether details are saved, and for each operation of each API a list of its
  own, the newest first.
\<close>

record Histories =
  saving :: bool
  entries :: "nat \<Rightarrow> jstr \<Rightarrow> jval list"

fun spec_act :: "HistoryAction \<Rightarrow> Histories \<Rightarrow> Histories" where
  "spec_act (Add a k e d) h = h\<lparr>entries := (entries h)(a := (entries h a)(k :=
     take HISTORY_LIMIT (kept_entry e (if saving h then Some d else None) # entries h a k)))\<rparr>"
| "spec_act (Clear a k) h = h\<lparr>entries := (entries h)(a := (entries h a)(k := []))\<rparr>"
| "spec_act (SaveDetails on) h = h\<lparr>saving := on\<rparr>"

definition no_history :: Histories where
  "no_history = \<lparr>saving = False, entries = \<lambda>a k. []\<rparr>"

definition represents :: "Storage \<Rightarrow> Histories \<Rightarrow> bool" where
  "represents st h = (storage_works st \<and> saveDetailsEnabled st = saving h \<and>
     (\<forall>a k. holds a k (entries h a k) st))"

text \<open>A store that works and holds nothing of the history yet.\<close>

definition unused :: "Storage \<Rightarrow> bool" where
  "unused st = (storage_works st \<and> list_all (\<lambda>(k, v). \<not> prefix (js ''portal.history.'') k) (items st))"

lemma append_dot_inject:
  assumes "46 \<notin> set a" "46 \<notin> set b" "a @ 46 # x = b @ 46 # y"
  shows "a = b \<and> x = y"
  using assms
proof (induction a arbitrary: b)
  case Nil
  then show ?case by (cases b) auto
next
  case (Cons u a)
  then show ?case by (cases b) auto
qed

lemma nat_str_no_dot: "46 \<notin> set (nat_str n)"
  using nat_str_digits(1) [of n] by (auto simp: list_all_iff is_digit_def)

lemma nat_str_inject: "nat_str m = nat_str n \<longleftrightarrow> m = n"
proof
  assume "nat_str m = nat_str n"
  then have "dec_digits m = dec_digits n" using nat_str_digits(2) by metis
  then have "digits_value 10 (dec_digits m) = digits_value 10 (dec_digits n)" by (rule arg_cong)
  then show "m = n" unfolding digits_value_dec .
qed simp

lemma history_key_inject: "history_key a x = history_key b y \<longleftrightarrow> a = b \<and> x = y"
proof -
  have dot: "js ''.'' = [46]" by (simp add: js_def cu_def)
  show ?thesis
    using append_dot_inject [OF nat_str_no_dot nat_str_no_dot, of a x b y] by (auto simp: history_key_def dot nat_str_inject)
qed

lemma details_key_other: "SAVE_DETAILS_KEY \<noteq> history_key a x"
proof
  assume "SAVE_DETAILS_KEY = history_key a x"
  moreover have "SAVE_DETAILS_KEY = js ''portal.history.'' @ js ''saveDetails''" by (simp add: SAVE_DETAILS_KEY_def flip: js_append)
  ultimately have "js ''portal.history.'' @ js ''saveDetails'' = js ''portal.history.'' @ (nat_str a @ js ''.'' @ x)"
    unfolding history_key_def by metis
  then have "js ''saveDetails'' = nat_str a @ js ''.'' @ x" unfolding same_append_eq .
  then have "46 \<in> set (js ''saveDetails'')" by (simp add: js_def cu_def)
  then show False by (simp add: js_def cu_def)
qed

lemma holds_cong:
  "readPref (history_key a x) st' = readPref (history_key a x) st \<Longrightarrow> holds a x vs st' = holds a x vs st"
  by (simp add: holds_def)

lemma spec_write:
  assumes "\<And>k. k \<noteq> history_key a x \<Longrightarrow> readPref k st' = readPref k st" "represents st h" "storage_works st'"
    and "holds a x vs st'"
  shows "represents st' (h\<lparr>entries := (entries h)(a := (entries h a)(x := vs))\<rparr>)"
proof -
  have "saveDetailsEnabled st' = saveDetailsEnabled st"
    using assms(1) [OF details_key_other] by (simp add: saveDetailsEnabled_def)
  moreover have "holds b y (entries h b y) st'" if "\<not> (b = a \<and> y = x)" for b y
  proof -
    have "history_key b y \<noteq> history_key a x" using that by (simp add: history_key_inject)
    then show ?thesis using assms(1,2) holds_cong unfolding represents_def by metis
  qed
  ultimately show ?thesis using assms by (simp add: represents_def)
qed

lemma act_refines:
  assumes "represents st h" "action_ok action"
  shows "represents (act action st) (spec_act action h)"
proof -
  have works: "storage_works st" using assms(1) by (simp add: represents_def)
  have holds: "holds a x (entries h a x) st" for a x using assms(1) by (simp add: represents_def)
  show ?thesis
  proof (cases action)
    case (Add a x e d)
    have "kept_details st d = (if saving h then Some d else None)"
      using assms(1) by (simp add: represents_def kept_details_def)
    moreover have "entry_ok e" "details_ok d" using assms(2) Add by simp_all
    ultimately have "holds a x (take HISTORY_LIMIT (kept_entry e (if saving h then Some d else None) # entries h a x))
        (snd (addHistory a x e d st))"
      using addHistory_holds [OF _ _ holds works] by metis
    moreover have "readPref k (snd (addHistory a x e d st)) = readPref k st" if "k \<noteq> history_key a x" for k
      using prefs.read_write_other [OF that] by (simp add: addHistory_def Let_def)
    moreover have "storage_works (snd (addHistory a x e d st))"
      using works by (simp add: addHistory_def Let_def prefs.works_write)
    ultimately show ?thesis using assms(1) Add spec_write by simp
  next
    case (Clear a x)
    have "readPref (history_key a x) (clearHistory a x st) = Some (js ''[]'')"
      using prefs.read_write [OF works] by (simp add: clearHistory_def)
    then have "holds a x [] (clearHistory a x st)" by (simp add: holds_def stringify_def json_list_def js_def cu_def)
    moreover have "readPref k (clearHistory a x st) = readPref k st" if "k \<noteq> history_key a x" for k
      using prefs.read_write_other [OF that] by (simp add: clearHistory_def)
    moreover have "storage_works (clearHistory a x st)" using works by (simp add: clearHistory_def prefs.works_write)
    ultimately show ?thesis using assms(1) Clear spec_write by simp
  next
    case (SaveDetails on)
    have "readPref (history_key a x) (setSaveDetails on st) = readPref (history_key a x) st" for a x
      using prefs.read_write_other details_key_other unfolding setSaveDetails_def by metis
    then have "holds a x (entries h a x) (setSaveDetails on st)" for a x using holds holds_cong by blast
    moreover have "saveDetailsEnabled (setSaveDetails on st) = on"
      using prefs.read_write [OF works] by (simp add: setSaveDetails_def saveDetailsEnabled_def)
    moreover have "storage_works (setSaveDetails on st)" using works by (simp add: setSaveDetails_def prefs.works_write)
    ultimately show ?thesis using SaveDetails by (simp add: represents_def)
  qed
qed

lemma unused_represents:
  assumes "unused st"
  shows "represents st no_history"
proof -
  have n: "map_of (items st) k = None" if "prefix (js ''portal.history.'') k" for k
    using assms that by (auto simp: unused_def list_all_iff map_of_eq_None_iff)
  have "prefix (js ''portal.history.'') SAVE_DETAILS_KEY"
    by (rule prefixI [of _ _ "js ''saveDetails''"]) (simp add: SAVE_DETAILS_KEY_def flip: js_append)
  then have "saveDetailsEnabled st = False" using n by (simp add: saveDetailsEnabled_def readPref_def)
  moreover have "holds a x [] st" for a x
    using n [of "history_key a x"] by (simp add: holds_def readPref_def history_key_def)
  ultimately show ?thesis using assms by (simp add: represents_def no_history_def unused_def)
qed

lemma acts_refine:
  "represents st h \<Longrightarrow> list_all action_ok acts \<Longrightarrow> represents (fold act acts st) (fold spec_act acts h)"
  by (induction acts arbitrary: st h) (use act_refines in simp_all)

lemma spec_bound: "length (entries h a x) \<le> HISTORY_LIMIT \<Longrightarrow> length (entries (spec_act c h) a x) \<le> HISTORY_LIMIT"
  by (cases c) auto

lemma spec_bounds: "length (entries h a x) \<le> HISTORY_LIMIT \<Longrightarrow> length (entries (fold spec_act acts h) a x) \<le> HISTORY_LIMIT"
  by (induction acts arbitrary: h) (use spec_bound in simp_all)

definition has_details :: "jval \<Rightarrow> bool" where
  "has_details v = (case v of JObj _ fs \<Rightarrow> js ''values'' \<in> fst ` set fs \<or> js ''body'' \<in> fst ` set fs | _ \<Rightarrow> True)"

lemma kept_entry_no_details: "\<not> has_details (kept_entry e None)"
  by (cases "he_durationMs e") (simp_all add: kept_entry_def has_details_def)

definition no_details :: "Histories \<Rightarrow> bool" where
  "no_details h = (\<not> saving h \<and> (\<forall>a k. list_all (\<lambda>v. \<not> has_details v) (entries h a k)))"

lemma spec_no_details: "c \<noteq> SaveDetails True \<Longrightarrow> no_details h \<Longrightarrow> no_details (spec_act c h)"
proof (cases c)
  case (Add a k e d)
  assume "no_details h"
  then show ?thesis
    using Add kept_entry_no_details set_take_subset [of HISTORY_LIMIT] unfolding no_details_def list_all_iff
    by (auto dest!: subsetD [OF set_take_subset])
qed (auto simp: no_details_def)

lemma specs_no_details: "SaveDetails True \<notin> set acts \<Longrightarrow> no_details h \<Longrightarrow> no_details (fold spec_act acts h)"
  by (induction acts arbitrary: h) (use spec_no_details in auto)

section \<open>What the history promises\<close>

text \<open>C12: Over any sequence of history actions, starting from a browser without a history, the list
  read for an operation is the abstract one: the newest entries first, at most twenty, each operation
  of each API on its own, whatever text the entries hold, through \<open>JSON.stringify\<close>, \<open>localStorage\<close>
  and \<open>JSON.parse\<close>.\<close>

theorem history_refines_lists:
  assumes "unused st" "list_all action_ok acts"
  shows "readHistory apiId opKey (fold act acts st) = entries (fold spec_act acts no_history) apiId opKey"
proof -
  let ?h = "fold spec_act acts no_history"
  have "represents (fold act acts st) ?h" using acts_refine unused_represents assms by blast
  then have "readHistory apiId opKey (fold act acts st) = take HISTORY_LIMIT (entries ?h apiId opKey)"
    using readHistory_holds by (simp add: represents_def)
  moreover have "length (entries ?h apiId opKey) \<le> HISTORY_LIMIT"
    by (rule spec_bounds) (simp add: no_history_def)
  ultimately show ?thesis by simp
qed

definition example_actions :: "HistoryAction list" where
  "example_actions =
     [Add 1 (js ''listPets'') \<lparr>he_at = js ''t1'', he_method = js ''get'', he_path = js ''/pets'', he_status = num_of_int 200, he_durationMs = None\<rparr>
        \<lparr>d_values = [(js ''q'', js ''cat'')], d_body = []\<rparr>,
      SaveDetails False,
      Add 1 (js ''a.b'') \<lparr>he_at = js ''t2'', he_method = js ''post'', he_path = js ''/pets'', he_status = num_of_int 404, he_durationMs = Some (num_of_int 12)\<rparr>
        \<lparr>d_values = [], d_body = js ''{}''\<rparr>]"

lemma example_actions_ok: "list_all action_ok example_actions"
proof -
  have "array_index (js ''q'') = None" by code_simp
  then show ?thesis by (simp add: example_actions_def entry_ok_def details_ok_def num_of_int_def)
qed

theorem history_refines_lists_witness:
  "map (\<lambda>k. length (readHistory 1 (js k) (fold act example_actions \<lparr>items = [], get_throws = False, set_throws = False\<rparr>)))
     [''listPets'', ''a.b'', ''a''] = [1, 1, 0]"
  using history_refines_lists [OF _ example_actions_ok, of "\<lparr>items = [], get_throws = False, set_throws = False\<rparr>" 1]
  by (simp add: unused_def storage_works_def example_actions_def no_history_def HISTORY_LIMIT_def)

text \<open>C13: Unless the user turns the saving of details on, no entry that can be read back holds
  parameter values or a request body, after any sequence of actions.\<close>

theorem history_keeps_no_details:
  assumes "unused st" "list_all action_ok acts" "SaveDetails True \<notin> set acts"
  shows "list_all (\<lambda>v. \<not> has_details v) (readHistory apiId opKey (fold act acts st))"
proof -
  have "represents (fold act acts st) (fold spec_act acts no_history)" using acts_refine unused_represents assms by blast
  then have "readHistory apiId opKey (fold act acts st) = take HISTORY_LIMIT (entries (fold spec_act acts no_history) apiId opKey)"
    using readHistory_holds by (simp add: represents_def)
  moreover have "no_details (fold spec_act acts no_history)"
    by (rule specs_no_details [OF assms(3)]) (simp add: no_details_def no_history_def)
  ultimately show ?thesis by (auto simp: no_details_def list_all_iff dest: in_set_takeD)
qed

theorem history_keeps_no_details_witness:
  "list_all (\<lambda>v. \<not> has_details v)
     (readHistory 1 (js ''listPets'') (fold act example_actions \<lparr>items = [], get_throws = False, set_throws = False\<rparr>))"
  by (rule history_keeps_no_details [OF _ example_actions_ok])
    (simp_all add: unused_def storage_works_def example_actions_def)

text \<open>However the store was written, and whether or not it works, at most twenty entries are
  ever read or returned.\<close>

theorem history_bounded:
  "length (readHistory apiId opKey st) \<le> 20 \<and> length (fst (addHistory apiId opKey e d st)) \<le> 20"
  using readHistory_bound [of apiId opKey st] by (simp add: addHistory_def Let_def HISTORY_LIMIT_def)

end
