(* ===== verification/Spec_Format.thy ===== *)
theory Spec_Format
  imports Js_Text Js_Values
begin

text \<open>
  \<open>lib/format.ts\<close>: dates, numbers and countdowns as text, and the target of the redirect after
  login. The formats of \<open>Intl\<close> and the date parser of the browser are a parameter, the record
  \<open>Intl\<close>; the language of the page is an argument.
\<close>

section \<open>Dates and numbers\<close>

record Intl =
  date_value :: "jstr \<Rightarrow> jnum"
  date_text :: "jstr \<Rightarrow> jnum \<Rightarrow> jstr"
  relative_text :: "jstr \<Rightarrow> jnum \<Rightarrow> jstr \<Rightarrow> jstr"
  number_text :: "jstr \<Rightarrow> jnum \<Rightarrow> jstr"

definition locale_tag :: "jstr \<Rightarrow> jstr" where
  "locale_tag language = (if language = js ''tr'' then js ''tr-TR'' else js ''en-GB'')"

definition formatDateTime :: "Intl \<Rightarrow> jstr \<Rightarrow> jstr option \<Rightarrow> jstr" where
  "formatDateTime intl language stamp =
     (case stamp of None \<Rightarrow> []
      | Some s \<Rightarrow> if s = [] then []
          else if date_value intl s = NaN then s
          else date_text intl (locale_tag language) (date_value intl s))"

text \<open>\<open>Math.round\<close>, \<open>Math.abs\<close>, \<open>Math.max(0, n)\<close>, and a division and a remainder by a positive literal.\<close>

fun num_round :: "jnum \<Rightarrow> jnum" where
  "num_round (Fin a) = Fin (of_int \<lfloor>a + 1 / 2\<rfloor>)"
| "num_round n = n"

fun num_abs :: "jnum \<Rightarrow> jnum" where
  "num_abs (Fin a) = Fin \<bar>a\<bar>"
| "num_abs NaN = NaN"
| "num_abs _ = PosInf"

fun max_zero :: "jnum \<Rightarrow> jnum" where
  "max_zero (Fin a) = Fin (max 0 a)"
| "max_zero NegInf = Fin 0"
| "max_zero n = n"

fun num_div_by :: "jnum \<Rightarrow> rat \<Rightarrow> jnum" where
  "num_div_by (Fin a) k = to_double (a / k)"
| "num_div_by n k = n"

fun num_mod_by :: "jnum \<Rightarrow> rat \<Rightarrow> jnum" where
  "num_mod_by (Fin a) k = Fin (if 0 \<le> a then a - k * of_int \<lfloor>a / k\<rfloor> else - (- a - k * of_int \<lfloor>- a / k\<rfloor>))"
| "num_mod_by n k = NaN"

definition below :: "jnum \<Rightarrow> rat \<Rightarrow> bool" where
  "below n k = num_less n (Fin k)"

definition formatRelative :: "Intl \<Rightarrow> jstr \<Rightarrow> jstr option \<Rightarrow> jnum \<Rightarrow> jstr" where
  "formatRelative intl language stamp now =
     (case stamp of None \<Rightarrow> []
      | Some s \<Rightarrow> if s = [] then []
          else if date_value intl s = NaN then s
          else let seconds = num_round (num_div_by (num_sub (date_value intl s) now) 1000);
                   format = relative_text intl (locale_tag language)
               in if below (num_abs seconds) 60 then format seconds (js ''second'')
                  else if below (num_abs seconds) 3600 then format (num_round (num_div_by seconds 60)) (js ''minute'')
                  else if below (num_abs seconds) 86400 then format (num_round (num_div_by seconds 3600)) (js ''hour'')
                  else if below (num_abs seconds) (30 * 86400) then format (num_round (num_div_by seconds 86400)) (js ''day'')
                  else formatDateTime intl language stamp)"

definition formatNumber :: "Intl \<Rightarrow> jstr \<Rightarrow> jnum \<Rightarrow> jstr" where
  "formatNumber intl language n = number_text intl (locale_tag language) n"

definition padStart2 :: "jstr \<Rightarrow> jstr" where
  "padStart2 s = replicate (2 - length s) 48 @ s"

definition formatCountdown :: "jnum \<Rightarrow> jstr" where
  "formatCountdown seconds =
     (let s = max_zero (num_ceil seconds)
      in num_str (num_floor (num_div_by s 60)) @ js '':'' @ padStart2 (num_str (num_mod_by s 60)))"

section \<open>The login target\<close>

definition safeNextPath :: "jstr option \<Rightarrow> jstr" where
  "safeNextPath next_path =
     (case next_path of None \<Rightarrow> js ''/''
      | Some s \<Rightarrow>
          if s = [] \<or> \<not> starts_with s (js ''/'') \<or> starts_with s (js ''//'') \<or> starts_with s [47, 92] then js ''/''
          else if starts_with s (js ''/login'') then js ''/''
          else s)"

text \<open>
  What a browser does with a relative URL on an \<open>https\<close> page (the URL standard): tabs and newlines
  are removed, control characters and spaces at the start too, and two slashes or backslashes at the
  start, in any mix, name another host.
\<close>

definition url_units :: "jstr \<Rightarrow> jstr" where
  "url_units s = filter (\<lambda>u. u \<notin> {9, 10, 13}) (dropWhile (\<lambda>u. u \<le> 32) s)"

definition names_host :: "jstr \<Rightarrow> bool" where
  "names_host s = (case url_units s of u # v # _ \<Rightarrow> u \<in> {47, 92} \<and> v \<in> {47, 92} | _ \<Rightarrow> False)"

definition is_path :: "jstr \<Rightarrow> bool" where
  "is_path s = (case url_units s of u # _ \<Rightarrow> u = 47 | _ \<Rightarrow> False)"

lemma slash_units: "js ''/'' = [47]" "js ''//'' = [47, 47]" "js ''/login'' = 47 # js ''login''"
  by (simp_all add: js_def cu_def)

lemma url_units_slash: "url_units (47 # s) = 47 # filter (\<lambda>u. u \<notin> {9, 10, 13}) s"
  by (simp add: url_units_def)

text \<open>C37: The target after login is always a path on the portal, never the login page itself; it can
  only name another host when a tab or a line break follows its first slash, and such a target is accepted.\<close>

theorem safeNextPath_stays:
  "is_path (safeNextPath target) \<and> \<not> starts_with (safeNextPath target) (js ''/login'') \<and>
   (names_host (safeNextPath target) \<longleftrightarrow>
     (\<exists>c r. target = Some (47 # c # r) \<and> c \<in> {9, 10, 13} \<and> names_host (47 # r)))"
proof (cases target)
  case None
  then show ?thesis
    by (simp add: safeNextPath_def slash_units is_path_def names_host_def url_units_slash url_units_def starts_with_def)
next
  case (Some s)
  show ?thesis
  proof (cases "safeNextPath target = js ''/''")
    case True
    have "\<not> (s = 47 # c # r \<and> c \<in> {9, 10, 13})" for c r
      using True Some by (auto simp: safeNextPath_def slash_units starts_with_def js_def cu_def split: if_splits)
    with True Some show ?thesis
      by (auto simp: slash_units is_path_def names_host_def url_units_slash url_units_def starts_with_def)
  next
    case False
    then have t: "safeNextPath target = s" "\<not> starts_with s (js ''/login'')"
      and s: "starts_with s (js ''/'')" "\<not> starts_with s (js ''//'')" "\<not> starts_with s [47, 92]"
      using Some by (auto simp: safeNextPath_def split: if_splits)
    from s(1) obtain p where p: "s = 47 # p" by (cases s) (auto simp: slash_units starts_with_def)
    have ok: "p \<noteq> [] \<Longrightarrow> hd p \<noteq> 47 \<and> hd p \<noteq> 92" using s(2,3) p by (cases p) (auto simp: slash_units starts_with_def)
    have "names_host s \<longleftrightarrow> (\<exists>c r. p = c # r \<and> c \<in> {9, 10, 13} \<and> names_host (47 # r))"
    proof (cases p)
      case Nil
      then show ?thesis by (simp add: p names_host_def url_units_slash)
    next
      case (Cons c r)
      with ok have "c \<noteq> 47" "c \<noteq> 92" by simp_all
      then show ?thesis using Cons by (auto simp: p names_host_def url_units_slash)
    qed
    then show ?thesis using t Some p by (simp add: is_path_def url_units_slash)
  qed
qed

text \<open>A tab after the slash: the check accepts what the browser reads as another host.\<close>

lemma safeNextPath_tab:
  "safeNextPath (Some (47 # 9 # js ''/evil.example'')) = 47 # 9 # js ''/evil.example''"
  "names_host (47 # 9 # js ''/evil.example'')"
  by code_simp+

lemma formatCountdown_examples:
  "formatCountdown (Fin 61) = js ''1:01''" "formatCountdown (Fin (- 3)) = js ''0:00''"
  by code_simp+

end
