(* ===== verification/Spec_Fuzzy.thy ===== *)
theory Spec_Fuzzy
  imports Js_Numbers Js_Values
begin

text \<open>
  \<open>lib/fuzzy.ts\<close>: the matching of the command palette. \<open>lower\<close> and \<open>nfkd\<close> stand for
  \<open>String.prototype.toLowerCase\<close> and \<open>normalize('NFKD')\<close>; nothing is assumed of them. Scores are
  doubles, computed in the order of the code.
\<close>

section \<open>The model\<close>

definition fold_text :: "(jstr \<Rightarrow> jstr) \<Rightarrow> (jstr \<Rightarrow> jstr) \<Rightarrow> jstr \<Rightarrow> jstr" where
  "fold_text lower nfkd s =
     filter (\<lambda>u. \<not> (768 \<le> u \<and> u \<le> 879))
       (nfkd (replace_unit 305 (js ''i'') (lower (replace_unit 73 (js ''i'') (replace_unit 304 (js ''i'') s)))))"

text \<open>\<open>t.indexOf(ch, from)\<close>.\<close>

fun find_from :: "jstr \<Rightarrow> jstr \<Rightarrow> nat \<Rightarrow> nat option" where
  "find_from ch t 0 =
     (if prefix ch t then Some 0 else case t of [] \<Rightarrow> None | _ # r \<Rightarrow> map_option Suc (find_from ch r 0))"
| "find_from ch t (Suc n) = (case t of [] \<Rightarrow> (if ch = [] then Some 0 else None) | _ # r \<Rightarrow> map_option Suc (find_from ch r n))"

definition boundary :: "unit16 \<Rightarrow> bool" where
  "boundary u = (is_space u \<or> u \<in> {45, 95, 47, 46, 183, 58})"

record scan =
  sc_score :: jnum
  sc_at :: nat
  sc_run :: nat
  sc_first :: "nat option"

definition scan_start :: scan where
  "scan_start = \<lparr>sc_score = Fin 0, sc_at = 0, sc_run = 0, sc_first = None\<rparr>"

definition scan_char :: "jstr \<Rightarrow> jstr \<Rightarrow> scan \<Rightarrow> scan option" where
  "scan_char t ch st =
     (case find_from ch t (sc_at st) of
        None \<Rightarrow> None
      | Some found \<Rightarrow>
          let run = (if found = sc_at st then sc_run st + 1 else 1);
              wordStart = (found = 0 \<or> boundary (t ! (found - 1)))
          in Some \<lparr>sc_score = num_add (sc_score st) (Fin (of_nat (1 + run * 2 + (if wordStart then 3 else 0)))),
                   sc_at = found + 1, sc_run = run,
                   sc_first = (case sc_first st of None \<Rightarrow> Some found | Some f \<Rightarrow> Some f)\<rparr>)"

fun scan_chars :: "jstr \<Rightarrow> jstr list \<Rightarrow> scan \<Rightarrow> scan option" where
  "scan_chars t [] st = Some st"
| "scan_chars t (ch # chs) st = (case scan_char t ch st of None \<Rightarrow> None | Some st' \<Rightarrow> scan_chars t chs st')"

definition first_index :: "scan \<Rightarrow> int" where
  "first_index st = (case sc_first st of None \<Rightarrow> - 1 | Some f \<Rightarrow> int f)"

definition fuzzyScore :: "(jstr \<Rightarrow> jstr) \<Rightarrow> (jstr \<Rightarrow> jstr) \<Rightarrow> jstr \<Rightarrow> jstr \<Rightarrow> jnum option" where
  "fuzzyScore lower nfkd query t0 =
     (let q = filter (\<lambda>u. \<not> is_space u) (fold_text lower nfkd query) in
      if q = [] then Some (Fin 0)
      else let t = fold_text lower nfkd t0 in
        case scan_chars t (string_chars q) scan_start of
          None \<Rightarrow> None
        | Some st \<Rightarrow>
            let score = (if str_includes t (trim (fold_text lower nfkd query)) then num_add (sc_score st) (Fin 10) else sc_score st)
            in Some (num_sub (num_sub score (num_mul (num_of_int (first_index st)) (to_double (1 / 10))))
                       (num_mul (num_of_int (int (length t))) (to_double (1 / 100)))))"

text \<open>\<open>slice(0, limit)\<close>; the default limit is \<open>Infinity\<close>.\<close>

definition slice_to :: "nat option \<Rightarrow> 'a list \<Rightarrow> 'a list" where
  "slice_to limit xs = (case limit of None \<Rightarrow> xs | Some n \<Rightarrow> take n xs)"

definition scored :: "('a \<Rightarrow> jnum option) \<Rightarrow> 'a list \<Rightarrow> ('a \<times> jnum) list" where
  "scored score xs = concat (map (\<lambda>x. case score x of None \<Rightarrow> [] | Some s \<Rightarrow> [(x, s)]) xs)"

definition fuzzyFilter ::
  "(jstr \<Rightarrow> jstr) \<Rightarrow> (jstr \<Rightarrow> jstr) \<Rightarrow> jstr \<Rightarrow> 'a list \<Rightarrow> ('a \<Rightarrow> jstr) \<Rightarrow> nat option \<Rightarrow> 'a list" where
  "fuzzyFilter lower nfkd query xs text_of limit =
     (if trim query = [] then slice_to limit xs
      else map fst (slice_to limit (sort_by (\<lambda>a b. num_sign (num_sub (snd b) (snd a)))
        (scored (\<lambda>x. fuzzyScore lower nfkd query (text_of x)) xs))))"

section \<open>A match is a subsequence\<close>

lemma find_unit:
  "n \<le> length t \<Longrightarrow> (case find_from [u] t n of
     None \<Rightarrow> u \<notin> set (drop n t)
   | Some i \<Rightarrow> i < length t \<and> (\<exists>a. u \<notin> set a \<and> drop n t = a @ u # drop (Suc i) t))"
proof (induction "[u]" t n rule: find_from.induct)
  case (1 t)
  show ?case
  proof (cases t)
    case (Cons v r)
    show ?thesis
    proof (cases "u = v")
      case True
      then show ?thesis using Cons by (auto intro: exI [of _ "[]"])
    next
      case False
      show ?thesis
      proof (cases "find_from [u] r 0")
        case None
        then show ?thesis using 1(1) [OF _ Cons] Cons False by simp
      next
        case (Some k)
        with 1(1) [OF _ Cons] Cons False obtain a where "k < length r" "u \<notin> set a" "r = a @ u # drop (Suc k) r" by auto
        then show ?thesis using Cons False Some by (auto intro!: exI [of _ "v # a"])
      qed
    qed
  qed simp
next
  case (2 t n)
  then show ?case by (cases t) (auto split: option.splits)
qed

lemma subseq_found: "u \<notin> set a \<Longrightarrow> subseq (u # q) (a @ u # r) \<longleftrightarrow> subseq q r"
  by (induction a) (auto simp: subseq_Cons2_iff)

lemma subseq_absent: "u \<notin> set r \<Longrightarrow> \<not> subseq (u # q) r"
  by (auto dest: list_emb_set [of _ _ _ u])

lemma scan_subseq:
  "sc_at st \<le> length t \<Longrightarrow> scan_chars t (map (\<lambda>u. [u]) q) st \<noteq> None \<longleftrightarrow> subseq q (drop (sc_at st) t)"
proof (induction q arbitrary: st)
  case (Cons u q)
  show ?case
  proof (cases "find_from [u] t (sc_at st)")
    case None
    then have "u \<notin> set (drop (sc_at st) t)" using find_unit [OF Cons.prems, of u] by simp
    then show ?thesis using None subseq_absent by (simp add: scan_char_def)
  next
    case (Some i)
    with find_unit [OF Cons.prems, of u] obtain a where i: "i < length t" "u \<notin> set a" "drop (sc_at st) t = a @ u # drop (Suc i) t"
      by auto
    obtain st' where st': "scan_char t [u] st = Some st'" "sc_at st' = Suc i"
      using Some by (simp add: scan_char_def Let_def)
    have "scan_chars t (map (\<lambda>u. [u]) q) st' \<noteq> None \<longleftrightarrow> subseq q (drop (Suc i) t)"
      using Cons.IH [of st'] st'(2) i(1) by simp
    then show ?thesis using st'(1) i(3) subseq_found [OF i(2), of q "drop (Suc i) t"] by simp
  qed
qed simp

lemma string_chars_units: "list_all (\<lambda>u. \<not> is_high u) q \<Longrightarrow> string_chars q = map (\<lambda>u. [u]) q"
  by (induction q rule: string_chars.induct) simp_all

definition query_units :: "(jstr \<Rightarrow> jstr) \<Rightarrow> (jstr \<Rightarrow> jstr) \<Rightarrow> jstr \<Rightarrow> jstr" where
  "query_units lower nfkd query = filter (\<lambda>u. \<not> is_space u) (fold_text lower nfkd query)"

lemma fuzzy_matches:
  assumes "list_all (\<lambda>u. \<not> is_high u) (query_units lower nfkd query)"
  shows "fuzzyScore lower nfkd query s \<noteq> None \<longleftrightarrow> subseq (query_units lower nfkd query) (fold_text lower nfkd s)"
proof -
  have "scan_chars (fold_text lower nfkd s) (string_chars (query_units lower nfkd query)) scan_start \<noteq> None \<longleftrightarrow>
      subseq (query_units lower nfkd query) (fold_text lower nfkd s)"
    using scan_subseq [of scan_start] string_chars_units [OF assms] by (simp add: scan_start_def)
  then show ?thesis
    by (auto simp: fuzzyScore_def query_units_def Let_def split: option.splits)
qed

section \<open>The filter\<close>

lemma scored_items: "map fst (scored score xs) = filter (\<lambda>x. score x \<noteq> None) xs"
  by (induction xs) (auto simp: scored_def split: option.splits)

text \<open>The greedy scan of \<open>fuzzyScore\<close> is a correct test for a subsequence: a text has a score exactly when
  the folded query, without its spaces, is a subsequence of the folded text. Without a limit the filter returns
  exactly the matching items, each as often as it is given.\<close>

theorem fuzzy_is_subsequence:
  assumes "list_all (\<lambda>u. \<not> is_high u) (query_units lower nfkd query)" "trim query \<noteq> []"
  shows "(fuzzyScore lower nfkd query s \<noteq> None \<longleftrightarrow> subseq (query_units lower nfkd query) (fold_text lower nfkd s)) \<and>
    mset (fuzzyFilter lower nfkd query xs text_of None) =
      mset (filter (\<lambda>x. subseq (query_units lower nfkd query) (fold_text lower nfkd (text_of x))) xs)"
proof -
  have "mset (fuzzyFilter lower nfkd query xs text_of None) =
      mset (map fst (scored (\<lambda>x. fuzzyScore lower nfkd query (text_of x)) xs))"
    using assms(2) by (simp add: fuzzyFilter_def slice_to_def mset_sort_by)
  also have "map fst (scored (\<lambda>x. fuzzyScore lower nfkd query (text_of x)) xs) =
      filter (\<lambda>x. subseq (query_units lower nfkd query) (fold_text lower nfkd (text_of x))) xs"
    unfolding scored_items fuzzy_matches [OF assms(1)] ..
  finally show ?thesis using fuzzy_matches [OF assms(1)] by blast
qed

theorem fuzzy_is_subsequence_witness:
  "fuzzyScore (map lower_unit) id (js ''pa re'') (js ''Payments /refunds'') \<noteq> None \<and>
   fuzzyScore (map lower_unit) id (js ''pa re'') (js ''Shipping'') = None"
proof -
  have "list_all (\<lambda>u. \<not> is_high u) (query_units (map lower_unit) id (js ''pa re''))" "trim (js ''pa re'') \<noteq> []"
    by code_simp+
  note m = fuzzy_is_subsequence [OF this, THEN conjunct1]
  have "subseq (query_units (map lower_unit) id (js ''pa re'')) (fold_text (map lower_unit) id (js ''Payments /refunds''))"
    "\<not> subseq (query_units (map lower_unit) id (js ''pa re'')) (fold_text (map lower_unit) id (js ''Shipping''))"
    by code_simp+
  then show ?thesis using m by blast
qed

end
