(* ===== verification/Spec_Types.thy ===== *)
theory Spec_Types
  imports Js_Strings
begin

text \<open>
  The types of \<open>lib/api.ts\<close> and \<open>lib/admin-api.ts\<close>: what the server sends and takes, as the client
  declares it. An optional property is an option, a union of literals a datatype, an integer property
  (ids, counts, sizes) an \<open>int\<close>; dates are texts.
\<close>

record User =
  u_id :: int
  u_username :: jstr
  u_displayName :: jstr
  u_email :: jstr
  u_authSource :: jstr
  u_mustChangePassword :: bool
  u_isActive :: bool
  u_isAdmin :: bool
  u_createdAt :: jstr
  u_updatedAt :: jstr
  u_lastLoginAt :: "jstr option"
  u_groupIds :: "int list option"

record Role =
  ro_id :: int
  ro_name :: jstr
  ro_description :: jstr
  ro_createdAt :: jstr
  ro_permissionCount :: "int option"
  ro_groupIds :: "int list option"

record Group =
  g_id :: int
  g_name :: jstr
  g_description :: jstr
  g_createdAt :: jstr
  g_azureGroupId :: "jstr option"
  g_ldapGroupDn :: "jstr option"
  g_memberIds :: "int list option"
  g_roleIds :: "int list option"

datatype ScopeFamily = ReadScope | WriteScope | DestructiveScope

record ScopeDef =
  sd_scope :: jstr
  sd_group :: jstr
  sd_family :: ScopeFamily
  sd_description :: jstr
  sd_perApi :: "bool option"
  sd_action :: "jstr option"

datatype AccessLevel = ViewAccess | InvokeAccess

record ApiAccess =
  aa_groupId :: int
  aa_groupName :: "jstr option"
  aa_level :: AccessLevel

record Features =
  fe_tryIt :: bool
  fe_ldap :: bool
  fe_azureAd :: bool
  fe_auditExport :: bool

record Capabilities =
  ca_adminSections :: "jstr list"
  ca_managesAllApis :: bool
  ca_managedApis :: "int list"
  ca_canCreateApi :: bool
  ca_canExportAudit :: bool
  ca_canManageUsers :: "bool option"

record AuditFilter =
  af_from :: "jstr option"
  af_to :: "jstr option"
  af_user :: "jstr option"
  af_action :: "jstr option"
  af_outcome :: "jstr option"
  af_targetType :: "jstr option"
  af_targetId :: "jstr option"
  af_apiId :: "jstr option"

record Permission =
  pe_id :: int
  pe_roleId :: int
  pe_scope :: jstr
  pe_description :: jstr

record LdapUser =
  lu_username :: jstr
  lu_displayName :: jstr
  lu_email :: jstr
  lu_dn :: jstr

datatype Outcome = Succeeded | Denied | Failed | NoOutcome

record AuditLog =
  al_id :: int
  al_timestamp :: jstr
  al_user :: jstr
  al_action :: jstr
  al_resourceType :: jstr
  al_resourceId :: jstr
  al_resourceName :: jstr
  al_sourceIp :: jstr
  al_statusCode :: int
  al_durationMs :: int
  al_blocked :: bool
  al_errorMessage :: jstr
  al_detailsJson :: jstr
  al_requestId :: "jstr option"
  al_outcome :: "Outcome option"
  al_actorSource :: "jstr option"
  al_changes :: "jstr option"
  al_userAgent :: "jstr option"

datatype SpecState = SpecOk | SpecError | SpecMissing

record ApiSummary =
  as_id :: int
  as_name :: jstr
  as_slug :: jstr
  as_description :: jstr
  as_isActive :: bool
  as_tryItEnabled :: bool
  as_ownerTeam :: jstr
  as_tags :: "jstr list option"
  as_lastSpecRefreshAt :: "jstr option"
  as_specState :: SpecState
  as_specError :: "jstr option"
  as_specVersion :: "jstr option"
  as_operationCount :: "int option"
  as_canView :: bool
  as_canInvoke :: bool
  as_canManage :: bool
  as_favorite :: bool
  as_lastViewedAt :: "jstr option"

record OperationHit =
  oh_apiId :: int
  oh_apiName :: jstr
  oh_apiSlug :: jstr
  oh_method :: jstr
  oh_path :: jstr
  oh_operationId :: "jstr option"
  oh_summary :: "jstr option"
  oh_tags :: "jstr list option"
  oh_deprecated :: "bool option"

datatype ChangeKind = InitialSpec | ChangedSpec | FailedSpec

record SpecChange =
  sc_at :: jstr
  sc_kind :: ChangeKind
  sc_version :: "jstr option"
  sc_operationCount :: int
  sc_addedCount :: int
  sc_removedCount :: int
  sc_changedCount :: int
  sc_added :: "jstr list"
  sc_removed :: "jstr list"
  sc_changed :: "jstr list"
  sc_error :: "jstr option"

record SearchResponse =
  sr_query :: jstr
  sr_apis :: "ApiSummary list"
  sr_operations :: "OperationHit list"

record ApiPermissions =
  pm_view :: bool
  pm_invoke :: bool
  pm_manage :: bool

record ApiDefinition =
  ad_id :: int
  ad_name :: jstr
  ad_slug :: jstr
  ad_description :: jstr
  ad_internalOpenapiUrl :: "jstr option"
  ad_internalBaseUrl :: "jstr option"
  ad_isActive :: bool
  ad_tryItEnabled :: bool
  ad_allowedMethods :: "jstr list"
  ad_allowedPathPrefixes :: "jstr list"
  ad_ownerTeam :: jstr
  ad_tags :: "jstr list"
  ad_createdAt :: jstr
  ad_updatedAt :: jstr
  ad_lastSpecRefreshAt :: "jstr option"
  ad_lastSpecStatus :: "jstr option"
  ad_specState :: "SpecState option"
  ad_specError :: "jstr option"
  ad_specVersion :: "jstr option"
  ad_operationCount :: "int option"
  ad_favorite :: "bool option"
  ad_permissions :: "ApiPermissions option"
  ad_ownerGroupId :: "int option option"
  ad_allowedRequestHeaders :: "jstr list option"
  ad_forwardAllXHeaders :: "bool option"
  ad_injectHeaderNames :: "jstr list option"
  ad_rateLimitPerMinute :: "int option"
  ad_timeoutSeconds :: "int option"

record LdapConfig =
  lc_enabled :: bool
  lc_url :: jstr
  lc_host :: jstr
  lc_port :: int
  lc_useSsl :: bool
  lc_startTls :: bool
  lc_sslSkipVerify :: bool
  lc_timeoutSeconds :: int
  lc_bindDn :: jstr
  lc_bindPassword :: "jstr option"
  lc_userBaseDn :: jstr
  lc_userBaseDns :: "jstr list"
  lc_userFilter :: jstr
  lc_usernameAttribute :: jstr
  lc_displayNameAttribute :: jstr
  lc_emailAttribute :: jstr
  lc_passwordConfigured :: bool
  lc_autoCreate :: "bool option"
  lc_autoCreateGroups :: "jstr list option"

record SessionSettings =
  ss_sessionMinutes :: int
  ss_maxHours :: int

record Session =
  se_id :: int
  se_userId :: int
  se_username :: "jstr option"
  se_authSource :: jstr
  se_createdAt :: jstr
  se_lastUsedAt :: jstr
  se_expiresAt :: jstr
  se_ip :: jstr
  se_userAgent :: jstr
  se_current :: "bool option"

record LdapLoginStep =
  ls_name :: jstr
  ls_ok :: bool
  ls_detail :: jstr

record SystemSettings =
  sy_brandTitle :: jstr
  sy_logoDataUrl :: jstr
  sy_projectLink :: "bool option"

record AzureADConfig =
  az_enabled :: bool
  az_tenantId :: jstr
  az_clientId :: jstr
  az_clientSecret :: "jstr option"
  az_redirectUrl :: jstr
  az_passwordConfigured :: bool
  az_allowedGroups :: "jstr list"

record AuthProviders =
  ap_local :: bool
  ap_ldap :: bool
  ap_azureAd :: bool

record PasswordPolicy =
  pp_minLength :: int

record SessionInfo =
  sx_expiresAt :: jstr
  sx_idleMinutes :: int

record MeResponse =
  me_user :: User
  me_permissions :: "jstr list"
  me_groupIds :: "int list"
  me_branding :: SystemSettings
  me_passwordPolicy :: "PasswordPolicy option"
  me_session :: "SessionInfo option"
  me_warnings :: "jstr list option"
  me_capabilities :: "Capabilities option"
  me_features :: "Features option"
  me_version :: "jstr option"
  me_projectLink :: "bool option"

record RateLimit =
  rl_limitPerMinute :: int
  rl_remaining :: int

record InvokeResponse =
  ir_statusCode :: int
  ir_headers :: "(jstr, jstr) dict"
  ir_bodyBase64 :: jstr
  ir_contentType :: jstr
  ir_truncated :: bool
  ir_requestBytes :: int
  ir_responseBytes :: int
  ir_durationMs :: "int option"
  ir_rateLimit :: "RateLimit option"

record PaginatedAuditLogs =
  pa_items :: "AuditLog list"
  pa_total :: int
  pa_limit :: int
  pa_offset :: int

record UserPayload =
  up_username :: jstr
  up_displayName :: "jstr option"
  up_email :: "jstr option"
  up_password :: "jstr option"
  up_authSource :: "jstr option"
  up_mustChangePassword :: "bool option"
  up_isActive :: "bool option"
  up_isAdmin :: "bool option"

record GroupPayload =
  gp_name :: jstr
  gp_description :: "jstr option"
  gp_azureGroupId :: "jstr option"
  gp_ldapGroupDn :: "jstr option"

record RolePayload =
  rp_name :: jstr
  rp_description :: "jstr option"

record InjectHeader =
  ih_name :: jstr
  ih_value :: "jstr option"

record ApiDefinitionPayload =
  dp_name :: jstr
  dp_slug :: jstr
  dp_description :: "jstr option"
  dp_internalOpenapiUrl :: "jstr option"
  dp_internalBaseUrl :: "jstr option"
  dp_isActive :: bool
  dp_tryItEnabled :: bool
  dp_allowedMethods :: "jstr list"
  dp_allowedPathPrefixes :: "jstr list"
  dp_ownerTeam :: "jstr option"
  dp_tags :: "jstr list"
  dp_ownerGroupId :: "int option option"
  dp_allowedRequestHeaders :: "jstr list option"
  dp_forwardAllXHeaders :: "bool option"
  dp_injectHeaders :: "InjectHeader list option"
  dp_rateLimitPerMinute :: "int option"
  dp_timeoutSeconds :: "int option"

datatype AttentionKind = SpecErrorItem | SpecMissingItem | SpecStaleItem | EncryptionKeyInDatabase | LdapSkipVerify

datatype Severity = WarningSeverity | DangerSeverity

record AttentionItem =
  ai_kind :: AttentionKind
  ai_severity :: Severity
  ai_apiId :: "int option"
  ai_apiName :: "jstr option"
  ai_detail :: "jstr option"
  ai_since :: "jstr option"

record ApiTotals =
  at_total :: int
  at_active :: int
  at_specErrors :: int
  at_specMissing :: int
  at_stale :: int

record UserTotals =
  ut_total :: int
  ut_active :: int
  ut_admins :: int
  ut_signedIn24h :: int

record Activity =
  av_invokes :: "(Outcome, int) dict"
  av_denied :: int
  av_failed :: int
  av_logins :: "(Outcome, int) dict"

record AdminOverview =
  ao_generatedAt :: jstr
  ao_apis :: "ApiTotals option"
  ao_users :: "UserTotals option"
  ao_activeSessions :: "int option"
  ao_activity :: "Activity option"
  ao_attention :: "AttentionItem list"

datatype Via = ViaRole | ViaOwner | ViaAccess

record PermissionSource =
  ps_scope :: jstr
  ps_via :: Via
  ps_groupId :: int
  ps_groupName :: jstr
  ps_roleId :: "int option"
  ps_roleName :: "jstr option"

record EffectivePermissions =
  ep_userId :: int
  ep_isAdmin :: bool
  ep_groupIds :: "int list"
  ep_scopes :: "jstr list"
  ep_sources :: "PermissionSource list"

datatype SpecFormat = JsonFormat | YamlFormat

record SampleOperation =
  so_method :: jstr
  so_path :: jstr
  so_summary :: jstr

record SpecPreview =
  sv_format :: SpecFormat
  sv_bytes :: int
  sv_openapi :: jstr
  sv_title :: jstr
  sv_version :: jstr
  sv_operationCount :: int
  sv_tagCount :: int
  sv_sample :: "SampleOperation list"

record ApiImpact =
  im_accessGrants :: int
  im_roleScopes :: int
  im_favorites :: int
  im_operations :: int
  im_historyEntries :: int
  im_hasOwnerGroup :: bool

datatype KeySource = KeyInEnvironment | KeyInDatabase

record SystemInfo =
  si_version :: jstr
  si_goVersion :: jstr
  si_startedAt :: jstr
  si_databaseBytes :: int
  si_schemaVersion :: int
  si_encryptionKeySource :: KeySource
  si_encryptionKeyId :: jstr
  si_specRefreshMinutes :: int
  si_auditRetentionDays :: int
  si_backupsEnabled :: bool
  si_metricsEnabled :: bool
  si_timeZone :: jstr

end
