(* ===== verification/Spec_Catalog.thy ===== *)
theory Spec_Catalog
  imports Spec_History Js_Text Js_Locale Spec_Types
begin

text \<open>
  \<open>lib/catalog.ts\<close>: the filters of the API catalog, their form in the URL, and how the catalog is
  filtered, sorted and counted. What the code takes from the language's tables is a parameter: the
  lower case of the Turkish locale, NFD, the property \<open>Diacritic\<close>, \<open>Date\<close> and the two collations.
\<close>

section \<open>The model\<close>

record Platform =
  lower_tr :: "jstr \<Rightarrow> jstr"
  nfd :: "jstr \<Rightarrow> jstr"
  diacritic :: "jstr \<Rightarrow> bool"
  time_of :: "jstr \<Rightarrow> jnum"
  natural_order :: "jstr \<Rightarrow> jstr \<Rightarrow> int"
  plain_order :: "jstr \<Rightarrow> jstr \<Rightarrow> int"

definition VIEW_KEY :: jstr where
  "VIEW_KEY = js ''portal.catalog.view''"

definition SORT_KEY :: jstr where
  "SORT_KEY = js ''portal.catalog.sort''"

definition STALE_DAYS :: rat where
  "STALE_DAYS = 7"

datatype StatusFilter = Favorites | Invoke | Manage | SpecErrors | SpecStale | Inactive
datatype Sort = ByName | ByViewed | ByRefreshed
datatype View = GridView | ListView

definition STATUS_FILTERS :: "StatusFilter list" where
  "STATUS_FILTERS = [Favorites, Invoke, Manage, SpecErrors, SpecStale, Inactive]"

fun status_text :: "StatusFilter \<Rightarrow> jstr" where
  "status_text Favorites = js ''favorites''"
| "status_text Invoke = js ''invoke''"
| "status_text Manage = js ''manage''"
| "status_text SpecErrors = js ''specError''"
| "status_text SpecStale = js ''specStale''"
| "status_text Inactive = js ''inactive''"

definition SORTS :: "Sort list" where
  "SORTS = [ByName, ByViewed, ByRefreshed]"

fun sort_text :: "Sort \<Rightarrow> jstr" where
  "sort_text ByName = js ''name''"
| "sort_text ByViewed = js ''viewed''"
| "sort_text ByRefreshed = js ''refreshed''"

fun view_text :: "View \<Rightarrow> jstr" where
  "view_text GridView = js ''grid''"
| "view_text ListView = js ''list''"

record CatalogFilters =
  cf_q :: jstr
  cf_tags :: "jstr list"
  cf_owners :: "jstr list"
  cf_status :: "StatusFilter list"
  cf_sort :: Sort
  cf_view :: View

text \<open>A text that names one of the listed choices; the fallback otherwise.\<close>

definition status_of :: "jstr \<Rightarrow> StatusFilter option" where
  "status_of s = find (\<lambda>x. status_text x = s) STATUS_FILTERS"

definition sort_of :: "jstr option \<Rightarrow> Sort" where
  "sort_of s = (case find (\<lambda>x. Some (sort_text x) = s) SORTS of Some x \<Rightarrow> x | None \<Rightarrow> ByName)"

definition view_of :: "jstr option \<Rightarrow> View" where
  "view_of s = (if s = Some (js ''list'') then ListView else GridView)"

definition rememberLayout :: "View option \<Rightarrow> Sort option \<Rightarrow> Storage \<Rightarrow> Storage" where
  "rememberLayout view order st =
     (let st1 = (case view of None \<Rightarrow> st | Some v \<Rightarrow> writePref VIEW_KEY (view_text v) st)
      in case order of None \<Rightarrow> st1 | Some s \<Rightarrow> writePref SORT_KEY (sort_text s) st1)"

definition rememberedLayout :: "Storage \<Rightarrow> View \<times> Sort" where
  "rememberedLayout st = (view_of (readPref VIEW_KEY st), sort_of (readPref SORT_KEY st))"

definition parseFilters :: "(jstr \<times> jstr) list \<Rightarrow> CatalogFilters" where
  "parseFilters params =
     \<lparr>cf_q = (case params_get (js ''q'') params of None \<Rightarrow> [] | Some q \<Rightarrow> q),
      cf_tags = params_all (js ''tag'') params,
      cf_owners = params_all (js ''owner'') params,
      cf_status = List.map_filter status_of (params_all (js ''status'') params),
      cf_sort = sort_of (params_get (js ''sort'') params),
      cf_view = view_of (params_get (js ''view'') params)\<rparr>"

definition filtersToParams :: "CatalogFilters \<Rightarrow> (jstr \<times> jstr) list" where
  "filtersToParams f =
     (let p0 = (if cf_q f \<noteq> [] then params_set (js ''q'') (cf_q f) [] else []);
          p1 = fold (\<lambda>t. params_append (js ''tag'') t) (cf_tags f) p0;
          p2 = fold (\<lambda>t. params_append (js ''owner'') t) (cf_owners f) p1;
          p3 = fold (\<lambda>s. params_append (js ''status'') (status_text s)) (cf_status f) p2;
          p4 = (if cf_sort f \<noteq> ByName then params_set (js ''sort'') (sort_text (cf_sort f)) p3 else p3)
      in if cf_view f \<noteq> GridView then params_set (js ''view'') (view_text (cf_view f)) p4 else p4)"

definition hasFilters :: "CatalogFilters \<Rightarrow> bool" where
  "hasFilters f = (trim (cf_q f) \<noteq> [] \<or> cf_tags f \<noteq> [] \<or> cf_owners f \<noteq> [] \<or> cf_status f \<noteq> [])"

datatype SpecHealth = HealthOk | HealthStale | HealthError | HealthMissing

definition specHealth :: "Platform \<Rightarrow> ApiSummary \<Rightarrow> jnum \<Rightarrow> SpecHealth" where
  "specHealth p api now =
     (if as_specState api = SpecError then HealthError
      else case as_lastSpecRefreshAt api of
          None \<Rightarrow> HealthMissing
        | Some t \<Rightarrow>
            if as_specState api = SpecMissing \<or> t = [] then HealthMissing
            else if num_less (Fin (STALE_DAYS * 86400000)) (num_sub now (time_of p t)) then HealthStale else HealthOk)"

datatype AccessName = ManageLevel | InvokeLevel | ViewLevel | NoLevel

definition accessLevel :: "ApiSummary \<Rightarrow> AccessName" where
  "accessLevel api = (if as_canManage api then ManageLevel else if as_canInvoke api then InvokeLevel
     else if as_canView api then ViewLevel else NoLevel)"

definition fold_tr :: "Platform \<Rightarrow> jstr \<Rightarrow> jstr" where
  "fold_tr p s = replace_unit 305 (js ''i'') (concat (filter (\<lambda>c. \<not> diacritic p c) (string_chars (nfd p (lower_tr p s)))))"

definition api_tags :: "ApiSummary \<Rightarrow> jstr list" where
  "api_tags api = (case as_tags api of None \<Rightarrow> [] | Some ts \<Rightarrow> ts)"

definition matchesQuery :: "Platform \<Rightarrow> ApiSummary \<Rightarrow> jstr \<Rightarrow> bool" where
  "matchesQuery p api q =
     (let needle = fold_tr p (trim q) in
      needle = [] \<or>
      list_ex (\<lambda>v. v \<noteq> [] \<and> str_includes (fold_tr p v) needle)
        ([as_name api, as_slug api, as_description api, as_ownerTeam api] @ api_tags api))"

fun matchesStatus :: "Platform \<Rightarrow> ApiSummary \<Rightarrow> StatusFilter \<Rightarrow> jnum \<Rightarrow> bool" where
  "matchesStatus p api Favorites now = as_favorite api"
| "matchesStatus p api Invoke now = (as_canInvoke api \<and> as_tryItEnabled api)"
| "matchesStatus p api Manage now = as_canManage api"
| "matchesStatus p api SpecErrors now = (specHealth p api now = HealthError \<or> specHealth p api now = HealthMissing)"
| "matchesStatus p api SpecStale now = (specHealth p api now = HealthStale)"
| "matchesStatus p api Inactive now = (\<not> as_isActive api)"

definition filterApis :: "Platform \<Rightarrow> ApiSummary list \<Rightarrow> CatalogFilters \<Rightarrow> jnum \<Rightarrow> ApiSummary list" where
  "filterApis p apis f now = filter (\<lambda>api.
     matchesQuery p api (cf_q f) \<and>
     (cf_tags f = [] \<or> list_ex (\<lambda>t. t \<in> set (api_tags api)) (cf_tags f)) \<and>
     (cf_owners f = [] \<or> as_ownerTeam api \<in> set (cf_owners f)) \<and>
     list_all (\<lambda>s. matchesStatus p api s now) (cf_status f)) apis"

definition stamp_time :: "Platform \<Rightarrow> jstr option \<Rightarrow> jnum" where
  "stamp_time p stamp = (case stamp of None \<Rightarrow> Fin 0 | Some t \<Rightarrow> if t = [] then Fin 0 else time_of p t)"

text \<open>\<open>time(b) - time(a) || byName(a, b)\<close>: zero and NaN are falsy.\<close>

definition cmp_recent :: "Platform \<Rightarrow> (ApiSummary \<Rightarrow> jstr option) \<Rightarrow> ApiSummary \<Rightarrow> ApiSummary \<Rightarrow> int" where
  "cmp_recent p stamp a b =
     (let d = num_sign (num_sub (stamp_time p (stamp b)) (stamp_time p (stamp a)))
      in if d \<noteq> 0 then d else natural_order p (as_name a) (as_name b))"

fun cmp_api :: "Platform \<Rightarrow> Sort \<Rightarrow> ApiSummary \<Rightarrow> ApiSummary \<Rightarrow> int" where
  "cmp_api p ByViewed a b = cmp_recent p as_lastViewedAt a b"
| "cmp_api p ByRefreshed a b = cmp_recent p as_lastSpecRefreshAt a b"
| "cmp_api p ByName a b = natural_order p (as_name a) (as_name b)"

definition sortApis :: "Platform \<Rightarrow> ApiSummary list \<Rightarrow> Sort \<Rightarrow> ApiSummary list" where
  "sortApis p apis order = sort_by (cmp_api p order) apis"

definition count_key :: "jstr \<Rightarrow> (jstr, nat) dict \<Rightarrow> (jstr, nat) dict" where
  "count_key v counts = dict_put v ((case map_of counts v of None \<Rightarrow> 0 | Some n \<Rightarrow> n) + 1) counts"

definition facetCounts :: "Platform \<Rightarrow> ApiSummary list \<Rightarrow> (ApiSummary \<Rightarrow> jstr list) \<Rightarrow> (jstr \<times> nat) list" where
  "facetCounts p apis key = sort_by (\<lambda>a b. plain_order p (fst a) (fst b)) (fold count_key (concat (map key apis)) [])"

definition no_filters :: CatalogFilters where
  "no_filters = \<lparr>cf_q = [], cf_tags = [], cf_owners = [], cf_status = [], cf_sort = ByName, cf_view = GridView\<rparr>"

definition countByStatus :: "Platform \<Rightarrow> ApiSummary list \<Rightarrow> jnum \<Rightarrow> (StatusFilter \<times> nat) list" where
  "countByStatus p apis now =
     map (\<lambda>s. (s, length (filterApis p apis (no_filters\<lparr>cf_status := [s]\<rparr>) now))) STATUS_FILTERS"

section \<open>Filters in the URL\<close>

lemma fold_append: "fold (\<lambda>t. params_append k (h t)) ts ps = ps @ map (\<lambda>t. (k, h t)) ts"
  by (induction ts arbitrary: ps) (simp_all add: params_append_def)

lemma set_new: "k \<notin> fst ` set ps \<Longrightarrow> params_set k v ps = ps @ [(k, v)]"
  by (induction ps) auto

lemma filter_keys_list:
  "filtersToParams f =
     (if cf_q f \<noteq> [] then [(js ''q'', cf_q f)] else []) @ map (\<lambda>t. (js ''tag'', t)) (cf_tags f) @
     map (\<lambda>t. (js ''owner'', t)) (cf_owners f) @ map (\<lambda>s. (js ''status'', status_text s)) (cf_status f) @
     (if cf_sort f \<noteq> ByName then [(js ''sort'', sort_text (cf_sort f))] else []) @
     (if cf_view f \<noteq> GridView then [(js ''view'', view_text (cf_view f))] else [])"
proof -
  have "js ''sort'' \<notin> fst ` set ((if cf_q f \<noteq> [] then [(js ''q'', cf_q f)] else []) @ map (\<lambda>t. (js ''tag'', t)) (cf_tags f) @
     map (\<lambda>t. (js ''owner'', t)) (cf_owners f) @ map (\<lambda>s. (js ''status'', status_text s)) (cf_status f))" (is "_ \<notin> fst ` set ?p3")
    by auto
  note sort = set_new [OF this, of "sort_text (cf_sort f)"]
  have "js ''view'' \<notin> fst ` set (?p3 @ (if cf_sort f \<noteq> ByName then [(js ''sort'', sort_text (cf_sort f))] else []))"
    by auto
  note view = set_new [OF this, of "view_text (cf_view f)"]
  show ?thesis
    using sort view
    by (cases "cf_q f = []"; cases "cf_sort f = ByName"; cases "cf_view f = GridView")
      (simp_all add: filtersToParams_def fold_append Let_def)
qed

lemma status_of_text: "status_of (status_text s) = Some s"
  by (cases s) (simp_all add: status_of_def STATUS_FILTERS_def)

lemma sort_of_text: "sort_of (Some (sort_text s)) = s"
  by (cases s) (simp_all add: sort_of_def SORTS_def)

lemma sort_of_None: "sort_of None = ByName"
  by (simp add: sort_of_def SORTS_def)

lemma view_of_text: "view_of (Some (view_text v)) = v" "view_of None = GridView"
  by (cases v; simp add: view_of_def) (simp add: view_of_def)

lemma get_append: "params_get k (ps @ qs) = (case params_get k ps of None \<Rightarrow> params_get k qs | Some v \<Rightarrow> Some v)"
  by (simp add: params_get_def map_add_def split: option.splits)

lemma get_map: "k \<noteq> k' \<Longrightarrow> params_get k (map (\<lambda>t. (k', h t)) ts) = None"
  by (induction ts) (simp_all add: params_get_def)

lemma all_append: "params_all k (ps @ qs) = params_all k ps @ params_all k qs"
  by (simp add: params_all_def)

lemma all_map: "params_all k (map (\<lambda>t. (k', h t)) ts) = (if k = k' then map h ts else [])"
  by (auto simp: params_all_def comp_def)

lemma params_Cons: "params_get k ((k', v) # ps) = (if k = k' then Some v else params_get k ps)" "params_get k [] = None"
  "params_all k ((k', v) # ps) = (if k = k' then v # params_all k ps else params_all k ps)" "params_all k [] = []"
  by (simp_all add: params_get_def params_all_def)

lemmas params_simps = get_append get_map all_append all_map params_Cons

lemma parse_filters: "parseFilters (filtersToParams f) = f"
proof -
  have "List.map_filter status_of (map status_text ss) = ss" for ss
    by (induction ss) (simp_all add: status_of_text List.map_filter_simps)
  then show ?thesis
    by (cases "cf_sort f = ByName"; cases "cf_view f = GridView"; cases "cf_q f = []")
      (simp_all add: filter_keys_list parseFilters_def params_simps sort_of_text sort_of_None view_of_text)
qed


definition filters_ok :: "CatalogFilters \<Rightarrow> bool" where
  "filters_ok f = (well_formed (cf_q f) \<and> list_all well_formed (cf_tags f) \<and> list_all well_formed (cf_owners f))"

lemma filters_well_formed: "filters_ok f \<Longrightarrow> \<forall>(k, v)\<in>set (filtersToParams f). well_formed k \<and> well_formed v"
proof -
  have k: "list_all (\<lambda>k. well_formed (js k)) [''q'', ''tag'', ''owner'', ''status'', ''sort'', ''view'']" by code_simp
  have s: "well_formed (status_text x)" for x
  proof -
    have "list_all (\<lambda>x. well_formed (status_text x)) STATUS_FILTERS" by code_simp
    then show ?thesis by (cases x) (simp_all add: STATUS_FILTERS_def)
  qed
  have o: "well_formed (sort_text x)" for x
  proof -
    have "list_all (\<lambda>x. well_formed (sort_text x)) SORTS" by code_simp
    then show ?thesis by (cases x) (simp_all add: SORTS_def)
  qed
  have v: "well_formed (view_text x)" for x
  proof -
    have "list_all (\<lambda>x. well_formed (view_text x)) [GridView, ListView]" by code_simp
    then show ?thesis by (cases x) simp_all
  qed
  show "filters_ok f \<Longrightarrow> \<forall>(k, v)\<in>set (filtersToParams f). well_formed k \<and> well_formed v"
    using k s o v by (auto simp: filter_keys_list filters_ok_def list_all_iff split: if_splits)
qed

interpretation catalog_params: codec filtersToParams parseFilters "\<lambda>_. True"
  by unfold_locales (rule parse_filters)

interpretation catalog_url: codec "form_serialize \<circ> filtersToParams" "parseFilters \<circ> form_parse" filters_ok
  by (rule codec_comp [OF _ form_text.codec_axioms filters_well_formed])
    (simp add: codec_def parse_filters)

section \<open>The remembered layout\<close>

lemma remembered:
  assumes "storage_works st"
  shows "rememberedLayout (rememberLayout v s st) =
    ((case v of None \<Rightarrow> fst (rememberedLayout st) | Some v \<Rightarrow> v), (case s of None \<Rightarrow> snd (rememberedLayout st) | Some s \<Rightarrow> s))"
  using assms by (cases v; cases s)
    (simp_all add: rememberLayout_def rememberedLayout_def Let_def prefs.read_write prefs.works_write view_of_text sort_of_text
      VIEW_KEY_def SORT_KEY_def)

section \<open>The order of the catalog\<close>

lemma pow_rat_mono: "a \<le> b \<Longrightarrow> pow_rat 2 a \<le> pow_rat 2 b"
proof -
  have p: "pow_rat 2 a = 2 powi a" for a by (simp add: pow_rat_def power_int_def power_one_over inverse_eq_divide)
  show "a \<le> b \<Longrightarrow> pow_rat 2 a \<le> pow_rat 2 b" unfolding p by (rule power_int_increasing) simp_all
qed

lemma ulp_below: "1 \<le> x \<Longrightarrow> pow_rat 2 (ulp_exp x) \<le> x"
proof -
  assume x: "1 \<le> x"
  let ?n = "nat \<lfloor>x\<rfloor>"
  have n: "0 < ?n" using x by (simp add: one_le_floor zero_less_nat_eq)
  have "2 ^ (floorlog 2 ?n - 1) \<le> ?n" using floorlog_bounds [of ?n 2] n by simp
  moreover have "of_nat ?n \<le> x" using x by simp
  ultimately have b: "(2 :: rat) ^ (floorlog 2 ?n - 1) \<le> x"
    by (metis of_nat_le_iff of_nat_numeral of_nat_power order_trans)
  have "0 < floorlog 2 ?n" using n by (simp add: floorlog_def)
  then have "ulp_exp x \<le> int (floorlog 2 ?n - 1)" using x by (simp add: ulp_exp_def Let_def)
  then have "pow_rat 2 (ulp_exp x) \<le> pow_rat 2 (int (floorlog 2 ?n - 1))" by (rule pow_rat_mono)
  then show ?thesis using b by (simp add: pow_rat_def)
qed

lemma round_even_ge: "1 \<le> y \<Longrightarrow> 1 \<le> round_even y"
  by (simp add: round_even_def Let_def)

lemma if_one_of: "(if c then a else b) \<in> {a, b}"
  by simp

lemma to_double_sign: "1 \<le> \<bar>x\<bar> \<Longrightarrow> num_sign (to_double x) = (if x < 0 then - 1 else 1)"
proof -
  assume x: "1 \<le> \<bar>x\<bar>"
  have p: "0 < pow_rat 2 e" for e by (simp add: pow_rat_def)
  define v where "v = of_int (round_even (\<bar>x\<bar> / pow_rat 2 (ulp_exp \<bar>x\<bar>))) * pow_rat 2 (ulp_exp \<bar>x\<bar>)"
  have nz: "(x = 0) = False" using x by auto
  have "1 \<le> \<bar>x\<bar> / pow_rat 2 (ulp_exp \<bar>x\<bar>)" using ulp_below [OF x] p by (simp add: le_divide_eq)
  then have "1 \<le> round_even (\<bar>x\<bar> / pow_rat 2 (ulp_exp \<bar>x\<bar>))" by (rule round_even_ge)
  then have "0 < v" using p by (simp add: v_def)
  moreover have "to_double x \<in> {if x < 0 then NegInf else PosInf, Fin (if x < 0 then - v else v)}"
    unfolding to_double_def Let_def nz if_False v_def [symmetric] by (rule if_one_of)
  ultimately show ?thesis by auto
qed


lemma num_sub_sign:
  assumes "m \<in> \<int>" "n \<in> \<int>"
  shows "num_sign (num_sub (Fin m) (Fin n)) = (if m < n then - 1 else if n < m then 1 else 0)"
proof -
  obtain a b where ab: "m = of_int a" "n = of_int b" using assms by (metis Ints_cases)
  have s: "num_sub (Fin m) (Fin n) = to_double (m - n)" by (simp add: num_sub_def)
  show ?thesis
  proof (cases "m = n")
    case True
    then show ?thesis unfolding s by (simp add: to_double_def)
  next
    case False
    then have "1 \<le> \<bar>m - n\<bar>" unfolding ab by (metis of_int_eq_iff of_int_diff of_int_abs of_int_1 of_int_le_iff abs_ge_zero eq_iff_diff_eq_0 int_one_le_iff_zero_less zero_less_abs_iff)
    from to_double_sign [OF this] False show ?thesis by (simp add: s)
  qed
qed

text \<open>\<open>Date.getTime\<close> is an integer for a valid date.\<close>

definition whole_time :: "jnum \<Rightarrow> bool" where
  "whole_time n = (case n of Fin a \<Rightarrow> a \<in> \<int> | _ \<Rightarrow> False)"

definition time_value :: "jnum \<Rightarrow> rat" where
  "time_value n = (case n of Fin a \<Rightarrow> if a \<in> \<int> then a else 0 | _ \<Rightarrow> 0)"

lemma sort_by_same: "(\<And>x y. x \<in> set xs \<Longrightarrow> y \<in> set xs \<Longrightarrow> c x y = c' x y) \<Longrightarrow> sort_by c xs = sort_by c' xs"
proof -
  have ins: "(\<And>y. y \<in> set ys \<Longrightarrow> c x y = c' x y) \<Longrightarrow> insert_by c x ys = insert_by c' x ys" for x ys
    by (induction ys) auto
  have "set zs \<subseteq> set xs \<Longrightarrow> (\<And>x y. x \<in> set xs \<Longrightarrow> y \<in> set xs \<Longrightarrow> c x y = c' x y) \<Longrightarrow> sort_by c zs = sort_by c' zs" for zs
  proof (induction zs)
    case (Cons z zs)
    then have "insert_by c z (sort_by c' zs) = insert_by c' z (sort_by c' zs)" by (intro ins) auto
    with Cons show ?case by auto
  qed simp
  then show "(\<And>x y. x \<in> set xs \<Longrightarrow> y \<in> set xs \<Longrightarrow> c x y = c' x y) \<Longrightarrow> sort_by c xs = sort_by c' xs" by blast
qed

definition recent_cmp :: "(ApiSummary \<Rightarrow> rat) \<Rightarrow> ApiSummary \<Rightarrow> ApiSummary \<Rightarrow> int" where
  "recent_cmp t a b = (if t a < t b then 1 else if t b < t a then - 1 else 0)"

lemma recent_cmp_comparator: "comparator (recent_cmp t)"
  by unfold_locales (auto simp: recent_cmp_def split: if_splits)

fun sort_stamp :: "Sort \<Rightarrow> ApiSummary \<Rightarrow> jstr option" where
  "sort_stamp ByViewed a = as_lastViewedAt a"
| "sort_stamp ByRefreshed a = as_lastSpecRefreshAt a"
| "sort_stamp ByName a = None"

definition recency :: "Platform \<Rightarrow> Sort \<Rightarrow> ApiSummary \<Rightarrow> rat" where
  "recency p s a = time_value (stamp_time p (sort_stamp s a))"

lemma cmp_api_recent:
  assumes "whole_time (stamp_time p (sort_stamp s a))" "whole_time (stamp_time p (sort_stamp s b))"
  shows "cmp_api p s a b = cmp_or (recent_cmp (recency p s)) (\<lambda>a b. natural_order p (as_name a) (as_name b)) a b"
proof -
  obtain m n where mn: "stamp_time p (sort_stamp s a) = Fin m" "m \<in> \<int>" "stamp_time p (sort_stamp s b) = Fin n" "n \<in> \<int>"
    using assms by (auto simp: whole_time_def split: jnum.splits)
  then have t: "recency p s a = m" "recency p s b = n" by (simp_all add: recency_def time_value_def)
  show ?thesis
    using mn num_sub_sign [OF mn(4,2)] t
    by (cases s) (simp_all add: cmp_recent_def cmp_or_def recent_cmp_def Let_def stamp_time_def)
qed

section \<open>What the catalog promises\<close>

text \<open>C29: A filtered catalog is a shareable link: the filters read from the query string that is written for
  them are the same filters, whatever text the search and the chosen tags and owners hold, and the catalog
  without filters has an empty query string.\<close>

theorem filters_roundtrip:
  assumes "filters_ok f"
  shows "parseFilters (form_parse (form_serialize (filtersToParams f))) = f \<and>
    (filtersToParams f = [] \<longleftrightarrow> f = no_filters)"
proof -
  have "filtersToParams no_filters = []" by (simp add: filter_keys_list no_filters_def)
  then have "filtersToParams f = [] \<longleftrightarrow> f = no_filters" using catalog_params.enc_inject [of f no_filters] by auto
  then show ?thesis using catalog_url.dec_enc [OF assms] by simp
qed

theorem filters_roundtrip_witness:
  "parseFilters (form_parse (form_serialize (filtersToParams
     (no_filters\<lparr>cf_q := js ''a&b=c'', cf_tags := [js ''x y''], cf_status := [Inactive], cf_view := ListView\<rparr>))))
   = no_filters\<lparr>cf_q := js ''a&b=c'', cf_tags := [js ''x y''], cf_status := [Inactive], cf_view := ListView\<rparr>"
proof (rule filters_roundtrip [THEN conjunct1])
  show "filters_ok (no_filters\<lparr>cf_q := js ''a&b=c'', cf_tags := [js ''x y''], cf_status := [Inactive], cf_view := ListView\<rparr>)"
    by code_simp
qed

text \<open>Sorting the catalog keeps every API and puts the most recently viewed or refreshed first, those never
  viewed or refreshed last, and equals by name, in whole milliseconds and without rounding.\<close>

theorem sortApis_orders:
  assumes "comparator (natural_order p)" "\<forall>a\<in>set apis. whole_time (stamp_time p (sort_stamp s a))"
  shows "mset (sortApis p apis s) = mset apis \<and>
    sorted_wrt (\<lambda>a b. recency p s b < recency p s a \<or>
      recency p s a = recency p s b \<and> natural_order p (as_name a) (as_name b) \<le> 0) (sortApis p apis s)"
proof -
  let ?c = "cmp_or (recent_cmp (recency p s)) (\<lambda>a b. natural_order p (as_name a) (as_name b))"
  have "sortApis p apis s = sort_by ?c apis"
    unfolding sortApis_def using assms(2) by (intro sort_by_same cmp_api_recent) auto
  moreover have "sorted_wrt (\<lambda>a b. ?c a b \<le> 0) (sort_by ?c apis)"
    using cmp_or_comparator [OF recent_cmp_comparator comparator_inv [OF assms(1)]]
    by (rule comparator.sort_by_sorted)
  ultimately show ?thesis
    by (auto elim!: sorted_wrt_mono_rel [rotated] simp: cmp_or_def recent_cmp_def split: if_splits)
qed

definition example_api :: "string \<Rightarrow> string option \<Rightarrow> ApiSummary" where
  "example_api name viewed = \<lparr>as_id = 1, as_name = js name, as_slug = js name, as_description = [], as_isActive = True,
     as_tryItEnabled = True, as_ownerTeam = [], as_tags = None, as_lastSpecRefreshAt = None, as_specState = SpecOk,
     as_specError = None, as_specVersion = None, as_operationCount = None, as_canView = True, as_canInvoke = False,
     as_canManage = False, as_favorite = False, as_lastViewedAt = map_option js viewed\<rparr>"

definition example_platform :: Platform where
  "example_platform = \<lparr>lower_tr = id, nfd = id, diacritic = \<lambda>_. False, time_of = \<lambda>s. num_of_int (int (length s)),
     natural_order = unit_cmp, plain_order = unit_cmp\<rparr>"

theorem sortApis_orders_witness:
  "mset (sortApis example_platform [example_api ''B'' None, example_api ''A'' (Some ''2026'')] ByViewed)
     = mset [example_api ''B'' None, example_api ''A'' (Some ''2026'')]"
proof (rule sortApis_orders [THEN conjunct1])
  show "comparator (natural_order example_platform)"
    using unit_order.comparator_axioms by (simp add: example_platform_def)
  show "\<forall>a\<in>set [example_api ''B'' None, example_api ''A'' (Some ''2026'')]. whole_time (stamp_time example_platform (sort_stamp ByViewed a))"
    by (simp add: example_api_def example_platform_def stamp_time_def whole_time_def num_of_int_def)
qed

end
