(* ===== verification/Spec_Api.thy ===== *)
theory Spec_Api
  imports Spec_Request Spec_Types
begin

text \<open>
  \<open>lib/api.ts\<close> and \<open>lib/admin-api.ts\<close>: the client of the portal's server. \<open>fetch\<close> is a parameter;
  every request returns the calls it made beside its result, so that what reaches the network is
  part of what is proved. A payload is the value that \<open>JSON.stringify\<close> is given.
\<close>

section \<open>Errors\<close>

record ApiError =
  er_status :: int
  er_message :: jstr
  er_code :: jval
  er_requestId :: jval
  er_retryAfter :: jnum

text \<open>
  What a request rejects with: the abort of its caller, an \<open>ApiError\<close>, a malformed JSON answer, or the
  \<open>URIError\<close> of a reference that cannot be encoded.
\<close>

datatype ClientError = Aborted | ApiFailure ApiError | MalformedAnswer | BadReference

definition isApiError :: "ClientError \<Rightarrow> int option \<Rightarrow> bool" where
  "isApiError e status =
     (case e of ApiFailure a \<Rightarrow> (case status of None \<Rightarrow> True | Some s \<Rightarrow> er_status a = s) | _ \<Rightarrow> False)"

section \<open>Requests\<close>

text \<open>\<open>Headers\<close>: names in lower case.\<close>

type_synonym Headers = "(jstr, jstr) dict"

definition headers_get :: "string \<Rightarrow> Headers \<Rightarrow> jstr option" where
  "headers_get name h = map_of h (ascii_lower (js name))"

definition headers_set :: "jstr \<Rightarrow> jstr \<Rightarrow> Headers \<Rightarrow> Headers" where
  "headers_set name v h = dict_put (ascii_lower name) v h"

record Response =
  rs_status :: int
  rs_headers :: Headers
  rs_text :: jstr

datatype Body = NoBody | TextBody jstr | FormBody "(jstr \<times> jstr) list"

record RequestInit =
  in_method :: jstr
  in_headers :: Headers
  in_body :: Body

text \<open>One call of \<open>fetch\<close>: the path, the request and its credentials mode.\<close>

record Call =
  c_path :: jstr
  c_init :: RequestInit
  c_credentials :: jstr

datatype Fetched = Answered Response | AbortError | NetworkError

type_synonym fetcher = "Call \<Rightarrow> Fetched"
type_synonym 'a net = "Call list \<times> (ClientError + 'a)"

definition rs_ok :: "Response \<Rightarrow> bool" where
  "rs_ok r = (200 \<le> rs_status r \<and> rs_status r \<le> 299)"

definition CSRF_HEADER :: jstr where
  "CSRF_HEADER = js ''X-CSRF-Protection''"

definition header_number :: "string \<Rightarrow> Response \<Rightarrow> jnum" where
  "header_number name r = (case headers_get name (rs_headers r) of None \<Rightarrow> Fin 0 | Some s \<Rightarrow> to_number s)"

definition retry_after :: "Response \<Rightarrow> jnum" where
  "retry_after r = (let n = header_number ''Retry-After'' r in if n = NaN then Fin 0 else n)"

definition header_text :: "string \<Rightarrow> Response \<Rightarrow> jstr" where
  "header_text name r = (case headers_get name (rs_headers r) of None \<Rightarrow> [] | Some s \<Rightarrow> s)"

definition plain_error :: "Response \<Rightarrow> ApiError" where
  "plain_error r =
     \<lparr>er_status = rs_status r,
      er_message = (if trim (rs_text r) \<noteq> [] then trim (rs_text r)
        else js ''Request failed ('' @ int_str (rs_status r) @ js '')''),
      er_code = JStr [], er_requestId = JStr (header_text ''X-Request-Id'' r), er_retryAfter = retry_after r\<rparr>"

text \<open>Reading a property of the parsed body cannot fail: it is truthy.\<close>

definition toApiError :: "Response \<Rightarrow> ApiError" where
  "toApiError r =
     (case json_parse (rs_text r) of
        None \<Rightarrow> plain_error r
      | Some body \<Rightarrow>
          if \<not> truthy body then plain_error r
          else case jget body (js ''error'') of
              Inr (JStr message) \<Rightarrow>
                \<lparr>er_status = rs_status r, er_message = message,
                 er_code = coalesce (jget_opt body (js ''code'')) (JStr []),
                 er_requestId = or_else (jget_opt body (js ''requestId'')) (JStr (header_text ''X-Request-Id'' r)),
                 er_retryAfter = retry_after r\<rparr>
            | _ \<Rightarrow> plain_error r)"

definition network_error :: ApiError where
  "network_error = \<lparr>er_status = 0, er_message = js ''The portal could not be reached.'', er_code = JStr (js ''network''),
     er_requestId = JStr [], er_retryAfter = Fin 0\<rparr>"

definition send :: "fetcher \<Rightarrow> jstr \<Rightarrow> RequestInit \<Rightarrow> Response net" where
  "send fetch path init =
     (let call = \<lparr>c_path = path, c_init = init, c_credentials = js ''same-origin''\<rparr>
      in ([call], case fetch call of
            Answered r \<Rightarrow> Inr r
          | AbortError \<Rightarrow> Inl Aborted
          | NetworkError \<Rightarrow> Inl (ApiFailure network_error)))"

text \<open>The value of a request: a CSV text, nothing, or parsed JSON.\<close>

datatype Reply = CsvText jstr | NoContent | Json jval

definition json_reply :: "Response \<Rightarrow> ClientError + Reply" where
  "json_reply r = (case json_parse (rs_text r) of None \<Rightarrow> Inl MalformedAnswer | Some v \<Rightarrow> Inr (Json v))"

definition request :: "fetcher \<Rightarrow> jstr \<Rightarrow> RequestInit \<Rightarrow> Reply net" where
  "request fetch path options =
     (let headers = headers_set CSRF_HEADER (js ''1'')
            (headers_set (js ''Content-Type'') (js ''application/json'') (in_headers options));
          sent = send fetch path (options\<lparr>in_headers := headers\<rparr>)
      in (fst sent, case snd sent of
            Inl e \<Rightarrow> Inl e
          | Inr r \<Rightarrow>
              if \<not> rs_ok r then Inl (ApiFailure (toApiError r))
              else if str_includes (header_text ''Content-Type'' r) (js ''text/csv'') then Inr (CsvText (rs_text r))
              else if rs_status r = 204 then Inr NoContent
              else json_reply r))"

definition uploadRequest :: "fetcher \<Rightarrow> jstr \<Rightarrow> (jstr \<times> jstr) list \<Rightarrow> Reply net" where
  "uploadRequest fetch path form =
     (let sent = send fetch path \<lparr>in_method = js ''POST'', in_headers = headers_set CSRF_HEADER (js ''1'') [], in_body = FormBody form\<rparr>
      in (fst sent, case snd sent of
            Inl e \<Rightarrow> Inl e
          | Inr r \<Rightarrow>
              if \<not> rs_ok r then Inl (ApiFailure (toApiError r))
              else if rs_status r = 204 then Inr NoContent
              else json_reply r))"

text \<open>
  \<open>auditQuery\<close>: the filter with the extra properties over it; a value is a text, a number or absent.
\<close>

definition auditQuery :: "(jstr, jval) dict \<Rightarrow> (jstr, jval) dict \<Rightarrow> jstr jsr" where
  "auditQuery filter_fields extra =
     ebind (efold (\<lambda>(key, v) params. if v = JUndef \<or> v = JStr [] then Inr params
         else ebind (to_str v) (\<lambda>s. Inr (params_set key s params)))
       (put_all obj_define extra (put_all obj_define filter_fields [])) [])
     (\<lambda>params. Inr (if form_serialize params = [] then [] else js ''?'' @ form_serialize params))"

section \<open>The endpoints\<close>

record Endpoint =
  ep_method :: jstr
  ep_path :: jstr
  ep_body :: "jval option"

definition get :: "jstr \<Rightarrow> Endpoint" where
  "get path = \<lparr>ep_method = js ''GET'', ep_path = path, ep_body = None\<rparr>"

definition call :: "string \<Rightarrow> jstr \<Rightarrow> Endpoint" where
  "call verb path = \<lparr>ep_method = js verb, ep_path = path, ep_body = None\<rparr>"

definition call_json :: "string \<Rightarrow> jstr \<Rightarrow> jval \<Rightarrow> Endpoint" where
  "call_json verb path body = \<lparr>ep_method = js verb, ep_path = path, ep_body = Some body\<rparr>"

definition obj :: "(string \<times> jval) list \<Rightarrow> jval" where
  "obj fs = JObj Fresh (map (\<lambda>(k, v). (js k, v)) fs)"

definition id_list :: "int list \<Rightarrow> jval" where
  "id_list ids = JArr Fresh (map (\<lambda>n. JNum (num_of_int n)) ids)"

definition name_list :: "jstr list \<Rightarrow> jval" where
  "name_list names = JArr Fresh (map JStr names)"

text \<open>A path with one id in it.\<close>

definition with_id :: "string \<Rightarrow> int \<Rightarrow> string \<Rightarrow> jstr" where
  "with_id before n after = js before @ int_str n @ js after"

datatype AccountCall =
  Login jstr jstr | Logout | MySessions | RevokeMySession int | RevokeMyOtherSessions | Sessions | RevokeSession int |
  RevokeUserSessions int | ResetPassword int | TestLdapLogin jstr jstr | Me | ChangePassword jstr jstr | PublicSettings | AuthProvidersCall

fun account_call :: "AccountCall \<Rightarrow> Endpoint" where
  "account_call (Login username password) =
     call_json ''POST'' (js ''/api/auth/login'') (obj [(''username'', JStr username), (''password'', JStr password)])"
| "account_call Logout = call ''POST'' (js ''/api/auth/logout'')"
| "account_call MySessions = get (js ''/api/auth/sessions'')"
| "account_call (RevokeMySession n) = call ''DELETE'' (with_id ''/api/auth/sessions/'' n '''')"
| "account_call RevokeMyOtherSessions = call ''POST'' (js ''/api/auth/sessions/revoke-others'')"
| "account_call Sessions = get (js ''/api/admin/sessions'')"
| "account_call (RevokeSession n) = call ''DELETE'' (with_id ''/api/admin/sessions/'' n '''')"
| "account_call (RevokeUserSessions n) = call ''POST'' (with_id ''/api/admin/users/'' n ''/revoke-sessions'')"
| "account_call (ResetPassword n) = call ''POST'' (with_id ''/api/admin/users/'' n ''/reset-password'')"
| "account_call (TestLdapLogin username password) =
     call_json ''POST'' (js ''/api/admin/ldap/test-login'') (obj [(''username'', JStr username), (''password'', JStr password)])"
| "account_call Me = get (js ''/api/auth/me'')"
| "account_call (ChangePassword current new) =
     call_json ''POST'' (js ''/api/auth/change-password'') (obj [(''currentPassword'', JStr current), (''newPassword'', JStr new)])"
| "account_call PublicSettings = get (js ''/api/system/public'')"
| "account_call AuthProvidersCall = get (js ''/api/auth/providers'')"

definition azure_login_target :: jstr where
  "azure_login_target = js ''/api/auth/azure/start''"

datatype CatalogCall =
  Catalog | Search jstr | SetFavorite int bool | ApiDetails jstr | ApiSpec jstr | ApiActivity jstr | InvokeCall jstr jval

definition api_ref :: "jstr \<Rightarrow> string \<Rightarrow> jstr jsr" where
  "api_ref ref after = ebind (encodeURIComponent ref) (\<lambda>e. Inr (js ''/api/apis/'' @ e @ js after))"

fun catalog_call :: "CatalogCall \<Rightarrow> Endpoint jsr" where
  "catalog_call Catalog = Inr (get (js ''/api/catalog''))"
| "catalog_call (Search q) = ebind (encodeURIComponent q) (\<lambda>e. Inr (get (js ''/api/search?q='' @ e)))"
| "catalog_call (SetFavorite n favorite) = Inr (call (if favorite then ''PUT'' else ''DELETE'') (with_id ''/api/me/favorites/'' n ''''))"
| "catalog_call (ApiDetails ref) = ebind (api_ref ref '''') (\<lambda>p. Inr (get p))"
| "catalog_call (ApiSpec ref) = ebind (api_ref ref ''/spec'') (\<lambda>p. Inr (get p))"
| "catalog_call (ApiActivity ref) = ebind (api_ref ref ''/activity'') (\<lambda>p. Inr (get p))"
| "catalog_call (InvokeCall n payload) = Inr (call_json ''POST'' (js ''/api/apis/'' @ n @ js ''/invoke'') payload)"

definition specDownloadUrl :: "jstr \<Rightarrow> jstr \<Rightarrow> jstr jsr" where
  "specDownloadUrl ref format = ebind (api_ref ref ''/spec?format='') (\<lambda>p. Inr (p @ format @ js ''&download=1''))"

text \<open>Users, groups, roles and permissions.\<close>

datatype PeopleCall =
  Users | CreateUser jval | UpdateUser int jval | DeleteUser int | UserGroups int | SetUserGroups int "int list" |
  Groups | CreateGroup jval | UpdateGroup int jval | DeleteGroup int | GroupRoles int | SetGroupRoles int "int list" |
  Roles | CreateRole jval | UpdateRole int jval | DeleteRole int | Permissions int | AddPermission int jstr jstr |
  ReplacePermissions int "jstr list" | DeletePermission int

fun people_call :: "PeopleCall \<Rightarrow> Endpoint" where
  "people_call Users = get (js ''/api/admin/users'')"
| "people_call (CreateUser payload) = call_json ''POST'' (js ''/api/admin/users'') payload"
| "people_call (UpdateUser n payload) = call_json ''PUT'' (with_id ''/api/admin/users/'' n '''') payload"
| "people_call (DeleteUser n) = call ''DELETE'' (with_id ''/api/admin/users/'' n '''')"
| "people_call (UserGroups n) = get (with_id ''/api/admin/users/'' n ''/groups'')"
| "people_call (SetUserGroups n groupIds) = call_json ''PUT'' (with_id ''/api/admin/users/'' n ''/groups'') (id_list groupIds)"
| "people_call Groups = get (js ''/api/admin/groups'')"
| "people_call (CreateGroup payload) = call_json ''POST'' (js ''/api/admin/groups'') payload"
| "people_call (UpdateGroup n payload) = call_json ''PUT'' (with_id ''/api/admin/groups/'' n '''') payload"
| "people_call (DeleteGroup n) = call ''DELETE'' (with_id ''/api/admin/groups/'' n '''')"
| "people_call (GroupRoles n) = get (with_id ''/api/admin/groups/'' n ''/roles'')"
| "people_call (SetGroupRoles n roleIds) = call_json ''PUT'' (with_id ''/api/admin/groups/'' n ''/roles'') (id_list roleIds)"
| "people_call Roles = get (js ''/api/admin/roles'')"
| "people_call (CreateRole payload) = call_json ''POST'' (js ''/api/admin/roles'') payload"
| "people_call (UpdateRole n payload) = call_json ''PUT'' (with_id ''/api/admin/roles/'' n '''') payload"
| "people_call (DeleteRole n) = call ''DELETE'' (with_id ''/api/admin/roles/'' n '''')"
| "people_call (Permissions n) = get (with_id ''/api/admin/roles/'' n ''/permissions'')"
| "people_call (AddPermission n scope description) = call_json ''POST'' (with_id ''/api/admin/roles/'' n ''/permissions'')
     (obj [(''scope'', JStr scope), (''description'', JStr description)])"
| "people_call (ReplacePermissions n scopes) = call_json ''PUT'' (with_id ''/api/admin/roles/'' n ''/permissions'')
     (obj [(''scopes'', name_list scopes)])"
| "people_call (DeletePermission n) = call ''DELETE'' (with_id ''/api/admin/permissions/'' n '''')"

text \<open>The directories, the API definitions and the audit log; then the features and the settings.\<close>

datatype SetupCall =
  Ldap | UpdateLdap jval | TestLdap jval | SearchLdap jstr | ImportLdap "jstr list" "int list" |
  AzureAd | UpdateAzureAd jval | TestAzureAd jval |
  AdminApis | CreateApi jval | UpdateApi int jval | DeleteApi int | RefreshApiSpec int | AuditLogs jstr

fun setup_call :: "SetupCall \<Rightarrow> Endpoint" where
  "setup_call Ldap = get (js ''/api/admin/ldap'')"
| "setup_call (UpdateLdap payload) = call_json ''PUT'' (js ''/api/admin/ldap'') payload"
| "setup_call (TestLdap payload) = call_json ''POST'' (js ''/api/admin/ldap/test'') payload"
| "setup_call (SearchLdap query) = call_json ''POST'' (js ''/api/admin/ldap/search'') (obj [(''query'', JStr query)])"
| "setup_call (ImportLdap usernames groupIds) = call_json ''POST'' (js ''/api/admin/ldap/import'')
     (obj [(''usernames'', name_list usernames), (''groupIds'', id_list groupIds)])"
| "setup_call AzureAd = get (js ''/api/admin/azure-ad'')"
| "setup_call (UpdateAzureAd payload) = call_json ''PUT'' (js ''/api/admin/azure-ad'') payload"
| "setup_call (TestAzureAd payload) = call_json ''POST'' (js ''/api/admin/azure-ad/test'') payload"
| "setup_call AdminApis = get (js ''/api/admin/apis'')"
| "setup_call (CreateApi payload) = call_json ''POST'' (js ''/api/admin/apis'') payload"
| "setup_call (UpdateApi n payload) = call_json ''PUT'' (with_id ''/api/admin/apis/'' n '''') payload"
| "setup_call (DeleteApi n) = call ''DELETE'' (with_id ''/api/admin/apis/'' n '''')"
| "setup_call (RefreshApiSpec n) = call ''POST'' (with_id ''/api/admin/apis/'' n ''/refresh'')"
| "setup_call (AuditLogs query) = get (js ''/api/admin/audit-logs'' @ query)"

datatype SettingsCall =
  FeaturesCall | PermissionCatalog | ApiAccessCall int | SetApiAccess int jval |
  SessionPolicy | UpdateSession jval | System | UpdateSystem jval | DeleteSystemLogo

fun settings_call :: "SettingsCall \<Rightarrow> Endpoint" where
  "settings_call FeaturesCall = get (js ''/api/features'')"
| "settings_call PermissionCatalog = get (js ''/api/permissions/catalog'')"
| "settings_call (ApiAccessCall n) = get (with_id ''/api/admin/apis/'' n ''/access'')"
| "settings_call (SetApiAccess n access) = call_json ''PUT'' (with_id ''/api/admin/apis/'' n ''/access'') access"
| "settings_call SessionPolicy = get (js ''/api/admin/session'')"
| "settings_call (UpdateSession payload) = call_json ''PUT'' (js ''/api/admin/session'') payload"
| "settings_call System = get (js ''/api/admin/system'')"
| "settings_call (UpdateSystem payload) = call_json ''PUT'' (js ''/api/admin/system'') payload"
| "settings_call DeleteSystemLogo = call ''DELETE'' (js ''/api/admin/system/logo'')"

text \<open>\<open>lib/admin-api.ts\<close>.\<close>

datatype ConsoleCall =
  Overview | SystemInfoCall | SpecPreviewCall jstr | ApiImpactCall int | UserPermissions int "int list option" |
  GroupPermissions int | UserSessions int | PreregisterAzure jval | BulkUserStatus "int list" bool |
  AddGroupMembers int "int list" | RemoveGroupMember int int

fun console_call :: "ConsoleCall \<Rightarrow> Endpoint" where
  "console_call Overview = get (js ''/api/admin/overview'')"
| "console_call SystemInfoCall = get (js ''/api/admin/system/info'')"
| "console_call (SpecPreviewCall url) = call_json ''POST'' (js ''/api/admin/apis/spec-preview'') (obj [(''url'', JStr url)])"
| "console_call (ApiImpactCall n) = get (with_id ''/api/admin/apis/'' n ''/impact'')"
| "console_call (UserPermissions n groupIds) = get (with_id ''/api/admin/users/'' n ''/permissions'' @
     (case groupIds of None \<Rightarrow> [] | Some ids \<Rightarrow> js ''?groupIds='' @ join (js '','') (map int_str ids)))"
| "console_call (GroupPermissions n) = get (with_id ''/api/admin/groups/'' n ''/permissions'')"
| "console_call (UserSessions n) = get (with_id ''/api/admin/sessions?userId='' n '''')"
| "console_call (PreregisterAzure payload) = call_json ''POST'' (js ''/api/admin/users/azure'') payload"
| "console_call (BulkUserStatus userIds active) = call_json ''POST'' (js ''/api/admin/users/bulk-status'')
     (obj [(''userIds'', id_list userIds), (''active'', JBool active)])"
| "console_call (AddGroupMembers n userIds) = call_json ''POST'' (with_id ''/api/admin/groups/'' n ''/members'')
     (obj [(''userIds'', id_list userIds)])"
| "console_call (RemoveGroupMember n userId) =
     call ''DELETE'' (with_id ''/api/admin/groups/'' n ''/members/'' @ int_str userId)"

section \<open>The whole client\<close>

datatype ClientCall =
  Account AccountCall | Browse CatalogCall | People PeopleCall | Setup SetupCall | Settings SettingsCall | Console ConsoleCall |
  ExportAuditLogs "(jstr, jval) dict" | UploadSystemLogo jstr

text \<open>\<open>JSON.stringify\<close> of a payload; of undefined it would give no text, and no body is sent.\<close>

definition endpoint_init :: "Endpoint \<Rightarrow> RequestInit" where
  "endpoint_init e = \<lparr>in_method = ep_method e, in_headers = [],
     in_body = (case ep_body e of None \<Rightarrow> NoBody | Some v \<Rightarrow> (case stringify v of None \<Rightarrow> NoBody | Some t \<Rightarrow> TextBody t))\<rparr>"

definition run_endpoint :: "fetcher \<Rightarrow> Endpoint jsr \<Rightarrow> Reply net" where
  "run_endpoint fetch e = (case e of Inl _ \<Rightarrow> ([], Inl BadReference) | Inr e \<Rightarrow> request fetch (ep_path e) (endpoint_init e))"

text \<open>The export: the text of the answer, whether it was cut off and how many rows it has.\<close>

definition exportAuditLogs :: "fetcher \<Rightarrow> (jstr, jval) dict \<Rightarrow> (jstr \<times> bool \<times> jnum) net" where
  "exportAuditLogs fetch filters =
     (case auditQuery filters [] of
        Inl _ \<Rightarrow> ([], Inl BadReference)
      | Inr q \<Rightarrow>
          let sent = send fetch (js ''/api/admin/audit-logs/export'' @ q) \<lparr>in_method = js ''GET'', in_headers = [], in_body = NoBody\<rparr>
          in (fst sent, case snd sent of
                Inl e \<Rightarrow> Inl e
              | Inr r \<Rightarrow>
                  if \<not> rs_ok r then Inl (ApiFailure (toApiError r))
                  else Inr (rs_text r, headers_get ''X-Audit-Export-Truncated'' (rs_headers r) = Some (js ''true''),
                    header_number ''X-Audit-Export-Rows'' r)))"

definition uploadSystemLogo :: "fetcher \<Rightarrow> jstr \<Rightarrow> Reply net" where
  "uploadSystemLogo fetch file = uploadRequest fetch (js ''/api/admin/system/logo'') [(js ''logo'', file)]"

fun client_calls :: "fetcher \<Rightarrow> ClientCall \<Rightarrow> Call list" where
  "client_calls fetch (Account c) = fst (run_endpoint fetch (Inr (account_call c)))"
| "client_calls fetch (Browse c) = fst (run_endpoint fetch (catalog_call c))"
| "client_calls fetch (People c) = fst (run_endpoint fetch (Inr (people_call c)))"
| "client_calls fetch (Setup c) = fst (run_endpoint fetch (Inr (setup_call c)))"
| "client_calls fetch (Settings c) = fst (run_endpoint fetch (Inr (settings_call c)))"
| "client_calls fetch (Console c) = fst (run_endpoint fetch (Inr (console_call c)))"
| "client_calls fetch (ExportAuditLogs filters) = fst (exportAuditLogs fetch filters)"
| "client_calls fetch (UploadSystemLogo file) = fst (uploadSystemLogo fetch file)"

section \<open>What reaches the network\<close>

definition api_path :: "jstr \<Rightarrow> bool" where
  "api_path p = prefix (js ''/api/'') p"

lemma api_path_js: "prefix ''/api/'' s \<Longrightarrow> api_path (js s @ r)"
proof -
  assume "prefix ''/api/'' s"
  then obtain t where "s = ''/api/'' @ t" by (auto simp: prefix_def)
  then have "js s @ r = js ''/api/'' @ (js t @ r)" unfolding js_append [symmetric] append_assoc [symmetric] by simp
  then show ?thesis unfolding api_path_def prefix_def by blast
qed

lemma api_path_plain: "prefix ''/api/'' s \<Longrightarrow> api_path (js s)"
  using api_path_js [of s "[]"] by simp

lemma api_path_with_id: "prefix ''/api/'' s \<Longrightarrow> api_path (with_id s n t)" "prefix ''/api/'' s \<Longrightarrow> api_path (with_id s n t @ r)"
  by (simp_all add: with_id_def api_path_js)

lemmas api_paths = api_path_plain api_path_js api_path_with_id get_def call_def call_json_def

lemma account_path: "api_path (ep_path (account_call c))"
  by (cases c) (simp_all add: api_paths)

lemma people_path: "api_path (ep_path (people_call c))"
  by (cases c) (simp_all add: api_paths)

lemma setup_path: "api_path (ep_path (setup_call c))"
  by (cases c) (simp_all add: api_paths)

lemma settings_path: "api_path (ep_path (settings_call c))"
  by (cases c) (simp_all add: api_paths)

lemma console_path: "api_path (ep_path (console_call c))"
  by (cases c) (simp_all add: api_paths)

lemma catalog_path: "catalog_call c = Inr e \<Longrightarrow> api_path (ep_path e)"
  by (cases c) (auto simp: api_paths api_ref_def ebind_Inr_iff)

text \<open>A call that the server's protection accepts: to the API, with the page's own credentials and, when it changes state, with the header.\<close>

definition protected_call :: "Call \<Rightarrow> bool" where
  "protected_call c = (api_path (c_path c) \<and> c_credentials c = js ''same-origin'' \<and>
     (in_method (c_init c) = js ''GET'' \<or> headers_get ''X-CSRF-Protection'' (in_headers (c_init c)) = Some (js ''1'')))"

lemma send_calls: "fst (send fetch path init) = [\<lparr>c_path = path, c_init = init, c_credentials = js ''same-origin''\<rparr>]"
  by (simp add: send_def Let_def)

lemma csrf_set: "headers_get ''X-CSRF-Protection'' (headers_set CSRF_HEADER v h) = Some v"
  by (simp add: headers_get_def headers_set_def CSRF_HEADER_def dict_simps)

lemma request_calls:
  assumes "api_path path"
  shows "list_all protected_call (fst (request fetch path init)) \<and> length (fst (request fetch path init)) = 1"
  using assms by (simp add: request_def Let_def send_calls protected_call_def csrf_set)

lemma run_calls:
  assumes "\<And>x. e = Inr x \<Longrightarrow> api_path (ep_path x)"
  shows "list_all protected_call (fst (run_endpoint fetch e)) \<and> length (fst (run_endpoint fetch e)) \<le> 1"
  using assms request_calls by (cases e) (simp_all add: run_endpoint_def)

text \<open>C38: Every operation of the client makes at most one call; it goes to the API with the credentials of the
  same origin only, and each one that is not a plain read carries the header that the server demands against
  cross-site requests.\<close>

theorem client_calls_protected:
  "list_all protected_call (client_calls fetch c) \<and> length (client_calls fetch c) \<le> 1"
proof (cases c)
  case (ExportAuditLogs filters)
  then show ?thesis
    by (auto simp: exportAuditLogs_def Let_def send_calls protected_call_def api_paths split: sum.split)
next
  case (UploadSystemLogo logo)
  then show ?thesis
    by (simp add: uploadSystemLogo_def uploadRequest_def Let_def send_calls protected_call_def api_paths csrf_set)
next
  case (Account x)
  then show ?thesis using run_calls [of "Inr (account_call x)" fetch] account_path by simp
next
  case (Browse x)
  then show ?thesis using run_calls [of "catalog_call x" fetch] catalog_path by simp
next
  case (People x)
  then show ?thesis using run_calls [of "Inr (people_call x)" fetch] people_path by simp
next
  case (Setup x)
  then show ?thesis using run_calls [of "Inr (setup_call x)" fetch] setup_path by simp
next
  case (Settings x)
  then show ?thesis using run_calls [of "Inr (settings_call x)" fetch] settings_path by simp
next
  case (Console x)
  then show ?thesis using run_calls [of "Inr (console_call x)" fetch] console_path by simp
qed

text \<open>The export is the one call without the header: every call carries it, the comment says.\<close>

lemma export_has_no_csrf_header:
  "map (\<lambda>c. headers_get ''X-CSRF-Protection'' (in_headers (c_init c))) (client_calls fetch (ExportAuditLogs [])) = [None]"
proof -
  have "auditQuery [] [] = Inr []" by code_simp
  then show ?thesis by (simp add: exportAuditLogs_def send_calls headers_get_def Let_def)
qed

text \<open>The reference of an API is one segment of the path: whatever text it is, the page's requests for it
  have no further slash, query or fragment, and the server decodes the segment to that text.\<close>

theorem api_reference_is_one_segment:
  assumes "catalog_call (ApiDetails ref) = Inr e"
  shows "\<exists>segment. ep_path e = js ''/api/apis/'' @ segment \<and> decodeURIComponent segment = Inr ref \<and>
    set segment \<inter> {47, 63, 35} = {} \<and> catalog_call (ApiSpec ref) = Inr (get (js ''/api/apis/'' @ segment @ js ''/spec''))"
proof -
  from assms obtain segment where s: "encodeURIComponent ref = Inr segment" "ep_path e = js ''/api/apis/'' @ segment"
    by (auto simp: api_ref_def ebind_Inr_iff get_def)
  have "set segment \<inter> {47, 63, 35} = {}" using encode_safe [OF s(1)] uri_safe_not_special by fastforce
  moreover have "decodeURIComponent segment = Inr ref" using s(1) by (rule decode_encode)
  ultimately show ?thesis using s by (auto simp: api_ref_def)
qed

theorem api_reference_is_one_segment_witness:
  "catalog_call (ApiDetails (js ''a/b?'')) = Inr (get (js ''/api/apis/a%2Fb%3F'')) \<and>
   (\<exists>segment. js ''/api/apis/a%2Fb%3F'' = js ''/api/apis/'' @ segment \<and> decodeURIComponent segment = Inr (js ''a/b?''))"
proof -
  have c: "catalog_call (ApiDetails (js ''a/b?'')) = Inr (get (js ''/api/apis/a%2Fb%3F''))" by code_simp
  from api_reference_is_one_segment [OF c] c show ?thesis by (auto simp: get_def)
qed

end
