(* ===== verification/Spec_Session.thy ===== *)
theory Spec_Session
  imports Spec_Api
begin

text \<open>
  \<open>lib/query.ts\<close> and \<open>hooks/queries.ts\<close>: what happens when a session ends, when a query is tried
  again, and the optimistic update of favourites in the query cache. The cache itself is the library
  TanStack Query: modelled are the two kinds of entry that the code reads and writes, the catalog and
  the entries whose key starts with \<open>api\<close>, and which keys are marked for a refetch.
\<close>

section \<open>The end of a session\<close>

record SessionState =
  onSessionEnded :: bool
  sessionEstablished :: bool

definition no_session :: SessionState where
  "no_session = \<lparr>onSessionEnded = False, sessionEstablished = False\<rparr>"

definition setSessionEndedHandler :: "SessionState \<Rightarrow> SessionState" where
  "setSessionEndedHandler st = st\<lparr>onSessionEnded := True\<rparr>"

definition markSessionEstablished :: "bool \<Rightarrow> SessionState \<Rightarrow> SessionState" where
  "markSessionEstablished established st = st\<lparr>sessionEstablished := established\<rparr>"

text \<open>The number of times the handler is called, and the new state.\<close>

definition handleError :: "ClientError \<Rightarrow> SessionState \<Rightarrow> nat \<times> SessionState" where
  "handleError e st =
     (if isApiError e (Some 401) \<and> sessionEstablished st
      then (if onSessionEnded st then 1 else 0, st\<lparr>sessionEstablished := False\<rparr>)
      else (0, st))"

text \<open>\<open>retry\<close> of the queries, after \<open>failureCount\<close> failures; mutations are never tried again.\<close>

definition retry_query :: "nat \<Rightarrow> ClientError \<Rightarrow> bool" where
  "retry_query failureCount e =
     (failureCount < 2 \<and> (case e of ApiFailure a \<Rightarrow> er_status a = 0 \<or> 500 \<le> er_status a | _ \<Rightarrow> True))"

text \<open>
  A query that fails with the errors \<open>es\<close>, one after the other: the number of attempts, as the library
  asks \<open>retry\<close> with the failures so far.
\<close>

fun attempts :: "nat \<Rightarrow> ClientError list \<Rightarrow> nat" where
  "attempts n [] = 1"
| "attempts n (e # es) = (if retry_query n e then 1 + attempts (n + 1) es else 1)"

lemma attempts_bound: "n \<le> 2 \<Longrightarrow> attempts n es \<le> 3 - n"
  by (induction n es rule: attempts.induct) (auto simp: retry_query_def)

datatype SessionEvent = SignedIn | SignedOut | Failed ClientError

fun session_event :: "SessionEvent \<Rightarrow> SessionState \<Rightarrow> nat \<times> SessionState" where
  "session_event SignedIn st = (0, markSessionEstablished True st)"
| "session_event SignedOut st = (0, markSessionEstablished False st)"
| "session_event (Failed e) st = handleError e st"

fun session_run :: "SessionEvent list \<Rightarrow> SessionState \<Rightarrow> nat \<times> SessionState" where
  "session_run [] st = (0, st)"
| "session_run (e # es) st =
     (case session_event e st of (n, st') \<Rightarrow> case session_run es st' of (m, st'') \<Rightarrow> (n + m, st''))"

definition ends_session :: "SessionEvent \<Rightarrow> bool" where
  "ends_session e = (case e of Failed f \<Rightarrow> isApiError f (Some 401) | _ \<Rightarrow> False)"

lemma run_not_established:
  "\<not> sessionEstablished st \<Longrightarrow> SignedIn \<notin> set es \<Longrightarrow> session_run es st = (0, st)"
proof (induction es)
  case (Cons e es)
  then have "session_event e st = (0, st)"
    by (cases e) (simp_all add: markSessionEstablished_def handleError_def)
  with Cons show ?case by simp
qed simp

lemma run_established:
  "sessionEstablished st \<Longrightarrow> onSessionEnded st \<Longrightarrow> SignedIn \<notin> set es \<Longrightarrow> SignedOut \<notin> set es \<Longrightarrow>
   fst (session_run es st) = (if list_ex ends_session es then 1 else 0)"
proof (induction es)
  case (Cons e es)
  from Cons.prems obtain f where e: "e = Failed f" by (cases e) auto
  show ?case
  proof (cases "isApiError f (Some 401)")
    case True
    then have "session_event e st = (1, st\<lparr>sessionEstablished := False\<rparr>)" using e Cons.prems by (simp add: handleError_def)
    then show ?thesis using run_not_established [of "st\<lparr>sessionEstablished := False\<rparr>" es] Cons.prems e True
      by (simp add: ends_session_def)
  next
    case False
    then have "session_event e st = (0, st)" using e by (simp add: handleError_def)
    then show ?thesis using Cons e False by (simp add: ends_session_def split: prod.split)
  qed
qed simp

lemma event_budget:
  "fst (session_event e st) + (if sessionEstablished (snd (session_event e st)) then 1 else 0)
     \<le> (if e = SignedIn then 1 else 0) + (if sessionEstablished st then 1 else (0::nat))"
  by (cases e) (auto simp: markSessionEstablished_def handleError_def)

lemma run_budget:
  "fst (session_run es st) \<le> length (filter (\<lambda>e. e = SignedIn) es) + (if sessionEstablished st then 1 else 0)"
proof (induction es arbitrary: st)
  case (Cons e es)
  show ?case using event_budget [of e st] Cons.IH [of "snd (session_event e st)"]
    by (auto split: prod.split if_splits)
qed simp

text \<open>C17: A session that ends is noticed, and once: after a sign-in, with the handler registered, the first answer
  401 of any query or mutation calls it and the later ones of the same session do not; over any run the
  handler is called at most once for each sign-in.\<close>

theorem session_end_fires_once:
  assumes "onSessionEnded st" "SignedIn \<notin> set es" "SignedOut \<notin> set es"
  shows "fst (session_run (SignedIn # es) st) = (if list_ex ends_session es then 1 else 0) \<and>
    fst (session_run evs no_session) \<le> length (filter (\<lambda>e. e = SignedIn) evs)"
  using run_established [of "markSessionEstablished True st" es] run_budget [of evs no_session] assms
  by (simp add: markSessionEstablished_def no_session_def split: prod.split)

definition error_401 :: ClientError where
  "error_401 = ApiFailure (network_error\<lparr>er_status := 401\<rparr>)"

theorem session_end_fires_once_witness:
  "fst (session_run [SignedIn, Failed Aborted, Failed error_401, Failed error_401] (setSessionEndedHandler no_session)) = 1"
proof -
  have "list_ex ends_session [Failed Aborted, Failed error_401, Failed error_401]"
    by (simp add: ends_session_def isApiError_def error_401_def)
  then show ?thesis
    using session_end_fires_once [of "setSessionEndedHandler no_session" "[Failed Aborted, Failed error_401, Failed error_401]" "[]"]
    by (simp add: setSessionEndedHandler_def)
qed

section \<open>Keys of the query cache\<close>

datatype KeyPart = KText jstr | KNum int

type_synonym QueryKey = "KeyPart list"

definition key :: "string list \<Rightarrow> QueryKey" where
  "key ss = map (\<lambda>s. KText (js s)) ss"

datatype StaticKey =
  MeKey | PublicSettingsKey | AuthProvidersKey | FeaturesKey | CatalogKey | MySessionsKey | AdminAll | AdminUsers | AdminGroups |
  AdminRoles | AdminScopeCatalog | AdminApisKey | AdminLdap | AdminAzureAd | AdminSessionSettings | AdminSessions | AdminSystem |
  AdminOverviewKey | AdminSystemInfo

fun static_key :: "StaticKey \<Rightarrow> QueryKey" where
  "static_key MeKey = key [''me'']"
| "static_key PublicSettingsKey = key [''public-settings'']"
| "static_key AuthProvidersKey = key [''auth-providers'']"
| "static_key FeaturesKey = key [''features'']"
| "static_key CatalogKey = key [''catalog'']"
| "static_key MySessionsKey = key [''my-sessions'']"
| "static_key AdminAll = key [''admin'']"
| "static_key AdminUsers = key [''admin'', ''users'']"
| "static_key AdminGroups = key [''admin'', ''groups'']"
| "static_key AdminRoles = key [''admin'', ''roles'']"
| "static_key AdminScopeCatalog = key [''admin'', ''scope-catalog'']"
| "static_key AdminApisKey = key [''admin'', ''apis'']"
| "static_key AdminLdap = key [''admin'', ''ldap'']"
| "static_key AdminAzureAd = key [''admin'', ''azure-ad'']"
| "static_key AdminSessionSettings = key [''admin'', ''session-settings'']"
| "static_key AdminSessions = key [''admin'', ''sessions'']"
| "static_key AdminSystem = key [''admin'', ''system'']"
| "static_key AdminOverviewKey = key [''admin'', ''overview'']"
| "static_key AdminSystemInfo = key [''admin'', ''system-info'']"

datatype ItemKey =
  SearchKey jstr | ApiKey jstr | SpecKey jstr | AdminUserGroups int | AdminGroupRoles int | AdminRolePermissions int |
  AdminApiAccess int | AdminAudit jstr | AdminApiImpact int | AdminUserPermissions int "int list option" | AdminUserSessions int |
  AdminGroupPermissions int

fun item_key :: "ItemKey \<Rightarrow> QueryKey" where
  "item_key (SearchKey q) = key [''search''] @ [KText q]"
| "item_key (ApiKey n) = key [''api''] @ [KText n]"
| "item_key (SpecKey n) = key [''api''] @ [KText n] @ key [''spec'']"
| "item_key (AdminUserGroups n) = key [''admin'', ''users''] @ [KNum n] @ key [''groups'']"
| "item_key (AdminGroupRoles n) = key [''admin'', ''groups''] @ [KNum n] @ key [''roles'']"
| "item_key (AdminRolePermissions n) = key [''admin'', ''roles''] @ [KNum n] @ key [''permissions'']"
| "item_key (AdminApiAccess n) = key [''admin'', ''apis''] @ [KNum n] @ key [''access'']"
| "item_key (AdminAudit query) = key [''admin'', ''audit''] @ [KText query]"
| "item_key (AdminApiImpact n) = key [''admin'', ''apis''] @ [KNum n] @ key [''impact'']"
| "item_key (AdminUserPermissions n groupIds) = key [''admin'', ''users''] @ [KNum n] @ key [''permissions''] @
     [KText (case groupIds of None \<Rightarrow> js ''current'' | Some ids \<Rightarrow> join (js '','') (map int_str ids))]"
| "item_key (AdminUserSessions n) = key [''admin'', ''sessions'', ''user''] @ [KNum n]"
| "item_key (AdminGroupPermissions n) = key [''admin'', ''groups''] @ [KNum n] @ key [''permissions'']"

section \<open>Favourites\<close>

text \<open>
  The cache as the code sees it: the catalog, when it was loaded; the entries under keys that start
  with \<open>api\<close>; the keys marked for a refetch; and whether a fetch of the catalog is in flight.
\<close>

record QueryCache =
  qc_catalog :: "ApiSummary list option"
  qc_pages :: "(QueryKey \<times> jval) list"
  qc_stale :: "QueryKey list"
  qc_fetching :: bool

definition isApiDefinition :: "jval \<Rightarrow> bool" where
  "isApiDefinition v = (is_object v \<and> has_key v (js ''id'') \<and> has_key v (js ''slug'') \<and> has_key v (js ''permissions''))"

definition is_definition_of :: "int \<Rightarrow> jval \<Rightarrow> bool" where
  "is_definition_of n v = (isApiDefinition v \<and> jget_opt v (js ''id'') = JNum (num_of_int n))"

definition with_favorite :: "bool \<Rightarrow> jval \<Rightarrow> jval" where
  "with_favorite favorite v = JObj Fresh (obj_define (js ''favorite'') (JBool favorite) (spread_fields v))"

definition star :: "int \<Rightarrow> bool \<Rightarrow> ApiSummary list \<Rightarrow> ApiSummary list" where
  "star n favorite apis = map (\<lambda>a. if as_id a = n then a\<lparr>as_favorite := favorite\<rparr> else a) apis"

text \<open>\<open>onMutate\<close>: the catalog before the change, and the cache after it.\<close>

definition onMutate :: "int \<Rightarrow> bool \<Rightarrow> QueryCache \<Rightarrow> ApiSummary list option \<times> QueryCache" where
  "onMutate n favorite c =
     (qc_catalog c,
      c\<lparr>qc_fetching := False,
        qc_catalog := map_option (star n favorite) (qc_catalog c),
        qc_pages := map (\<lambda>(k, v). (k, if is_definition_of n v then with_favorite favorite v else v)) (qc_pages c)\<rparr>)"

definition onError :: "ApiSummary list option \<Rightarrow> QueryCache \<Rightarrow> QueryCache" where
  "onError previous c = (case previous of None \<Rightarrow> c | Some apis \<Rightarrow> c\<lparr>qc_catalog := Some apis\<rparr>)"

definition onSettled :: "int \<Rightarrow> QueryCache \<Rightarrow> QueryCache" where
  "onSettled n c = c\<lparr>qc_stale := qc_stale c @ [static_key CatalogKey] @
     map fst (filter (\<lambda>(k, v). length k = 2 \<and> is_definition_of n v) (qc_pages c))\<rparr>"

datatype Outcome1 = Accepted | Refused

definition toggle :: "int \<Rightarrow> bool \<Rightarrow> Outcome1 \<Rightarrow> QueryCache \<Rightarrow> QueryCache" where
  "toggle n favorite outcome c =
     (case onMutate n favorite c of (previous, c1) \<Rightarrow>
        onSettled n (case outcome of Accepted \<Rightarrow> c1 | Refused \<Rightarrow> onError previous c1))"

text \<open>
  The favourites that the user sees, by API: the abstract state of the catalog.
\<close>

definition favourites :: "QueryCache \<Rightarrow> (int \<times> bool) list option" where
  "favourites c = map_option (map (\<lambda>a. (as_id a, as_favorite a))) (qc_catalog c)"

definition spec_toggle :: "int \<Rightarrow> bool \<Rightarrow> Outcome1 \<Rightarrow> (int \<times> bool) list option \<Rightarrow> (int \<times> bool) list option" where
  "spec_toggle n favorite outcome fs =
     (case outcome of Refused \<Rightarrow> fs | Accepted \<Rightarrow> map_option (map (\<lambda>(i, f). (i, if i = n then favorite else f))) fs)"

lemma star_favourites: "map (\<lambda>a. (as_id a, as_favorite a)) (star n f apis) =
    map (\<lambda>(i, g). (i, if i = n then f else g)) (map (\<lambda>a. (as_id a, as_favorite a)) apis)"
  by (induction apis) (simp_all add: star_def)

lemma toggle_refines: "favourites (toggle n f outcome c) = spec_toggle n f outcome (favourites c)"
  by (cases outcome; cases "qc_catalog c")
    (simp_all add: toggle_def onMutate_def onError_def onSettled_def favourites_def spec_toggle_def star_favourites)

lemma definition_keeps: "is_definition_of n v \<Longrightarrow> is_definition_of n (with_favorite f v)"
proof -
  assume d: "is_definition_of n v"
  have "array_index (js ''id'') = None" by code_simp
  with d obtain i fs where v: "v = JObj i fs"
    by (cases v) (auto simp: is_definition_of_def isApiDefinition_def has_key_def elem_at_def array_members_def object_members_def
      proto_key_def js_inject)
  have g: "jget_opt (with_favorite f v) (js ''id'') = jget_opt v (js ''id'')"
    by (simp add: v with_favorite_def spread_fields_def jget_opt_def own_def js_object.get_put)
  have "has_key v k \<Longrightarrow> has_key (with_favorite f v) k" for k
    by (auto simp: v with_favorite_def spread_fields_def has_key_def js_object.keys_put)
  then show ?thesis using d g by (simp add: is_definition_of_def isApiDefinition_def with_favorite_def)
qed

text \<open>Starring an API changes exactly that API in the catalog when the server accepts it, and nothing when it
  refuses; in both cases the catalog and every page of that API are marked for a refetch.\<close>

theorem favourite_toggle_refines:
  "favourites (toggle n f outcome c) = spec_toggle n f outcome (favourites c) \<and>
   set (qc_stale (toggle n f outcome c)) = set (qc_stale c) \<union> {static_key CatalogKey} \<union>
     {k. length k = 2 \<and> (\<exists>v. (k, v) \<in> set (qc_pages c) \<and> is_definition_of n v)}"
proof -
  let ?pages = "map (\<lambda>(k, v). (k, if is_definition_of n v then with_favorite f v else v)) (qc_pages c)"
  have stale: "qc_stale (toggle n f outcome c) = qc_stale c @ [static_key CatalogKey] @
      map fst (filter (\<lambda>(k, v). length k = 2 \<and> is_definition_of n v) ?pages)"
    by (cases outcome; cases "qc_catalog c") (simp_all add: toggle_def onMutate_def onError_def onSettled_def)
  have same: "map fst (filter (\<lambda>(k, v). length k = 2 \<and> is_definition_of n v)
        (map (\<lambda>(k, v). (k, if is_definition_of n v then with_favorite f v else v)) ps)) =
      map fst (filter (\<lambda>(k, v). length k = 2 \<and> is_definition_of n v) ps)" for ps
    using definition_keeps by (induction ps) (auto simp: split_beta)
  show ?thesis unfolding stale same using toggle_refines by (auto simp: image_iff simp del: static_key.simps)
qed

text \<open>
  A refused change is undone by putting the whole list back as it was before it: another change made
  meanwhile and accepted is undone with it, until the refetch.
\<close>

definition two_apis :: "ApiSummary \<Rightarrow> QueryCache" where
  "two_apis a = \<lparr>qc_catalog = Some [a\<lparr>as_id := 1, as_favorite := False\<rparr>, a\<lparr>as_id := 2, as_favorite := False\<rparr>],
     qc_pages = [], qc_stale = [], qc_fetching = False\<rparr>"

lemma overlapping_refusal_undoes_both:
  "favourites (onError (fst (onMutate 1 True (two_apis a))) (snd (onMutate 2 True (snd (onMutate 1 True (two_apis a))))))
   = Some [(1, False), (2, False)]"
  by (simp add: two_apis_def onMutate_def onError_def favourites_def star_def)

section \<open>The hooks\<close>

definition DEFAULT_BRANDING :: "jstr \<times> jstr" where
  "DEFAULT_BRANDING = (js ''Internal API Portal'', [])"

text \<open>A text of the signed-in view, else the public one, else the default; empty texts do not count.\<close>

definition first_text :: "jstr option list \<Rightarrow> jstr \<Rightarrow> jstr" where
  "first_text choices fallback =
     (case find (\<lambda>c. c \<noteq> None \<and> c \<noteq> Some []) choices of Some (Some s) \<Rightarrow> s | _ \<Rightarrow> fallback)"

definition useBranding :: "SystemSettings option \<Rightarrow> SystemSettings option \<Rightarrow> jstr \<times> jstr" where
  "useBranding mine pub =
     (first_text [map_option sy_brandTitle mine, map_option sy_brandTitle pub] (fst DEFAULT_BRANDING),
      first_text [map_option sy_logoDataUrl mine, map_option sy_logoDataUrl pub] [])"

definition ALL_ADMIN_SECTIONS :: "jstr list" where
  "ALL_ADMIN_SECTIONS = map js [''users'', ''groups'', ''roles'', ''apis'', ''ldap'', ''azureAd'', ''sessionSettings'',
     ''sessions'', ''audit'', ''system'']"

definition useAdminSections :: "MeResponse option \<Rightarrow> jstr list" where
  "useAdminSections me =
     (case me of None \<Rightarrow> []
      | Some m \<Rightarrow> (case me_capabilities m of
            Some c \<Rightarrow> ca_adminSections c
          | None \<Rightarrow> if u_isAdmin (me_user m) then ALL_ADMIN_SECTIONS else []))"

text \<open>
  \<open>useDebounced\<close>: the last value that stood for \<open>ms\<close> milliseconds, over a history of the values typed
  and their times, the newest first. A search runs for at least two characters.
\<close>

fun debounced :: "int \<Rightarrow> int \<Rightarrow> 'a \<Rightarrow> (int \<times> 'a) list \<Rightarrow> 'a" where
  "debounced ms now initial [] = initial"
| "debounced ms now initial ((t, v) # older) = (if ms \<le> now - t then v else debounced ms t initial older)"

definition search_enabled :: "jstr \<Rightarrow> bool" where
  "search_enabled q = (2 \<le> length q)"

end
