(* ===== verification/Spec_Common.thy ===== *)
theory Spec_Common
  imports Js_Json
begin

text \<open>
  \<open>pages/admin/common.tsx\<close>: what the sections of the admin console share. Lists typed as text, the
  search of a table, the comparison of form states, the cells of the CSV exports, and the editor drawer
  that asks before it throws unsaved changes away. \<open>lower\<close> stands for \<open>toLowerCase\<close>.
\<close>

section \<open>Lists and searches\<close>

fun split_units :: "(unit16 \<Rightarrow> bool) \<Rightarrow> jstr \<Rightarrow> jstr list" where
  "split_units p [] = [[]]"
| "split_units p (u # s) =
     (if p u then [] # split_units p s else (case split_units p s of [] \<Rightarrow> [[u]] | x # xs \<Rightarrow> (u # x) # xs))"

definition splitList :: "jstr \<Rightarrow> jstr list" where
  "splitList s = filter (\<lambda>x. x \<noteq> []) (map trim (split_units (\<lambda>u. u = 10 \<or> u = 44) s))"

definition matches :: "(jstr \<Rightarrow> jstr) \<Rightarrow> jstr \<Rightarrow> jstr option list \<Rightarrow> bool" where
  "matches lower query texts =
     (let q = lower (trim query)
      in q = [] \<or> list_ex (\<lambda>v. case v of None \<Rightarrow> False | Some s \<Rightarrow> str_includes (lower s) q) texts)"

text \<open>\<open>JSON.stringify\<close> of both; undefined has no text.\<close>

definition sameValue :: "jval \<Rightarrow> jval \<Rightarrow> bool" where
  "sameValue a b = (stringify a = stringify b)"

lemma sameValue_storable: "storable a \<Longrightarrow> storable b \<Longrightarrow> sameValue a b \<longleftrightarrow> a = b"
proof -
  assume st: "storable a" "storable b"
  obtain x where x: "stringify a = Some x" using st(1) by (cases a) (simp_all add: stringify_def)
  show ?thesis
  proof
    assume "sameValue a b"
    then have "stringify b = Some x" using x by (simp add: sameValue_def)
    then show "a = b" using json_parse_stringify [OF st(1) x] json_parse_stringify [OF st(2)] by simp
  qed (simp add: sameValue_def)
qed

section \<open>CSV\<close>

definition guard_formula :: "jstr \<Rightarrow> jstr" where
  "guard_formula s = (if s \<noteq> [] \<and> hd s \<in> {61, 43, 45, 64, 9, 13} then 39 # s else s)"

definition csv_quote :: "jstr \<Rightarrow> jstr" where
  "csv_quote s = (if list_ex (\<lambda>u. u \<in> {34, 44, 10, 13}) s then [34] @ replace_unit 34 [34, 34] s @ [34] else s)"

definition csvCell :: "jval \<Rightarrow> jstr jsr" where
  "csvCell v = ebind (if nullish v then Inr [] else to_str v) (\<lambda>s. Inr (csv_quote (guard_formula s)))"

definition csv_row :: "jstr list \<Rightarrow> jstr" where
  "csv_row cells = join [44] (map (csv_quote \<circ> guard_formula) cells)"

text \<open>The header line is written as it is; every line ends with a carriage return and a newline.\<close>

definition csv_document :: "jstr list \<Rightarrow> jstr list list \<Rightarrow> jstr" where
  "csv_document header rows = join [13, 10] (join [44] header # map csv_row rows) @ [13, 10]"

text \<open>A reader of CSV (RFC 4180): quoted cells with doubled quotes, lines ended by CR LF.\<close>

fun csv_read :: "bool \<Rightarrow> jstr \<Rightarrow> jstr list \<Rightarrow> jstr \<Rightarrow> jstr list list" where
  "csv_read quoted cell row [] = (if cell = [] \<and> row = [] then [] else [row @ [cell]])"
| "csv_read quoted cell row (u # s) =
     (if quoted then
        (if u = 34 then (case s of [] \<Rightarrow> csv_read False cell row s
           | v # r \<Rightarrow> if v = 34 then csv_read True (cell @ [34]) row r else csv_read False cell row s)
         else csv_read True (cell @ [u]) row s)
      else if u = 34 \<and> cell = [] then csv_read True [] row s
      else if u = 44 then csv_read False [] (row @ [cell]) s
      else if u = 13 \<and> s \<noteq> [] \<and> hd s = 10 then (row @ [cell]) # csv_read False [] [] (tl s)
      else csv_read False (cell @ [u]) row s)"

definition csv_parse :: "jstr \<Rightarrow> jstr list list" where
  "csv_parse s = csv_read False [] [] s"

text \<open>What may follow a cell.\<close>

definition cell_ends :: "jstr \<Rightarrow> bool" where
  "cell_ends r = (r = [] \<or> hd r = 44 \<or> (hd r = 13 \<and> tl r \<noteq> [] \<and> hd (tl r) = 10))"

lemma read_plain:
  "list_all (\<lambda>u. u \<notin> {34, 44, 10, 13}) s \<Longrightarrow> csv_read False cell row (s @ r) = csv_read False (cell @ s) row r"
  by (induction s arbitrary: cell) auto

lemma read_quoted:
  "cell_ends r \<Longrightarrow> csv_read True cell row (replace_unit 34 [34, 34] s @ 34 # r) = csv_read False (cell @ s) row r"
  by (induction s arbitrary: cell) (auto simp: replace_unit_def cell_ends_def split: list.splits)

lemma read_cell: "cell_ends r \<Longrightarrow> csv_read False [] row (csv_quote s @ r) = csv_read False s row r"
proof (cases "list_ex (\<lambda>u. u \<in> {34, 44, 10, 13}) s")
  case True
  assume "cell_ends r"
  from read_quoted [OF this, of "[]" row s] True show ?thesis by (simp add: csv_quote_def)
next
  case False
  then have "list_all (\<lambda>u. u \<notin> {34, 44, 10, 13}) s" by (auto simp: list_ex_iff list_all_iff)
  from read_plain [OF this, of "[]" row r] False show ?thesis by (simp add: csv_quote_def)
qed

lemma read_row:
  "cells \<noteq> [] \<Longrightarrow>
   csv_read False [] row (join [44] (map csv_quote cells) @ 13 # 10 # r) = (row @ cells) # csv_read False [] [] r"
proof (induction cells arbitrary: row)
  case (Cons c cells)
  show ?case
  proof (cases "cells = []")
    case True
    have "csv_read False [] row (csv_quote c @ 13 # 10 # r) = csv_read False c row (13 # 10 # r)"
      by (rule read_cell) (simp add: cell_ends_def)
    then show ?thesis using True by simp
  next
    case False
    let ?rest = "join [44] (map csv_quote cells) @ 13 # 10 # r"
    have "csv_read False [] row (csv_quote c @ 44 # ?rest) = csv_read False c row (44 # ?rest)"
      by (rule read_cell) (simp add: cell_ends_def)
    also have "\<dots> = csv_read False [] (row @ [c]) ?rest" by simp
    also have "\<dots> = (row @ c # cells) # csv_read False [] [] r" using Cons.IH [OF False, of "row @ [c]"] by simp
    finally show ?thesis using join_Cons [of "map csv_quote cells" "[44]" "csv_quote c"] False by simp
  qed
qed simp

lemma read_rows:
  "rows \<noteq> [] \<Longrightarrow> list_all (\<lambda>cells. cells \<noteq> []) rows \<Longrightarrow>
   csv_parse (join [13, 10] (map (\<lambda>cells. join [44] (map csv_quote cells)) rows) @ [13, 10]) = rows"
proof (induction rows)
  case (Cons cells rows)
  let ?text = "\<lambda>cells. join [44] (map csv_quote cells)"
  have c: "cells \<noteq> []" using Cons.prems by simp
  show ?case
  proof (cases "rows = []")
    case True
    then show ?thesis using read_row [OF c, of "[]" "[]"] by (simp add: csv_parse_def)
  next
    case False
    have "join [13, 10] (map ?text (cells # rows)) @ [13, 10] = ?text cells @ 13 # 10 # (join [13, 10] (map ?text rows) @ [13, 10])"
      using join_Cons [of "map ?text rows" "[13, 10]" "?text cells"] False by simp
    then show ?thesis using read_row [OF c, of "[]"] Cons False by (simp add: csv_parse_def)
  qed
qed simp

text \<open>C15: A CSV export reads back to the cells it was written from, whatever text they hold, except that a cell
  that a spreadsheet would run as a formula is kept as text by a leading quote.\<close>

theorem csv_roundtrip:
  assumes "header \<noteq> []" "list_all (\<lambda>cells. cells \<noteq> []) rows" "list_all (\<lambda>h. csv_quote h = h) header"
  shows "csv_parse (csv_document header rows) = header # map (map guard_formula) rows \<and>
    (\<forall>s. guard_formula s = [] \<or> hd (guard_formula s) \<notin> {61, 43, 45, 64, 9, 13})"
proof -
  have h: "map csv_quote header = header" using assms(3) by (induction header) simp_all
  have m: "map csv_quote (map guard_formula cells) = map (csv_quote \<circ> guard_formula) cells" for cells by simp
  have "csv_document header rows =
      join [13, 10] (map (\<lambda>cells. join [44] (map csv_quote cells)) (header # map (map guard_formula) rows)) @ [13, 10]"
    unfolding csv_document_def csv_row_def list.map h by (simp add: comp_def)
  moreover have "list_all (\<lambda>cells. cells \<noteq> []) (header # map (map guard_formula) rows)"
    using assms by (auto simp: list_all_iff)
  ultimately have "csv_parse (csv_document header rows) = header # map (map guard_formula) rows"
    using read_rows [of "header # map (map guard_formula) rows"] by simp
  moreover have "guard_formula s = [] \<or> hd (guard_formula s) \<notin> {61, 43, 45, 64, 9, 13}" for s
    by (auto simp: guard_formula_def)
  ultimately show ?thesis by blast
qed

theorem csv_roundtrip_witness:
  "csv_parse (csv_document [js ''name''] [[js ''a,b''], [js ''=1+1''], [[34, 13, 10]]]) =
     [[js ''name''], [js ''a,b''], [39 # js ''=1+1''], [[34, 13, 10]]]"
proof -
  have "csv_quote (js ''name'') = js ''name''" by code_simp
  then have "csv_parse (csv_document [js ''name''] [[js ''a,b''], [js ''=1+1''], [[34, 13, 10]]]) =
      [js ''name''] # map (map guard_formula) [[js ''a,b''], [js ''=1+1''], [[34, 13, 10]]]"
    using csv_roundtrip [of "[js ''name'']" "[[js ''a,b''], [js ''=1+1''], [[34, 13, 10]]]"] by simp
  also have "map (map guard_formula) [[js ''a,b''], [js ''=1+1''], [[34, 13, 10]]] = [[js ''a,b''], [39 # js ''=1+1''], [[34, 13, 10]]]"
    by code_simp
  finally show ?thesis .
qed

section \<open>The editor drawer\<close>

text \<open>
  The form reports whether it has unsaved changes; Escape, the close button and the overlay request to
  close; a request while there are changes opens a dialog, whose confirmation closes the drawer.
\<close>

record Drawer =
  dr_open :: bool
  dr_dirty :: bool
  dr_asking :: bool

datatype DrawerEvent = Report bool | RequestClose | CancelDiscard | ConfirmDiscard | SaveSucceeded

inductive drawer_step :: "Drawer \<Rightarrow> DrawerEvent \<Rightarrow> Drawer \<Rightarrow> bool" where
  report: "dr_open d \<Longrightarrow> drawer_step d (Report dirty) (d\<lparr>dr_dirty := dirty\<rparr>)"
| ask: "dr_open d \<Longrightarrow> dr_dirty d \<Longrightarrow> drawer_step d RequestClose (d\<lparr>dr_asking := True\<rparr>)"
| leave: "dr_open d \<Longrightarrow> \<not> dr_dirty d \<Longrightarrow> drawer_step d RequestClose (d\<lparr>dr_open := False\<rparr>)"
| cancel: "dr_open d \<Longrightarrow> dr_asking d \<Longrightarrow> drawer_step d CancelDiscard (d\<lparr>dr_asking := False\<rparr>)"
| confirm: "dr_open d \<Longrightarrow> dr_asking d \<Longrightarrow> drawer_step d ConfirmDiscard (d\<lparr>dr_open := False\<rparr>)"
| saved: "dr_open d \<Longrightarrow> drawer_step d SaveSucceeded (d\<lparr>dr_open := False\<rparr>)"

code_pred drawer_step .

inductive_cases drawer_stepE: "drawer_step d e d'"

definition opened :: Drawer where
  "opened = \<lparr>dr_open = True, dr_dirty = False, dr_asking = False\<rparr>"

inductive drawer_run :: "DrawerEvent list \<Rightarrow> Drawer \<Rightarrow> bool" where
  begins: "drawer_run [] opened"
| continues: "drawer_run es d \<Longrightarrow> drawer_step d e d' \<Longrightarrow> drawer_run (es @ [e]) d'"

lemma run_asking: "drawer_run es d \<Longrightarrow> dr_asking d \<Longrightarrow> RequestClose \<in> set es"
  by (induction rule: drawer_run.induct) (auto simp: opened_def elim!: drawer_stepE)

text \<open>Unsaved changes are not lost by closing the drawer: a run that ends with a closed drawer and changes in
  its form saved them, or asked for the close and then confirmed to discard them.\<close>

theorem drawer_keeps_changes:
  "drawer_run es d \<Longrightarrow> \<not> dr_open d \<Longrightarrow> dr_dirty d \<Longrightarrow>
   SaveSucceeded \<in> set es \<or> (RequestClose \<in> set es \<and> ConfirmDiscard \<in> set es)"
proof (induction rule: drawer_run.induct)
  case (continues es d e d')
  then show ?case using run_asking [OF continues.hyps(1)] by (auto elim!: drawer_stepE)
qed (simp add: opened_def)

theorem drawer_keeps_changes_witness:
  "drawer_run [Report True, RequestClose, ConfirmDiscard] \<lparr>dr_open = False, dr_dirty = True, dr_asking = True\<rparr> \<and>
   (SaveSucceeded \<in> set [Report True, RequestClose, ConfirmDiscard] \<or>
    RequestClose \<in> set [Report True, RequestClose, ConfirmDiscard] \<and> ConfirmDiscard \<in> set [Report True, RequestClose, ConfirmDiscard])"
proof -
  have "drawer_run ([] @ [Report True]) (opened\<lparr>dr_dirty := True\<rparr>)"
    by (rule continues [OF begins report]) (simp add: opened_def)
  then have "drawer_run (([] @ [Report True]) @ [RequestClose]) (opened\<lparr>dr_dirty := True, dr_asking := True\<rparr>)"
    by (rule continues [OF _ ask]) (simp_all add: opened_def)
  then have "drawer_run ((([] @ [Report True]) @ [RequestClose]) @ [ConfirmDiscard])
      (opened\<lparr>dr_dirty := True, dr_asking := True, dr_open := False\<rparr>)"
    by (rule continues [OF _ confirm]) (simp_all add: opened_def)
  then have r: "drawer_run [Report True, RequestClose, ConfirmDiscard] \<lparr>dr_open = False, dr_dirty = True, dr_asking = True\<rparr>"
    by (simp add: opened_def)
  from drawer_keeps_changes [OF r] r show ?thesis by simp
qed

end
