(* ===== verification/Spec_Users.thy ===== *)
theory Spec_Users
  imports Spec_Common Spec_Api Spec_Format
begin

text \<open>
  \<open>pages/admin/UsersSection.tsx\<close> and \<open>pages/admin/users\<close>: the account rules, the list of users with its
  filters, the bulk actions and the export, and the user form. \<open>lower\<close> stands for \<open>toLowerCase\<close>, the
  record \<open>Intl\<close> for the browser's date formats. The meaning of the rules is stated over every change
  that the console lets its user make.
\<close>

section \<open>The account rules\<close>

datatype Lock = LockSelf | LockSelfAdmin | LockLastAdmin

definition activeAdmins :: "User list \<Rightarrow> nat" where
  "activeAdmins users = length (filter (\<lambda>u. u_isAdmin u \<and> u_isActive u) users)"

definition isSelf :: "int option \<Rightarrow> User \<Rightarrow> bool" where
  "isSelf meId u = (Some (u_id u) = meId)"

definition isLastAdmin :: "User list \<Rightarrow> User \<Rightarrow> bool" where
  "isLastAdmin users u = (u_isAdmin u \<and> u_isActive u \<and> activeAdmins users \<le> 1)"

definition statusLock :: "User list \<Rightarrow> int option \<Rightarrow> User \<Rightarrow> Lock option" where
  "statusLock users meId u =
     (if \<not> u_isActive u then None
      else if isSelf meId u then Some LockSelf
      else if isLastAdmin users u then Some LockLastAdmin
      else None)"

definition adminLock :: "User list \<Rightarrow> int option \<Rightarrow> User \<Rightarrow> Lock option" where
  "adminLock users meId u =
     (if \<not> u_isAdmin u then None
      else if isSelf meId u then Some LockSelfAdmin
      else if isLastAdmin users u then Some LockLastAdmin
      else None)"

section \<open>The list\<close>

datatype UserStatus = AnyStatus | ActiveOnly | InactiveOnly | AdminsOnly | MustChange | UnknownStatus

definition user_status :: "jstr \<Rightarrow> UserStatus" where
  "user_status s =
     (if s = [] then AnyStatus else if s = js ''active'' then ActiveOnly else if s = js ''inactive'' then InactiveOnly
      else if s = js ''admins'' then AdminsOnly else if s = js ''mustChange'' then MustChange else UnknownStatus)"

fun status_matches :: "UserStatus \<Rightarrow> User \<Rightarrow> bool" where
  "status_matches AnyStatus u = True"
| "status_matches ActiveOnly u = u_isActive u"
| "status_matches InactiveOnly u = (\<not> u_isActive u)"
| "status_matches AdminsOnly u = u_isAdmin u"
| "status_matches MustChange u = (u_mustChangePassword u \<and> u_authSource u = js ''local'')"
| "status_matches UnknownStatus u = False"

definition group_ids :: "User \<Rightarrow> int list" where
  "group_ids u = (case u_groupIds u of None \<Rightarrow> [] | Some ids \<Rightarrow> ids)"

definition user_rows :: "(jstr \<Rightarrow> jstr) \<Rightarrow> User list \<Rightarrow> jstr \<Rightarrow> jstr \<Rightarrow> jstr \<Rightarrow> int \<Rightarrow> User list" where
  "user_rows lower users search source status groupFilter =
     filter (\<lambda>u. matches lower search [Some (u_username u), Some (u_displayName u), Some (u_email u)] \<and>
       (source = [] \<or> u_authSource u = source) \<and>
       (groupFilter = 0 \<or> groupFilter \<in> set (group_ids u)) \<and>
       status_matches (user_status status) u) users"

definition set_active :: "int list \<Rightarrow> bool \<Rightarrow> User list \<Rightarrow> User list" where
  "set_active ids active users = map (\<lambda>u. if u_id u \<in> set ids then u\<lparr>u_isActive := active\<rparr> else u) users"

text \<open>
  The switch of a row flips the cached list at once and puts the list of before back when the server
  refuses; \<open>None\<close> is a list that is not loaded.
\<close>

definition switch_mutate :: "User \<Rightarrow> bool \<Rightarrow> User list option \<Rightarrow> User list option \<times> User list option" where
  "switch_mutate u active cached = (cached, map_option (set_active [u_id u] active) cached)"

definition switch_error :: "User list option \<Rightarrow> User list option \<Rightarrow> User list option" where
  "switch_error previous cached = (case previous of None \<Rightarrow> cached | Some users \<Rightarrow> Some users)"

definition can_delete_row :: "User list \<Rightarrow> int option \<Rightarrow> bool \<Rightarrow> User \<Rightarrow> bool" where
  "can_delete_row users meId meAdmin u =
     (\<not> isSelf meId u \<and> \<not> isLastAdmin users u \<and> (\<not> u_isAdmin u \<or> meAdmin))"

section \<open>Bulk actions\<close>

definition changeable :: "bool \<Rightarrow> User list \<Rightarrow> User list" where
  "changeable actorIsAdmin selected = filter (\<lambda>u. actorIsAdmin \<or> \<not> u_isAdmin u) selected"

definition toDeactivate :: "User list \<Rightarrow> int option \<Rightarrow> bool \<Rightarrow> User list \<Rightarrow> User list" where
  "toDeactivate users meId actorIsAdmin selected =
     filter (\<lambda>u. u_isActive u \<and> statusLock users meId u = None) (changeable actorIsAdmin selected)"

definition toActivate :: "bool \<Rightarrow> User list \<Rightarrow> User list" where
  "toActivate actorIsAdmin selected = filter (\<lambda>u. \<not> u_isActive u) (changeable actorIsAdmin selected)"

definition bulk_skipped :: "User list \<Rightarrow> int option \<Rightarrow> bool \<Rightarrow> bool \<Rightarrow> User list \<Rightarrow> nat" where
  "bulk_skipped users meId actorIsAdmin activating selected =
     length selected - length (if activating then toActivate actorIsAdmin selected else toDeactivate users meId actorIsAdmin selected)"

definition bulk_status_call :: "User list \<Rightarrow> int option \<Rightarrow> bool \<Rightarrow> bool \<Rightarrow> User list \<Rightarrow> ConsoleCall" where
  "bulk_status_call users meId actorIsAdmin activating selected =
     BulkUserStatus (map u_id (if activating then toActivate actorIsAdmin selected else toDeactivate users meId actorIsAdmin selected)) activating"

definition bool_text :: "bool \<Rightarrow> jstr" where
  "bool_text b = (if b then js ''true'' else js ''false'')"

definition user_cells :: "Intl \<Rightarrow> jstr \<Rightarrow> (int, jstr) dict \<Rightarrow> User \<Rightarrow> jstr list" where
  "user_cells intl language groupNames u =
     [u_username u, u_displayName u, u_email u, u_authSource u, bool_text (u_isActive u), bool_text (u_isAdmin u),
      join (js ''; '') (map (\<lambda>n. case map_of groupNames n of Some g \<Rightarrow> g | None \<Rightarrow> int_str n) (group_ids u)),
      (case u_lastLoginAt u of None \<Rightarrow> [] | Some t \<Rightarrow> if t = [] then [] else formatDateTime intl language (Some t)),
      formatDateTime intl language (Some (u_createdAt u))]"

definition csv_header :: "jstr list" where
  "csv_header = map js [''username'', ''displayName'', ''email'', ''source'', ''active'', ''admin'', ''groups'', ''lastLogin'', ''created'']"

definition exportCsv :: "Intl \<Rightarrow> jstr \<Rightarrow> (int, jstr) dict \<Rightarrow> User list \<Rightarrow> User list \<Rightarrow> jstr" where
  "exportCsv intl language groupNames users selected =
     csv_document csv_header (map (user_cells intl language groupNames) (if selected \<noteq> [] then selected else users))"

section \<open>The user form\<close>

record UserForm =
  uf_id :: "int option"
  uf_username :: jstr
  uf_displayName :: jstr
  uf_email :: jstr
  uf_password :: jstr
  uf_authSource :: jstr
  uf_mustChangePassword :: bool
  uf_isActive :: bool
  uf_isAdmin :: bool
  uf_groupIds :: "int list"

definition empty_user :: UserForm where
  "empty_user = \<lparr>uf_id = None, uf_username = [], uf_displayName = [], uf_email = [], uf_password = [], uf_authSource = js ''local'',
     uf_mustChangePassword = True, uf_isActive = True, uf_isAdmin = False, uf_groupIds = []\<rparr>"

definition user_form :: "User option \<Rightarrow> int list \<Rightarrow> UserForm" where
  "user_form user groupIds =
     (case user of None \<Rightarrow> empty_user
      | Some u \<Rightarrow> \<lparr>uf_id = Some (u_id u), uf_username = u_username u, uf_displayName = u_displayName u, uf_email = u_email u,
          uf_password = [], uf_authSource = u_authSource u, uf_mustChangePassword = u_mustChangePassword u,
          uf_isActive = u_isActive u, uf_isAdmin = u_isAdmin u, uf_groupIds = groupIds\<rparr>)"

definition has_id :: "UserForm \<Rightarrow> bool" where
  "has_id f = (uf_id f \<noteq> None \<and> uf_id f \<noteq> Some 0)"

text \<open>An empty password is undefined and left out of the JSON text.\<close>

definition user_payload :: "UserForm \<Rightarrow> jval" where
  "user_payload f = obj
     [(''username'', JStr (trim (uf_username f))), (''displayName'', JStr (trim (uf_displayName f))),
      (''email'', JStr (trim (uf_email f))), (''password'', if uf_password f = [] then JUndef else JStr (uf_password f)),
      (''authSource'', JStr (uf_authSource f)), (''mustChangePassword'', JBool (uf_mustChangePassword f)),
      (''isActive'', JBool (uf_isActive f)), (''isAdmin'', JBool (uf_isAdmin f))]"

definition user_save :: "UserForm \<Rightarrow> UserForm \<Rightarrow> int \<Rightarrow> PeopleCall list" where
  "user_save initial f created =
     (let n = (case uf_id f of Some n \<Rightarrow> n | None \<Rightarrow> created)
      in (if uf_id f = None then [CreateUser (user_payload f)] else []) @
         (if has_id f then [UpdateUser n (user_payload f)] else []) @
         (if (if has_id f then \<not> sameValue (id_list (uf_groupIds f)) (id_list (uf_groupIds initial)) else uf_groupIds f \<noteq> [])
          then [SetUserGroups n (uf_groupIds f)] else []))"

datatype UserProblem = UsernameRequired | PasswordRequired

definition user_problems :: "UserForm \<Rightarrow> UserProblem list" where
  "user_problems f =
     (if trim (uf_username f) = [] then [UsernameRequired] else []) @
     (if \<not> has_id f \<and> uf_authSource f = js ''local'' \<and> uf_password f = [] then [PasswordRequired] else [])"

definition user_submit :: "UserForm \<Rightarrow> UserForm \<Rightarrow> int \<Rightarrow> UserProblem list \<times> PeopleCall list" where
  "user_submit initial f created = (user_problems f, if user_problems f = [] then user_save initial f created else [])"

section \<open>An administrator stays\<close>

text \<open>
  Every change of accounts that the console offers: the switch of a row, the two bulk actions, deleting
  from a row or from the form, saving the form of a user (a locked checkbox keeps its value) and adding
  users. \<open>meAdmin\<close> says whether the console's user is an administrator.
\<close>

inductive console_step :: "int option \<Rightarrow> bool \<Rightarrow> User list \<Rightarrow> User list \<Rightarrow> bool" for meId meAdmin where
  switch: "u \<in> set users \<Longrightarrow> \<not> u_isAdmin u \<or> meAdmin \<Longrightarrow> statusLock users meId u = None \<Longrightarrow>
     console_step meId meAdmin users (set_active [u_id u] (\<not> u_isActive u) users)"
| deactivate: "set selected \<subseteq> set users \<Longrightarrow>
     console_step meId meAdmin users (set_active (map u_id (toDeactivate users meId meAdmin selected)) False users)"
| activate: "set selected \<subseteq> set users \<Longrightarrow>
     console_step meId meAdmin users (set_active (map u_id (toActivate meAdmin selected)) True users)"
| delete_row: "u \<in> set users \<Longrightarrow> can_delete_row users meId meAdmin u \<Longrightarrow>
     console_step meId meAdmin users (filter (\<lambda>v. u_id v \<noteq> u_id u) users)"
| delete_open: "u \<in> set users \<Longrightarrow> \<not> isSelf meId u \<Longrightarrow> \<not> isLastAdmin users u \<Longrightarrow>
     console_step meId meAdmin users (filter (\<lambda>v. u_id v \<noteq> u_id u) users)"
| save: "u \<in> set users \<Longrightarrow> statusLock users meId u = None \<or> active = u_isActive u \<Longrightarrow>
     adminLock users meId u = None \<or> admin = u_isAdmin u \<Longrightarrow>
     console_step meId meAdmin users (map (\<lambda>v. if u_id v = u_id u then v\<lparr>u_isActive := active, u_isAdmin := admin\<rparr> else v) users)"
| add: "u_id u \<notin> u_id ` set users \<Longrightarrow> console_step meId meAdmin users (users @ [u])"

inductive console_run :: "int option \<Rightarrow> bool \<Rightarrow> User list \<Rightarrow> User list \<Rightarrow> bool" for meId meAdmin users where
  start: "console_run meId meAdmin users users"
| more: "console_run meId meAdmin users us \<Longrightarrow> console_step meId meAdmin us us' \<Longrightarrow> console_run meId meAdmin users us'"

definition active_admin :: "User \<Rightarrow> bool" where
  "active_admin u = (u_isAdmin u \<and> u_isActive u)"

definition administered :: "int option \<Rightarrow> bool \<Rightarrow> User list \<Rightarrow> bool" where
  "administered meId meAdmin users =
     (distinct (map u_id users) \<and> (\<exists>u\<in>set users. active_admin u) \<and>
      (meAdmin \<longrightarrow> (\<exists>u\<in>set users. active_admin u \<and> isSelf meId u)))"

lemma other_admin:
  assumes "distinct (map u_id users)" "u \<in> set users" "\<not> isLastAdmin users u" "active_admin u"
  shows "\<exists>v\<in>set users. active_admin v \<and> u_id v \<noteq> u_id u"
proof -
  let ?as = "filter active_admin users"
  have d: "distinct ?as" using assms(1) by (simp add: distinct_map)
  have "1 < length ?as"
    using assms(3,4) by (simp add: isLastAdmin_def activeAdmins_def active_admin_def cong: filter_cong)
  then have "1 < card (set ?as)" using distinct_card [OF d] by simp
  then have "\<not> set ?as \<subseteq> {u}" using card_mono [of "{u}" "set ?as"] by auto
  then obtain v where v: "v \<in> set ?as" "v \<noteq> u" by blast
  then have "u_id v \<noteq> u_id u" using assms(1,2) by (auto simp: distinct_map inj_on_def)
  with v show ?thesis by auto
qed

lemma set_active_ids: "map u_id (set_active ids active users) = map u_id users"
  by (simp add: set_active_def)

lemma set_active_keeps: "v \<in> set users \<Longrightarrow> u_id v \<notin> set ids \<Longrightarrow> v \<in> set (set_active ids active users)"
  by (force simp: set_active_def)

lemma self_unlocked: "isSelf meId u \<Longrightarrow> statusLock users meId u = None \<Longrightarrow> \<not> u_isActive u"
  by (auto simp: statusLock_def split: if_splits)

lemma administered_keeps:
  assumes "administered meId meAdmin users" "distinct (map u_id users')"
    and "\<exists>v\<in>set users. active_admin v \<and> v \<in> set users'"
    and "\<And>v. v \<in> set users \<Longrightarrow> active_admin v \<Longrightarrow> isSelf meId v \<Longrightarrow> v \<in> set users'"
  shows "administered meId meAdmin users'"
  using assms unfolding administered_def by blast

lemma administered_survivor:
  assumes "administered meId meAdmin users" "distinct (map u_id users')"
    and kept: "\<And>v. v \<in> set users \<Longrightarrow> u_id v \<noteq> u_id u \<Longrightarrow> v \<in> set users'"
    and u: "u \<in> set users" "active_admin u \<Longrightarrow> \<not> isSelf meId u \<and> \<not> isLastAdmin users u"
  shows "administered meId meAdmin users'"
proof (rule administered_keeps [OF assms(1,2)])
  have d: "distinct (map u_id users)" using assms(1) by (simp add: administered_def)
  show "\<exists>v\<in>set users. active_admin v \<and> v \<in> set users'"
  proof (cases "active_admin u")
    case True
    then show ?thesis using other_admin [OF d u(1)] u(2) kept by blast
  next
    case False
    then obtain v where "v \<in> set users" "active_admin v" "v \<noteq> u" using assms(1) unfolding administered_def by blast
    then show ?thesis using d u(1) kept by (metis distinct_map inj_onD)
  qed
  show "v \<in> set users'" if "v \<in> set users" "active_admin v" "isSelf meId v" for v
  proof (cases "u_id v = u_id u")
    case True
    then have "v = u" using d that(1) u(1) by (metis distinct_map inj_onD)
    then show ?thesis using that u(2) by blast
  qed (use kept that in blast)
qed

lemma step_administered:
  assumes "console_step meId meAdmin users users'" "administered meId meAdmin users"
  shows "administered meId meAdmin users'"
proof -
  have d: "distinct (map u_id users)" using assms(2) by (simp add: administered_def)
  show ?thesis using assms(1)
  proof cases
    case (switch u)
    show ?thesis unfolding switch(1)
      by (rule administered_survivor [OF assms(2) _ _ switch(2)])
        (use d switch(4) in \<open>auto simp: set_active_ids set_active_keeps statusLock_def active_admin_def split: if_splits\<close>)
  next
    case (deactivate selected)
    let ?ids = "map u_id (toDeactivate users meId meAdmin selected)"
    have sub: "u \<in> set users \<and> statusLock users meId u = None \<and> u_isActive u \<and> (meAdmin \<or> \<not> u_isAdmin u)"
      if "u \<in> set (toDeactivate users meId meAdmin selected)" for u
      using that deactivate(2) by (auto simp: toDeactivate_def changeable_def)
    have keep: "v \<in> set (set_active ?ids False users)"
      if "v \<in> set users" "active_admin v" "isSelf meId v \<or> \<not> meAdmin" for v
    proof (rule set_active_keeps [OF that(1)])
      show "u_id v \<notin> set ?ids"
      proof
        assume "u_id v \<in> set ?ids"
        then obtain u where u: "u \<in> set (toDeactivate users meId meAdmin selected)" "u_id u = u_id v" by auto
        then have "u = v" using d sub that(1) by (metis distinct_map inj_onD)
        then show False using sub [OF u(1)] that self_unlocked by (auto simp: active_admin_def)
      qed
    qed
    show ?thesis unfolding deactivate(1)
    proof (rule administered_keeps [OF assms(2)])
      show "distinct (map u_id (set_active ?ids False users))" using d by (simp only: set_active_ids)
      show "\<exists>v\<in>set users. active_admin v \<and> v \<in> set (set_active ?ids False users)"
        using assms(2) keep unfolding administered_def by blast
    qed (use keep in blast)
  next
    case (activate selected)
    have "v \<in> set (set_active ids True users)" if "v \<in> set users" "active_admin v" for v ids
      using that by (force simp: set_active_def active_admin_def)
    then show ?thesis unfolding activate(1)
      using assms(2) d by (intro administered_keeps [OF assms(2)]) (auto simp: set_active_ids administered_def)
  next
    case (delete_row u)
    show ?thesis unfolding delete_row(1)
      by (rule administered_survivor [OF assms(2) _ _ delete_row(2)])
        (use d delete_row(3) in \<open>auto simp: distinct_map_filter can_delete_row_def\<close>)
  next
    case (delete_open u)
    show ?thesis unfolding delete_open(1)
      by (rule administered_survivor [OF assms(2) _ _ delete_open(2)])
        (use d delete_open(3,4) in \<open>auto simp: distinct_map_filter\<close>)
  next
    case (save u active admin)
    let ?f = "\<lambda>v. if u_id v = u_id u then v\<lparr>u_isActive := active, u_isAdmin := admin\<rparr> else v"
    have ids: "map u_id (map ?f users) = map u_id users" by simp
    show ?thesis
    proof (cases "active = u_isActive u \<and> admin = u_isAdmin u")
      case True
      have "?f v = v" if "v \<in> set users" for v
      proof (cases "u_id v = u_id u")
        case same: True
        then have "v = u" using d that save(2) by (metis distinct_map inj_onD)
        then show ?thesis using True by simp
      qed simp
      then have "map ?f users = users" by (simp add: map_idI)
      then show ?thesis using save(1) assms(2) by simp
    next
      case False
      show ?thesis unfolding save(1)
      proof (rule administered_survivor [OF assms(2) _ _ save(2)])
        show "distinct (map u_id (map ?f users))" using d by (simp only: ids)
        show "v \<in> set (map ?f users)" if "v \<in> set users" "u_id v \<noteq> u_id u" for v using that by force
        show "\<not> isSelf meId u \<and> \<not> isLastAdmin users u" if "active_admin u"
          using False save(3,4) that by (auto simp: statusLock_def adminLock_def active_admin_def split: if_splits)
      qed
    qed
  next
    case (add u)
    show ?thesis unfolding add(1)
      by (rule administered_keeps [OF assms(2)]) (use d add(2) assms(2) in \<open>auto simp: administered_def\<close>)
  qed
qed


definition an_admin :: "int \<Rightarrow> User" where
  "an_admin n = \<lparr>u_id = n, u_username = [], u_displayName = [], u_email = [], u_authSource = [], u_mustChangePassword = False,
     u_isActive = True, u_isAdmin = True, u_createdAt = [], u_updatedAt = [], u_lastLoginAt = None, u_groupIds = None\<rparr>"

definition after_bulk :: "User list" where
  "after_bulk = set_active (map u_id (toDeactivate [an_admin 1, an_admin 2] (Some 1) True [an_admin 1, an_admin 2])) False [an_admin 1, an_admin 2]"


end
