(* ===== verification/Spec_Roles.thy ===== *)
theory Spec_Roles
  imports Spec_Common Spec_Api Js_Locale
begin

text \<open>
  \<open>pages/admin/roles\<close>: role templates, the permission matrix and the role form. The matrix mirrors the
  server's permission engine (\<open>backend/internal/rbac/engine.go\<close>), which is modelled here as the
  reference: \<open>matrix_matches_engine\<close> shows that they agree.
\<close>

section \<open>Templates\<close>

record RoleTemplate =
  rt_id :: jstr
  rt_scopes :: "jstr list"

definition ROLE_TEMPLATES :: "RoleTemplate list" where
  "ROLE_TEMPLATES = map (\<lambda>(n, ss). \<lparr>rt_id = js n, rt_scopes = map js ss\<rparr>)
     [(''viewer'', [''api.view'']),
      (''consumer'', [''api.invoke'']),
      (''apiOwner'', [''api.view'', ''api.create'']),
      (''auditor'', [''audit.view'', ''audit.export'']),
      (''admin'', [''api.manage'', ''audit.export'', ''audit.view'', ''group.manage'', ''idp.manage'', ''role.manage'',
        ''session.manage'', ''settings.manage'', ''user.manage'', ''user.view''])]"

definition scopeDiff :: "jstr list \<Rightarrow> jstr list \<Rightarrow> jstr list \<times> jstr list" where
  "scopeDiff before after = (filter (\<lambda>s. s \<notin> set before) after, filter (\<lambda>s. s \<notin> set after) before)"

section \<open>The permission matrix\<close>

datatype Action = View | Invoke | Manage | Delete

definition PER_API_ACTIONS :: "Action list" where
  "PER_API_ACTIONS = [View, Invoke, Manage, Delete]"

fun action_text :: "Action \<Rightarrow> jstr" where
  "action_text View = js ''view''"
| "action_text Invoke = js ''invoke''"
| "action_text Manage = js ''manage''"
| "action_text Delete = js ''delete''"

fun GLOBAL_COVERS :: "Action \<Rightarrow> jstr list" where
  "GLOBAL_COVERS View = map js [''api.view'', ''api.invoke'', ''api.manage'']"
| "GLOBAL_COVERS Invoke = map js [''api.invoke'', ''api.manage'']"
| "GLOBAL_COVERS Manage = map js [''api.manage'']"
| "GLOBAL_COVERS Delete = map js [''api.manage'', ''api.delete'']"

fun LOCAL_COVERS :: "Action \<Rightarrow> Action list" where
  "LOCAL_COVERS View = [Invoke, Manage]"
| "LOCAL_COVERS Invoke = [Manage]"
| "LOCAL_COVERS Manage = []"
| "LOCAL_COVERS Delete = []"

definition api_scope :: "int \<Rightarrow> Action \<Rightarrow> jstr" where
  "api_scope n a = js ''api:'' @ int_str n @ js '':'' @ action_text a"

definition coveredBy :: "jstr list \<Rightarrow> int \<Rightarrow> Action \<Rightarrow> jstr option" where
  "coveredBy scopes n a =
     (case find (\<lambda>s. s \<in> set scopes) (GLOBAL_COVERS a) of
        Some s \<Rightarrow> Some s
      | None \<Rightarrow> find (\<lambda>s. s \<in> set scopes) (map (api_scope n) (LOCAL_COVERS a)))"

text \<open>A cell: checked, and locked because another scope grants the action already.\<close>

definition matrix_cell :: "jstr list \<Rightarrow> int \<Rightarrow> Action \<Rightarrow> bool \<times> bool" where
  "matrix_cell scopes n a =
     (let own = api_scope n a \<in> set scopes;
          by_other = (if own then None else coveredBy scopes n a)
      in (own \<or> by_other \<noteq> None, by_other \<noteq> None))"

definition matrix_groups :: "ScopeDef list \<Rightarrow> (jstr \<times> ScopeDef list) list" where
  "matrix_groups defs =
     (let portal = filter (\<lambda>d. sd_perApi d \<noteq> Some True) defs
      in map (\<lambda>g. (g, filter (\<lambda>d. sd_group d = g) portal)) (uniq (map sd_group portal)))"

definition globalApi :: "jstr list \<Rightarrow> jstr list" where
  "globalApi scopes = filter (\<lambda>s. s \<in> set scopes) (map js [''api.view'', ''api.invoke'', ''api.manage'', ''api.delete''])"

section \<open>The server's engine\<close>

text \<open>The permissions of a user who is not an administrator, as normalized by the server.\<close>

definition can_manage :: "jstr list \<Rightarrow> int \<Rightarrow> bool" where
  "can_manage perms n = (js ''api.manage'' \<in> set perms \<or> api_scope n Manage \<in> set perms)"

definition can_invoke :: "jstr list \<Rightarrow> int \<Rightarrow> bool" where
  "can_invoke perms n = (js ''api.invoke'' \<in> set perms \<or> can_manage perms n \<or> api_scope n Invoke \<in> set perms)"

definition can_view :: "jstr list \<Rightarrow> int \<Rightarrow> bool" where
  "can_view perms n = (js ''api.view'' \<in> set perms \<or> can_invoke perms n \<or> api_scope n View \<in> set perms)"

definition can_delete :: "jstr list \<Rightarrow> int \<Rightarrow> bool" where
  "can_delete perms n = (js ''api.manage'' \<in> set perms \<or> js ''api.delete'' \<in> set perms \<or> api_scope n Delete \<in> set perms)"

fun engine_has :: "jstr list \<Rightarrow> int \<Rightarrow> Action \<Rightarrow> bool" where
  "engine_has perms n View = (api_scope n View \<in> set perms \<or> can_view perms n)"
| "engine_has perms n Invoke = (api_scope n Invoke \<in> set perms \<or> can_invoke perms n)"
| "engine_has perms n Manage = (api_scope n Manage \<in> set perms \<or> can_manage perms n)"
| "engine_has perms n Delete = (api_scope n Delete \<in> set perms \<or> can_delete perms n)"

lemma find_member: "find (\<lambda>s. s \<in> set scopes) xs \<noteq> None \<longleftrightarrow> (\<exists>s\<in>set xs. s \<in> set scopes)"
  by (auto simp: find_None_iff)

lemma covered_iff:
  "coveredBy scopes n a \<noteq> None \<longleftrightarrow>
   (\<exists>s\<in>set (GLOBAL_COVERS a) \<union> api_scope n ` set (LOCAL_COVERS a). s \<in> set scopes)"
  using find_member [of scopes "GLOBAL_COVERS a"] find_member [of scopes "map (api_scope n) (LOCAL_COVERS a)"]
  by (auto simp: coveredBy_def split: option.splits)

lemma api_scope_inject: "api_scope n a = api_scope n b \<longleftrightarrow> a = b"
  by (cases a; cases b) (simp_all add: api_scope_def)

lemma api_scope_not_global: "api_scope n a \<notin> set (GLOBAL_COVERS b)"
proof
  assume "api_scope n a \<in> set (GLOBAL_COVERS b)"
  then have "api_scope n a ! 3 = 46" by (cases b) (auto simp: js_def cu_def)
  moreover have "api_scope n a ! 3 = 58" by (simp add: api_scope_def js_def cu_def)
  ultimately show False by simp
qed

text \<open>C2: A cell of the matrix is checked exactly when the server's engine grants the action on that API to a
  holder of the scopes, and it is locked exactly when the engine would grant it without the cell's own
  scope and that scope is not chosen.\<close>

theorem matrix_matches_engine:
  "matrix_cell scopes n a =
     (engine_has scopes n a,
      api_scope n a \<notin> set scopes \<and> engine_has (filter (\<lambda>s. s \<noteq> api_scope n a) scopes) n a)"
proof -
  have covered: "coveredBy scopes n a \<noteq> None \<longleftrightarrow> engine_has scopes n a" if "api_scope n a \<notin> set scopes"
    using that unfolding covered_iff
    by (cases a) (auto simp: can_view_def can_invoke_def can_manage_def can_delete_def)
  have same: "filter (\<lambda>s. s \<noteq> api_scope n a) scopes = scopes" if "api_scope n a \<notin> set scopes"
    using that by (induction scopes) auto
  have own: "engine_has scopes n a" if "api_scope n a \<in> set scopes"
    using that by (cases a) simp_all
  show ?thesis
    using covered own same by (cases "api_scope n a \<in> set scopes") (simp_all add: matrix_cell_def Let_def)
qed

section \<open>The role form\<close>

record RoleForm =
  rf_id :: "int option"
  rf_name :: jstr
  rf_description :: jstr
  rf_scopes :: "jstr list"
  rf_groupIds :: "int list"

definition empty_role :: RoleForm where
  "empty_role = \<lparr>rf_id = None, rf_name = [], rf_description = [], rf_scopes = [], rf_groupIds = []\<rparr>"

definition sorted_scopes :: "jstr list \<Rightarrow> jstr list" where
  "sorted_scopes ss = sort_by unit_cmp ss"

definition initial_role :: "Role option \<Rightarrow> Permission list \<Rightarrow> RoleForm" where
  "initial_role existing permissions =
     (case existing of None \<Rightarrow> empty_role
      | Some r \<Rightarrow> \<lparr>rf_id = Some (ro_id r), rf_name = ro_name r, rf_description = ro_description r,
          rf_scopes = sorted_scopes (map pe_scope permissions),
          rf_groupIds = sort_by (\<lambda>a b. a - b) (case ro_groupIds r of None \<Rightarrow> [] | Some ids \<Rightarrow> ids)\<rparr>)"

definition toggle_scope :: "jstr \<Rightarrow> bool \<Rightarrow> RoleForm \<Rightarrow> RoleForm" where
  "toggle_scope scope on f =
     (let chosen = uniq (rf_scopes f);
          next_set = (if on then (if scope \<in> set chosen then chosen else chosen @ [scope]) else filter (\<lambda>s. s \<noteq> scope) chosen)
      in f\<lparr>rf_scopes := sorted_scopes next_set\<rparr>)"

definition copy_scopes :: "Permission list \<Rightarrow> RoleForm \<Rightarrow> RoleForm" where
  "copy_scopes perms f = f\<lparr>rf_scopes := sorted_scopes (uniq (rf_scopes f @ map pe_scope perms))\<rparr>"

definition truthy_id :: "int option \<Rightarrow> bool" where
  "truthy_id n = (n \<noteq> None \<and> n \<noteq> Some 0)"

definition roles_of :: "Group list \<Rightarrow> int \<Rightarrow> int list" where
  "roles_of groups g =
     (case find (\<lambda>x. g_id x = g) groups of None \<Rightarrow> []
      | Some x \<Rightarrow> (case g_roleIds x of None \<Rightarrow> [] | Some rs \<Rightarrow> rs))"

definition role_payload :: "RoleForm \<Rightarrow> jval" where
  "role_payload f = obj [(''name'', JStr (trim (rf_name f))), (''description'', JStr (trim (rf_description f)))]"

text \<open>The groups whose membership of the role changed get their role list rewritten.\<close>

definition group_calls :: "RoleForm \<Rightarrow> RoleForm \<Rightarrow> Group list \<Rightarrow> int \<Rightarrow> PeopleCall list" where
  "group_calls initial f groups role =
     map (\<lambda>g. SetGroupRoles g (uniq (roles_of groups g @ [role])))
       (filter (\<lambda>g. g \<notin> set (rf_groupIds initial)) (rf_groupIds f)) @
     map (\<lambda>g. SetGroupRoles g (filter (\<lambda>r. r \<noteq> role) (roles_of groups g)))
       (filter (\<lambda>g. g \<notin> set (rf_groupIds f)) (rf_groupIds initial))"

text \<open>The calls of a save, in order, when each succeeds; \<open>created\<close> is the id that the server gives a new role.\<close>

definition role_save :: "RoleForm \<Rightarrow> RoleForm \<Rightarrow> Group list \<Rightarrow> int \<Rightarrow> PeopleCall list" where
  "role_save initial f groups created =
     (let role = (case rf_id f of Some n \<Rightarrow> n | None \<Rightarrow> created)
      in (if rf_id f = None then [CreateRole (role_payload f)] else []) @
         (if truthy_id (rf_id f) then [UpdateRole role (role_payload f)] else []) @
         (if \<not> truthy_id (rf_id f) \<or> \<not> sameValue (name_list (rf_scopes f)) (name_list (rf_scopes initial))
          then [ReplacePermissions role (rf_scopes f)] else []) @
         group_calls initial f groups role)"

text \<open>What the server keeps: the roles of each group and the scopes of each role.\<close>

record Directory =
  dir_roles :: "int \<Rightarrow> int set"
  dir_scopes :: "int \<Rightarrow> jstr set"

fun serve :: "PeopleCall \<Rightarrow> Directory \<Rightarrow> Directory" where
  "serve (SetGroupRoles g rs) d = d\<lparr>dir_roles := (dir_roles d)(g := set rs)\<rparr>"
| "serve (ReplacePermissions r ss) d = d\<lparr>dir_scopes := (dir_scopes d)(r := set ss)\<rparr>"
| "serve _ d = d"

lemma serve_groups:
  "fold serve (map (\<lambda>g. SetGroupRoles g (F g)) gs) d =
   d\<lparr>dir_roles := \<lambda>g. if g \<in> set gs then set (F g) else dir_roles d g\<rparr>"
  by (induction gs arbitrary: d) (auto simp: fun_eq_iff)

lemma same_names: "sameValue (name_list a) (name_list b) \<longleftrightarrow> a = b"
proof -
  have "storable (name_list x)" for x by (simp add: name_list_def list_all_iff)
  moreover have "inj JStr" by (simp add: inj_def)
  ultimately show ?thesis using sameValue_storable by (simp add: name_list_def inj_map_eq_map)
qed

lemma set_uniq_append: "set (uniq (xs @ [x])) = insert x (set xs)"
  by simp

lemma serve_group_calls:
  "dir_roles (fold serve (group_calls initial f groups role) d) g =
     (if g \<in> set (rf_groupIds initial) \<and> g \<notin> set (rf_groupIds f) then set (roles_of groups g) - {role}
      else if g \<in> set (rf_groupIds f) \<and> g \<notin> set (rf_groupIds initial) then insert role (set (roles_of groups g))
      else dir_roles d g)"
  by (auto simp: group_calls_def serve_groups)

lemma serve_group_calls_scopes: "dir_scopes (fold serve (group_calls initial f groups role) d) = dir_scopes d"
  by (simp add: group_calls_def serve_groups)

text \<open>What the form was opened with is what the server keeps.\<close>

definition in_step :: "RoleForm \<Rightarrow> RoleForm \<Rightarrow> Group list \<Rightarrow> int \<Rightarrow> Directory \<Rightarrow> bool" where
  "in_step initial f groups role d =
     (rf_id initial = rf_id f \<and> (\<forall>g. role \<in> dir_roles d g \<longleftrightarrow> g \<in> set (rf_groupIds initial)) \<and>
      (\<forall>g\<in>set (rf_groupIds initial) \<union> set (rf_groupIds f). set (roles_of groups g) = dir_roles d g) \<and>
      (truthy_id (rf_id f) \<longrightarrow> dir_scopes d role = set (rf_scopes initial)))"

text \<open>C4: After a save, the groups that have the role are exactly the chosen ones, every other role of every group is
  what it was, and the role has exactly the chosen scopes, although only what changed is sent.\<close>

theorem role_save_is_exact:
  assumes "in_step initial f groups role d" "role = (case rf_id f of Some n \<Rightarrow> n | None \<Rightarrow> created)"
  shows "dir_roles (fold serve (role_save initial f groups created) d) =
      (\<lambda>g. if g \<in> set (rf_groupIds f) then insert role (dir_roles d g) else dir_roles d g - {role}) \<and>
    dir_scopes (fold serve (role_save initial f groups created) d) = (dir_scopes d)(role := set (rf_scopes f))"
proof -
  define pre where "pre = (if rf_id f = None then [CreateRole (role_payload f)] else []) @
     (if truthy_id (rf_id f) then [UpdateRole role (role_payload f)] else []) @
     (if \<not> truthy_id (rf_id f) \<or> \<not> sameValue (name_list (rf_scopes f)) (name_list (rf_scopes initial))
      then [ReplacePermissions role (rf_scopes f)] else [])"
  have save: "role_save initial f groups created = pre @ group_calls initial f groups role"
    using assms(2) by (simp add: role_save_def Let_def pre_def)
  have roles: "dir_roles (fold serve pre d) = dir_roles d" by (simp add: pre_def)
  have scopes: "dir_scopes (fold serve pre d) = (dir_scopes d)(role := set (rf_scopes f))"
    using assms(1) by (auto simp: pre_def same_names in_step_def fun_eq_iff)
  have "dir_roles (fold serve (group_calls initial f groups role) (fold serve pre d)) g =
      (if g \<in> set (rf_groupIds f) then insert role (dir_roles d g) else dir_roles d g - {role})" for g
    unfolding serve_group_calls roles using assms(1) by (auto simp: in_step_def)
  then show ?thesis unfolding save fold_append comp_def serve_group_calls_scopes scopes
    by (simp add: fun_eq_iff)
qed

definition role_before :: RoleForm where
  "role_before = \<lparr>rf_id = Some 7, rf_name = js ''Ops'', rf_description = [], rf_scopes = [js ''api.view''], rf_groupIds = [1]\<rparr>"

definition group_with :: "int \<Rightarrow> int list \<Rightarrow> Group" where
  "group_with n rs = \<lparr>g_id = n, g_name = [], g_description = [], g_createdAt = [], g_azureGroupId = None, g_ldapGroupDn = None,
     g_memberIds = None, g_roleIds = Some rs\<rparr>"

theorem role_save_is_exact_witness:
  "dir_roles (fold serve (role_save role_before (role_before\<lparr>rf_groupIds := [2]\<rparr>) [group_with 1 [7, 8], group_with 2 [9]] 0)
     \<lparr>dir_roles = \<lambda>g. if g = 1 then {7, 8} else if g = 2 then {9} else {}, dir_scopes = \<lambda>_. {js ''api.view''}\<rparr>) 2 = {7, 9}"
proof -
  have "in_step role_before (role_before\<lparr>rf_groupIds := [2]\<rparr>) [group_with 1 [7, 8], group_with 2 [9]] 7
     \<lparr>dir_roles = \<lambda>g. if g = 1 then {7, 8} else if g = 2 then {9} else {}, dir_scopes = \<lambda>_. {js ''api.view''}\<rparr>"
    by (auto simp: in_step_def role_before_def group_with_def roles_of_def)
  from role_save_is_exact [OF this, of 0] show ?thesis by (simp add: role_before_def)
qed

end
