(* ===== verification/Spec_ApiForm.thy ===== *)
theory Spec_ApiForm
  imports Spec_Common Spec_Api
begin

text \<open>
  \<open>pages/admin/apis\<close>: the form of a registered API, its validation, the payload of a save, the wizard
  that registers an API in three steps and the drawer that edits one. The record \<open>Texts\<close> holds what is
  taken from the language: \<open>toUpperCase\<close>, \<open>toLowerCase\<close>, NFKD and the scheme that \<open>new URL(s)\<close> reads
  (none when it throws).
\<close>

section \<open>The form\<close>

record Texts =
  upper :: "jstr \<Rightarrow> jstr"
  lower :: "jstr \<Rightarrow> jstr"
  nfkd :: "jstr \<Rightarrow> jstr"
  url_protocol :: "jstr \<Rightarrow> jstr option"

record HeaderField =
  hf_name :: jstr
  hf_value :: jstr

record ApiForm =
  fm_id :: "int option"
  fm_name :: jstr
  fm_slug :: jstr
  fm_description :: jstr
  fm_internalOpenapiUrl :: jstr
  fm_internalBaseUrl :: jstr
  fm_isActive :: bool
  fm_tryItEnabled :: bool
  fm_allowedMethods :: "jstr list"
  fm_allowedPathPrefixes :: "jstr list"
  fm_ownerTeam :: jstr
  fm_tags :: "jstr list"
  fm_ownerGroupId :: "int option"
  fm_allowedRequestHeaders :: "jstr list"
  fm_forwardAllXHeaders :: bool
  fm_injectHeaders :: "HeaderField list"
  fm_rateLimitPerMinute :: jstr
  fm_timeoutSeconds :: jstr
  fm_access :: "(int \<times> AccessLevel) list"

definition EMPTY_API :: ApiForm where
  "EMPTY_API = \<lparr>fm_id = None, fm_name = [], fm_slug = [], fm_description = [], fm_internalOpenapiUrl = [],
     fm_internalBaseUrl = [], fm_isActive = True, fm_tryItEnabled = True, fm_allowedMethods = [], fm_allowedPathPrefixes = [],
     fm_ownerTeam = [], fm_tags = [], fm_ownerGroupId = None, fm_allowedRequestHeaders = [], fm_forwardAllXHeaders = False,
     fm_injectHeaders = [], fm_rateLimitPerMinute = js ''0'', fm_timeoutSeconds = js ''0'', fm_access = []\<rparr>"

definition or_empty :: "'a list option \<Rightarrow> 'a list" where
  "or_empty x = (case x of None \<Rightarrow> [] | Some y \<Rightarrow> y)"

definition or_zero :: "int option \<Rightarrow> int" where
  "or_zero x = (case x of None \<Rightarrow> 0 | Some n \<Rightarrow> n)"

definition toApiForm :: "ApiDefinition \<Rightarrow> ApiAccess list \<Rightarrow> ApiForm" where
  "toApiForm a access =
     \<lparr>fm_id = Some (ad_id a), fm_name = ad_name a, fm_slug = ad_slug a, fm_description = ad_description a,
      fm_internalOpenapiUrl = or_empty (ad_internalOpenapiUrl a), fm_internalBaseUrl = or_empty (ad_internalBaseUrl a),
      fm_isActive = ad_isActive a, fm_tryItEnabled = ad_tryItEnabled a, fm_allowedMethods = ad_allowedMethods a,
      fm_allowedPathPrefixes = ad_allowedPathPrefixes a, fm_ownerTeam = ad_ownerTeam a, fm_tags = ad_tags a,
      fm_ownerGroupId = (case ad_ownerGroupId a of None \<Rightarrow> None | Some g \<Rightarrow> g),
      fm_allowedRequestHeaders = or_empty (ad_allowedRequestHeaders a),
      fm_forwardAllXHeaders = (ad_forwardAllXHeaders a = Some True),
      fm_injectHeaders = map (\<lambda>n. \<lparr>hf_name = n, hf_value = []\<rparr>) (or_empty (ad_injectHeaderNames a)),
      fm_rateLimitPerMinute = int_str (or_zero (ad_rateLimitPerMinute a)),
      fm_timeoutSeconds = int_str (or_zero (ad_timeoutSeconds a)),
      fm_access = map (\<lambda>x. (aa_groupId x, aa_level x)) access\<rparr>"

text \<open>\<open>Number(s) || 0\<close>.\<close>

definition number_or_zero :: "jstr \<Rightarrow> jnum" where
  "number_or_zero s = (let n = to_number s in if n = NaN then Fin 0 else n)"

definition kept_headers :: "HeaderField list \<Rightarrow> HeaderField list" where
  "kept_headers hs = map (\<lambda>h. h\<lparr>hf_name := trim (hf_name h)\<rparr>) (filter (\<lambda>h. trim (hf_name h) \<noteq> []) hs)"

definition header_value :: "HeaderField \<Rightarrow> jval" where
  "header_value h = obj [(''name'', JStr (hf_name h)), (''value'', JStr (hf_value h))]"

definition optional_id :: "int option \<Rightarrow> jval" where
  "optional_id n = (case n of None \<Rightarrow> JNull | Some g \<Rightarrow> JNum (num_of_int g))"

definition toPayload :: "Texts \<Rightarrow> ApiForm \<Rightarrow> jval" where
  "toPayload tx f = obj
     [(''name'', JStr (trim (fm_name f))), (''slug'', JStr (trim (fm_slug f))),
      (''description'', JStr (trim (fm_description f))),
      (''internalOpenapiUrl'', JStr (trim (fm_internalOpenapiUrl f))),
      (''internalBaseUrl'', JStr (trim (fm_internalBaseUrl f))),
      (''isActive'', JBool (fm_isActive f)), (''tryItEnabled'', JBool (fm_tryItEnabled f)),
      (''allowedMethods'', name_list (map (upper tx) (fm_allowedMethods f))),
      (''allowedPathPrefixes'', name_list (fm_allowedPathPrefixes f)),
      (''ownerTeam'', JStr (trim (fm_ownerTeam f))), (''tags'', name_list (fm_tags f)),
      (''ownerGroupId'', optional_id (fm_ownerGroupId f)),
      (''allowedRequestHeaders'', name_list (fm_allowedRequestHeaders f)),
      (''forwardAllXHeaders'', JBool (fm_forwardAllXHeaders f)),
      (''injectHeaders'', JArr Fresh (map header_value (kept_headers (fm_injectHeaders f)))),
      (''rateLimitPerMinute'', JNum (number_or_zero (fm_rateLimitPerMinute f))),
      (''timeoutSeconds'', JNum (number_or_zero (fm_timeoutSeconds f)))]"

section \<open>Slugs\<close>

definition slug_unit :: "unit16 \<Rightarrow> bool" where
  "slug_unit u = (is_lower u \<or> is_digit u)"

text \<open>Runs of other units become one dash.\<close>

fun dash_runs :: "bool \<Rightarrow> jstr \<Rightarrow> jstr" where
  "dash_runs in_run [] = []"
| "dash_runs in_run (u # s) =
     (if slug_unit u then u # dash_runs False s else if in_run then dash_runs True s else 45 # dash_runs True s)"

definition strip_dashes :: "jstr \<Rightarrow> jstr" where
  "strip_dashes s = rev (dropWhile (\<lambda>u. u = 45) (rev (dropWhile (\<lambda>u. u = 45) s)))"

definition slugify :: "Texts \<Rightarrow> jstr \<Rightarrow> jstr" where
  "slugify tx name =
     take 64 (strip_dashes (dash_runs False (replace_unit 305 (js ''i'')
       (lower tx (filter (\<lambda>u. \<not> (768 \<le> u \<and> u \<le> 879)) (nfkd tx name))))))"

definition absoluteUrl :: "Texts \<Rightarrow> jstr \<Rightarrow> bool" where
  "absoluteUrl tx v = (url_protocol tx (trim v) \<in> {Some (js ''http:''), Some (js ''https:'')})"

section \<open>Validation\<close>

record Messages =
  ms_required :: jstr
  ms_url :: jstr
  ms_slug :: jstr
  ms_range :: jstr

datatype ApiField = NameField | SlugField | OpenapiUrlField | BaseUrlField | RateField | TimeoutField

type_synonym ApiFormErrors = "(ApiField \<times> jstr) list"

definition slug_start :: "unit16 \<Rightarrow> bool" where
  "slug_start u = is_alnum u"

definition slug_rest :: "unit16 \<Rightarrow> bool" where
  "slug_rest u = (is_alnum u \<or> u \<in> {46, 95, 45})"

definition slug_ok :: "jstr \<Rightarrow> bool" where
  "slug_ok s = (case s of [] \<Rightarrow> False | u # r \<Rightarrow> slug_start u \<and> list_all slug_rest r)"

definition url_error :: "Texts \<Rightarrow> Messages \<Rightarrow> ApiField \<Rightarrow> jstr \<Rightarrow> ApiFormErrors" where
  "url_error tx m which v =
     (if trim v = [] then [(which, ms_required m)] else if \<not> absoluteUrl tx v then [(which, ms_url m)] else [])"

definition validateSource :: "Texts \<Rightarrow> Messages \<Rightarrow> ApiForm \<Rightarrow> ApiFormErrors" where
  "validateSource tx m f =
     (if trim (fm_name f) = [] then [(NameField, ms_required m)] else []) @
     (if trim (fm_slug f) = [] then [(SlugField, ms_required m)]
      else if \<not> slug_ok (trim (fm_slug f)) then [(SlugField, ms_slug m)] else []) @
     url_error tx m OpenapiUrlField (fm_internalOpenapiUrl f) @
     url_error tx m BaseUrlField (fm_internalBaseUrl f)"

definition in_range :: "jnum \<Rightarrow> rat \<Rightarrow> bool" where
  "in_range n limit = (is_integer n \<and> \<not> num_less n (Fin 0) \<and> \<not> num_less (Fin limit) n)"

definition validatePolicy :: "Messages \<Rightarrow> ApiForm \<Rightarrow> ApiFormErrors" where
  "validatePolicy m f =
     (if in_range (to_number (fm_rateLimitPerMinute f)) 10000 then [] else [(RateField, ms_range m)]) @
     (if in_range (to_number (fm_timeoutSeconds f)) 300 then [] else [(TimeoutField, ms_range m)])"

text \<open>The tab that the drawer opens for its errors, and the calls of its save.\<close>

datatype DrawerTab = GeneralTab | TryItTab

definition access_value :: "(int \<times> AccessLevel) list \<Rightarrow> jval" where
  "access_value xs = JArr Fresh (map (\<lambda>(g, l). obj [(''groupId'', JNum (num_of_int g)),
     (''level'', JStr (case l of ViewAccess \<Rightarrow> js ''view'' | InvokeAccess \<Rightarrow> js ''invoke''))]) xs)"

definition drawer_save :: "Texts \<Rightarrow> int \<Rightarrow> ApiForm \<Rightarrow> ApiForm \<Rightarrow> SetupCall \<times> SettingsCall list" where
  "drawer_save tx n initial f =
     (UpdateApi n (toPayload tx f),
      if sameValue (access_value (fm_access f)) (access_value (fm_access initial)) then [] else [SetApiAccess n (access_value (fm_access f))])"

definition drawer_submit ::
  "Texts \<Rightarrow> Messages \<Rightarrow> int \<Rightarrow> ApiForm \<Rightarrow> ApiForm \<Rightarrow> ApiFormErrors \<times> DrawerTab option \<times> (SetupCall \<times> SettingsCall list) option" where
  "drawer_submit tx m n initial f =
     (let source = validateSource tx m f; policy = validatePolicy m f in
      if source @ policy \<noteq> [] then (source @ policy, Some (if source \<noteq> [] then GeneralTab else TryItTab), None)
      else ([], None, Some (drawer_save tx n initial f)))"

section \<open>The wizard\<close>

datatype Step = SourceStep | AccessStep | ReviewStep

definition STEPS :: "Step list" where
  "STEPS = [SourceStep, AccessStep, ReviewStep]"

record Wizard =
  wz_form :: ApiForm
  wz_errors :: ApiFormErrors
  wz_step :: Step

definition wizard_start :: Wizard where
  "wizard_start = \<lparr>wz_form = EMPTY_API, wz_errors = [], wz_step = SourceStep\<rparr>"

definition step_errors :: "Texts \<Rightarrow> Messages \<Rightarrow> Step \<Rightarrow> ApiForm \<Rightarrow> ApiFormErrors" where
  "step_errors tx m s f =
     (case s of SourceStep \<Rightarrow> validateSource tx m f | AccessStep \<Rightarrow> validatePolicy m f | ReviewStep \<Rightarrow> [])"

text \<open>\<open>next()\<close>: the wizard after it, and the form that is sent to create the API.\<close>

definition wizard_next :: "Texts \<Rightarrow> Messages \<Rightarrow> Wizard \<Rightarrow> Wizard \<times> ApiForm option" where
  "wizard_next tx m w =
     (let found = step_errors tx m (wz_step w) (wz_form w);
          w1 = w\<lparr>wz_errors := found\<rparr>
      in if found \<noteq> [] then (w1, None)
         else case wz_step w of
             SourceStep \<Rightarrow> (w1\<lparr>wz_step := AccessStep\<rparr>, None)
           | AccessStep \<Rightarrow> (w1\<lparr>wz_step := ReviewStep\<rparr>, None)
           | ReviewStep \<Rightarrow> (w1, Some (wz_form w)))"

definition wizard_back :: "Wizard \<Rightarrow> Wizard" where
  "wizard_back w = (case wz_step w of SourceStep \<Rightarrow> w | AccessStep \<Rightarrow> w\<lparr>wz_step := SourceStep\<rparr> | ReviewStep \<Rightarrow> w\<lparr>wz_step := AccessStep\<rparr>)"

text \<open>The calls that create the API; \<open>created\<close> is the id that the server gives it.\<close>

definition wizard_create :: "Texts \<Rightarrow> int \<Rightarrow> ApiForm \<Rightarrow> SetupCall \<times> SettingsCall list" where
  "wizard_create tx created f =
     (CreateApi (toPayload tx f), if fm_access f \<noteq> [] then [SetApiAccess created (access_value (fm_access f))] else [])"

text \<open>A new API's slug follows its name until the slug is edited by hand.\<close>

definition type_name :: "Texts \<Rightarrow> bool \<Rightarrow> jstr \<Rightarrow> ApiForm \<Rightarrow> ApiForm" where
  "type_name tx autoSlug typed f =
     (if autoSlug \<and> fm_slug f = slugify tx (fm_name f) then f\<lparr>fm_slug := slugify tx typed, fm_name := typed\<rparr> else f\<lparr>fm_name := typed\<rparr>)"

text \<open>An empty form takes the title of the previewed spec.\<close>

definition take_preview :: "Texts \<Rightarrow> jstr \<Rightarrow> ApiForm \<Rightarrow> ApiForm" where
  "take_preview tx title f =
     (if trim (fm_name f) = [] \<and> title \<noteq> []
      then f\<lparr>fm_name := title, fm_slug := (if fm_slug f = [] then slugify tx title else fm_slug f)\<rparr> else f)"

text \<open>The fields of the source step: the other steps show, and change, the others only.\<close>

definition same_source :: "ApiForm \<Rightarrow> ApiForm \<Rightarrow> bool" where
  "same_source f g = (fm_name g = fm_name f \<and> fm_slug g = fm_slug f \<and>
     fm_internalOpenapiUrl g = fm_internalOpenapiUrl f \<and> fm_internalBaseUrl g = fm_internalBaseUrl f)"

section \<open>Lists of the form\<close>

definition add_header :: "ApiForm \<Rightarrow> ApiForm" where
  "add_header f = f\<lparr>fm_injectHeaders := fm_injectHeaders f @ [\<lparr>hf_name = [], hf_value = []\<rparr>]\<rparr>"

definition remove_nth :: "nat \<Rightarrow> 'a list \<Rightarrow> 'a list" where
  "remove_nth i xs = take i xs @ drop (Suc i) xs"

definition remove_header :: "nat \<Rightarrow> ApiForm \<Rightarrow> ApiForm" where
  "remove_header i f = f\<lparr>fm_injectHeaders := remove_nth i (fm_injectHeaders f)\<rparr>"

definition update_header :: "nat \<Rightarrow> (HeaderField \<Rightarrow> HeaderField) \<Rightarrow> ApiForm \<Rightarrow> ApiForm" where
  "update_header i patch f =
     f\<lparr>fm_injectHeaders := map (\<lambda>(k, h). if k = i then patch h else h) (enumerate 0 (fm_injectHeaders f))\<rparr>"

definition grantable :: "Group list \<Rightarrow> ApiForm \<Rightarrow> Group list" where
  "grantable groups f = filter (\<lambda>g. g_id g \<notin> fst ` set (fm_access f)) groups"

definition grant_access :: "int \<Rightarrow> ApiForm \<Rightarrow> ApiForm" where
  "grant_access g f = f\<lparr>fm_access := fm_access f @ [(g, ViewAccess)]\<rparr>"

definition set_level :: "nat \<Rightarrow> AccessLevel \<Rightarrow> ApiForm \<Rightarrow> ApiForm" where
  "set_level i l f = f\<lparr>fm_access := map (\<lambda>(k, a). if k = i then (fst a, l) else a) (enumerate 0 (fm_access f))\<rparr>"

definition remove_access :: "nat \<Rightarrow> ApiForm \<Rightarrow> ApiForm" where
  "remove_access i f = f\<lparr>fm_access := remove_nth i (fm_access f)\<rparr>"

section \<open>Only valid definitions are created\<close>

text \<open>What the user does in the wizard; the list of the forms sent so far is the second state.\<close>

inductive wizard_run :: "Texts \<Rightarrow> Messages \<Rightarrow> Wizard \<Rightarrow> ApiForm list \<Rightarrow> bool" for tx m where
  opened: "wizard_run tx m wizard_start []"
| edit_source: "wizard_run tx m w sent \<Longrightarrow> wz_step w = SourceStep \<Longrightarrow> wizard_run tx m (w\<lparr>wz_form := f\<rparr>) sent"
| edit_access: "wizard_run tx m w sent \<Longrightarrow> wz_step w = AccessStep \<Longrightarrow> same_source (wz_form w) f \<Longrightarrow>
     wizard_run tx m (w\<lparr>wz_form := f\<rparr>) sent"
| forward: "wizard_run tx m w sent \<Longrightarrow> wizard_next tx m w = (w', None) \<Longrightarrow> wizard_run tx m w' sent"
| create: "wizard_run tx m w sent \<Longrightarrow> wizard_next tx m w = (w', Some f) \<Longrightarrow> wizard_run tx m w' (sent @ [f])"
| backward: "wizard_run tx m w sent \<Longrightarrow> wizard_run tx m (wizard_back w) sent"

definition valid_form :: "Texts \<Rightarrow> Messages \<Rightarrow> ApiForm \<Rightarrow> bool" where
  "valid_form tx m f = (validateSource tx m f = [] \<and> validatePolicy m f = [])"

definition checked_so_far :: "Texts \<Rightarrow> Messages \<Rightarrow> Wizard \<Rightarrow> bool" where
  "checked_so_far tx m w = (case wz_step w of
     SourceStep \<Rightarrow> True | AccessStep \<Rightarrow> validateSource tx m (wz_form w) = [] | ReviewStep \<Rightarrow> valid_form tx m (wz_form w))"

lemma same_source_valid: "same_source f g \<Longrightarrow> validateSource tx m g = validateSource tx m f"
  by (simp add: same_source_def validateSource_def)

lemma run_checked: "wizard_run tx m w sent \<Longrightarrow> checked_so_far tx m w \<and> list_all (valid_form tx m) sent"
proof (induction rule: wizard_run.induct)
  case (edit_access w sent f)
  then show ?case using same_source_valid by (simp add: checked_so_far_def)
next
  case (forward w sent w')
  then show ?case
    by (cases "wz_step w") (auto simp: wizard_next_def checked_so_far_def step_errors_def valid_form_def Let_def split: if_splits)
next
  case (create w sent w' f)
  then show ?case
    by (cases "wz_step w") (auto simp: wizard_next_def checked_so_far_def step_errors_def valid_form_def Let_def split: if_splits)
next
  case (backward w sent)
  then show ?case
    by (cases "wz_step w") (auto simp: wizard_back_def checked_so_far_def valid_form_def)
qed (auto simp: checked_so_far_def wizard_start_def)

lemma in_range_iff: "in_range n limit \<longleftrightarrow> (\<exists>k. n = Fin (of_int k) \<and> 0 \<le> k \<and> (of_int k :: rat) \<le> limit)"
proof (cases n)
  case (Fin a)
  show ?thesis
  proof
    assume "in_range n limit"
    then have "a = of_int \<lfloor>a\<rfloor>" "0 \<le> a" "a \<le> limit" by (auto simp: in_range_def Fin)
    then show "\<exists>k. n = Fin (of_int k) \<and> 0 \<le> k \<and> (of_int k :: rat) \<le> limit"
      unfolding Fin by (metis of_int_0_le_iff)
  qed (auto simp: in_range_def Fin)
qed (simp_all add: in_range_def)

lemma policy_numbers:
  assumes "validatePolicy m f = []"
  shows "\<exists>r t. number_or_zero (fm_rateLimitPerMinute f) = Fin (of_int r) \<and> 0 \<le> r \<and> r \<le> 10000 \<and>
    number_or_zero (fm_timeoutSeconds f) = Fin (of_int t) \<and> 0 \<le> t \<and> t \<le> 300"
proof -
  have "in_range (to_number (fm_rateLimitPerMinute f)) 10000" "in_range (to_number (fm_timeoutSeconds f)) 300"
    using assms by (auto simp: validatePolicy_def split: if_splits)
  then obtain r t where "to_number (fm_rateLimitPerMinute f) = Fin (of_int r)" "0 \<le> r" "(of_int r :: rat) \<le> 10000"
    "to_number (fm_timeoutSeconds f) = Fin (of_int t)" "0 \<le> t" "(of_int t :: rat) \<le> 300"
    unfolding in_range_iff by blast
  then show ?thesis by (auto simp: number_or_zero_def)
qed

text \<open>C16: However a user moves through the wizard, back and forth and editing, every API that it creates has passed
  both validations as it is sent: a name, a well-formed slug, two absolute HTTP addresses, and limits
  that the payload carries as integers in their ranges.\<close>

theorem wizard_creates_valid:
  assumes "wizard_run tx m w sent" "f \<in> set sent"
  shows "trim (fm_name f) \<noteq> [] \<and> slug_ok (trim (fm_slug f)) \<and>
    absoluteUrl tx (fm_internalOpenapiUrl f) \<and> absoluteUrl tx (fm_internalBaseUrl f) \<and>
    (\<exists>r t. number_or_zero (fm_rateLimitPerMinute f) = Fin (of_int r) \<and> 0 \<le> r \<and> r \<le> 10000 \<and>
      number_or_zero (fm_timeoutSeconds f) = Fin (of_int t) \<and> 0 \<le> t \<and> t \<le> 300)"
proof -
  have "valid_form tx m f" using run_checked [OF assms(1)] assms(2) by (auto simp: list_all_iff)
  then have "validateSource tx m f = []" "validatePolicy m f = []" by (simp_all add: valid_form_def)
  then show ?thesis using policy_numbers [of m f] by (auto simp: validateSource_def url_error_def split: if_splits)
qed

definition example_texts :: Texts where
  "example_texts = \<lparr>upper = map upper_unit, lower = map lower_unit, nfkd = id,
     url_protocol = (\<lambda>s. if prefix (js ''http://'') s then Some (js ''http:'') else None)\<rparr>"

definition example_messages :: Messages where
  "example_messages = \<lparr>ms_required = [], ms_url = [], ms_slug = [], ms_range = []\<rparr>"

definition example_form :: ApiForm where
  "example_form = EMPTY_API\<lparr>fm_name := js ''Pets'', fm_slug := js ''pets'', fm_internalOpenapiUrl := js ''http://pets/spec'',
     fm_internalBaseUrl := js '' http://pets''\<rparr>"

theorem wizard_creates_valid_witness:
  "slug_ok (trim (fm_slug example_form)) \<and> absoluteUrl example_texts (fm_internalBaseUrl example_form)"
proof -
  let ?w1 = "wizard_start\<lparr>wz_form := example_form\<rparr>"
  have v: "validateSource example_texts example_messages example_form = []" "validatePolicy example_messages example_form = []"
    by code_simp+
  have "wizard_run example_texts example_messages ?w1 []"
    by (rule edit_source [OF opened]) (simp add: wizard_start_def)
  then have "wizard_run example_texts example_messages (?w1\<lparr>wz_errors := [], wz_step := AccessStep\<rparr>) []"
    by (rule forward) (simp add: wizard_next_def step_errors_def wizard_start_def v)
  then have "wizard_run example_texts example_messages (?w1\<lparr>wz_errors := [], wz_step := ReviewStep\<rparr>) []"
    by (rule forward) (simp add: wizard_next_def step_errors_def wizard_start_def v)
  then have "wizard_run example_texts example_messages (?w1\<lparr>wz_errors := [], wz_step := ReviewStep\<rparr>) ([] @ [example_form])"
    by (rule create) (simp add: wizard_next_def step_errors_def wizard_start_def)
  from wizard_creates_valid [OF this, of example_form] show ?thesis by simp
qed

section \<open>Generated slugs\<close>

lemma dash_runs_units: "list_all (\<lambda>u. slug_unit u \<or> u = 45) (dash_runs r s)"
  by (induction r s rule: dash_runs.induct) auto

lemma set_strip: "set (strip_dashes s) \<subseteq> set s"
  by (auto simp: strip_dashes_def dest!: set_dropWhileD)

lemma strip_first: "strip_dashes s \<noteq> [] \<Longrightarrow> hd (strip_dashes s) \<noteq> 45"
proof -
  assume n: "strip_dashes s \<noteq> []"
  let ?d = "dropWhile (\<lambda>u. u = 45) s"
  obtain t where "rev ?d = t @ dropWhile (\<lambda>u. u = 45) (rev ?d)" using takeWhile_dropWhile_id by metis
  then have d: "?d = strip_dashes s @ rev t" unfolding strip_dashes_def by (metis rev_append rev_rev_ident)
  then have "hd ?d = hd (strip_dashes s)" "?d \<noteq> []" using n by simp_all
  then show ?thesis using hd_dropWhile [of "\<lambda>u. u = 45" s] by simp
qed

text \<open>A slug that the form makes from a name is accepted by the form's own check, whatever the name: it is empty or
  starts with a letter or digit, has only letters, digits and dashes, and at most 64 of them.\<close>

theorem slugify_is_valid:
  "slugify tx name = [] \<or> (slug_ok (slugify tx name) \<and> length (slugify tx name) \<le> 64)"
proof -
  obtain r where r: "slugify tx name = take 64 (strip_dashes (dash_runs False r))" by (simp add: slugify_def)
  let ?s = "strip_dashes (dash_runs False r)"
  have units: "slug_unit u \<or> u = 45" if "u \<in> set ?s" for u
    using dash_runs_units [of False r] set_strip that by (auto simp: list_all_iff)
  have "slug_ok (take 64 ?s)" if ne: "?s \<noteq> []"
  proof -
    obtain u t where s: "?s = u # t" using ne by (cases ?s) auto
    have "slug_unit u" using units [of u] strip_first [OF ne] s by simp
    moreover have "list_all slug_rest (take 63 t)"
    proof -
      have "slug_rest v" if "v \<in> set (take 63 t)" for v
        using units [of v] s in_set_takeD [OF that] by (auto simp: slug_rest_def slug_unit_def is_alnum_def)
      then show ?thesis by (simp add: list_all_iff)
    qed
    ultimately show ?thesis by (auto simp: s slug_ok_def slug_start_def slug_unit_def is_alnum_def)
  qed
  then show ?thesis unfolding r by (cases "?s = []") simp_all
qed

section \<open>Saving what was loaded\<close>

lemma digit_not_space: "is_digit u \<Longrightarrow> \<not> is_space u"
  by (auto simp: is_digit_def is_space_def word_le_nat_alt)

lemma trim_digits: "list_all is_digit s \<Longrightarrow> trim s = s"
proof -
  assume d: "list_all is_digit s"
  have "dropWhile is_space xs = xs" if "list_all is_digit xs" for xs
    using that digit_not_space by (cases xs) auto
  from this [OF d] this [of "rev s"] d show "trim s = s" by (simp add: trim_def)
qed

lemma to_number_nat:
  assumes "n < 10 ^ 15"
  shows "to_number (nat_str n) = Fin (of_nat n)"
proof -
  let ?s = "nat_str n"
  have d: "list_all is_digit ?s" by (rule nat_str_digits)
  have low: "lower_unit u = u" if "is_digit u" for u
    using that by (auto simp: lower_unit_def is_digit_def is_upper_def word_le_nat_alt)
  have "list_all is_digit (map lower_unit (take 2 ?s))"
    using d low by (auto simp: list_all_iff dest: in_set_takeD)
  moreover have "\<not> list_all is_digit (js ''0x'')" "\<not> list_all is_digit (js ''0o'')" "\<not> list_all is_digit (js ''0b'')"
    by code_simp+
  ultimately have x: "map lower_unit (take 2 ?s) \<noteq> js ''0x''" "map lower_unit (take 2 ?s) \<noteq> js ''0o''"
    "map lower_unit (take 2 ?s) \<noteq> js ''0b''" by metis+
  have h: "hd ?s \<noteq> 45" "hd ?s \<noteq> 43" "?s \<noteq> js ''Infinity''"
    using d by (cases ?s; auto simp: is_digit_def js_def cu_def)+
  have "to_double (of_nat n) = Fin (of_nat n)"
    using to_double_int [of "int n"] assms by simp
  then show ?thesis
    using x h
    by (simp add: to_number_def Let_def trim_digits [OF d] parse_decimal_nat_str)
qed

lemma number_of_int_str: "0 \<le> n \<Longrightarrow> n < 10 ^ 15 \<Longrightarrow> number_or_zero (int_str n) = num_of_int n"
  using to_number_nat [of "nat n"] by (simp add: number_or_zero_def int_str_def num_of_int_def Let_def nat_less_iff)

text \<open>A definition as the server keeps it: trimmed texts, methods in upper case, named headers, limits in range.\<close>

definition kept_definition :: "Texts \<Rightarrow> ApiDefinition \<Rightarrow> bool" where
  "kept_definition tx a =
     (list_all (\<lambda>s. trim s = s) ([ad_name a, ad_slug a, ad_description a, or_empty (ad_internalOpenapiUrl a),
        or_empty (ad_internalBaseUrl a), ad_ownerTeam a] @ or_empty (ad_injectHeaderNames a)) \<and>
      [] \<notin> set (or_empty (ad_injectHeaderNames a)) \<and>
      list_all (\<lambda>m. upper tx m = m) (ad_allowedMethods a) \<and>
      list_all (\<lambda>n. 0 \<le> n \<and> n < 10 ^ 15) [or_zero (ad_rateLimitPerMinute a), or_zero (ad_timeoutSeconds a)])"

text \<open>Saving an API's form without a change sends the definition back as it is kept: every field its own value, an
  absent one its default, and for each injected header its name with an empty value, which keeps the
  stored secret.\<close>

theorem unchanged_save_keeps_definition:
  assumes "kept_definition tx a"
  shows "toPayload tx (toApiForm a access) = obj
     [(''name'', JStr (ad_name a)), (''slug'', JStr (ad_slug a)), (''description'', JStr (ad_description a)),
      (''internalOpenapiUrl'', JStr (or_empty (ad_internalOpenapiUrl a))),
      (''internalBaseUrl'', JStr (or_empty (ad_internalBaseUrl a))),
      (''isActive'', JBool (ad_isActive a)), (''tryItEnabled'', JBool (ad_tryItEnabled a)),
      (''allowedMethods'', name_list (ad_allowedMethods a)), (''allowedPathPrefixes'', name_list (ad_allowedPathPrefixes a)),
      (''ownerTeam'', JStr (ad_ownerTeam a)), (''tags'', name_list (ad_tags a)),
      (''ownerGroupId'', optional_id (case ad_ownerGroupId a of None \<Rightarrow> None | Some g \<Rightarrow> g)),
      (''allowedRequestHeaders'', name_list (or_empty (ad_allowedRequestHeaders a))),
      (''forwardAllXHeaders'', JBool (ad_forwardAllXHeaders a = Some True)),
      (''injectHeaders'', JArr Fresh (map (\<lambda>n. header_value \<lparr>hf_name = n, hf_value = []\<rparr>) (or_empty (ad_injectHeaderNames a)))),
      (''rateLimitPerMinute'', JNum (num_of_int (or_zero (ad_rateLimitPerMinute a)))),
      (''timeoutSeconds'', JNum (num_of_int (or_zero (ad_timeoutSeconds a))))]"
proof -
  have headers: "kept_headers (map (\<lambda>n. \<lparr>hf_name = n, hf_value = []\<rparr>) ns) = map (\<lambda>n. \<lparr>hf_name = n, hf_value = []\<rparr>) ns"
    if "list_all (\<lambda>s. trim s = s) ns" "[] \<notin> set ns" for ns
    using that by (induction ns) (auto simp: kept_headers_def)
  have "map (upper tx) (ad_allowedMethods a) = ad_allowedMethods a"
    using assms by (simp add: kept_definition_def list_all_iff map_idI)
  then show ?thesis
    using assms headers [of "or_empty (ad_injectHeaderNames a)"]
    by (simp add: kept_definition_def toPayload_def toApiForm_def number_of_int_str comp_def)
qed

definition example_definition :: ApiDefinition where
  "example_definition = \<lparr>ad_id = 3, ad_name = js ''Pets'', ad_slug = js ''pets'', ad_description = [], ad_internalOpenapiUrl = None,
     ad_internalBaseUrl = None, ad_isActive = True, ad_tryItEnabled = False, ad_allowedMethods = [js ''GET''],
     ad_allowedPathPrefixes = [], ad_ownerTeam = [], ad_tags = [], ad_createdAt = [], ad_updatedAt = [],
     ad_lastSpecRefreshAt = None, ad_lastSpecStatus = None, ad_specState = None, ad_specError = None, ad_specVersion = None,
     ad_operationCount = None, ad_favorite = None, ad_permissions = None, ad_ownerGroupId = Some (Some 4),
     ad_allowedRequestHeaders = None, ad_forwardAllXHeaders = None, ad_injectHeaderNames = Some [js ''X-Key''],
     ad_rateLimitPerMinute = Some 60, ad_timeoutSeconds = None\<rparr>"

theorem unchanged_save_keeps_definition_witness:
  "jget (toPayload example_texts (toApiForm example_definition [])) (js ''rateLimitPerMinute'') = Inr (JNum (Fin 60))"
proof -
  have "kept_definition example_texts example_definition" by code_simp
  from unchanged_save_keeps_definition [OF this, of "[]"]
  show ?thesis by (simp add: obj_def own_def example_definition_def or_zero_def num_of_int_def)
qed

end
