(* ===== verification/I18n_Base.thy ===== *)
theory I18n_Base
  imports Js_Strings
begin

text \<open>
  Dictionaries of texts: nested groups of named texts. A text is written in ASCII, with \<open>~\<close> and four
  hexadecimal digits for a code unit outside it (and for quotes, backslash and the tilde); \<open>plain_text\<close>
  is the text itself. \<open>vars\<close> are the placeholders that the program fills in, as \<open>i18n.test.ts\<close>
  finds them. \<open>mirrors\<close> compares two dictionaries by evaluation; \<open>mirrors_at\<close> turns the result into
  what a lookup by path finds in them.
\<close>

datatype message = Text string | Group "(string \<times> message) list"

definition hex_char :: "char \<Rightarrow> int" where
  "hex_char c = (let n = char_code c in if n \<le> 57 then n - 48 else n - 87)"

fun plain_text :: "string \<Rightarrow> jstr" where
  "plain_text (c # s) =
     (if c = CHR ''~''
      then (case s of
          a # b # d # e # t \<Rightarrow> word_of_int (4096 * hex_char a + 256 * hex_char b + 16 * hex_char d + hex_char e) # plain_text t
        | _ \<Rightarrow> cu c # plain_text s)
      else cu c # plain_text s)"
| "plain_text [] = []"

definition word_code :: "int \<Rightarrow> bool" where
  "word_code n = (if n < 65 then 48 \<le> n \<and> n \<le> 57 else if n < 97 then n \<le> 90 \<or> n = 95 else n \<le> 122)"

definition word_char :: "char \<Rightarrow> bool" where
  "word_char c = word_code (char_code c)"

definition brace :: "char \<Rightarrow> bool" where
  "brace c \<longleftrightarrow> c = CHR ''{''"

text \<open>A name in double braces, from behind the opening ones.\<close>

fun closed :: "string \<Rightarrow> bool" where
  "closed (c # d # s) = (c = CHR ''}'' \<and> d = CHR ''}'')"
| "closed s = False"

definition var_at :: "string \<Rightarrow> string list" where
  "var_at s = (if closed (dropWhile word_char s) \<and> takeWhile word_char s \<noteq> [] then [takeWhile word_char s] else [])"

fun vars :: "string \<Rightarrow> string list" where
  "vars (c # s) =
     (if brace c then (case s of d # t \<Rightarrow> if brace d then var_at t else [] | [] \<Rightarrow> []) @ vars s else vars s)"
| "vars [] = []"

text \<open>A letter or digit outside the escapes: enough for a text that is not blank.\<close>

fun not_blank :: "string \<Rightarrow> bool" where
  "not_blank (c # s) = (if c = CHR ''~'' then (case s of a # b # d # e # t \<Rightarrow> not_blank t | _ \<Rightarrow> False)
      else if word_char c then True else not_blank s)"
| "not_blank [] = False"

definition same_names :: "string list \<Rightarrow> string list \<Rightarrow> bool" where
  "same_names v w = (if v = w then True else list_all (\<lambda>x. count_list v x = count_list w x) (v @ w))"

definition same_vars :: "string \<Rightarrow> string \<Rightarrow> bool" where
  "same_vars s t = same_names (vars s) (vars t)"

fun mirrors :: "message \<Rightarrow> message \<Rightarrow> bool"
  and mirror_lists :: "(string \<times> message) list \<Rightarrow> (string \<times> message) list \<Rightarrow> bool" where
  "mirrors (Text s) (Text t) = (not_blank s \<and> not_blank t \<and> same_vars s t)"
| "mirrors (Group xs) (Group ys) = mirror_lists xs ys"
| "mirrors _ _ = False"
| "mirror_lists [] [] = True"
| "mirror_lists ((k, x) # xs) ((l, y) # ys) =
     (k = l \<and> mirrors x y \<and> mirror_lists xs ys)"
| "mirror_lists _ _ = False"

section \<open>Lookups\<close>

text \<open>Of two entries with one name the later counts.\<close>

fun lookup_text :: "jstr \<Rightarrow> (string \<times> message) list \<Rightarrow> message option" where
  "lookup_text k [] = None"
| "lookup_text k ((l, x) # xs) = (case lookup_text k xs of None \<Rightarrow> if k = js l then Some x else None | r \<Rightarrow> r)"

fun message_at :: "jstr list \<Rightarrow> message \<Rightarrow> message option" where
  "message_at [] m = Some m"
| "message_at (k # p) (Text _) = None"
| "message_at (k # p) (Group xs) = (case lookup_text k xs of None \<Rightarrow> None | Some m \<Rightarrow> message_at p m)"

text \<open>Two entries that agree: texts that are not blank and have the same placeholders, or groups with the
  same names, in the same order.\<close>

fun agree :: "message \<Rightarrow> message \<Rightarrow> bool" where
  "agree (Text s) (Text t) = (trim (plain_text s) \<noteq> [] \<and> trim (plain_text t) \<noteq> [] \<and> mset (vars s) = mset (vars t))"
| "agree (Group xs) (Group ys) = (map fst xs = map fst ys)"
| "agree _ _ = False"

lemma word_char_not_space: "word_char c \<Longrightarrow> \<not> is_space (cu c)"
  using uint_cu [of c] by (auto simp: word_char_def word_code_def is_space_def unit_le_iff unit_eq_iff the_int_numeral split: if_splits)

lemma not_blank_text: "not_blank s \<Longrightarrow> \<exists>u \<in> set (plain_text s). \<not> is_space u"
proof (induction s rule: plain_text.induct)
  case (1 c s)
  show ?case
  proof (cases "c = CHR ''~''")
    case True
    show ?thesis
    proof (cases "\<exists>a b d e t. s = a # b # d # e # t")
      case True
      then obtain a b d e t where "s = a # b # d # e # t" by blast
      with 1 \<open>c = CHR ''~''\<close> show ?thesis by auto
    next
      case False
      with 1 \<open>c = CHR ''~''\<close> show ?thesis by (auto split: list.splits)
    qed
  next
    case False
    with 1 show ?thesis using word_char_not_space by (auto split: if_splits)
  qed
qed simp

lemma trim_eq_Nil: "trim s = [] \<longleftrightarrow> list_all is_space s"
proof (cases "dropWhile is_space s")
  case Nil
  then show ?thesis by (auto simp: trim_def list_all_iff dest: set_dropWhileD)
next
  case (Cons u us)
  then have "\<not> is_space u" "u \<in> set s" using hd_dropWhile [of is_space s] set_dropWhileD [of u is_space s] by auto
  with Cons show ?thesis by (auto simp: trim_def list_all_iff dropWhile_append)
qed

lemma not_blank_trim: "not_blank s \<Longrightarrow> trim (plain_text s) \<noteq> []"
  using not_blank_text by (auto simp: trim_eq_Nil list_all_iff)

lemma same_names_mset:
  assumes "same_names v w"
  shows "mset v = mset w"
proof (rule multiset_eqI)
  fix x
  have "v = w \<or> (\<forall>y \<in> set v \<union> set w. count_list v y = count_list w y)"
    using assms by (auto simp: same_names_def list_all_iff split: if_splits)
  then have "count_list v x = count_list w x" by (metis UnCI count_list_0_iff)
  then show "count (mset v) x = count (mset w) x" by (simp only: count_mset)
qed

lemma same_vars_mset: "same_vars s t \<Longrightarrow> mset (vars s) = mset (vars t)"
  by (simp add: same_vars_def same_names_mset)

lemma mirror_names: "mirror_lists xs ys \<Longrightarrow> map fst xs = map fst ys"
  by (induction xs ys rule: mirrors_mirror_lists.induct(2) [where P = "\<lambda>_ _. True"]) (auto simp:)

lemma mirrors_agree: "mirrors x y \<Longrightarrow> agree x y"
  by (cases x; cases y) (auto simp: not_blank_trim same_vars_mset dest: mirror_names)

lemma mirror_lookup: "mirror_lists xs ys \<Longrightarrow> rel_option mirrors (lookup_text k xs) (lookup_text k ys)"
  by (induction xs ys rule: mirrors_mirror_lists.induct(2) [where P = "\<lambda>_ _. True"])
    (auto split: option.splits)

lemma mirrors_at: "mirrors x y \<Longrightarrow> rel_option agree (message_at p x) (message_at p y)"
proof (induction p arbitrary: x y)
  case Nil
  then show ?case by (simp add: mirrors_agree)
next
  case (Cons k p)
  show ?case
  proof (cases x; cases y)
    fix xs ys
    assume g: "x = Group xs" "y = Group ys"
    have "rel_option mirrors (lookup_text k xs) (lookup_text k ys)" using Cons.prems g by (auto intro: mirror_lookup)
    then show ?thesis using g Cons.IH by (cases "lookup_text k xs"; cases "lookup_text k ys") auto
  qed (use Cons.prems in auto)
qed

text \<open>
  Dictionaries are compared section by section. The congruence rules keep the simplifier out of the
  texts that a step does not look at.
\<close>

lemma mirror_lists_append:
  "\<lbrakk>mirror_lists xs ys; mirror_lists us vs\<rbrakk> \<Longrightarrow> mirror_lists (xs @ us) (ys @ vs)"
  by (induction xs ys rule: mirrors_mirror_lists.induct(2) [where P = "\<lambda>_ _. True"]) auto

lemma mirror_group: "mirror_lists xs ys \<Longrightarrow> mirror_lists [(k, Group xs)] [(k, Group ys)]"
  by simp

lemma keep:
  "mirror_lists xs ys \<equiv> mirror_lists xs ys" "mirrors x y \<equiv> mirrors x y" "vars s \<equiv> vars s"
  "not_blank s \<equiv> not_blank s" "lookup_text k xs \<equiv> lookup_text k xs" "message_at p x \<equiv> message_at p x"
  by simp_all

text \<open>Each character is settled in one step.\<close>

lemma brace_eval:
  "brace (Char False b1 b2 b3 b4 b5 b6 b7) \<longleftrightarrow> False"
  "brace (Char True False b2 b3 b4 b5 b6 b7) \<longleftrightarrow> False"
  "brace (Char True True True b3 b4 b5 b6 b7) \<longleftrightarrow> False"
  "brace (Char True True False False b4 b5 b6 b7) \<longleftrightarrow> False"
  "brace (Char True True False True False b5 b6 b7) \<longleftrightarrow> False"
  "brace (Char True True False True True False b6 b7) \<longleftrightarrow> False"
  "brace (Char True True False True True True False b7) \<longleftrightarrow> False"
  "brace (Char True True False True True True True True) \<longleftrightarrow> False"
  "brace (Char True True False True True True True False) \<longleftrightarrow> True"
  by (simp_all add: brace_def)

lemmas mirror_eval = word_char_def word_code_def var_at_def same_vars_def same_names_def

end
