(* ===== verification/I18n_En.thy ===== *)
theory I18n_En
  imports I18n_Base
begin

text \<open>
  \<open>i18n/en.ts\<close>: the English texts, section by section.
\<close>

definition en_common :: "(string \<times> message) list" where
  "en_common =
    [(''common'', Group [
      (''opensInNewTab'', Text ''opens in a new tab''),
      (''save'', Text ''Save''),
      (''cancel'', Text ''Cancel''),
      (''delete'', Text ''Delete''),
      (''close'', Text ''Close''),
      (''retry'', Text ''Try again''),
      (''refresh'', Text ''Refresh''),
      (''loading'', Text ''Loading~2026''),
      (''copy'', Text ''Copy''),
      (''copied'', Text ''Copied''),
      (''optional'', Text ''optional''),
      (''on'', Text ''On''),
      (''off'', Text ''Off''),
      (''active'', Text ''Active''),
      (''inactive'', Text ''Inactive''),
      (''enabled'', Text ''Enabled''),
      (''disabled'', Text ''Disabled''),
      (''actions'', Text ''Actions''),
      (''noResponse'', Text ''No response'')])]"

definition en_nav :: "(string \<times> message) list" where
  "en_nav =
    [(''nav'', Group [
      (''catalog'', Text ''API Catalog''),
      (''admin'', Text ''Admin'')])]"

definition en_shell :: "(string \<times> message) list" where
  "en_shell =
    [(''shell'', Group [
      (''skipToContent'', Text ''Skip to content''),
      (''mainNavigation'', Text ''Main navigation''),
      (''menu'', Text ''Menu''),
      (''openMenu'', Text ''Open menu''),
      (''showPanel'', Text ''Show {{panel}}''),
      (''hidePanel'', Text ''Hide {{panel}}''),
      (''searchLabel'', Text ''Search APIs and operations''),
      (''searchPlaceholder'', Text ''Search APIs and operations~2026''),
      (''theme'', Text ''Theme''),
      (''themeCurrent'', Text ''Theme: {{theme}}''),
      (''language'', Text ''Language''),
      (''languageCurrent'', Text ''Language: {{language}}''),
      (''userMenu'', Text ''Account menu for {{user}}''),
      (''account'', Text ''Account''),
      (''mySessions'', Text ''My sessions''),
      (''changePassword'', Text ''Change password''),
      (''signOut'', Text ''Sign out''),
      (''help'', Text ''Help and shortcuts''),
      (''breadcrumb'', Text ''Breadcrumb'')])]"

definition en_theme :: "(string \<times> message) list" where
  "en_theme =
    [(''theme'', Group [
      (''light'', Text ''Light''),
      (''dark'', Text ''Dark''),
      (''system'', Text ''System'')])]"

definition en_language :: "(string \<times> message) list" where
  "en_language =
    [(''language'', Group [
      (''en'', Text ''English''),
      (''tr'', Text ''T~00fcrk~00e7e'')])]"

definition en_authSource :: "(string \<times> message) list" where
  "en_authSource =
    [(''authSource'', Group [
      (''local'', Text ''Local''),
      (''ldap'', Text ''LDAP''),
      (''azuread'', Text ''Azure AD'')])]"

definition en_help :: "(string \<times> message) list" where
  "en_help =
    [(''help'', Group [
      (''version'', Text ''Version {{version}}''),
      (''title'', Text ''Keyboard shortcuts''),
      (''description'', Text ''Everything works with the keyboard. Single-key shortcuts are off while you type in a field.''),
      (''everywhere'', Text ''Everywhere''),
      (''onPages'', Text ''On pages and in panels''),
      (''tryIt'', Text ''Try it''),
      (''palette'', Text ''Command palette: APIs, operations, pages, actions''),
      (''focusSearch'', Text ''Search on this page (or APIs and operations)''),
      (''showHelp'', Text ''Show these shortcuts''),
      (''goCatalog'', Text ''Go to the catalog''),
      (''goAdmin'', Text ''Go to the admin console''),
      (''skipToContent'', Text ''Skip to the content (first on a page)''),
      (''closeOverlay'', Text ''Close a dialog, menu or panel''),
      (''tabs'', Text ''Previous / next tab''),
      (''moveInLists'', Text ''Move through rows, cards or operations; open''),
      (''pages'', Text ''Next / previous page of a table''),
      (''deleteRow'', Text ''Delete the focused row (asks first)''),
      (''favorite'', Text ''Add the open API to favorites, or remove it''),
      (''send'', Text ''Send the request''),
      (''copyCurl'', Text ''Copy the request as cURL''),
      (''layoutNote'', Text ''Keys work on Turkish and other layouts too: [ ] / can be typed with AltGr or Shift, or pressed where they sit on a US keyboard.'')])]"

definition en_palette :: "(string \<times> message) list" where
  "en_palette =
    [(''palette'', Group [
      (''choose'', Text ''open''),
      (''title'', Text ''Command palette''),
      (''open'', Text ''Command palette''),
      (''inputLabel'', Text ''Search commands, APIs and operations''),
      (''placeholder'', Text ''Go to an API, operation or page, or run an action~2026''),
      (''results'', Text ''Results''),
      (''empty'', Text ''Nothing matches.''),
      (''move'', Text ''move''),
      (''allShortcuts'', Text ''all shortcuts''),
      (''count_one'', Text ''{{count}} result''),
      (''count_other'', Text ''{{count}} results''),
      (''groups'', Group [
        (''recent'', Text ''Recent''),
        (''apis'', Text ''APIs''),
        (''operations'', Text ''Operations''),
        (''navigate'', Text ''Go to''),
        (''actions'', Text ''Actions'')]),
      (''backTo'', Text ''Back to {{name}}''),
      (''themeLight'', Text ''Theme: light''),
      (''themeDark'', Text ''Theme: dark''),
      (''themeSystem'', Text ''Theme: follow the system''),
      (''shortcuts'', Text ''Show keyboard shortcuts'')])]"

definition en_shortcuts :: "(string \<times> message) list" where
  "en_shortcuts =
    [(''shortcuts'', Group [
      (''hint'', Text ''Shortcut: {{key}}'')])]"

definition en_session :: "(string \<times> message) list" where
  "en_session =
    [(''session'', Group [
      (''expired'', Text ''Your session has ended. Sign in again to continue.'')])]"

definition en_warnings :: "(string \<times> message) list" where
  "en_warnings =
    [(''warnings'', Group [
      (''encryption_key_in_database'', Text ''Stored LDAP and Azure AD secrets are encrypted with a key kept in the database itself. Set DATA_ENCRYPTION_KEY (or DATA_ENCRYPTION_KEY_FILE) from a secret store; see the README.'')])]"

definition en_errors :: "(string \<times> message) list" where
  "en_errors =
    [(''errors'', Group [
      (''loadFailedTitle'', Text ''This could not be loaded''),
      (''startFailedTitle'', Text ''The portal could not start''),
      (''forbiddenTitle'', Text ''You don~2019t have access to this''),
      (''forbiddenBody'', Text ''Ask an administrator for the permission if you need it.''),
      (''notFoundTitle'', Text ''Page not found''),
      (''notFoundBody'', Text ''The address may be mistyped, or the page was removed.''),
      (''networkTitle'', Text ''The portal can~2019t be reached''),
      (''networkBody'', Text ''Check your connection and try again.''),
      (''crashTitle'', Text ''Something went wrong''),
      (''crashBody'', Text ''Reload the page. If it keeps happening, send the details below to an administrator.''),
      (''unknown'', Text ''An unexpected error occurred.''),
      (''details'', Text ''Details''),
      (''requestId'', Text ''Request ID''),
      (''reload'', Text ''Reload the page''),
      (''backToCatalog'', Text ''Back to the catalog'')])]"

definition en_form :: "(string \<times> message) list" where
  "en_form =
    [(''form'', Group [
      (''errorSummary_one'', Text ''Fix {{count}} problem to continue:''),
      (''errorSummary_other'', Text ''Fix {{count}} problems to continue:'')])]"

definition en_confirm :: "(string \<times> message) list" where
  "en_confirm =
    [(''confirm'', Group [
      (''typeToConfirm'', Text ''To confirm, type'')])]"

definition en_combobox :: "(string \<times> message) list" where
  "en_combobox =
    [(''combobox'', Group [
      (''placeholder'', Text ''Choose~2026''),
      (''options'', Text ''Options''),
      (''noOptions'', Text ''No options''),
      (''add'', Text ''Add ~201c{{value}}~201d''),
      (''remove'', Text ''Remove {{item}}'')])]"

definition en_table :: "(string \<times> message) list" where
  "en_table =
    [(''table'', Group [
      (''selectAll'', Text ''Select all rows on this page''),
      (''selectRow'', Text ''Select {{row}}''),
      (''rowsPerPage'', Text ''Rows per page''),
      (''range'', Text ''{{from}}~2013{{to}} of {{total}}''),
      (''previous'', Text ''Previous''),
      (''next'', Text ''Next'')])]"

definition en_password :: "(string \<times> message) list" where
  "en_password =
    [(''password'', Group [
      (''show'', Text ''Show password''),
      (''hide'', Text ''Hide password''),
      (''capsLock'', Text ''Caps Lock is on'')])]"

definition en_login :: "(string \<times> message) list" where
  "en_login =
    [(''login'', Group [
      (''title'', Text ''Sign in''),
      (''subtitle'', Text ''Sign in to continue''),
      (''username'', Text ''Username''),
      (''usernameLdapHelper'', Text ''Your directory (LDAP) account or a local portal account.''),
      (''usernameRequired'', Text ''Enter your username.''),
      (''password'', Text ''Password''),
      (''passwordRequired'', Text ''Enter your password.''),
      (''signIn'', Text ''Sign in''),
      (''microsoft'', Text ''Sign in with Microsoft''),
      (''or'', Text ''or''),
      (''invalidCredentials'', Text ''The username or password is not correct.''),
      (''failed'', Text ''Sign-in failed. Try again.''),
      (''lockedTitle'', Text ''Too many failed attempts''),
      (''lockedBody'', Text ''Sign-in is paused for this account. Try again in {{time}}.''),
      (''authErrors'', Group [
        (''azure_not_configured'', Text ''Microsoft sign-in is not enabled.''),
        (''azure_state'', Text ''The Microsoft sign-in took too long or was started in another tab. Try again.''),
        (''azure_denied'', Text ''Microsoft sign-in was cancelled or refused.''),
        (''azure_failed'', Text ''Microsoft sign-in failed. Try again, or contact an administrator if it keeps happening.''),
        (''azure_groups'', Text ''Your Microsoft account is not in a group that may use this portal. Contact an administrator.''),
        (''account_disabled'', Text ''Your portal account is disabled. Contact an administrator.'')])])]"

definition en_account :: "(string \<times> message) list" where
  "en_account =
    [(''account'', Group [
      (''title'', Text ''Account''),
      (''description'', Text ''Your profile, password and signed-in devices.''),
      (''profile'', Text ''Profile''),
      (''username'', Text ''Username''),
      (''displayName'', Text ''Display name''),
      (''email'', Text ''Email''),
      (''authSource'', Text ''Signs in with''),
      (''role'', Text ''Role''),
      (''administrator'', Text ''Administrator''),
      (''member'', Text ''Member''),
      (''changePassword'', Text ''Password''),
      (''passwordManagedBy'', Text ''Your password is managed by {{source}}; change it there.''),
      (''currentPassword'', Text ''Current password''),
      (''newPassword'', Text ''New password''),
      (''confirmPassword'', Text ''Confirm new password''),
      (''currentRequired'', Text ''Enter your current password.''),
      (''currentWrong'', Text ''The current password is not correct.''),
      (''rulesTitle'', Text ''Password requirements''),
      (''ruleLength_one'', Text ''At least {{count}} character''),
      (''ruleLength_other'', Text ''At least {{count}} characters''),
      (''ruleUsername'', Text ''Does not contain your username''),
      (''ruleMatch'', Text ''Both new password fields match''),
      (''ruleCommon'', Text ''Commonly used passwords are refused.''),
      (''ruleMet'', Text ''met''),
      (''ruleNotMet'', Text ''not met yet''),
      (''updatePassword'', Text ''Update password''),
      (''passwordChanged'', Text ''Password updated.''),
      (''passwordChangedRevoked_one'', Text ''Password updated. {{count}} other session was signed out.''),
      (''passwordChangedRevoked_other'', Text ''Password updated. {{count}} other sessions were signed out.''),
      (''passwordFailed'', Text ''The password could not be updated.''),
      (''forcedTitle'', Text ''Set a new password''),
      (''forcedDescription'', Text ''An administrator set your password, or this is your first sign-in. Choose a new password to continue.''),
      (''sessions'', Text ''Signed-in devices''),
      (''sessionsDescription'', Text ''Sign out a device you don~2019t recognise or no longer use.''),
      (''signOut'', Text ''Sign out''),
      (''signOutOthers'', Text ''Sign out other devices''),
      (''signOutOthersTitle'', Text ''Sign out other devices?''),
      (''signOutOthersBody_one'', Text ''{{count}} other device will need to sign in again.''),
      (''signOutOthersBody_other'', Text ''{{count}} other devices will need to sign in again.''),
      (''otherSessionsEnded_one'', Text ''{{count}} other device was signed out.''),
      (''otherSessionsEnded_other'', Text ''{{count}} other devices were signed out.''),
      (''sessionEnded'', Text ''Device signed out.''),
      (''sessionEndFailed'', Text ''The device could not be signed out.''),
      (''thisBrowser'', Text ''This browser''),
      (''unknownAddress'', Text ''unknown address''),
      (''sessionMeta'', Text ''{{ip}} ~00b7 active {{active}} ~00b7 signed in {{signedIn}}''),
      (''browser'', Text ''Browser''),
      (''deviceOn'', Text ''{{browser}} on {{os}}'')])]"

definition en_catalog_part1 :: "(string \<times> message) list" where
  "en_catalog_part1 =
    [(''title'', Text ''API Catalog''),
     (''description'', Text ''The internal APIs you may use. Open one for its documentation and to try it.''),
     (''filters'', Text ''Filters''),
     (''tags'', Text ''Tags''),
     (''noTags'', Text ''No tags yet.''),
     (''clearFilters'', Text ''Clear filters''),
     (''clearAll'', Text ''Clear all''),
     (''activeFilters'', Text ''Active filters''),
     (''removeFilter'', Text ''Remove filter {{filter}}''),
     (''count_one'', Text ''{{count}} API''),
     (''count_other'', Text ''{{count}} APIs''),
     (''allApis_one'', Text ''{{count}} API''),
     (''allApis_other'', Text ''All {{count}} APIs''),
     (''apisFiltered_one'', Text ''APIs: {{count}} of {{total}}''),
     (''apisFiltered_other'', Text ''APIs: {{count}} of {{total}}''),
     (''specProblems_one'', Text ''{{count}} spec problem''),
     (''specProblems_other'', Text ''{{count}} spec problems''),
     (''layout'', Text ''Layout''),
     (''grid'', Text ''Cards''),
     (''list'', Text ''Table''),
     (''sort'', Text ''Sort by''),
     (''sorts'', Group [
      (''name'', Text ''Name''),
      (''viewed'', Text ''Recently viewed by me''),
      (''refreshed'', Text ''Recently refreshed spec'')]),
     (''show'', Text ''Show only''),
     (''status'', Group [
      (''favorites'', Text ''My favorites''),
      (''invoke'', Text ''I can try''),
      (''manage'', Text ''I manage''),
      (''specError'', Text ''Spec problem''),
      (''specStale'', Text ''Spec older than 7 days''),
      (''inactive'', Text ''Inactive'')]),
     (''favorites'', Text ''Favorites''),
     (''recent'', Text ''Recently viewed''),
     (''favorite'', Text ''Add {{name}} to favorites''),
     (''unfavorite'', Text ''Remove {{name}} from favorites''),
     (''addFavorite'', Text ''Add to favorites''),
     (''favorited'', Text ''In favorites''),
     (''favoriteFailed'', Text ''The favorite could not be saved.''),
     (''operations'', Text ''Operations''),
     (''operationsFound_one'', Text ''{{count}} operation''),
     (''operationsFound_other'', Text ''{{count}} operations''),
     (''operationsMany'', Text ''{{count}}+ operations''),
     (''showAllOperations'', Text ''Show all {{count}}''),
     (''refineSearch'', Text ''Only the best 50 matches are shown; add a word to narrow the search.''),
     (''noOperations'', Text ''No documented operation matches.''),
     (''deprecated'', Text ''Deprecated''),
     (''emptyTitle'', Text ''No APIs available to you yet''),
     (''emptyBody'', Text ''APIs appear here once an administrator or an API owner gives you access. Ask your administrator if you need one.''),
     (''emptyBodyAdmin'', Text ''Register the first API with its internal OpenAPI and base URL.'')]"

definition en_catalog_part2 :: "(string \<times> message) list" where
  "en_catalog_part2 =
    [(''addFirst'', Text ''Add the first API''),
     (''noMatchTitle'', Text ''No APIs match''),
     (''noMatchBody'', Text ''Try another search, or clear the filters.''),
     (''inactive'', Text ''Inactive''),
     (''noDescription'', Text ''No description.''),
     (''owner'', Text ''Owner''),
     (''unassigned'', Text ''Unassigned''),
     (''access'', Text ''Access''),
     (''slug'', Text ''Slug''),
     (''name'', Text ''Name''),
     (''version'', Text ''Version''),
     (''operationsShort'', Text ''Operations''),
     (''specColumn'', Text ''Spec''),
     (''operationCount_one'', Text ''{{count}} operation''),
     (''operationCount_other'', Text ''{{count}} operations''),
     (''moreTags'', Text ''+{{count}}''),
     (''tryApi'', Text ''Try {{name}}''),
     (''spec'', Group [
      (''ok'', Text ''Spec {{when}}''),
      (''stale'', Text ''Spec {{when}}''),
      (''error'', Text ''Spec error''),
      (''missing'', Text ''No spec yet'')]),
     (''accessLevel'', Group [
      (''manage'', Text ''Manage''),
      (''invoke'', Text ''View and invoke''),
      (''view'', Text ''View only''),
      (''none'', Text ''Restricted'')])]"

definition en_catalog :: "(string \<times> message) list" where
  "en_catalog = [(''catalog'', Group (en_catalog_part1 @ en_catalog_part2))]"

definition en_api_part1 :: "(string \<times> message) list" where
  "en_api_part1 =
    [(''curlCopied'', Text ''cURL command copied.''),
     (''copyFailed'', Text ''Could not copy to the clipboard.''),
     (''title'', Text ''API''),
     (''operations'', Text ''Operations''),
     (''sections'', Text ''API sections''),
     (''tryIt'', Text ''Try it''),
     (''documentation'', Text ''Documentation''),
     (''details'', Text ''Details''),
     (''filterOperations'', Text ''Filter operations''),
     (''noOperations'', Text ''No documented operations''),
     (''noOperationsBody'', Text ''The OpenAPI document has no operations the portal could read.''),
     (''noOperationMatch'', Text ''No operation matches.''),
     (''untagged'', Text ''Other''),
     (''specRefreshed'', Text ''Spec {{when}}''),
     (''neverRefreshed'', Text ''Spec never refreshed''),
     (''allowedMethods'', Text ''Allowed methods''),
     (''allowedPaths'', Text ''Allowed path prefixes''),
     (''allDocumentedMethods'', Text ''All documented methods''),
     (''allDocumentedPaths'', Text ''All documented paths''),
     (''rateLimit'', Text ''Rate limit''),
     (''perMinute_one'', Text ''{{count}} call per minute''),
     (''perMinute_other'', Text ''{{count}} calls per minute''),
     (''defaultLimit'', Text ''Portal default''),
     (''lastRefresh'', Text ''Spec last refreshed''),
     (''tryItOff'', Text ''Try it is turned off on this portal.''),
     (''tryItNotAllowed'', Text ''You may read this API~2019s documentation but not call it, or calls are disabled for this API.''),
     (''accept'', Text ''Accept''),
     (''acceptHelper'', Text ''From the documented responses.''),
     (''contentType'', Text ''Content-Type''),
     (''contentTypeHelper'', Text ''From the documented request bodies.''),
     (''pathParameters'', Text ''Path parameters''),
     (''queryParameters'', Text ''Query parameters''),
     (''headerParameters'', Text ''Header parameters''),
     (''paramRequired'', Text ''{{name}} is required.''),
     (''requestBody'', Text ''Request body''),
     (''requestBodyHelper'', Text ''Prefilled from the OpenAPI example when there is one.''),
     (''extraHeaders'', Text ''Additional headers''),
     (''extraHeadersHelper'', Text ''One per line: Header-Name: value. Only headers this API allows are sent.''),
     (''send'', Text ''Send request''),
     (''sendFailed'', Text ''The request could not be sent''),
     (''response'', Text ''Response''),
     (''body'', Text ''Body''),
     (''emptyBody'', Text ''(empty body)''),
     (''bytes_one'', Text ''{{count}} byte''),
     (''bytes_other'', Text ''{{count}} bytes''),
     (''truncated'', Text ''Body truncated''),
     (''rateLeft'', Text ''{{remaining}} of {{limit}}/min left''),
     (''responseHeaders'', Text ''Response headers''),
     (''header'', Text ''Header'')]"

definition en_api_part2 :: "(string \<times> message) list" where
  "en_api_part2 =
    [(''value'', Text ''Value''),
     (''noResponseYet'', Text ''No response yet''),
     (''noResponseYetBody'', Text ''Fill in the parameters and send the request; the answer appears here.''),
     (''tabs'', Group [
      (''overview'', Text ''Overview''),
      (''reference'', Text ''Reference''),
      (''classic'', Text ''Classic''),
      (''access'', Text ''Access''),
      (''activity'', Text ''Activity'')]),
     (''spec'', Text ''Spec''),
     (''downloadJson'', Text ''Download JSON''),
     (''downloadYaml'', Text ''Download YAML''),
     (''openClassic'', Text ''Classic view (Swagger UI)''),
     (''more'', Text ''More actions''),
     (''editDefinition'', Text ''Edit definition''),
     (''deprecatedGroup'', Text ''Deprecated''),
     (''operationCount_one'', Text ''{{count}} operation''),
     (''operationCount_other'', Text ''{{count}} operations''),
     (''operationNotFound'', Text ''Operation not found''),
     (''operationNotFoundBody'', Text ''~201c{{key}}~201d is not in the current spec. It may have been renamed or removed.''),
     (''firstOperation'', Text ''Open the first operation''),
     (''panes'', Text ''Documentation or try it''),
     (''showConsole'', Text ''Show the try-it console''),
     (''hideConsole'', Text ''Hide the try-it console''),
     (''copyPath'', Text ''Copy path''),
     (''parameters'', Text ''Parameters''),
     (''paramName'', Text ''Name''),
     (''paramIn'', Text ''In''),
     (''paramType'', Text ''Type''),
     (''paramDescription'', Text ''Description''),
     (''in'', Group [
      (''path'', Text ''path''),
      (''query'', Text ''query''),
      (''header'', Text ''header''),
      (''cookie'', Text ''cookie'')]),
     (''required'', Text ''Required''),
     (''responses'', Text ''Responses''),
     (''noResponses'', Text ''No responses are documented.''),
     (''noDescription'', Text ''No description.''),
     (''noBody'', Text ''No body.''),
     (''noSchema'', Text ''No schema documented.''),
     (''example'', Text ''Example''),
     (''contentTypes'', Text ''{{what}} content types''),
     (''responseBody'', Text ''Response body ({{status}})''),
     (''headerInjected'', Text ''added by the portal''),
     (''headerNotForwarded'', Text ''Not forwarded by the portal (not on this API~2019s header allow-list).''),
     (''security'', Group [
      (''title'', Text ''Authentication''),
      (''apiKey'', Text ''API key {{name}} in the {{in}}''),
      (''http'', Text ''HTTP {{scheme}} (Authorization header)''),
      (''other'', Text ''{{type}}''),
      (''portal'', Text ''the portal adds it for you''),
      (''user'', Text ''send it under Headers''),
      (''blocked'', Text ''the portal does not forward it; ask the API~2019s owners''),
      (''unknown'', Text ''see the API~2019s documentation'')]),
     (''tryItOffTitle'', Text ''Try it is off''),
     (''noInvokeTitle'', Text ''You may read, not call this API''),
     (''noInvoke'', Text ''Ask the API~2019s owners for invoke access if you need to call it.'')]"

definition en_api_part3 :: "(string \<times> message) list" where
  "en_api_part3 =
    [(''tryItDisabledTitle'', Text ''Calls are disabled for this API''),
     (''tryItDisabled'', Text ''Its managers turned try-it off or the API is inactive.''),
     (''toSend'', Text ''to send''),
     (''groups'', Group [
      (''path'', Text ''Path parameters''),
      (''query'', Text ''Query parameters''),
      (''header'', Text ''Header parameters'')]),
     (''headers'', Text ''Headers''),
     (''injectedHeaders'', Text ''Headers the portal adds''),
     (''headerName'', Text ''Header {{index}} name''),
     (''headerValue'', Text ''Header {{index}} value''),
     (''removeHeader'', Text ''Remove header {{index}}''),
     (''addHeader'', Text ''Add header''),
     (''allowedHeadersList'', Text ''Forwarded besides the standard ones: {{list}}''),
     (''noExtraHeaders'', Text ''This API forwards only the standard headers (Content-Type, Accept, Accept-Language, User-Agent).''),
     (''notSet'', Text ''~2014 not set ~2014''),
     (''dateTimeHint'', Text ''RFC 3339, e.g. 2026-01-31T09:30:00Z''),
     (''resetExample'', Text ''Reset to the example''),
     (''format'', Text ''Format''),
     (''validation'', Group [
      (''required'', Text ''{{name}} is required.''),
      (''integer'', Text ''{{name}} must be a whole number.''),
      (''number'', Text ''{{name}} must be a number.''),
      (''boolean'', Text ''{{name}} must be true or false.''),
      (''enum'', Text ''{{name}} must be one of the listed values.''),
      (''json'', Text ''The request body is not valid JSON.'')]),
     (''sending'', Text ''Sending the request~2026''),
     (''cancelled'', Text ''Request cancelled.''),
     (''responseReceived'', Text ''Response received: {{status}}, {{ms}} ms''),
     (''errors'', Group [
      (''rateLimitedTitle'', Text ''Rate limit reached''),
      (''rateLimited'', Text ''You can send again in {{time}}.''),
      (''forbiddenTitle'', Text ''You may not call this API''),
      (''timeoutTitle'', Text ''The API did not answer in time''),
      (''timeout'', Text ''No answer within {{seconds}} seconds. The API may be slow or down.''),
      (''unreachableTitle'', Text ''The API could not be reached''),
      (''unreachable'', Text ''The portal could not connect to the API. It may be down or moved; its owners can check.''),
      (''policyTitle'', Text ''Not allowed through the portal''),
      (''allowedPaths'', Text ''Allowed paths: {{list}}''),
      (''allowedMethods'', Text ''Allowed methods: {{list}}'')]),
     (''responseViews'', Text ''Response views''),
     (''views'', Group [
      (''pretty'', Text ''Pretty''),
      (''tree'', Text ''Tree''),
      (''raw'', Text ''Raw''),
      (''headers'', Text ''Headers ({{count}})'')]),
     (''searchHint'', Text ''Search inside: click into the body, then ~2318F / Ctrl+F.''),
     (''download'', Text ''Download''),
     (''snippets'', Text ''Code''),
     (''snippetsViewer'', Text ''The same request from your machine. Set BASE_URL to the API~2019s address; secrets and headers the portal adds are placeholders.''),
     (''snippetsManager'', Text ''The same request against the API~2019s internal address (you manage this API). Secrets are placeholders.''),
     (''history'', Text ''History''),
     (''clearHistory'', Text ''Clear'')]"

definition en_api_part4 :: "(string \<times> message) list" where
  "en_api_part4 =
    [(''noHistory'', Text ''Requests you send appear here (this browser only).''),
     (''saveDetails'', Text ''Keep parameter values and bodies''),
     (''saveDetailsHelper'', Text ''Off: only status and time are kept. Header values are never kept.''),
     (''restore'', Text ''Load again''),
     (''noDetailsSaved'', Text ''values not kept''),
     (''timeout'', Text ''Timeout''),
     (''seconds_one'', Text ''{{count}} second''),
     (''seconds_other'', Text ''{{count}} seconds''),
     (''overview'', Group [
      (''groups'', Text ''Operations by tag''),
      (''facts'', Text ''About''),
      (''download'', Text ''Download the spec'')]),
     (''classicNote'', Text ''The classic Swagger UI view, kept while you get used to the reference. Requests are sent from the Reference tab.''),
     (''accessSaved'', Text ''Access saved.''),
     (''activity'', Group [
      (''specHistory'', Text ''Spec changes''),
      (''specHistoryBody'', Text ''What changed each time the spec did, and failed refreshes.''),
      (''noHistory'', Text ''No changes recorded yet.''),
      (''kind'', Group [
        (''initial'', Text ''First indexed''),
        (''changed'', Text ''Spec changed''),
        (''failed'', Text ''Refresh failed'')]),
      (''added_one'', Text ''{{count}} added''),
      (''added_other'', Text ''{{count}} added''),
      (''removed_one'', Text ''{{count}} removed''),
      (''removed_other'', Text ''{{count}} removed''),
      (''changed_one'', Text ''{{count}} changed''),
      (''changed_other'', Text ''{{count}} changed''),
      (''more'', Text ''~2026 and {{count}} more''),
      (''calls'', Text ''Recent calls''),
      (''callsBody'', Text ''The last 20 try-it calls (from the audit log).''),
      (''noCalls'', Text ''No calls yet.'')])]"

definition en_api :: "(string \<times> message) list" where
  "en_api = [(''api'', Group (en_api_part1 @ en_api_part2 @ en_api_part3 @ en_api_part4))]"

definition en_json :: "(string \<times> message) list" where
  "en_json =
    [(''json'', Group [
      (''items_one'', Text ''{{count}} item''),
      (''items_other'', Text ''{{count}} items''),
      (''more_one'', Text ''Show {{count}} more''),
      (''more_other'', Text ''Show {{count}} more'')])]"

definition en_schema :: "(string \<times> message) list" where
  "en_schema =
    [(''schema'', Group [
      (''any'', Text ''any''),
      (''circular'', Text ''circular''),
      (''collapse'', Text ''Collapse {{name}}''),
      (''expand'', Text ''Expand {{name}}''),
      (''default'', Text ''default''),
      (''oneOf'', Text ''One of:''),
      (''oneOfValues'', Text ''One of''),
      (''readOnly'', Text ''read-only''),
      (''writeOnly'', Text ''write-only''),
      (''required'', Text ''required''),
      (''variant'', Text ''Variant {{n}}'')])]"

end
