(* ===== verification/I18n_Tr.thy ===== *)
theory I18n_Tr
  imports I18n_Base
begin

text \<open>
  \<open>i18n/tr.ts\<close>: the Turkish texts, section by section.
\<close>

definition tr_common :: "(string \<times> message) list" where
  "tr_common =
    [(''common'', Group [
      (''opensInNewTab'', Text ''yeni sekmede a~00e7~0131l~0131r''),
      (''save'', Text ''Kaydet''),
      (''cancel'', Text ''Vazge~00e7''),
      (''delete'', Text ''Sil''),
      (''close'', Text ''Kapat''),
      (''retry'', Text ''Tekrar dene''),
      (''refresh'', Text ''Yenile''),
      (''loading'', Text ''Y~00fckleniyor~2026''),
      (''copy'', Text ''Kopyala''),
      (''copied'', Text ''Kopyaland~0131''),
      (''optional'', Text ''iste~011fe ba~011fl~0131''),
      (''on'', Text ''A~00e7~0131k''),
      (''off'', Text ''Kapal~0131''),
      (''active'', Text ''Etkin''),
      (''inactive'', Text ''Pasif''),
      (''enabled'', Text ''A~00e7~0131k''),
      (''disabled'', Text ''Kapal~0131''),
      (''actions'', Text ''~0130~015flemler''),
      (''noResponse'', Text ''Yan~0131t yok'')])]"

definition tr_nav :: "(string \<times> message) list" where
  "tr_nav =
    [(''nav'', Group [
      (''catalog'', Text ''API Katalo~011fu''),
      (''admin'', Text ''Y~00f6netim'')])]"

definition tr_shell :: "(string \<times> message) list" where
  "tr_shell =
    [(''shell'', Group [
      (''skipToContent'', Text ''~0130~00e7eri~011fe ge~00e7''),
      (''mainNavigation'', Text ''Ana gezinme''),
      (''menu'', Text ''Men~00fc''),
      (''openMenu'', Text ''Men~00fcy~00fc a~00e7''),
      (''showPanel'', Text ''{{panel}} panelini g~00f6ster''),
      (''hidePanel'', Text ''{{panel}} panelini gizle''),
      (''searchLabel'', Text ''API ve operasyon ara''),
      (''searchPlaceholder'', Text ''API ve operasyon ara~2026''),
      (''theme'', Text ''Tema''),
      (''themeCurrent'', Text ''Tema: {{theme}}''),
      (''language'', Text ''Dil''),
      (''languageCurrent'', Text ''Dil: {{language}}''),
      (''userMenu'', Text ''{{user}} hesap men~00fcs~00fc''),
      (''account'', Text ''Hesab~0131m''),
      (''mySessions'', Text ''Oturumlar~0131m''),
      (''changePassword'', Text ''Parola de~011fi~015ftir''),
      (''signOut'', Text ''~00c7~0131k~0131~015f yap''),
      (''help'', Text ''Yard~0131m ve k~0131sayollar''),
      (''breadcrumb'', Text ''Konum'')])]"

definition tr_theme :: "(string \<times> message) list" where
  "tr_theme =
    [(''theme'', Group [
      (''light'', Text ''A~00e7~0131k''),
      (''dark'', Text ''Koyu''),
      (''system'', Text ''Sistem'')])]"

definition tr_language :: "(string \<times> message) list" where
  "tr_language =
    [(''language'', Group [
      (''en'', Text ''English''),
      (''tr'', Text ''T~00fcrk~00e7e'')])]"

definition tr_authSource :: "(string \<times> message) list" where
  "tr_authSource =
    [(''authSource'', Group [
      (''local'', Text ''Yerel''),
      (''ldap'', Text ''LDAP''),
      (''azuread'', Text ''Azure AD'')])]"

definition tr_help :: "(string \<times> message) list" where
  "tr_help =
    [(''help'', Group [
      (''version'', Text ''S~00fcr~00fcm {{version}}''),
      (''title'', Text ''Klavye k~0131sayollar~0131''),
      (''description'', Text ''Her ~015fey klavyeyle kullan~0131labilir. Tek tu~015flu k~0131sayollar bir alana yazarken devre d~0131~015f~0131d~0131r.''),
      (''everywhere'', Text ''Her yerde''),
      (''onPages'', Text ''Sayfalarda ve panellerde''),
      (''tryIt'', Text ''Try it''),
      (''palette'', Text ''Komut paleti: API~2019ler, operasyonlar, sayfalar, eylemler''),
      (''focusSearch'', Text ''Bu sayfada ara (veya API ve operasyon ara)''),
      (''showHelp'', Text ''Bu k~0131sayollar~0131 g~00f6ster''),
      (''goCatalog'', Text ''Katalo~011fa git''),
      (''goAdmin'', Text ''Y~00f6netim konsoluna git''),
      (''skipToContent'', Text ''~0130~00e7eri~011fe ge~00e7 (sayfada ilk)''),
      (''closeOverlay'', Text ''Pencere, men~00fc veya paneli kapat''),
      (''tabs'', Text ''~00d6nceki / sonraki sekme''),
      (''moveInLists'', Text ''Sat~0131rlarda, kartlarda veya operasyonlarda gezin; a~00e7''),
      (''pages'', Text ''Tablonun sonraki / ~00f6nceki sayfas~0131''),
      (''deleteRow'', Text ''Odaktaki sat~0131r~0131 sil (~00f6nce sorar)''),
      (''favorite'', Text ''A~00e7~0131k API~2019yi favorilere ekle veya ~00e7~0131kar''),
      (''send'', Text ''~0130ste~011fi g~00f6nder''),
      (''copyCurl'', Text ''~0130ste~011fi cURL olarak kopyala''),
      (''layoutNote'', Text ''Tu~015flar T~00fcrk~00e7e ve di~011fer d~00fczenlerde de ~00e7al~0131~015f~0131r: [ ] / AltGr veya Shift ile yaz~0131labilir ya da ABD klavyesindeki yerlerine bas~0131labilir.'')])]"

definition tr_palette :: "(string \<times> message) list" where
  "tr_palette =
    [(''palette'', Group [
      (''choose'', Text ''a~00e7''),
      (''title'', Text ''Komut paleti''),
      (''open'', Text ''Komut paleti''),
      (''inputLabel'', Text ''Komut, API ve operasyon ara''),
      (''placeholder'', Text ''Bir API~2019ye, operasyona veya sayfaya git ya da bir eylem ~00e7al~0131~015ft~0131r~2026''),
      (''results'', Text ''Sonu~00e7lar''),
      (''empty'', Text ''E~015fle~015fen bir ~015fey yok.''),
      (''move'', Text ''gezin''),
      (''allShortcuts'', Text ''t~00fcm k~0131sayollar''),
      (''count_one'', Text ''{{count}} sonu~00e7''),
      (''count_other'', Text ''{{count}} sonu~00e7''),
      (''groups'', Group [
        (''recent'', Text ''Son kullan~0131lanlar''),
        (''apis'', Text ''API~2019ler''),
        (''operations'', Text ''Operasyonlar''),
        (''navigate'', Text ''Git''),
        (''actions'', Text ''Eylemler'')]),
      (''backTo'', Text ''{{name}} sayfas~0131na d~00f6n''),
      (''themeLight'', Text ''Tema: a~00e7~0131k''),
      (''themeDark'', Text ''Tema: koyu''),
      (''themeSystem'', Text ''Tema: sistemi izle''),
      (''shortcuts'', Text ''Klavye k~0131sayollar~0131n~0131 g~00f6ster'')])]"

definition tr_shortcuts :: "(string \<times> message) list" where
  "tr_shortcuts =
    [(''shortcuts'', Group [
      (''hint'', Text ''K~0131sayol: {{key}}'')])]"

definition tr_session :: "(string \<times> message) list" where
  "tr_session =
    [(''session'', Group [
      (''expired'', Text ''Oturumunuz sona erdi. Devam etmek i~00e7in yeniden giri~015f yap~0131n.'')])]"

definition tr_warnings :: "(string \<times> message) list" where
  "tr_warnings =
    [(''warnings'', Group [
      (''encryption_key_in_database'', Text ''Kay~0131tl~0131 LDAP ve Azure AD gizli bilgileri, veritaban~0131n~0131n kendisinde tutulan bir anahtarla ~015fifreleniyor. DATA_ENCRYPTION_KEY (veya DATA_ENCRYPTION_KEY_FILE) de~011ferini bir secret deposundan verin; README~2019ye bak~0131n.'')])]"

definition tr_errors :: "(string \<times> message) list" where
  "tr_errors =
    [(''errors'', Group [
      (''loadFailedTitle'', Text ''Bu i~00e7erik y~00fcklenemedi''),
      (''startFailedTitle'', Text ''Portal ba~015flat~0131lamad~0131''),
      (''forbiddenTitle'', Text ''Buna eri~015fim yetkiniz yok''),
      (''forbiddenBody'', Text ''Gerekiyorsa bir y~00f6neticiden yetki isteyin.''),
      (''notFoundTitle'', Text ''Sayfa bulunamad~0131''),
      (''notFoundBody'', Text ''Adres yanl~0131~015f yaz~0131lm~0131~015f ya da sayfa kald~0131r~0131lm~0131~015f olabilir.''),
      (''networkTitle'', Text ''Portala ula~015f~0131lam~0131yor''),
      (''networkBody'', Text ''Ba~011flant~0131n~0131z~0131 kontrol edip tekrar deneyin.''),
      (''crashTitle'', Text ''Bir ~015feyler ters gitti''),
      (''crashBody'', Text ''Sayfay~0131 yenileyin. Sorun s~00fcrerse a~015fa~011f~0131daki ayr~0131nt~0131lar~0131 bir y~00f6neticiye iletin.''),
      (''unknown'', Text ''Beklenmeyen bir hata olu~015ftu.''),
      (''details'', Text ''Ayr~0131nt~0131lar''),
      (''requestId'', Text ''~0130stek kimli~011fi''),
      (''reload'', Text ''Sayfay~0131 yenile''),
      (''backToCatalog'', Text ''Katalo~011fa d~00f6n'')])]"

definition tr_form :: "(string \<times> message) list" where
  "tr_form =
    [(''form'', Group [
      (''errorSummary_one'', Text ''Devam etmek i~00e7in {{count}} sorunu d~00fczeltin:''),
      (''errorSummary_other'', Text ''Devam etmek i~00e7in {{count}} sorunu d~00fczeltin:'')])]"

definition tr_confirm :: "(string \<times> message) list" where
  "tr_confirm =
    [(''confirm'', Group [
      (''typeToConfirm'', Text ''Onaylamak i~00e7in ~015funu yaz~0131n:'')])]"

definition tr_combobox :: "(string \<times> message) list" where
  "tr_combobox =
    [(''combobox'', Group [
      (''placeholder'', Text ''Se~00e7in~2026''),
      (''options'', Text ''Se~00e7enekler''),
      (''noOptions'', Text ''Se~00e7enek yok''),
      (''add'', Text ''~201c{{value}}~201d ekle''),
      (''remove'', Text ''{{item}} kald~0131r'')])]"

definition tr_table :: "(string \<times> message) list" where
  "tr_table =
    [(''table'', Group [
      (''selectAll'', Text ''Bu sayfadaki t~00fcm sat~0131rlar~0131 se~00e7''),
      (''selectRow'', Text ''{{row}} se~00e7''),
      (''rowsPerPage'', Text ''Sayfa ba~015f~0131na sat~0131r''),
      (''range'', Text ''{{from}}~2013{{to}} / {{total}}''),
      (''previous'', Text ''~00d6nceki''),
      (''next'', Text ''Sonraki'')])]"

definition tr_password :: "(string \<times> message) list" where
  "tr_password =
    [(''password'', Group [
      (''show'', Text ''Parolay~0131 g~00f6ster''),
      (''hide'', Text ''Parolay~0131 gizle''),
      (''capsLock'', Text ''Caps Lock a~00e7~0131k'')])]"

definition tr_login :: "(string \<times> message) list" where
  "tr_login =
    [(''login'', Group [
      (''title'', Text ''Giri~015f''),
      (''subtitle'', Text ''Devam etmek i~00e7in giri~015f yap~0131n''),
      (''username'', Text ''Kullan~0131c~0131 ad~0131''),
      (''usernameLdapHelper'', Text ''Dizin (LDAP) hesab~0131n~0131z veya portal~0131n yerel hesab~0131.''),
      (''usernameRequired'', Text ''Kullan~0131c~0131 ad~0131n~0131z~0131 girin.''),
      (''password'', Text ''Parola''),
      (''passwordRequired'', Text ''Parolan~0131z~0131 girin.''),
      (''signIn'', Text ''Giri~015f yap''),
      (''microsoft'', Text ''Microsoft ile giri~015f yap''),
      (''or'', Text ''veya''),
      (''invalidCredentials'', Text ''Kullan~0131c~0131 ad~0131 veya parola hatal~0131.''),
      (''failed'', Text ''Giri~015f yap~0131lamad~0131. Tekrar deneyin.''),
      (''lockedTitle'', Text ''~00c7ok fazla hatal~0131 deneme''),
      (''lockedBody'', Text ''Bu hesap i~00e7in giri~015f ge~00e7ici olarak durduruldu. {{time}} sonra tekrar deneyin.''),
      (''authErrors'', Group [
        (''azure_not_configured'', Text ''Microsoft ile giri~015f a~00e7~0131k de~011fil.''),
        (''azure_state'', Text ''Microsoft giri~015fi ~00e7ok uzun s~00fcrd~00fc ya da ba~015fka bir sekmede ba~015flat~0131ld~0131. Tekrar deneyin.''),
        (''azure_denied'', Text ''Microsoft giri~015fi iptal edildi veya reddedildi.''),
        (''azure_failed'', Text ''Microsoft ile giri~015f ba~015far~0131s~0131z oldu. Tekrar deneyin; s~00fcrerse bir y~00f6neticiye ba~015fvurun.''),
        (''azure_groups'', Text ''Microsoft hesab~0131n~0131z bu portal~0131 kullanabilecek bir grupta de~011fil. Bir y~00f6neticiye ba~015fvurun.''),
        (''account_disabled'', Text ''Portal hesab~0131n~0131z devre d~0131~015f~0131. Bir y~00f6neticiye ba~015fvurun.'')])])]"

definition tr_account :: "(string \<times> message) list" where
  "tr_account =
    [(''account'', Group [
      (''title'', Text ''Hesab~0131m''),
      (''description'', Text ''Profiliniz, parolan~0131z ve oturum a~00e7t~0131~011f~0131n~0131z cihazlar.''),
      (''profile'', Text ''Profil''),
      (''username'', Text ''Kullan~0131c~0131 ad~0131''),
      (''displayName'', Text ''G~00f6r~00fcnen ad''),
      (''email'', Text ''E-posta''),
      (''authSource'', Text ''Giri~015f y~00f6ntemi''),
      (''role'', Text ''Rol''),
      (''administrator'', Text ''Y~00f6netici''),
      (''member'', Text ''~00dcye''),
      (''changePassword'', Text ''Parola''),
      (''passwordManagedBy'', Text ''Parolan~0131z {{source}} taraf~0131ndan y~00f6netiliyor; oradan de~011fi~015ftirin.''),
      (''currentPassword'', Text ''Mevcut parola''),
      (''newPassword'', Text ''Yeni parola''),
      (''confirmPassword'', Text ''Yeni parola (tekrar)''),
      (''currentRequired'', Text ''Mevcut parolan~0131z~0131 girin.''),
      (''currentWrong'', Text ''Mevcut parola hatal~0131.''),
      (''rulesTitle'', Text ''Parola kurallar~0131''),
      (''ruleLength_one'', Text ''En az {{count}} karakter''),
      (''ruleLength_other'', Text ''En az {{count}} karakter''),
      (''ruleUsername'', Text ''Kullan~0131c~0131 ad~0131n~0131z~0131 i~00e7ermiyor''),
      (''ruleMatch'', Text ''~0130ki yeni parola alan~0131 ayn~0131''),
      (''ruleCommon'', Text ''Yayg~0131n kullan~0131lan parolalar kabul edilmez.''),
      (''ruleMet'', Text ''kar~015f~0131land~0131''),
      (''ruleNotMet'', Text ''hen~00fcz kar~015f~0131lanmad~0131''),
      (''updatePassword'', Text ''Parolay~0131 g~00fcncelle''),
      (''passwordChanged'', Text ''Parola g~00fcncellendi.''),
      (''passwordChangedRevoked_one'', Text ''Parola g~00fcncellendi. Di~011fer {{count}} oturum kapat~0131ld~0131.''),
      (''passwordChangedRevoked_other'', Text ''Parola g~00fcncellendi. Di~011fer {{count}} oturum kapat~0131ld~0131.''),
      (''passwordFailed'', Text ''Parola g~00fcncellenemedi.''),
      (''forcedTitle'', Text ''Yeni parola belirleyin''),
      (''forcedDescription'', Text ''Parolan~0131z~0131 bir y~00f6netici belirledi ya da bu ilk giri~015finiz. Devam etmek i~00e7in yeni bir parola se~00e7in.''),
      (''sessions'', Text ''Oturum a~00e7~0131lan cihazlar''),
      (''sessionsDescription'', Text ''Tan~0131mad~0131~011f~0131n~0131z ya da art~0131k kullanmad~0131~011f~0131n~0131z cihazlardan ~00e7~0131k~0131~015f yap~0131n.''),
      (''signOut'', Text ''~00c7~0131k~0131~015f yap''),
      (''signOutOthers'', Text ''Di~011fer cihazlardan ~00e7~0131k~0131~015f yap''),
      (''signOutOthersTitle'', Text ''Di~011fer cihazlardan ~00e7~0131k~0131~015f yap~0131ls~0131n m~0131?''),
      (''signOutOthersBody_one'', Text ''Di~011fer {{count}} cihazda yeniden giri~015f yapmak gerekecek.''),
      (''signOutOthersBody_other'', Text ''Di~011fer {{count}} cihazda yeniden giri~015f yapmak gerekecek.''),
      (''otherSessionsEnded_one'', Text ''Di~011fer {{count}} cihazdan ~00e7~0131k~0131~015f yap~0131ld~0131.''),
      (''otherSessionsEnded_other'', Text ''Di~011fer {{count}} cihazdan ~00e7~0131k~0131~015f yap~0131ld~0131.''),
      (''sessionEnded'', Text ''Cihazdan ~00e7~0131k~0131~015f yap~0131ld~0131.''),
      (''sessionEndFailed'', Text ''Cihazdan ~00e7~0131k~0131~015f yap~0131lamad~0131.''),
      (''thisBrowser'', Text ''Bu taray~0131c~0131''),
      (''unknownAddress'', Text ''bilinmeyen adres''),
      (''sessionMeta'', Text ''{{ip}} ~00b7 son etkinlik {{active}} ~00b7 giri~015f {{signedIn}}''),
      (''browser'', Text ''Taray~0131c~0131''),
      (''deviceOn'', Text ''{{os}} ~00fczerinde {{browser}}'')])]"

definition tr_catalog_part1 :: "(string \<times> message) list" where
  "tr_catalog_part1 =
    [(''title'', Text ''API Katalo~011fu''),
     (''description'', Text ''Kullanabilece~011finiz i~00e7 API~2019ler. Dok~00fcmantasyonu g~00f6rmek ve denemek i~00e7in birini a~00e7~0131n.''),
     (''filters'', Text ''Filtreler''),
     (''tags'', Text ''Etiketler''),
     (''noTags'', Text ''Hen~00fcz etiket yok.''),
     (''clearFilters'', Text ''Filtreleri temizle''),
     (''clearAll'', Text ''T~00fcm~00fcn~00fc temizle''),
     (''activeFilters'', Text ''Etkin filtreler''),
     (''removeFilter'', Text ''{{filter}} filtresini kald~0131r''),
     (''count_one'', Text ''{{count}} API''),
     (''count_other'', Text ''{{count}} API''),
     (''allApis_one'', Text ''{{count}} API''),
     (''allApis_other'', Text ''T~00fcm API~2019ler ({{count}})''),
     (''apisFiltered_one'', Text ''API~2019ler: {{total}} i~00e7inden {{count}}''),
     (''apisFiltered_other'', Text ''API~2019ler: {{total}} i~00e7inden {{count}}''),
     (''specProblems_one'', Text ''{{count}} spec sorunu''),
     (''specProblems_other'', Text ''{{count}} spec sorunu''),
     (''layout'', Text ''G~00f6r~00fcn~00fcm''),
     (''grid'', Text ''Kartlar''),
     (''list'', Text ''Tablo''),
     (''sort'', Text ''S~0131ralama''),
     (''sorts'', Group [
      (''name'', Text ''Ad''),
      (''viewed'', Text ''Son bakt~0131klar~0131m''),
      (''refreshed'', Text ''Spec~2019i son yenilenen'')]),
     (''show'', Text ''Yaln~0131z g~00f6ster''),
     (''status'', Group [
      (''favorites'', Text ''Favorilerim''),
      (''invoke'', Text ''Deneyebildiklerim''),
      (''manage'', Text ''Y~00f6nettiklerim''),
      (''specError'', Text ''Spec sorunu''),
      (''specStale'', Text ''Spec~2019i 7 g~00fcnden eski''),
      (''inactive'', Text ''Pasif'')]),
     (''favorites'', Text ''Favoriler''),
     (''recent'', Text ''Son g~00f6r~00fcnt~00fclenenler''),
     (''favorite'', Text ''{{name}} API~2019sini favorilere ekle''),
     (''unfavorite'', Text ''{{name}} API~2019sini favorilerden ~00e7~0131kar''),
     (''addFavorite'', Text ''Favorilere ekle''),
     (''favorited'', Text ''Favorilerde''),
     (''favoriteFailed'', Text ''Favori kaydedilemedi.''),
     (''operations'', Text ''Operasyonlar''),
     (''operationsFound_one'', Text ''{{count}} operasyon''),
     (''operationsFound_other'', Text ''{{count}} operasyon''),
     (''operationsMany'', Text ''{{count}}+ operasyon''),
     (''showAllOperations'', Text ''{{count}} sonucun t~00fcm~00fcn~00fc g~00f6ster''),
     (''refineSearch'', Text ''Yaln~0131z en iyi 50 e~015fle~015fme g~00f6steriliyor; aramay~0131 daraltmak i~00e7in bir kelime ekleyin.''),
     (''noOperations'', Text ''E~015fle~015fen belgelenmi~015f operasyon yok.''),
     (''deprecated'', Text ''Kullan~0131mdan kalk~0131yor''),
     (''emptyTitle'', Text ''Hen~00fcz eri~015febildi~011finiz bir API yok''),
     (''emptyBody'', Text ''Bir y~00f6netici ya da API sahibi eri~015fim verdi~011finde API~2019ler burada g~00f6r~00fcn~00fcr. ~0130htiyac~0131n~0131z varsa y~00f6neticinize ba~015fvurun.''),
     (''emptyBodyAdmin'', Text ''~0130lk API~2019yi i~00e7 OpenAPI ve temel URL~2019iyle kaydedin.'')]"

definition tr_catalog_part2 :: "(string \<times> message) list" where
  "tr_catalog_part2 =
    [(''addFirst'', Text ''~0130lk API~2019yi ekle''),
     (''noMatchTitle'', Text ''E~015fle~015fen API yok''),
     (''noMatchBody'', Text ''Ba~015fka bir arama deneyin ya da filtreleri temizleyin.''),
     (''inactive'', Text ''Pasif''),
     (''noDescription'', Text ''A~00e7~0131klama yok.''),
     (''owner'', Text ''Sahip''),
     (''unassigned'', Text ''Atanmam~0131~015f''),
     (''access'', Text ''Eri~015fim''),
     (''slug'', Text ''K~0131sa ad''),
     (''name'', Text ''Ad''),
     (''version'', Text ''S~00fcr~00fcm''),
     (''operationsShort'', Text ''Operasyon''),
     (''specColumn'', Text ''Spec''),
     (''operationCount_one'', Text ''{{count}} operasyon''),
     (''operationCount_other'', Text ''{{count}} operasyon''),
     (''moreTags'', Text ''+{{count}}''),
     (''tryApi'', Text ''{{name}} API~2019sini dene''),
     (''spec'', Group [
      (''ok'', Text ''Spec {{when}}''),
      (''stale'', Text ''Spec {{when}}''),
      (''error'', Text ''Spec hatas~0131''),
      (''missing'', Text ''Spec hen~00fcz yok'')]),
     (''accessLevel'', Group [
      (''manage'', Text ''Y~00f6netim''),
      (''invoke'', Text ''G~00f6r~00fcnt~00fcleme ve ~00e7a~011f~0131rma''),
      (''view'', Text ''Yaln~0131z g~00f6r~00fcnt~00fcleme''),
      (''none'', Text ''K~0131s~0131tl~0131'')])]"

definition tr_catalog :: "(string \<times> message) list" where
  "tr_catalog = [(''catalog'', Group (tr_catalog_part1 @ tr_catalog_part2))]"

definition tr_api_part1 :: "(string \<times> message) list" where
  "tr_api_part1 =
    [(''curlCopied'', Text ''cURL komutu kopyaland~0131.''),
     (''copyFailed'', Text ''Panoya kopyalanamad~0131.''),
     (''title'', Text ''API''),
     (''operations'', Text ''Operasyonlar''),
     (''sections'', Text ''API b~00f6l~00fcmleri''),
     (''tryIt'', Text ''Dene''),
     (''documentation'', Text ''Dok~00fcmantasyon''),
     (''details'', Text ''Ayr~0131nt~0131lar''),
     (''filterOperations'', Text ''Operasyonlar~0131 filtrele''),
     (''noOperations'', Text ''Belgelenmi~015f operasyon yok''),
     (''noOperationsBody'', Text ''OpenAPI dok~00fcman~0131nda portal~0131n okuyabildi~011fi bir operasyon yok.''),
     (''noOperationMatch'', Text ''E~015fle~015fen operasyon yok.''),
     (''untagged'', Text ''Di~011fer''),
     (''specRefreshed'', Text ''Spec {{when}} yenilendi''),
     (''neverRefreshed'', Text ''Spec hi~00e7 yenilenmedi''),
     (''allowedMethods'', Text ''~0130zinli metotlar''),
     (''allowedPaths'', Text ''~0130zinli yol ~00f6nekleri''),
     (''allDocumentedMethods'', Text ''Belgelenmi~015f t~00fcm metotlar''),
     (''allDocumentedPaths'', Text ''Belgelenmi~015f t~00fcm yollar''),
     (''rateLimit'', Text ''H~0131z s~0131n~0131r~0131''),
     (''perMinute_one'', Text ''Dakikada {{count}} ~00e7a~011fr~0131''),
     (''perMinute_other'', Text ''Dakikada {{count}} ~00e7a~011fr~0131''),
     (''defaultLimit'', Text ''Portal varsay~0131lan~0131''),
     (''lastRefresh'', Text ''Spec~2019in son yenilenmesi''),
     (''tryItOff'', Text ''Deneme ~00f6zelli~011fi bu portalda kapal~0131.''),
     (''tryItNotAllowed'', Text ''Bu API~2019nin dok~00fcmantasyonunu okuyabilirsiniz ama ~00e7a~011f~0131ramazs~0131n~0131z ya da bu API i~00e7in ~00e7a~011fr~0131lar kapal~0131.''),
     (''accept'', Text ''Accept''),
     (''acceptHelper'', Text ''Belgelenmi~015f yan~0131tlardan.''),
     (''contentType'', Text ''Content-Type''),
     (''contentTypeHelper'', Text ''Belgelenmi~015f istek g~00f6vdelerinden.''),
     (''pathParameters'', Text ''Yol parametreleri''),
     (''queryParameters'', Text ''Sorgu parametreleri''),
     (''headerParameters'', Text ''Header parametreleri''),
     (''paramRequired'', Text ''{{name}} zorunlu.''),
     (''requestBody'', Text ''~0130stek g~00f6vdesi''),
     (''requestBodyHelper'', Text ''Varsa OpenAPI ~00f6rne~011fiyle ~00f6nceden doldurulur.''),
     (''extraHeaders'', Text ''Ek header~2019lar''),
     (''extraHeadersHelper'', Text ''Her sat~0131ra bir tane: Header-Ad~0131: de~011fer. Yaln~0131z bu API~2019nin izin verdi~011fi header~2019lar g~00f6nderilir.''),
     (''send'', Text ''~0130ste~011fi g~00f6nder''),
     (''sendFailed'', Text ''~0130stek g~00f6nderilemedi''),
     (''response'', Text ''Yan~0131t''),
     (''body'', Text ''G~00f6vde''),
     (''emptyBody'', Text ''(bo~015f g~00f6vde)''),
     (''bytes_one'', Text ''{{count}} bayt''),
     (''bytes_other'', Text ''{{count}} bayt''),
     (''truncated'', Text ''G~00f6vde kesildi''),
     (''rateLeft'', Text ''Dakikal~0131k {{limit}} hakk~0131n {{remaining}} tanesi kald~0131''),
     (''responseHeaders'', Text ''Yan~0131t header~2019lar~0131''),
     (''header'', Text ''Header'')]"

definition tr_api_part2 :: "(string \<times> message) list" where
  "tr_api_part2 =
    [(''value'', Text ''De~011fer''),
     (''noResponseYet'', Text ''Hen~00fcz yan~0131t yok''),
     (''noResponseYetBody'', Text ''Parametreleri doldurup iste~011fi g~00f6nderin; yan~0131t burada g~00f6r~00fcn~00fcr.''),
     (''tabs'', Group [
      (''overview'', Text ''Genel bak~0131~015f''),
      (''reference'', Text ''Referans''),
      (''classic'', Text ''Klasik''),
      (''access'', Text ''Eri~015fim''),
      (''activity'', Text ''Etkinlik'')]),
     (''spec'', Text ''Spec''),
     (''downloadJson'', Text ''JSON indir''),
     (''downloadYaml'', Text ''YAML indir''),
     (''openClassic'', Text ''Klasik g~00f6r~00fcn~00fcm (Swagger UI)''),
     (''more'', Text ''Di~011fer i~015flemler''),
     (''editDefinition'', Text ''Tan~0131m~0131 d~00fczenle''),
     (''deprecatedGroup'', Text ''Kullan~0131mdan kalkanlar''),
     (''operationCount_one'', Text ''{{count}} operasyon''),
     (''operationCount_other'', Text ''{{count}} operasyon''),
     (''operationNotFound'', Text ''Operasyon bulunamad~0131''),
     (''operationNotFoundBody'', Text ''~201c{{key}}~201d g~00fcncel spec~2019te yok. Ad~0131 de~011fi~015fmi~015f ya da kald~0131r~0131lm~0131~015f olabilir.''),
     (''firstOperation'', Text ''~0130lk operasyonu a~00e7''),
     (''panes'', Text ''Dok~00fcmantasyon veya dene''),
     (''showConsole'', Text ''Deneme konsolunu g~00f6ster''),
     (''hideConsole'', Text ''Deneme konsolunu gizle''),
     (''copyPath'', Text ''Yolu kopyala''),
     (''parameters'', Text ''Parametreler''),
     (''paramName'', Text ''Ad''),
     (''paramIn'', Text ''Konum''),
     (''paramType'', Text ''Tip''),
     (''paramDescription'', Text ''A~00e7~0131klama''),
     (''in'', Group [
      (''path'', Text ''path''),
      (''query'', Text ''query''),
      (''header'', Text ''header''),
      (''cookie'', Text ''cookie'')]),
     (''required'', Text ''Zorunlu''),
     (''responses'', Text ''Yan~0131tlar''),
     (''noResponses'', Text ''Belgelenmi~015f yan~0131t yok.''),
     (''noDescription'', Text ''A~00e7~0131klama yok.''),
     (''noBody'', Text ''G~00f6vde yok.''),
     (''noSchema'', Text ''Belgelenmi~015f ~015fema yok.''),
     (''example'', Text ''~00d6rnek''),
     (''contentTypes'', Text ''{{what}} i~00e7erik tipleri''),
     (''responseBody'', Text ''Yan~0131t g~00f6vdesi ({{status}})''),
     (''headerInjected'', Text ''portal ekler''),
     (''headerNotForwarded'', Text ''Portal iletmez (bu API~2019nin header izin listesinde de~011fil).''),
     (''security'', Group [
      (''title'', Text ''Kimlik do~011frulama''),
      (''apiKey'', Text ''{{in}} i~00e7inde {{name}} API anahtar~0131''),
      (''http'', Text ''HTTP {{scheme}} (Authorization header~2019~0131)''),
      (''other'', Text ''{{type}}''),
      (''portal'', Text ''portal sizin yerinize ekler''),
      (''user'', Text ''Headers b~00f6l~00fcm~00fcnden g~00f6nderin''),
      (''blocked'', Text ''portal bunu iletmez; API sahiplerine ba~015fvurun''),
      (''unknown'', Text ''API~2019nin dok~00fcmantasyonuna bak~0131n'')]),
     (''tryItOffTitle'', Text ''Deneme kapal~0131''),
     (''noInvokeTitle'', Text ''Bu API~2019yi okuyabilir ama ~00e7a~011f~0131ramazs~0131n~0131z''),
     (''noInvoke'', Text ''~00c7a~011f~0131rman~0131z gerekiyorsa API sahiplerinden ~00e7a~011f~0131rma yetkisi isteyin.'')]"

definition tr_api_part3 :: "(string \<times> message) list" where
  "tr_api_part3 =
    [(''tryItDisabledTitle'', Text ''Bu API i~00e7in ~00e7a~011fr~0131lar kapal~0131''),
     (''tryItDisabled'', Text ''Y~00f6neticileri denemeyi kapatt~0131 ya da API pasif.''),
     (''toSend'', Text ''g~00f6ndermek i~00e7in''),
     (''groups'', Group [
      (''path'', Text ''Yol parametreleri''),
      (''query'', Text ''Sorgu parametreleri''),
      (''header'', Text ''Header parametreleri'')]),
     (''headers'', Text ''Header~2019lar''),
     (''injectedHeaders'', Text ''Portal~0131n ekledi~011fi header~2019lar''),
     (''headerName'', Text ''{{index}}. header ad~0131''),
     (''headerValue'', Text ''{{index}}. header de~011feri''),
     (''removeHeader'', Text ''{{index}}. header~2019~0131 kald~0131r''),
     (''addHeader'', Text ''Header ekle''),
     (''allowedHeadersList'', Text ''Standartlar d~0131~015f~0131nda iletilenler: {{list}}''),
     (''noExtraHeaders'', Text ''Bu API yaln~0131z standart header~2019lar~0131 iletir (Content-Type, Accept, Accept-Language, User-Agent).''),
     (''notSet'', Text ''~2014 bo~015f ~2014''),
     (''dateTimeHint'', Text ''RFC 3339, ~00f6r. 2026-01-31T09:30:00Z''),
     (''resetExample'', Text ''~00d6rne~011fe d~00f6n''),
     (''format'', Text ''Bi~00e7imlendir''),
     (''validation'', Group [
      (''required'', Text ''{{name}} zorunlu.''),
      (''integer'', Text ''{{name}} tam say~0131 olmal~0131.''),
      (''number'', Text ''{{name}} say~0131 olmal~0131.''),
      (''boolean'', Text ''{{name}} true ya da false olmal~0131.''),
      (''enum'', Text ''{{name}} listedeki de~011ferlerden biri olmal~0131.''),
      (''json'', Text ''~0130stek g~00f6vdesi ge~00e7erli JSON de~011fil.'')]),
     (''sending'', Text ''~0130stek g~00f6nderiliyor~2026''),
     (''cancelled'', Text ''~0130stek iptal edildi.''),
     (''responseReceived'', Text ''Yan~0131t al~0131nd~0131: {{status}}, {{ms}} ms''),
     (''errors'', Group [
      (''rateLimitedTitle'', Text ''H~0131z s~0131n~0131r~0131na ula~015f~0131ld~0131''),
      (''rateLimited'', Text ''{{time}} sonra tekrar g~00f6nderebilirsiniz.''),
      (''forbiddenTitle'', Text ''Bu API~2019yi ~00e7a~011f~0131ramazs~0131n~0131z''),
      (''timeoutTitle'', Text ''API zaman~0131nda yan~0131t vermedi''),
      (''timeout'', Text ''{{seconds}} saniye i~00e7inde yan~0131t gelmedi. API yava~015f ya da kapal~0131 olabilir.''),
      (''unreachableTitle'', Text ''API~2019ye ula~015f~0131lamad~0131''),
      (''unreachable'', Text ''Portal API~2019ye ba~011flanamad~0131. Kapal~0131 ya da ta~015f~0131nm~0131~015f olabilir; sahipleri kontrol edebilir.''),
      (''policyTitle'', Text ''Portal ~00fczerinden izin verilmiyor''),
      (''allowedPaths'', Text ''~0130zinli yollar: {{list}}''),
      (''allowedMethods'', Text ''~0130zinli metotlar: {{list}}'')]),
     (''responseViews'', Text ''Yan~0131t g~00f6r~00fcn~00fcmleri''),
     (''views'', Group [
      (''pretty'', Text ''Okunur''),
      (''tree'', Text ''A~011fa~00e7''),
      (''raw'', Text ''Ham''),
      (''headers'', Text ''Header~2019lar ({{count}})'')]),
     (''searchHint'', Text ''~0130~00e7inde aramak i~00e7in g~00f6vdeye t~0131klay~0131p ~2318F / Ctrl+F kullan~0131n.''),
     (''download'', Text ''~0130ndir''),
     (''snippets'', Text ''Kod''),
     (''snippetsViewer'', Text ''Ayn~0131 istek kendi makinenizden. BASE_URL~2019i API~2019nin adresine ayarlay~0131n; gizli de~011ferler ve portal~0131n ekledi~011fi header~2019lar yer tutucudur.''),
     (''snippetsManager'', Text ''Ayn~0131 istek API~2019nin i~00e7 adresine (bu API~2019yi siz y~00f6netiyorsunuz). Gizli de~011ferler yer tutucudur.''),
     (''history'', Text ''Ge~00e7mi~015f''),
     (''clearHistory'', Text ''Temizle'')]"

definition tr_api_part4 :: "(string \<times> message) list" where
  "tr_api_part4 =
    [(''noHistory'', Text ''G~00f6nderdi~011finiz istekler burada g~00f6r~00fcn~00fcr (yaln~0131z bu taray~0131c~0131da).''),
     (''saveDetails'', Text ''Parametre de~011ferlerini ve g~00f6vdeleri sakla''),
     (''saveDetailsHelper'', Text ''Kapal~0131yken yaln~0131z durum ve zaman saklan~0131r. Header de~011ferleri hi~00e7 saklanmaz.''),
     (''restore'', Text ''Tekrar y~00fckle''),
     (''noDetailsSaved'', Text ''de~011ferler saklanmad~0131''),
     (''timeout'', Text ''Zaman a~015f~0131m~0131''),
     (''seconds_one'', Text ''{{count}} saniye''),
     (''seconds_other'', Text ''{{count}} saniye''),
     (''overview'', Group [
      (''groups'', Text ''Etikete g~00f6re operasyonlar''),
      (''facts'', Text ''Hakk~0131nda''),
      (''download'', Text ''Spec~2019i indir'')]),
     (''classicNote'', Text ''Klasik Swagger UI g~00f6r~00fcn~00fcm~00fc; referansa al~0131~015fana kadar duruyor. ~0130stekler Referans sekmesinden g~00f6nderilir.''),
     (''accessSaved'', Text ''Eri~015fim kaydedildi.''),
     (''activity'', Group [
      (''specHistory'', Text ''Spec de~011fi~015fiklikleri''),
      (''specHistoryBody'', Text ''Spec her de~011fi~015fti~011finde ne de~011fi~015fti~011fi ve ba~015far~0131s~0131z yenilemeler.''),
      (''noHistory'', Text ''Hen~00fcz kay~0131tl~0131 de~011fi~015fiklik yok.''),
      (''kind'', Group [
        (''initial'', Text ''~0130lk indeksleme''),
        (''changed'', Text ''Spec de~011fi~015fti''),
        (''failed'', Text ''Yenileme ba~015far~0131s~0131z'')]),
      (''added_one'', Text ''{{count}} eklendi''),
      (''added_other'', Text ''{{count}} eklendi''),
      (''removed_one'', Text ''{{count}} kald~0131r~0131ld~0131''),
      (''removed_other'', Text ''{{count}} kald~0131r~0131ld~0131''),
      (''changed_one'', Text ''{{count}} de~011fi~015fti''),
      (''changed_other'', Text ''{{count}} de~011fi~015fti''),
      (''more'', Text ''~2026 ve {{count}} tane daha''),
      (''calls'', Text ''Son ~00e7a~011fr~0131lar''),
      (''callsBody'', Text ''Son 20 deneme ~00e7a~011fr~0131s~0131 (denetim kayd~0131ndan).''),
      (''noCalls'', Text ''Hen~00fcz ~00e7a~011fr~0131 yok.'')])]"

definition tr_api :: "(string \<times> message) list" where
  "tr_api = [(''api'', Group (tr_api_part1 @ tr_api_part2 @ tr_api_part3 @ tr_api_part4))]"

definition tr_json :: "(string \<times> message) list" where
  "tr_json =
    [(''json'', Group [
      (''items_one'', Text ''{{count}} ~00f6~011fe''),
      (''items_other'', Text ''{{count}} ~00f6~011fe''),
      (''more_one'', Text ''{{count}} tane daha g~00f6ster''),
      (''more_other'', Text ''{{count}} tane daha g~00f6ster'')])]"

definition tr_schema :: "(string \<times> message) list" where
  "tr_schema =
    [(''schema'', Group [
      (''any'', Text ''herhangi''),
      (''circular'', Text ''d~00f6ng~00fcsel''),
      (''collapse'', Text ''{{name}} daralt''),
      (''expand'', Text ''{{name}} geni~015flet''),
      (''default'', Text ''varsay~0131lan''),
      (''oneOf'', Text ''~015eunlardan biri:''),
      (''oneOfValues'', Text ''~015eunlardan biri''),
      (''readOnly'', Text ''salt okunur''),
      (''writeOnly'', Text ''yaln~0131z yaz~0131l~0131r''),
      (''required'', Text ''zorunlu''),
      (''variant'', Text ''{{n}}. varyant'')])]"

end
