(* ===== verification/I18n_Admin_En.thy ===== *)
theory I18n_Admin_En
  imports I18n_Base
begin

text \<open>
  \<open>i18n/admin.en.ts\<close>: the English texts of the admin console.
\<close>

definition admin_en_texts_1 :: "(string \<times> message) list" where
  "admin_en_texts_1 =
    [(''clearFilters'', Text ''Clear filters''),
     (''discardTitle'', Text ''Discard unsaved changes?''),
     (''discardBody'', Text ''The changes in this form are lost.''),
     (''discard'', Text ''Discard'')]"

definition admin_en_navGroups :: "(string \<times> message) list" where
  "admin_en_navGroups =
    [(''navGroups'', Group [
      (''people'', Text ''People & access''),
      (''apis'', Text ''APIs''),
      (''platform'', Text ''Platform'')])]"

definition admin_en_overview :: "(string \<times> message) list" where
  "admin_en_overview =
    [(''overview'', Group [
      (''stats'', Text ''Key figures''),
      (''apis'', Text ''Active APIs''),
      (''apisDetail'', Text ''{{total}} registered''),
      (''specErrors_one'', Text ''{{count}} spec fails to load''),
      (''specErrors_other'', Text ''{{count}} specs fail to load''),
      (''activeUsers'', Text ''Active users''),
      (''usersDetail_one'', Text ''{{count}} signed in during the last 24 h ~00b7 {{total}} accounts''),
      (''usersDetail_other'', Text ''{{count}} signed in during the last 24 h ~00b7 {{total}} accounts''),
      (''sessions'', Text ''Active sessions''),
      (''sessionsDetail'', Text ''Signed-in browsers right now''),
      (''invokes'', Text ''Try-it calls, 24 h''),
      (''invokesDetail'', Text ''{{success}} succeeded ~00b7 {{denied}} denied ~00b7 {{failed}} failed''),
      (''denied'', Text ''Denied requests, 24 h''),
      (''deniedDetail_one'', Text ''{{count}} refused sign-in''),
      (''deniedDetail_other'', Text ''{{count}} refused sign-ins''),
      (''reviewDenied'', Text ''Review in the audit log''),
      (''attention'', Text ''Needs attention''),
      (''attentionBody'', Text ''Problems the portal found; each links to where it is fixed.''),
      (''allClear'', Text ''Nothing needs attention.''),
      (''open'', Text ''Open''),
      (''since'', Text ''Since {{when}}''),
      (''generated'', Text ''Updated {{when}}; refreshes every minute.''),
      (''severity'', Group [
        (''warning'', Text ''Warning''),
        (''danger'', Text ''Problem'')]),
      (''kinds'', Group [
        (''spec_error'', Text ''{{name}}: the spec could not be fetched''),
        (''spec_missing'', Text ''{{name}}: no spec fetched yet''),
        (''spec_stale'', Text ''{{name}}: the spec has not been refreshed for a long time''),
        (''encryption_key_in_database'', Text ''The encryption key is stored in the database''),
        (''ldap_skip_verify'', Text ''LDAP TLS certificate verification is off'')])])]"

definition admin_en_settings :: "(string \<times> message) list" where
  "admin_en_settings =
    [(''settings'', Group [
      (''tabs'', Group [
        (''session'', Text ''Session''),
        (''branding'', Text ''Branding''),
        (''system'', Text ''System'')]),
      (''systemTitle'', Text ''System information''),
      (''systemBody'', Text ''The running portal. Nothing here is secret: the encryption key is shown by source and id, never its value.''),
      (''version'', Text ''Version''),
      (''goVersion'', Text ''Go runtime''),
      (''startedAt'', Text ''Running since''),
      (''database'', Text ''Database size''),
      (''schema'', Text ''Schema version''),
      (''keySource'', Text ''Encryption key''),
      (''keySources'', Group [
        (''environment'', Text ''From DATA_ENCRYPTION_KEY''),
        (''database'', Text ''In the database'')]),
      (''specRefresh'', Text ''Background spec refresh''),
      (''everyMinutes_one'', Text ''Every {{count}} minute''),
      (''everyMinutes_other'', Text ''Every {{count}} minutes''),
      (''auditRetention'', Text ''Audit retention''),
      (''days_one'', Text ''{{count}} day''),
      (''days_other'', Text ''{{count}} days''),
      (''backups'', Text ''Scheduled backups''),
      (''metrics'', Text ''Prometheus metrics''),
      (''timeZone'', Text ''Time zone'')])]"

definition admin_en_texts_2 :: "(string \<times> message) list" where
  "admin_en_texts_2 =
    [(''sectionsLabel'', Text ''Admin sections''),
     (''saveFailed'', Text ''The change could not be saved.''),
     (''noMatch'', Text ''Nothing matches the search.''),
     (''clearSearch'', Text ''Clear search''),
     (''keepSecret'', Text ''A value is stored. Leave empty to keep it.'')]"

definition admin_en_sections :: "(string \<times> message) list" where
  "admin_en_sections =
    [(''sections'', Group [
      (''overview'', Text ''Overview''),
      (''identity'', Text ''Identity providers''),
      (''settings'', Text ''Settings''),
      (''users'', Text ''Users''),
      (''groups'', Text ''Groups''),
      (''roles'', Text ''Roles''),
      (''apis'', Text ''API definitions''),
      (''ldap'', Text ''LDAP''),
      (''azureAd'', Text ''Azure AD''),
      (''sessionSettings'', Text ''Session settings''),
      (''sessions'', Text ''Active sessions''),
      (''audit'', Text ''Audit log''),
      (''system'', Text ''Branding'')])]"

definition admin_en_descriptions :: "(string \<times> message) list" where
  "admin_en_descriptions =
    [(''descriptions'', Group [
      (''overview'', Text ''The state of the portal at a glance, and what needs attention.''),
      (''identity'', Text ''Sign-in with LDAP and Microsoft Entra ID (Azure AD).''),
      (''settings'', Text ''Session lifetime, branding and system information.''),
      (''users'', Text ''Local, LDAP and Azure AD accounts, their groups and status.''),
      (''groups'', Text ''Groups collect users and receive roles; they can follow a directory group.''),
      (''roles'', Text ''Roles bundle permissions, portal-wide and per API.''),
      (''apis'', Text ''Registered APIs, their try-it policy and who may use them. Internal URLs never reach the browser.''),
      (''ldap'', Text ''Directory sign-in and user import.''),
      (''azureAd'', Text ''Sign-in with Microsoft Entra ID.''),
      (''sessionSettings'', Text ''How long a sign-in lasts.''),
      (''sessions'', Text ''Everyone signed in right now.''),
      (''audit'', Text ''Who did what, when, and with what result.''),
      (''system'', Text ''The name and logo shown in the portal.'')])]"

definition admin_en_users_part1 :: "(string \<times> message) list" where
  "admin_en_users_part1 =
    [(''newFrom'', Text ''More ways to add users''),
     (''newLocal'', Text ''Local user~2026''),
     (''newLdap'', Text ''From LDAP~2026''),
     (''newAzure'', Text ''Azure AD user~2026''),
     (''tabsLabel'', Text ''User details''),
     (''tabs'', Group [
      (''profile'', Text ''Profile''),
      (''access'', Text ''Groups & permissions''),
      (''sessions'', Text ''Sessions'')]),
     (''lastLogin'', Text ''Last sign-in''),
     (''never'', Text ''Never''),
     (''groupCount_one'', Text ''{{count}} group''),
     (''groupCount_other'', Text ''{{count}} groups''),
     (''anySource'', Text ''Any source''),
     (''anyStatus'', Text ''Any status''),
     (''anyGroup'', Text ''Any group''),
     (''groupFilter'', Text ''Group''),
     (''statusFilter'', Group [
      (''active'', Text ''Active''),
      (''inactive'', Text ''Deactivated''),
      (''admins'', Text ''Administrators''),
      (''mustChange'', Text ''Must change password'')]),
     (''activeToggle'', Text ''{{name}} is active''),
     (''lockSelf'', Text ''You can~2019t deactivate your own account.''),
     (''lockSelfAdmin'', Text ''You can~2019t remove your own administrator rights.''),
     (''lockLastAdmin'', Text ''The last active administrator stays active and an administrator; promote another user first.''),
     (''bulkLabel'', Text ''Actions on the selected users''),
     (''selectedCount_one'', Text ''{{count}} selected''),
     (''selectedCount_other'', Text ''{{count}} selected''),
     (''activate'', Text ''Activate''),
     (''deactivate'', Text ''Deactivate''),
     (''addToGroup'', Text ''Add to group''),
     (''exportSelected'', Text ''Export CSV''),
     (''exportList_one'', Text ''Export {{count}} user as CSV''),
     (''exportList_other'', Text ''Export {{count}} users as CSV''),
     (''clearSelection'', Text ''Clear selection''),
     (''bulkActivateTitle_one'', Text ''Activate {{count}} user?''),
     (''bulkActivateTitle_other'', Text ''Activate {{count}} users?''),
     (''bulkActivateBody'', Text ''They can sign in again with their existing groups and roles.''),
     (''bulkDeactivateTitle_one'', Text ''Deactivate {{count}} user?''),
     (''bulkDeactivateTitle_other'', Text ''Deactivate {{count}} users?''),
     (''bulkDeactivateBody'', Text ''They are signed out everywhere and can~2019t sign in until activated again.''),
     (''bulkSkipped_one'', Text ''{{count}} selected user is left out (yourself, the last administrator, already in that state, or an administrator you can~2019t change).''),
     (''bulkSkipped_other'', Text ''{{count}} selected users are left out (yourself, the last administrator, already in that state, or administrators you can~2019t change).''),
     (''bulkActivated_one'', Text ''{{count}} user activated.''),
     (''bulkActivated_other'', Text ''{{count}} users activated.'')]"

definition admin_en_users_part2 :: "(string \<times> message) list" where
  "admin_en_users_part2 =
    [(''bulkDeactivated_one'', Text ''{{count}} user deactivated.''),
     (''bulkDeactivated_other'', Text ''{{count}} users deactivated.''),
     (''addToGroupTitle_one'', Text ''Add {{count}} user to a group''),
     (''addToGroupTitle_other'', Text ''Add {{count}} users to a group''),
     (''addToGroupBody'', Text ''They get the group~2019s roles at once. Groups whose permissions you don~2019t hold yourself are refused.''),
     (''group'', Text ''Group''),
     (''chooseGroup'', Text ''Choose a group~2026''),
     (''bulkAdded_one'', Text ''{{count}} user added to {{group}}.''),
     (''bulkAdded_other'', Text ''{{count}} users added to {{group}}.''),
     (''permissions'', Text ''Effective permissions''),
     (''permissionsPreview'', Text ''Permissions after saving''),
     (''noPermissions'', Text ''No permissions: the user sees only what is public to every signed-in user.''),
     (''adminHasAll'', Text ''Administrators have every permission, whatever their groups.''),
     (''permissionsAfterCreate'', Text ''The effective permissions are shown once the user is created.''),
     (''added'', Text ''Added''),
     (''removed'', Text ''Removed''),
     (''viaRole'', Text ''{{group}} ~2192 {{role}}''),
     (''viaOwner'', Text ''{{group}} ~2192 owner group of the API (no role)''),
     (''viaAccess'', Text ''{{group}} ~2192 direct API access (no role)''),
     (''search'', Text ''Search users''),
     (''new'', Text ''New user''),
     (''edit'', Text ''Edit {{name}}''),
     (''username'', Text ''Username''),
     (''displayName'', Text ''Display name''),
     (''email'', Text ''Email''),
     (''source'', Text ''Source''),
     (''status'', Text ''Status''),
     (''admin'', Text ''Administrator''),
     (''adminHelper'', Text ''Full access to everything, regardless of roles.''),
     (''mustChange'', Text ''Must change password''),
     (''password'', Text ''Password''),
     (''newPassword'', Text ''New password''),
     (''newPasswordHelper'', Text ''Leave empty to keep the current password.''),
     (''groups'', Text ''Groups''),
     (''groupsHelper'', Text ''The user gets the roles of these groups.''),
     (''forceChange'', Text ''Require a new password at the next sign-in''),
     (''usernameRequired'', Text ''Enter a username.''),
     (''passwordRequired'', Text ''A new local user needs a password.''),
     (''directoryManaged'', Text ''Username, display name and email come from {{source}} and can~2019t be changed here.''),
     (''emptyTitle'', Text ''No users yet''),
     (''created'', Text ''User created.''),
     (''updated'', Text ''User updated.''),
     (''deleted'', Text ''User deleted.''),
     (''deleteTitle'', Text ''Delete {{name}}?''),
     (''deleteBody'', Text ''The account and its sessions are removed. Audit entries keep the name.''),
     (''resetPassword'', Text ''Reset password''),
     (''resetTitle'', Text ''Reset the password of {{name}}?''),
     (''resetBody'', Text ''They are signed out everywhere and must set a new password with the temporary one.''),
     (''passwordReset'', Text ''Password reset.''),
     (''temporaryPassword'', Text ''Temporary password for {{name}}'')]"

definition admin_en_users_part3 :: "(string \<times> message) list" where
  "admin_en_users_part3 =
    [(''temporaryPasswordHint'', Text ''Shown only now. Hand it over securely; it must be changed at the next sign-in.''),
     (''endSessions'', Text ''Sign out everywhere''),
     (''sessionsEnded_one'', Text ''{{count}} session ended.''),
     (''sessionsEnded_other'', Text ''{{count}} sessions ended.'')]"

definition admin_en_users :: "(string \<times> message) list" where
  "admin_en_users = [(''users'', Group (admin_en_users_part1 @ admin_en_users_part2 @ admin_en_users_part3))]"

definition admin_en_groups :: "(string \<times> message) list" where
  "admin_en_groups =
    [(''groups'', Group [
      (''permissionsIntro'', Text ''Everything members get through this group. Roles are edited here (Details) or under Roles; direct API access is given on the API itself and is not part of any role.''),
      (''fromRoles'', Text ''From its roles''),
      (''noRoleScopes'', Text ''No permissions from roles: the group has no role, or its roles are empty.''),
      (''directApiAccess'', Text ''Direct API access (without a role)''),
      (''directApiAccessHelp'', Text ''Given on the API: API definitions ~2192 Access (view or invoke) or Owner group (manage). Change it there.''),
      (''noDirectAccess'', Text ''No API gives this group access directly.''),
      (''ownerGroup'', Text ''Owner group: manage''),
      (''tabsLabel'', Text ''Group details''),
      (''tabs'', Group [
        (''details'', Text ''Details''),
        (''members'', Text ''Members''),
        (''permissions'', Text ''Permissions'')]),
      (''members'', Text ''Members''),
      (''addMembers'', Text ''Add members''),
      (''add'', Text ''Add''),
      (''noMembers'', Text ''No members yet.''),
      (''removeMember'', Text ''Remove {{name}} from the group''),
      (''membersAdded_one'', Text ''{{count}} member added.''),
      (''membersAdded_other'', Text ''{{count}} members added.''),
      (''memberRemoved'', Text ''{{name}} removed from the group.''),
      (''memberCount_one'', Text ''{{count}} member''),
      (''memberCount_other'', Text ''{{count}} members''),
      (''roleCount_one'', Text ''{{count}} role''),
      (''roleCount_other'', Text ''{{count}} roles''),
      (''deleteImpact'', Text ''{{members}} lose what they had through this group ({{roles}}). Audit entries stay.''),
      (''search'', Text ''Search groups''),
      (''new'', Text ''New group''),
      (''edit'', Text ''Edit {{name}}''),
      (''name'', Text ''Name''),
      (''description'', Text ''Description''),
      (''mapping'', Text ''Directory''),
      (''roles'', Text ''Roles''),
      (''rolesHelper'', Text ''Members get every permission of these roles.''),
      (''mappingTitle'', Text ''Directory mapping''),
      (''mappingBody'', Text ''Members of the mapped directory group join this group at sign-in, and leave it when they~2019re no longer members. Mapping a group whose roles you don~2019t hold yourself is refused.''),
      (''azureGroupId'', Text ''Azure AD group object ID''),
      (''ldapGroupDn'', Text ''LDAP group DN''),
      (''ldapGroupDnHelper'', Text ''Matched against the user~2019s memberOf.''),
      (''nameRequired'', Text ''Enter a group name.''),
      (''emptyTitle'', Text ''No groups yet''),
      (''emptyBody'', Text ''Create a group, give it roles, then add users.''),
      (''created'', Text ''Group created.''),
      (''updated'', Text ''Group updated.''),
      (''deleted'', Text ''Group deleted.''),
      (''deleteTitle'', Text ''Delete {{name}}?''),
      (''deleteBody'', Text ''Members lose the roles they had through this group.'')])]"

definition admin_en_roles :: "(string \<times> message) list" where
  "admin_en_roles =
    [(''roles'', Group [
      (''perApiHelp'', Text ''Rights on single APIs. Leave empty when the portal-wide API permissions above are enough: those cover every API. A group can also get one API without any role, on the API itself (API definitions ~2192 Access, or as its owner group); that shows on the group~2019s Permissions tab, not here.''),
      (''globalCovers'', Text ''{{scopes}} is selected above and already applies to every API; those boxes are shown checked. Per-API boxes add rights on single APIs only.''),
      (''includedBy'', Text ''included by {{scope}}''),
      (''applyTemplate'', Text ''Apply a template''),
      (''groupsWithRole'', Text ''Groups with this role''),
      (''groupsWithRoleHelper'', Text ''Their members get this role~2019s permissions. The same as Groups ~2192 Roles.''),
      (''groupsAdded'', Text ''Groups that get the role''),
      (''groupsRemoved'', Text ''Groups that lose the role''),
      (''scopes'', Text ''Permissions''),
      (''usedByColumn'', Text ''Used by''),
      (''unusedShort'', Text ''Unused''),
      (''usedBy'', Text ''Used by:''),
      (''unused'', Text ''No group has this role yet.''),
      (''template'', Text ''Start from a template''),
      (''templateHelper'', Text ''Replaces the selection below; adjust it afterwards.''),
      (''chooseTemplate'', Text ''Choose a template~2026''),
      (''templates'', Group [
        (''viewer'', Text ''Viewer''),
        (''consumer'', Text ''API consumer''),
        (''apiOwner'', Text ''API owner''),
        (''auditor'', Text ''Auditor''),
        (''admin'', Text ''Delegated administrator'')]),
      (''copyFrom'', Text ''Copy permissions from''),
      (''copyFromHelper'', Text ''Adds that role~2019s permissions to the selection.''),
      (''chooseRole'', Text ''Choose a role~2026''),
      (''copyFailed'', Text ''The role~2019s permissions could not be loaded.''),
      (''diffShort'', Text ''+{{added}} / ~2212{{removed}}''),
      (''diffTitle'', Text ''Change the permissions of {{name}}?''),
      (''diffAffects_one'', Text ''The change applies at once to every member of the {{count}} group with this role.''),
      (''diffAffects_other'', Text ''The change applies at once to every member of the {{count}} groups with this role.''),
      (''diffUnused'', Text ''No group has this role yet, so nobody is affected now.''),
      (''diffAdded'', Text ''Added''),
      (''diffRemoved'', Text ''Removed''),
      (''deleteUsed_one'', Text ''{{count}} group loses its permissions: {{groups}}.''),
      (''deleteUsed_other'', Text ''{{count}} groups lose its permissions: {{groups}}.''),
      (''search'', Text ''Search roles''),
      (''new'', Text ''New role''),
      (''edit'', Text ''Edit {{name}}''),
      (''name'', Text ''Name''),
      (''description'', Text ''Description''),
      (''nameRequired'', Text ''Enter a role name.''),
      (''emptyTitle'', Text ''No roles yet''),
      (''selected_one'', Text ''{{count}} permission''),
      (''selected_other'', Text ''{{count}} permissions''),
      (''legacyLdap'', Text ''This role has ldap.manage, the old name of idp.manage; saving converts it.''),
      (''perApi'', Text ''Per-API permissions''),
      (''api'', Text ''API''),
      (''apiAction'', Text ''{{api}}: {{action}}''),
      (''noApis'', Text ''No APIs you can see. API owners can also grant access from API definitions ~2192 Access.''),
      (''action'', Group [
        (''view'', Text ''View''),
        (''invoke'', Text ''Invoke''),
        (''manage'', Text ''Manage''),
        (''delete'', Text ''Delete'')]),
      (''family'', Group [
        (''read'', Text ''Read''),
        (''write'', Text ''Write''),
        (''destructive'', Text ''Destructive'')]),
      (''created'', Text ''Role created.''),
      (''updated'', Text ''Role updated.''),
      (''deleted'', Text ''Role deleted.''),
      (''deleteTitle'', Text ''Delete {{name}}?''),
      (''deleteBody'', Text ''Groups with this role lose its permissions.'')])]"

definition admin_en_apis_part1 :: "(string \<times> message) list" where
  "admin_en_apis_part1 =
    [(''wizardSteps'', Text ''Steps''),
     (''steps'', Group [
      (''source'', Text ''Source''),
      (''access'', Text ''Access & try-it''),
      (''review'', Text ''Review'')]),
     (''next'', Text ''Next''),
     (''back'', Text ''Back''),
     (''create'', Text ''Create API''),
     (''slugHelper'', Text ''In the API~2019s URL: /apis/<slug>.''),
     (''invalidUrl'', Text ''Enter an absolute http(s) URL.''),
     (''invalidSlug'', Text ''Letters, digits, dot, dash and underscore; no spaces.''),
     (''outOfRange'', Text ''Out of the allowed range.''),
     (''previewSpec'', Text ''Preview spec''),
     (''previewFailed'', Text ''The spec could not be previewed''),
     (''previewOk'', Text ''Readable''),
     (''untitledSpec'', Text ''Untitled spec''),
     (''previewFormat'', Text ''Format''),
     (''previewOperations'', Text ''Operations''),
     (''previewTags'', Text ''Tags''),
     (''previewSize'', Text ''Size''),
     (''reviewNoPreview'', Text ''The spec has not been previewed with this URL. It is fetched after saving; check the result in the list.''),
     (''reviewNoAccess'', Text ''No group has access yet: only API managers will see this API until access is granted.''),
     (''reviewSpec_one'', Text ''{{count}} operation, version {{version}}''),
     (''reviewSpec_other'', Text ''{{count}} operations, version {{version}}''),
     (''allDocumented'', Text ''All documented''),
     (''userHeaders'', Text ''Headers from users''),
     (''tabsLabel'', Text ''API settings''),
     (''tabs'', Group [
      (''general'', Text ''General''),
      (''tryIt'', Text ''Try-it policy''),
      (''headers'', Text ''Headers''),
      (''access'', Text ''Access'')]),
     (''actions'', Text ''Actions''),
     (''refreshNamed'', Text ''Refresh the spec of {{name}}''),
     (''refreshedNamed'', Text ''Spec of {{name}} refreshed.''),
     (''specError'', Text ''Fetch failed''),
     (''operations_one'', Text ''{{count}} operation''),
     (''operations_other'', Text ''{{count}} operations''),
     (''impactLabel'', Text ''Also removed''),
     (''impactAccess_one'', Text ''{{count}} group access grant''),
     (''impactAccess_other'', Text ''{{count}} group access grants''),
     (''impactScopes_one'', Text ''{{count}} role permission for this API''),
     (''impactScopes_other'', Text ''{{count}} role permissions for this API''),
     (''impactFavorites_one'', Text ''{{count}} favorite''),
     (''impactFavorites_other'', Text ''{{count}} favorites''),
     (''impactOperations_one'', Text ''{{count}} indexed operation''),
     (''impactOperations_other'', Text ''{{count}} indexed operations'')]"

definition admin_en_apis_part2 :: "(string \<times> message) list" where
  "admin_en_apis_part2 =
    [(''impactHistory_one'', Text ''{{count}} spec history entry''),
     (''impactHistory_other'', Text ''{{count}} spec history entries''),
     (''search'', Text ''Search APIs''),
     (''new'', Text ''New API''),
     (''edit'', Text ''Edit {{name}}''),
     (''name'', Text ''Name''),
     (''description'', Text ''Description''),
     (''spec'', Text ''Spec''),
     (''tryItOff'', Text ''Try it off''),
     (''openapiUrl'', Text ''Internal OpenAPI URL''),
     (''openapiUrlHelper'', Text ''Fetched by the portal; never shown to users.''),
     (''baseUrl'', Text ''Internal base URL''),
     (''baseUrlHelper'', Text ''Try-it requests go here, with the documented path appended.''),
     (''ownerGroup'', Text ''Owner group''),
     (''ownerGroupHelper'', Text ''Its members manage this API. Set by API administrators.''),
     (''noOwnerGroup'', Text ''No owner group''),
     (''tagsHelper'', Text ''Type a tag and press Enter, or reuse one.''),
     (''active'', Text ''Listed in the catalog''),
     (''activeHelper'', Text ''Inactive APIs are hidden from users.''),
     (''tryItHelper'', Text ''Users with invoke access may call the API through the portal.''),
     (''policy'', Text ''Try-it requests''),
     (''policyBody'', Text ''What users may send through the portal.''),
     (''methodsHelper'', Text ''Empty: every documented method.''),
     (''pathsHelper'', Text ''Empty: every documented path. E.g. /v1/orders''),
     (''allowedHeaders'', Text ''Headers users may send''),
     (''allowedHeadersHelper'', Text ''Besides Content-Type, Accept, Accept-Language and User-Agent. Routing headers (X-Forwarded-*, ~2026) are never forwarded.''),
     (''forwardAllX'', Text ''Also forward any other X-* header''),
     (''forwardAllXHelper'', Text ''The behaviour before 1.5.0; only for APIs that depend on it.''),
     (''injectHeaders'', Text ''Headers the portal adds''),
     (''injectHeadersHelper'', Text ''E.g. a service API key. Values are stored encrypted, never shown again, and override what users send. Leave a value empty to keep the stored one.''),
     (''headerName'', Text ''Header {{index}} name''),
     (''headerValue'', Text ''Header {{index}} value''),
     (''unchanged'', Text ''(unchanged)''),
     (''value'', Text ''value''),
     (''removeHeader'', Text ''Remove header {{name}}''),
     (''addHeader'', Text ''Add header''),
     (''rateLimit'', Text ''Rate limit (calls per minute per user)''),
     (''rateLimitHelper'', Text ''0 = default (120).''),
     (''timeout'', Text ''Timeout (seconds)''),
     (''timeoutHelper'', Text ''0 = portal default.''),
     (''access'', Text ''Access''),
     (''accessBody'', Text ''Gives a group view or invoke on this API directly, without a role: no role changes, and the grant shows on the group~2019s Permissions tab. Members also keep what their roles give.''),
     (''noAccess'', Text ''No group has access through this list.''),
     (''accessLevel'', Text ''Access of {{group}}''),
     (''removeAccess'', Text ''Remove access of {{group}}''),
     (''grantGroup'', Text ''Grant access to a group''),
     (''grantPlaceholder'', Text ''Choose a group~2026'')]"

definition admin_en_apis_part3 :: "(string \<times> message) list" where
  "admin_en_apis_part3 =
    [(''required'', Text ''Required.''),
     (''emptyTitle'', Text ''No APIs registered''),
     (''emptyBody'', Text ''Register the first API with its internal OpenAPI and base URL.''),
     (''emptyBodyOwner'', Text ''APIs whose owner group you are in appear here.''),
     (''refresh'', Text ''Refresh spec''),
     (''refreshed'', Text ''Spec refreshed.''),
     (''refreshFailed'', Text ''The spec could not be fetched.''),
     (''created'', Text ''API created.''),
     (''updated'', Text ''API updated.''),
     (''deleted'', Text ''API deleted.''),
     (''deleteTitle'', Text ''Delete {{name}}?''),
     (''deleteBody'', Text ''Its permissions and access grants are removed too. Audit entries stay.'')]"

definition admin_en_apis :: "(string \<times> message) list" where
  "admin_en_apis = [(''apis'', Group (admin_en_apis_part1 @ admin_en_apis_part2 @ admin_en_apis_part3))]"

definition admin_en_ldapImport :: "(string \<times> message) list" where
  "admin_en_ldapImport =
    [(''ldapImport'', Group [
      (''title'', Text ''Import from LDAP''),
      (''body'', Text ''Find people in the directory and add them before their first sign-in. Each account takes its name and e-mail from the directory.''),
      (''groups'', Text ''Add them to groups''),
      (''groupsHelper'', Text ''Optional. Groups whose permissions you don~2019t hold yourself are refused.''),
      (''importedToGroups_one'', Text ''{{count}} user imported; {{added}} group memberships added.''),
      (''importedToGroups_other'', Text ''{{count}} users imported; {{added}} group memberships added.''),
      (''notImported'', Text ''Not everyone was imported''),
      (''skipped'', Text ''Already a local or Azure AD account (not converted): {{names}}.''),
      (''missing'', Text ''Not found in the directory: {{names}}.'')])]"

definition admin_en_azurePre :: "(string \<times> message) list" where
  "admin_en_azurePre =
    [(''azurePre'', Group [
      (''title'', Text ''Add an Azure AD user''),
      (''body'', Text ''The account waits for the person~2019s first Microsoft sign-in, so you can put it in groups now. Without this, accounts are created at the first sign-in, with no groups.''),
      (''upn'', Text ''Sign-in name (UPN)''),
      (''upnHelper'', Text ''If it differs from the e-mail, e.g. jdoe@corp.onmicrosoft.com. The first sign-in is matched by this name, else by the e-mail.''),
      (''emailRequired'', Text ''Enter the user~2019s e-mail address.''),
      (''submit'', Text ''Add user''),
      (''created'', Text ''{{name}} added; the account is bound at the first Microsoft sign-in.''),
      (''createdBeside'', Text ''{{name}} added; it is bound at the first Microsoft sign-in. It is separate from {{other}}, so give it its own groups.'')])]"

definition admin_en_ldap :: "(string \<times> message) list" where
  "admin_en_ldap =
    [(''ldap'', Group [
      (''autoCreateTitle'', Text ''Accounts at first sign-in''),
      (''autoCreateBody'', Text ''Instead of importing everyone first, directory users can get an account when they first sign in.''),
      (''autoCreate'', Text ''Create an account at the first sign-in''),
      (''autoCreateHelper'', Text ''Only after the directory accepts the password. The account has no groups and no permissions until you give them, except through groups mapped to directory groups. An existing local or Azure AD account with the same name is never taken over.''),
      (''autoCreateGroups'', Text ''Only members of these directory groups''),
      (''autoCreateGroupsHelper'', Text ''Group DNs, one per line, matched against the user~2019s memberOf. Empty: every user the user filter finds.''),
      (''autoCreateEveryone'', Text ''Every directory user the user filter finds can get an account (without permissions). Add groups above to limit it.''),
      (''importMoved'', Text ''Importing directory users is in Users ~2192 New user ~2192 From LDAP, with the groups to put them in.''),
      (''importOpen'', Text ''Import users''),
      (''alreadyImported'', Text ''Already imported''),
      (''otherAccount'', Text ''Exists as {{source}}: skipped''),
      (''connection'', Text ''Connection''),
      (''connectionBody'', Text ''The directory the portal signs users in against.''),
      (''enabled'', Text ''LDAP sign-in''),
      (''enabledHelper'', Text ''Users may sign in with their directory account.''),
      (''host'', Text ''Host''),
      (''port'', Text ''Port''),
      (''url'', Text ''URL''),
      (''urlHelper'', Text ''Instead of host and port, e.g. ldaps://dc1.corp.example:636''),
      (''timeout'', Text ''Timeout (seconds)''),
      (''bindDn'', Text ''Bind DN''),
      (''bindPassword'', Text ''Bind password''),
      (''userBaseDn'', Text ''User base DN''),
      (''userBaseDns'', Text ''Additional user base DNs''),
      (''userBaseDnsHelper'', Text ''One per line.''),
      (''usernameAttribute'', Text ''Username attribute''),
      (''displayNameAttribute'', Text ''Display name attribute''),
      (''emailAttribute'', Text ''Email attribute''),
      (''userFilter'', Text ''User filter''),
      (''userFilterHelper'', Text ''The username is always part of the search: %s is replaced by it, any other filter is combined with (usernameAttribute=username). E.g. (objectClass=user)''),
      (''useSsl'', Text ''Use SSL (LDAPS)''),
      (''startTls'', Text ''StartTLS''),
      (''skipVerify'', Text ''Skip TLS certificate verification''),
      (''skipVerifyWarning'', Text ''TLS certificate verification is off: anyone on the network path can impersonate the directory and read bind and user passwords. Use only for testing.''),
      (''test'', Text ''Test connection''),
      (''testOk'', Text ''Connected to the directory.''),
      (''testFailed'', Text ''The test failed.''),
      (''saved'', Text ''LDAP settings saved.''),
      (''loginTest'', Text ''Test a sign-in''),
      (''loginTestBody'', Text ''Runs the sign-in steps with the saved settings and shows where it fails. Nothing is changed.''),
      (''loginTestPasswordHelper'', Text ''Leave empty to test only the search.''),
      (''runTest'', Text ''Run test''),
      (''steps'', Text ''Sign-in steps''),
      (''stepOk'', Text ''Passed''),
      (''stepFailed'', Text ''Failed''),
      (''import'', Text ''Import users''),
      (''importBody'', Text ''Find directory users and add them to the portal before their first sign-in.''),
      (''searchQuery'', Text ''Name, username or email''),
      (''search'', Text ''Search''),
      (''searchFailed'', Text ''The directory search failed.''),
      (''results'', Text ''Directory users''),
      (''noResults'', Text ''No directory users found''),
      (''noResultsBody'', Text ''Check the user filter and attributes, or search for something else.''),
      (''importSelected_one'', Text ''Import {{count}} user''),
      (''importSelected_other'', Text ''Import {{count}} users''),
      (''imported_one'', Text ''{{count}} user imported.''),
      (''imported_other'', Text ''{{count}} users imported.''),
      (''importedSkipped_one'', Text ''{{count}} user imported. Skipped (already a local or Azure AD account): {{skipped}}.''),
      (''importedSkipped_other'', Text ''{{count}} users imported. Skipped (already a local or Azure AD account): {{skipped}}.'')])]"

definition admin_en_azure :: "(string \<times> message) list" where
  "admin_en_azure =
    [(''azure'', Group [
      (''copyRedirect'', Text ''Copy the redirect URL''),
      (''title'', Text ''Microsoft Entra ID (Azure AD)''),
      (''body'', Text ''Users sign in with their Microsoft account; portal groups and roles still decide what they may do.''),
      (''enabled'', Text ''Microsoft sign-in''),
      (''enabledHelper'', Text ''Shows ~201cSign in with Microsoft~201d on the sign-in page.''),
      (''tenantId'', Text ''Tenant ID''),
      (''clientId'', Text ''Client ID''),
      (''clientSecret'', Text ''Client secret''),
      (''redirectUrl'', Text ''Redirect URL''),
      (''redirectUrlHelper'', Text ''Register it in the app registration, e.g. {{url}}''),
      (''allowedGroups'', Text ''Allowed groups''),
      (''allowedGroupsHelper'', Text ''Group object IDs, one per line. When set, only members may sign in (needs the groups claim in the token configuration).''),
      (''note'', Text ''LDAP and local accounts keep working; Microsoft sign-in is an additional way in.''),
      (''test'', Text ''Test''),
      (''testOk'', Text ''Tenant found, and the client ID and secret were accepted.''),
      (''testFailed'', Text ''The test failed.''),
      (''saved'', Text ''Azure AD settings saved.'')])]"

definition admin_en_sessionSettings :: "(string \<times> message) list" where
  "admin_en_sessionSettings =
    [(''sessionSettings'', Group [
      (''title'', Text ''Session lifetime''),
      (''body'', Text ''Applies to new and existing sessions.''),
      (''idle'', Text ''Idle timeout (minutes)''),
      (''idleHelper'', Text ''A session ends after this long without activity. 5 minutes to 24 hours.''),
      (''idleRange'', Text ''Between 5 and 1440 minutes.''),
      (''max'', Text ''Maximum session age (hours)''),
      (''maxHelper'', Text ''A session ends this long after sign-in, even when active. 1 hour to 30 days.''),
      (''maxRange'', Text ''Between 1 and 720 hours.''),
      (''saved'', Text ''Session settings saved.'')])]"

definition admin_en_sessions :: "(string \<times> message) list" where
  "admin_en_sessions =
    [(''sessions'', Group [
      (''search'', Text ''Search by user or address''),
      (''user'', Text ''User''),
      (''you'', Text ''You''),
      (''device'', Text ''Device''),
      (''address'', Text ''Address''),
      (''lastActive'', Text ''Last active''),
      (''expires'', Text ''Expires''),
      (''end'', Text ''End session''),
      (''endTitle'', Text ''End the session of {{name}}?''),
      (''endBody'', Text ''They are signed out on that device.''),
      (''ended'', Text ''Session of {{name}} ended.''),
      (''empty'', Text ''No active sessions.'')])]"

definition admin_en_audit :: "(string \<times> message) list" where
  "admin_en_audit =
    [(''audit'', Group [
      (''setByPeriod'', Text ''Set by the period.''),
      (''untilNow'', Text ''Until now.''),
      (''period'', Text ''Period''),
      (''presets'', Group [
        (''1h'', Text ''Last hour''),
        (''24h'', Text ''Last 24 hours''),
        (''7d'', Text ''Last 7 days''),
        (''30d'', Text ''Last 30 days''),
        (''custom'', Text ''Custom dates'')]),
      (''actionHelper'', Text ''E.g. user. for every user change; suggestions as you type.''),
      (''time'', Text ''Time''),
      (''user'', Text ''User''),
      (''action'', Text ''Action''),
      (''actionPrefix'', Text ''Action starts with''),
      (''outcome'', Text ''Outcome''),
      (''anyOutcome'', Text ''Any''),
      (''outcomes'', Group [
        (''success'', Text ''Success''),
        (''denied'', Text ''Denied''),
        (''failed'', Text ''Failed'')]),
      (''target'', Text ''Target''),
      (''status'', Text ''Status''),
      (''reason'', Text ''Reason / changes''),
      (''changes'', Text ''Changed fields''),
      (''duration'', Text ''Duration''),
      (''sourceIp'', Text ''Source IP''),
      (''userAgent'', Text ''User agent''),
      (''details'', Text ''Details''),
      (''from'', Text ''From''),
      (''to'', Text ''To''),
      (''toHelper'', Text ''Exclusive.''),
      (''apply'', Text ''Apply''),
      (''reset'', Text ''Reset''),
      (''export'', Text ''Export CSV''),
      (''exportFailed'', Text ''The export failed.''),
      (''truncated_one'', Text ''The export has only the newest {{count}} matching entry (AUDIT_EXPORT_MAX_ROWS). Narrow the filters for the rest.''),
      (''truncated_other'', Text ''The export has only the newest {{count}} matching entries (AUDIT_EXPORT_MAX_ROWS). Narrow the filters for the rest.''),
      (''entry'', Text ''Audit entry''),
      (''empty'', Text ''No audit entries''),
      (''emptyBody'', Text ''Nothing matches these filters.''),
      (''none'', Text ''No entries'')])]"

definition admin_en_system :: "(string \<times> message) list" where
  "admin_en_system =
    [(''system'', Group [
      (''branding'', Text ''Name''),
      (''brandingBody'', Text ''Shown in the top bar, on the sign-in page and in the browser tab.''),
      (''brandTitle'', Text ''Portal name''),
      (''brandTitleHelper'', Text ''E.g. ~201cAcme API Portal~201d.''),
      (''saved'', Text ''Name saved.''),
      (''logo'', Text ''Logo''),
      (''logoBody'', Text ''Shown next to the name.''),
      (''currentLogo'', Text ''Current logo''),
      (''noLogo'', Text ''No logo uploaded.''),
      (''chooseFile'', Text ''Image file''),
      (''fileHelper'', Text ''PNG, JPEG, SVG or WEBP, up to 256 KB.''),
      (''upload'', Text ''Upload logo''),
      (''removeLogo'', Text ''Remove logo''),
      (''logoUploaded'', Text ''Logo uploaded.''),
      (''logoRemoved'', Text ''Logo removed.'')])]"

end
