(* ===== verification/I18n_Admin_Tr.thy ===== *)
theory I18n_Admin_Tr
  imports I18n_Base
begin

text \<open>
  \<open>i18n/admin.tr.ts\<close>: the Turkish texts of the admin console.
\<close>

definition admin_tr_texts_1 :: "(string \<times> message) list" where
  "admin_tr_texts_1 =
    [(''clearFilters'', Text ''Filtreleri temizle''),
     (''discardTitle'', Text ''Kaydedilmemi~015f de~011fi~015fiklikler at~0131ls~0131n m~0131?''),
     (''discardBody'', Text ''Bu formdaki de~011fi~015fiklikler kaybolur.''),
     (''discard'', Text ''De~011fi~015fiklikleri at'')]"

definition admin_tr_navGroups :: "(string \<times> message) list" where
  "admin_tr_navGroups =
    [(''navGroups'', Group [
      (''people'', Text ''Ki~015filer ve eri~015fim''),
      (''apis'', Text ''API~2019ler''),
      (''platform'', Text ''Platform'')])]"

definition admin_tr_overview :: "(string \<times> message) list" where
  "admin_tr_overview =
    [(''overview'', Group [
      (''stats'', Text ''Temel g~00f6stergeler''),
      (''apis'', Text ''Etkin API~2019ler''),
      (''apisDetail'', Text ''{{total}} kay~0131tl~0131''),
      (''specErrors_one'', Text ''{{count}} spec y~00fcklenemiyor''),
      (''specErrors_other'', Text ''{{count}} spec y~00fcklenemiyor''),
      (''activeUsers'', Text ''Etkin kullan~0131c~0131lar''),
      (''usersDetail_one'', Text ''Son 24 saatte {{count}} giri~015f ~00b7 {{total}} hesap''),
      (''usersDetail_other'', Text ''Son 24 saatte {{count}} giri~015f ~00b7 {{total}} hesap''),
      (''sessions'', Text ''Etkin oturumlar''),
      (''sessionsDetail'', Text ''~015eu anda oturum a~00e7~0131k taray~0131c~0131lar''),
      (''invokes'', Text ''Try-it ~00e7a~011fr~0131lar~0131, 24 sa''),
      (''invokesDetail'', Text ''{{success}} ba~015far~0131l~0131 ~00b7 {{denied}} reddedildi ~00b7 {{failed}} hatal~0131''),
      (''denied'', Text ''Reddedilen istekler, 24 sa''),
      (''deniedDetail_one'', Text ''{{count}} reddedilen giri~015f''),
      (''deniedDetail_other'', Text ''{{count}} reddedilen giri~015f''),
      (''reviewDenied'', Text ''Denetim kayd~0131nda incele''),
      (''attention'', Text ''~0130lgi bekleyenler''),
      (''attentionBody'', Text ''Portal~0131n buldu~011fu sorunlar; her biri d~00fczeltilece~011fi yere g~00f6t~00fcr~00fcr.''),
      (''allClear'', Text ''~0130lgi bekleyen bir ~015fey yok.''),
      (''open'', Text ''A~00e7''),
      (''since'', Text ''{{when}} itibar~0131yla''),
      (''generated'', Text ''{{when}} g~00fcncellendi; her dakika yenilenir.''),
      (''severity'', Group [
        (''warning'', Text ''Uyar~0131''),
        (''danger'', Text ''Sorun'')]),
      (''kinds'', Group [
        (''spec_error'', Text ''{{name}}: spec al~0131namad~0131''),
        (''spec_missing'', Text ''{{name}}: hen~00fcz spec al~0131nmad~0131''),
        (''spec_stale'', Text ''{{name}}: spec uzun s~00fcredir yenilenmedi''),
        (''encryption_key_in_database'', Text ''~015eifreleme anahtar~0131 veritaban~0131nda tutuluyor''),
        (''ldap_skip_verify'', Text ''LDAP TLS sertifika do~011frulamas~0131 kapal~0131'')])])]"

definition admin_tr_settings :: "(string \<times> message) list" where
  "admin_tr_settings =
    [(''settings'', Group [
      (''tabs'', Group [
        (''session'', Text ''Oturum''),
        (''branding'', Text ''Marka''),
        (''system'', Text ''Sistem'')]),
      (''systemTitle'', Text ''Sistem bilgisi''),
      (''systemBody'', Text ''~00c7al~0131~015fan portal. Burada gizli bir ~015fey yok: ~015fifreleme anahtar~0131 de~011feriyle de~011fil, kayna~011f~0131 ve kimli~011fiyle g~00f6sterilir.''),
      (''version'', Text ''S~00fcr~00fcm''),
      (''goVersion'', Text ''Go ~00e7al~0131~015fma zaman~0131''),
      (''startedAt'', Text ''~00c7al~0131~015fma ba~015flang~0131c~0131''),
      (''database'', Text ''Veritaban~0131 boyutu''),
      (''schema'', Text ''~015eema s~00fcr~00fcm~00fc''),
      (''keySource'', Text ''~015eifreleme anahtar~0131''),
      (''keySources'', Group [
        (''environment'', Text ''DATA_ENCRYPTION_KEY~2019den''),
        (''database'', Text ''Veritaban~0131nda'')]),
      (''specRefresh'', Text ''Arka planda spec yenileme''),
      (''everyMinutes_one'', Text ''Her {{count}} dakikada''),
      (''everyMinutes_other'', Text ''Her {{count}} dakikada''),
      (''auditRetention'', Text ''Denetim kayd~0131 saklama''),
      (''days_one'', Text ''{{count}} g~00fcn''),
      (''days_other'', Text ''{{count}} g~00fcn''),
      (''backups'', Text ''Zamanlanm~0131~015f yedekler''),
      (''metrics'', Text ''Prometheus metrikleri''),
      (''timeZone'', Text ''Saat dilimi'')])]"

definition admin_tr_texts_2 :: "(string \<times> message) list" where
  "admin_tr_texts_2 =
    [(''sectionsLabel'', Text ''Y~00f6netim b~00f6l~00fcmleri''),
     (''saveFailed'', Text ''De~011fi~015fiklik kaydedilemedi.''),
     (''noMatch'', Text ''Aramayla e~015fle~015fen bir ~015fey yok.''),
     (''clearSearch'', Text ''Aramay~0131 temizle''),
     (''keepSecret'', Text ''Kay~0131tl~0131 bir de~011fer var. Korumak i~00e7in bo~015f b~0131rak~0131n.'')]"

definition admin_tr_sections :: "(string \<times> message) list" where
  "admin_tr_sections =
    [(''sections'', Group [
      (''overview'', Text ''Genel bak~0131~015f''),
      (''identity'', Text ''Kimlik sa~011flay~0131c~0131lar''),
      (''settings'', Text ''Ayarlar''),
      (''users'', Text ''Kullan~0131c~0131lar''),
      (''groups'', Text ''Gruplar''),
      (''roles'', Text ''Roller''),
      (''apis'', Text ''API tan~0131mlar~0131''),
      (''ldap'', Text ''LDAP''),
      (''azureAd'', Text ''Azure AD''),
      (''sessionSettings'', Text ''Oturum ayarlar~0131''),
      (''sessions'', Text ''Aktif oturumlar''),
      (''audit'', Text ''Denetim kayd~0131''),
      (''system'', Text ''Marka'')])]"

definition admin_tr_descriptions :: "(string \<times> message) list" where
  "admin_tr_descriptions =
    [(''descriptions'', Group [
      (''overview'', Text ''Portal~0131n durumu bir bak~0131~015fta ve ilgi bekleyenler.''),
      (''identity'', Text ''LDAP ve Microsoft Entra ID (Azure AD) ile giri~015f.''),
      (''settings'', Text ''Oturum s~00fcresi, marka ve sistem bilgisi.''),
      (''users'', Text ''Yerel, LDAP ve Azure AD hesaplar~0131, gruplar~0131 ve durumlar~0131.''),
      (''groups'', Text ''Gruplar kullan~0131c~0131lar~0131 bir araya getirir ve rol al~0131r; bir dizin grubunu izleyebilir.''),
      (''roles'', Text ''Roller, portal geneli ve API baz~0131nda yetkileri bir araya getirir.''),
      (''apis'', Text ''Kay~0131tl~0131 API~2019ler, deneme politikalar~0131 ve kimlerin kullanabilece~011fi. ~0130~00e7 URL~2019ler taray~0131c~0131ya hi~00e7 ula~015fmaz.''),
      (''ldap'', Text ''Dizinle giri~015f ve kullan~0131c~0131 aktar~0131m~0131.''),
      (''azureAd'', Text ''Microsoft Entra ID ile giri~015f.''),
      (''sessionSettings'', Text ''Bir giri~015fin ne kadar s~00fcrece~011fi.''),
      (''sessions'', Text ''~015eu anda oturum a~00e7m~0131~015f herkes.''),
      (''audit'', Text ''Kim, ne zaman, ne yapt~0131 ve sonu~00e7 ne oldu.''),
      (''system'', Text ''Portalda g~00f6r~00fcnen ad ve logo.'')])]"

definition admin_tr_users_part1 :: "(string \<times> message) list" where
  "admin_tr_users_part1 =
    [(''newFrom'', Text ''Kullan~0131c~0131 eklemenin di~011fer yollar~0131''),
     (''newLocal'', Text ''Local kullan~0131c~0131~2026''),
     (''newLdap'', Text ''LDAP~2019tan~2026''),
     (''newAzure'', Text ''Azure AD kullan~0131c~0131s~0131~2026''),
     (''tabsLabel'', Text ''Kullan~0131c~0131 ayr~0131nt~0131lar~0131''),
     (''tabs'', Group [
      (''profile'', Text ''Profil''),
      (''access'', Text ''Gruplar ve yetkiler''),
      (''sessions'', Text ''Oturumlar'')]),
     (''lastLogin'', Text ''Son giri~015f''),
     (''never'', Text ''Hi~00e7''),
     (''groupCount_one'', Text ''{{count}} grup''),
     (''groupCount_other'', Text ''{{count}} grup''),
     (''anySource'', Text ''T~00fcm kaynaklar''),
     (''anyStatus'', Text ''T~00fcm durumlar''),
     (''anyGroup'', Text ''T~00fcm gruplar''),
     (''groupFilter'', Text ''Grup''),
     (''statusFilter'', Group [
      (''active'', Text ''Etkin''),
      (''inactive'', Text ''Devre d~0131~015f~0131''),
      (''admins'', Text ''Y~00f6neticiler''),
      (''mustChange'', Text ''Parola de~011fi~015ftirmeli'')]),
     (''activeToggle'', Text ''{{name}} etkin''),
     (''lockSelf'', Text ''Kendi hesab~0131n~0131z~0131 devre d~0131~015f~0131 b~0131rakamazs~0131n~0131z.''),
     (''lockSelfAdmin'', Text ''Kendi y~00f6netici yetkinizi kald~0131ramazs~0131n~0131z.''),
     (''lockLastAdmin'', Text ''Son etkin y~00f6netici etkin ve y~00f6netici kal~0131r; ~00f6nce ba~015fka bir kullan~0131c~0131y~0131 y~00f6netici yap~0131n.''),
     (''bulkLabel'', Text ''Se~00e7ili kullan~0131c~0131lar i~00e7in i~015flemler''),
     (''selectedCount_one'', Text ''{{count}} se~00e7ili''),
     (''selectedCount_other'', Text ''{{count}} se~00e7ili''),
     (''activate'', Text ''Etkinle~015ftir''),
     (''deactivate'', Text ''Devre d~0131~015f~0131 b~0131rak''),
     (''addToGroup'', Text ''Gruba ekle''),
     (''exportSelected'', Text ''CSV olarak d~0131~015fa aktar''),
     (''exportList_one'', Text ''{{count}} kullan~0131c~0131y~0131 CSV olarak d~0131~015fa aktar''),
     (''exportList_other'', Text ''{{count}} kullan~0131c~0131y~0131 CSV olarak d~0131~015fa aktar''),
     (''clearSelection'', Text ''Se~00e7imi temizle''),
     (''bulkActivateTitle_one'', Text ''{{count}} kullan~0131c~0131 etkinle~015ftirilsin mi?''),
     (''bulkActivateTitle_other'', Text ''{{count}} kullan~0131c~0131 etkinle~015ftirilsin mi?''),
     (''bulkActivateBody'', Text ''Mevcut gruplar~0131 ve rolleriyle yeniden giri~015f yapabilirler.''),
     (''bulkDeactivateTitle_one'', Text ''{{count}} kullan~0131c~0131 devre d~0131~015f~0131 b~0131rak~0131ls~0131n m~0131?''),
     (''bulkDeactivateTitle_other'', Text ''{{count}} kullan~0131c~0131 devre d~0131~015f~0131 b~0131rak~0131ls~0131n m~0131?''),
     (''bulkDeactivateBody'', Text ''Her yerden ~00e7~0131k~0131~015f yapt~0131r~0131l~0131rlar ve yeniden etkinle~015ftirilene kadar giri~015f yapamazlar.''),
     (''bulkSkipped_one'', Text ''Se~00e7ili {{count}} kullan~0131c~0131 d~0131~015far~0131da b~0131rak~0131ld~0131 (kendiniz, son y~00f6netici, zaten o durumda olan ya da de~011fi~015ftiremeyece~011finiz bir y~00f6netici).''),
     (''bulkSkipped_other'', Text ''Se~00e7ili {{count}} kullan~0131c~0131 d~0131~015far~0131da b~0131rak~0131ld~0131 (kendiniz, son y~00f6netici, zaten o durumda olanlar ya da de~011fi~015ftiremeyece~011finiz y~00f6neticiler).''),
     (''bulkActivated_one'', Text ''{{count}} kullan~0131c~0131 etkinle~015ftirildi.''),
     (''bulkActivated_other'', Text ''{{count}} kullan~0131c~0131 etkinle~015ftirildi.'')]"

definition admin_tr_users_part2 :: "(string \<times> message) list" where
  "admin_tr_users_part2 =
    [(''bulkDeactivated_one'', Text ''{{count}} kullan~0131c~0131 devre d~0131~015f~0131 b~0131rak~0131ld~0131.''),
     (''bulkDeactivated_other'', Text ''{{count}} kullan~0131c~0131 devre d~0131~015f~0131 b~0131rak~0131ld~0131.''),
     (''addToGroupTitle_one'', Text ''{{count}} kullan~0131c~0131y~0131 bir gruba ekle''),
     (''addToGroupTitle_other'', Text ''{{count}} kullan~0131c~0131y~0131 bir gruba ekle''),
     (''addToGroupBody'', Text ''Grubun rollerini hemen al~0131rlar. ~0130zinlerine kendiniz sahip olmad~0131~011f~0131n~0131z gruplar reddedilir.''),
     (''group'', Text ''Grup''),
     (''chooseGroup'', Text ''Bir grup se~00e7in~2026''),
     (''bulkAdded_one'', Text ''{{count}} kullan~0131c~0131 {{group}} grubuna eklendi.''),
     (''bulkAdded_other'', Text ''{{count}} kullan~0131c~0131 {{group}} grubuna eklendi.''),
     (''permissions'', Text ''Ge~00e7erli yetkiler''),
     (''permissionsPreview'', Text ''Kaydettikten sonraki yetkiler''),
     (''noPermissions'', Text ''~0130zin yok: kullan~0131c~0131 yaln~0131zca oturum a~00e7an herkese a~00e7~0131k olanlar~0131 g~00f6r~00fcr.''),
     (''adminHasAll'', Text ''Y~00f6neticiler, gruplar~0131ndan ba~011f~0131ms~0131z olarak t~00fcm yetkilere sahiptir.''),
     (''permissionsAfterCreate'', Text ''Ge~00e7erli yetkiler kullan~0131c~0131 olu~015fturulunca g~00f6sterilir.''),
     (''added'', Text ''Eklenen''),
     (''removed'', Text ''Kald~0131r~0131lan''),
     (''viaRole'', Text ''{{group}} ~2192 {{role}}''),
     (''viaOwner'', Text ''{{group}} ~2192 API~2019nin sahip grubu (rols~00fcz)''),
     (''viaAccess'', Text ''{{group}} ~2192 do~011frudan API eri~015fimi (rols~00fcz)''),
     (''search'', Text ''Kullan~0131c~0131 ara''),
     (''new'', Text ''Yeni kullan~0131c~0131''),
     (''edit'', Text ''{{name}} d~00fczenle''),
     (''username'', Text ''Kullan~0131c~0131 ad~0131''),
     (''displayName'', Text ''G~00f6r~00fcnen ad''),
     (''email'', Text ''E-posta''),
     (''source'', Text ''Kaynak''),
     (''status'', Text ''Durum''),
     (''admin'', Text ''Y~00f6netici''),
     (''adminHelper'', Text ''Rollerden ba~011f~0131ms~0131z olarak her ~015feye tam eri~015fim.''),
     (''mustChange'', Text ''Parola de~011fi~015ftirmeli''),
     (''password'', Text ''Parola''),
     (''newPassword'', Text ''Yeni parola''),
     (''newPasswordHelper'', Text ''Mevcut parolay~0131 korumak i~00e7in bo~015f b~0131rak~0131n.''),
     (''groups'', Text ''Gruplar''),
     (''groupsHelper'', Text ''Kullan~0131c~0131 bu gruplar~0131n rollerini al~0131r.''),
     (''forceChange'', Text ''Sonraki giri~015fte yeni parola iste''),
     (''usernameRequired'', Text ''Bir kullan~0131c~0131 ad~0131 girin.''),
     (''passwordRequired'', Text ''Yeni yerel kullan~0131c~0131 i~00e7in parola gerekli.''),
     (''directoryManaged'', Text ''Kullan~0131c~0131 ad~0131, g~00f6r~00fcnen ad ve e-posta {{source}} kayna~011f~0131ndan gelir; burada de~011fi~015ftirilemez.''),
     (''emptyTitle'', Text ''Hen~00fcz kullan~0131c~0131 yok''),
     (''created'', Text ''Kullan~0131c~0131 olu~015fturuldu.''),
     (''updated'', Text ''Kullan~0131c~0131 g~00fcncellendi.''),
     (''deleted'', Text ''Kullan~0131c~0131 silindi.''),
     (''deleteTitle'', Text ''{{name}} silinsin mi?''),
     (''deleteBody'', Text ''Hesap ve oturumlar~0131 kald~0131r~0131l~0131r. Denetim kay~0131tlar~0131nda ad kal~0131r.''),
     (''resetPassword'', Text ''Parolay~0131 s~0131f~0131rla''),
     (''resetTitle'', Text ''{{name}} parolas~0131 s~0131f~0131rlans~0131n m~0131?''),
     (''resetBody'', Text ''Her yerde oturumu kapat~0131l~0131r ve ge~00e7ici parolayla yeni bir parola belirlemesi gerekir.''),
     (''passwordReset'', Text ''Parola s~0131f~0131rland~0131.''),
     (''temporaryPassword'', Text ''{{name}} i~00e7in ge~00e7ici parola'')]"

definition admin_tr_users_part3 :: "(string \<times> message) list" where
  "admin_tr_users_part3 =
    [(''temporaryPasswordHint'', Text ''Yaln~0131z ~015fimdi g~00f6steriliyor. G~00fcvenli bir yolla iletin; sonraki giri~015fte de~011fi~015ftirilmesi gerekir.''),
     (''endSessions'', Text ''T~00fcm oturumlar~0131n~0131 kapat''),
     (''sessionsEnded_one'', Text ''{{count}} oturum kapat~0131ld~0131.''),
     (''sessionsEnded_other'', Text ''{{count}} oturum kapat~0131ld~0131.'')]"

definition admin_tr_users :: "(string \<times> message) list" where
  "admin_tr_users = [(''users'', Group (admin_tr_users_part1 @ admin_tr_users_part2 @ admin_tr_users_part3))]"

definition admin_tr_groups :: "(string \<times> message) list" where
  "admin_tr_groups =
    [(''groups'', Group [
      (''permissionsIntro'', Text ''~00dcyelerin bu grup ~00fczerinden ald~0131~011f~0131 her ~015fey. Roller burada (Ayr~0131nt~0131lar) veya Roller ekran~0131nda d~00fczenlenir; do~011frudan API eri~015fimi API~2019nin kendisinde verilir ve hi~00e7bir rol~00fcn par~00e7as~0131 de~011fildir.''),
      (''fromRoles'', Text ''Rollerinden gelenler''),
      (''noRoleScopes'', Text ''Rollerden gelen yetki yok: grubun rol~00fc yok ya da rolleri bo~015f.''),
      (''directApiAccess'', Text ''Do~011frudan API eri~015fimi (rols~00fcz)''),
      (''directApiAccessHelp'', Text ''API~2019de verilir: API tan~0131mlar~0131 ~2192 Eri~015fim (g~00f6r~00fcnt~00fcleme veya ~00e7a~011f~0131rma) ya da Sahip grup (y~00f6netim). De~011fi~015ftirmek i~00e7in oraya gidin.''),
      (''noDirectAccess'', Text ''Hi~00e7bir API bu gruba do~011frudan eri~015fim vermiyor.''),
      (''ownerGroup'', Text ''Sahip grup: y~00f6netim''),
      (''tabsLabel'', Text ''Grup ayr~0131nt~0131lar~0131''),
      (''tabs'', Group [
        (''details'', Text ''Ayr~0131nt~0131lar''),
        (''members'', Text ''~00dcyeler''),
        (''permissions'', Text ''Yetkiler'')]),
      (''members'', Text ''~00dcyeler''),
      (''addMembers'', Text ''~00dcye ekle''),
      (''add'', Text ''Ekle''),
      (''noMembers'', Text ''Hen~00fcz ~00fcye yok.''),
      (''removeMember'', Text ''{{name}} kullan~0131c~0131s~0131n~0131 gruptan ~00e7~0131kar''),
      (''membersAdded_one'', Text ''{{count}} ~00fcye eklendi.''),
      (''membersAdded_other'', Text ''{{count}} ~00fcye eklendi.''),
      (''memberRemoved'', Text ''{{name}} gruptan ~00e7~0131kar~0131ld~0131.''),
      (''memberCount_one'', Text ''{{count}} ~00fcye''),
      (''memberCount_other'', Text ''{{count}} ~00fcye''),
      (''roleCount_one'', Text ''{{count}} rol''),
      (''roleCount_other'', Text ''{{count}} rol''),
      (''deleteImpact'', Text ''{{members}} bu grup ~00fczerinden sahip olduklar~0131n~0131 kaybeder ({{roles}}). Denetim kay~0131tlar~0131 kal~0131r.''),
      (''search'', Text ''Grup ara''),
      (''new'', Text ''Yeni grup''),
      (''edit'', Text ''{{name}} d~00fczenle''),
      (''name'', Text ''Ad''),
      (''description'', Text ''A~00e7~0131klama''),
      (''mapping'', Text ''Dizin''),
      (''roles'', Text ''Roller''),
      (''rolesHelper'', Text ''~00dcyeler bu rollerin t~00fcm yetkilerini al~0131r.''),
      (''mappingTitle'', Text ''Dizin e~015flemesi''),
      (''mappingBody'', Text ''E~015flenen dizin grubunun ~00fcyeleri giri~015fte bu gruba kat~0131l~0131r, ~00fcyelikleri bitince ayr~0131l~0131r. Rollerine kendinizin sahip olmad~0131~011f~0131 bir grubu e~015flemek reddedilir.''),
      (''azureGroupId'', Text ''Azure AD grup nesne kimli~011fi''),
      (''ldapGroupDn'', Text ''LDAP grup DN''),
      (''ldapGroupDnHelper'', Text ''Kullan~0131c~0131n~0131n memberOf de~011feriyle kar~015f~0131la~015ft~0131r~0131l~0131r.''),
      (''nameRequired'', Text ''Bir grup ad~0131 girin.''),
      (''emptyTitle'', Text ''Hen~00fcz grup yok''),
      (''emptyBody'', Text ''Bir grup olu~015fturun, rol verin, sonra kullan~0131c~0131 ekleyin.''),
      (''created'', Text ''Grup olu~015fturuldu.''),
      (''updated'', Text ''Grup g~00fcncellendi.''),
      (''deleted'', Text ''Grup silindi.''),
      (''deleteTitle'', Text ''{{name}} silinsin mi?''),
      (''deleteBody'', Text ''~00dcyeler bu grup ~00fczerinden ald~0131klar~0131 rolleri kaybeder.'')])]"

definition admin_tr_roles :: "(string \<times> message) list" where
  "admin_tr_roles =
    [(''roles'', Group [
      (''perApiHelp'', Text ''Tek tek API~2019ler i~00e7in yetkiler. Yukar~0131daki portal geneli API yetkileri yetiyorsa bo~015f b~0131rak~0131n: onlar t~00fcm API~2019leri kapsar. Bir grup tek bir API~2019ye rols~00fcz de eri~015febilir; bu API~2019nin kendisinde verilir (API tan~0131mlar~0131 ~2192 Eri~015fim ya da sahip grup) ve burada de~011fil, grubun Yetkiler sekmesinde g~00f6r~00fcn~00fcr.''),
      (''globalCovers'', Text ''{{scopes}} yukar~0131da se~00e7ili ve zaten t~00fcm API~2019ler i~00e7in ge~00e7erli; bu kutular i~015faretli g~00f6sterilir. API baz~0131ndaki kutular yaln~0131z tek bir API~2019ye ek yetki verir.''),
      (''includedBy'', Text ''{{scope}} kaps~0131yor''),
      (''applyTemplate'', Text ''~015eablon uygula''),
      (''groupsWithRole'', Text ''Bu role sahip gruplar''),
      (''groupsWithRoleHelper'', Text ''~00dcyeleri bu rol~00fcn yetkilerini al~0131r. Gruplar ~2192 Roller ile ayn~0131 ~015fey.''),
      (''groupsAdded'', Text ''Rol~00fc alacak gruplar''),
      (''groupsRemoved'', Text ''Rol~00fc kaybedecek gruplar''),
      (''scopes'', Text ''Yetkiler''),
      (''usedByColumn'', Text ''Kullanan''),
      (''unusedShort'', Text ''Kullan~0131lm~0131yor''),
      (''usedBy'', Text ''Kullanan gruplar:''),
      (''unused'', Text ''Hen~00fcz hi~00e7bir grupta bu rol yok.''),
      (''template'', Text ''Bir ~015fablonla ba~015fla''),
      (''templateHelper'', Text ''A~015fa~011f~0131daki se~00e7imin yerine ge~00e7er; sonra d~00fczenleyin.''),
      (''chooseTemplate'', Text ''Bir ~015fablon se~00e7in~2026''),
      (''templates'', Group [
        (''viewer'', Text ''G~00f6r~00fcnt~00fcleyici''),
        (''consumer'', Text ''API kullan~0131c~0131s~0131''),
        (''apiOwner'', Text ''API sahibi''),
        (''auditor'', Text ''Denet~00e7i''),
        (''admin'', Text ''Yetki devredilmi~015f y~00f6netici'')]),
      (''copyFrom'', Text ''Yetkileri ~015furadan kopyala''),
      (''copyFromHelper'', Text ''O rol~00fcn yetkilerini se~00e7ime ekler.''),
      (''chooseRole'', Text ''Bir rol se~00e7in~2026''),
      (''copyFailed'', Text ''Rol~00fcn yetkileri y~00fcklenemedi.''),
      (''diffShort'', Text ''+{{added}} / ~2212{{removed}}''),
      (''diffTitle'', Text ''{{name}} rol~00fcn~00fcn yetkileri de~011fi~015fsin mi?''),
      (''diffAffects_one'', Text ''De~011fi~015fiklik, bu role sahip {{count}} grubun t~00fcm ~00fcyelerine hemen uygulan~0131r.''),
      (''diffAffects_other'', Text ''De~011fi~015fiklik, bu role sahip {{count}} grubun t~00fcm ~00fcyelerine hemen uygulan~0131r.''),
      (''diffUnused'', Text ''Hen~00fcz hi~00e7bir grupta bu rol yok; ~015fu an kimse etkilenmez.''),
      (''diffAdded'', Text ''Eklenen''),
      (''diffRemoved'', Text ''Kald~0131r~0131lan''),
      (''deleteUsed_one'', Text ''{{count}} grup yetkilerini kaybeder: {{groups}}.''),
      (''deleteUsed_other'', Text ''{{count}} grup yetkilerini kaybeder: {{groups}}.''),
      (''search'', Text ''Rol ara''),
      (''new'', Text ''Yeni rol''),
      (''edit'', Text ''{{name}} d~00fczenle''),
      (''name'', Text ''Ad''),
      (''description'', Text ''A~00e7~0131klama''),
      (''nameRequired'', Text ''Bir rol ad~0131 girin.''),
      (''emptyTitle'', Text ''Hen~00fcz rol yok''),
      (''selected_one'', Text ''{{count}} yetki''),
      (''selected_other'', Text ''{{count}} yetki''),
      (''legacyLdap'', Text ''Bu rolde idp.manage~2019in eski ad~0131 olan ldap.manage var; kaydetmek d~00f6n~00fc~015ft~00fcr~00fcr.''),
      (''perApi'', Text ''API baz~0131nda yetkiler''),
      (''api'', Text ''API''),
      (''apiAction'', Text ''{{api}}: {{action}}''),
      (''noApis'', Text ''G~00f6rebildi~011finiz bir API yok. API sahipleri de API tan~0131mlar~0131 ~2192 Eri~015fim ~00fczerinden eri~015fim verebilir.''),
      (''action'', Group [
        (''view'', Text ''G~00f6r~00fcnt~00fcle''),
        (''invoke'', Text ''~00c7a~011f~0131r''),
        (''manage'', Text ''Y~00f6net''),
        (''delete'', Text ''Sil'')]),
      (''family'', Group [
        (''read'', Text ''Okuma''),
        (''write'', Text ''Yazma''),
        (''destructive'', Text ''Y~0131k~0131c~0131'')]),
      (''created'', Text ''Rol olu~015fturuldu.''),
      (''updated'', Text ''Rol g~00fcncellendi.''),
      (''deleted'', Text ''Rol silindi.''),
      (''deleteTitle'', Text ''{{name}} silinsin mi?''),
      (''deleteBody'', Text ''Bu role sahip gruplar yetkilerini kaybeder.'')])]"

definition admin_tr_apis_part1 :: "(string \<times> message) list" where
  "admin_tr_apis_part1 =
    [(''wizardSteps'', Text ''Ad~0131mlar''),
     (''steps'', Group [
      (''source'', Text ''Kaynak''),
      (''access'', Text ''Eri~015fim ve try-it''),
      (''review'', Text ''G~00f6zden ge~00e7ir'')]),
     (''next'', Text ''~0130leri''),
     (''back'', Text ''Geri''),
     (''create'', Text ''API olu~015ftur''),
     (''slugHelper'', Text ''API adresinde yer al~0131r: /apis/<slug>.''),
     (''invalidUrl'', Text ''Mutlak bir http(s) adresi girin.''),
     (''invalidSlug'', Text ''Harf, rakam, nokta, tire ve alt ~00e7izgi; bo~015fluk yok.''),
     (''outOfRange'', Text ''~0130zin verilen aral~0131~011f~0131n d~0131~015f~0131nda.''),
     (''previewSpec'', Text ''Spec~2019i ~00f6nizle''),
     (''previewFailed'', Text ''Spec ~00f6nizlenemedi''),
     (''previewOk'', Text ''Okunabilir''),
     (''untitledSpec'', Text ''Ads~0131z spec''),
     (''previewFormat'', Text ''Bi~00e7im''),
     (''previewOperations'', Text ''Operasyonlar''),
     (''previewTags'', Text ''Etiketler''),
     (''previewSize'', Text ''Boyut''),
     (''reviewNoPreview'', Text ''Spec bu adresle ~00f6nizlenmedi. Kaydettikten sonra al~0131n~0131r; sonucu listede kontrol edin.''),
     (''reviewNoAccess'', Text ''Hen~00fcz hi~00e7bir grubun eri~015fimi yok: eri~015fim verilene kadar bu API~2019yi yaln~0131zca API y~00f6neticileri g~00f6r~00fcr.''),
     (''reviewSpec_one'', Text ''{{count}} operasyon, s~00fcr~00fcm {{version}}''),
     (''reviewSpec_other'', Text ''{{count}} operasyon, s~00fcr~00fcm {{version}}''),
     (''allDocumented'', Text ''Belgelenenlerin t~00fcm~00fc''),
     (''userHeaders'', Text ''Kullan~0131c~0131lardan gelen ba~015fl~0131klar''),
     (''tabsLabel'', Text ''API ayarlar~0131''),
     (''tabs'', Group [
      (''general'', Text ''Genel''),
      (''tryIt'', Text ''Try-it kurallar~0131''),
      (''headers'', Text ''Ba~015fl~0131klar''),
      (''access'', Text ''Eri~015fim'')]),
     (''actions'', Text ''~0130~015flemler''),
     (''refreshNamed'', Text ''{{name}} spec~2019ini yenile''),
     (''refreshedNamed'', Text ''{{name}} spec~2019i yenilendi.''),
     (''specError'', Text ''Al~0131namad~0131''),
     (''operations_one'', Text ''{{count}} operasyon''),
     (''operations_other'', Text ''{{count}} operasyon''),
     (''impactLabel'', Text ''Birlikte silinenler''),
     (''impactAccess_one'', Text ''{{count}} grup eri~015fim izni''),
     (''impactAccess_other'', Text ''{{count}} grup eri~015fim izni''),
     (''impactScopes_one'', Text ''Bu API i~00e7in {{count}} rol izni''),
     (''impactScopes_other'', Text ''Bu API i~00e7in {{count}} rol izni''),
     (''impactFavorites_one'', Text ''{{count}} favori''),
     (''impactFavorites_other'', Text ''{{count}} favori''),
     (''impactOperations_one'', Text ''{{count}} dizinlenmi~015f operasyon''),
     (''impactOperations_other'', Text ''{{count}} dizinlenmi~015f operasyon'')]"

definition admin_tr_apis_part2 :: "(string \<times> message) list" where
  "admin_tr_apis_part2 =
    [(''impactHistory_one'', Text ''{{count}} spec ge~00e7mi~015fi kayd~0131''),
     (''impactHistory_other'', Text ''{{count}} spec ge~00e7mi~015fi kayd~0131''),
     (''search'', Text ''API ara''),
     (''new'', Text ''Yeni API''),
     (''edit'', Text ''{{name}} d~00fczenle''),
     (''name'', Text ''Ad''),
     (''description'', Text ''A~00e7~0131klama''),
     (''spec'', Text ''Spec''),
     (''tryItOff'', Text ''Deneme kapal~0131''),
     (''openapiUrl'', Text ''~0130~00e7 OpenAPI URL~2019i''),
     (''openapiUrlHelper'', Text ''Portal taraf~0131ndan ~00e7ekilir; kullan~0131c~0131lara hi~00e7 g~00f6sterilmez.''),
     (''baseUrl'', Text ''~0130~00e7 temel URL''),
     (''baseUrlHelper'', Text ''Deneme istekleri, belgelenmi~015f yol eklenerek buraya gider.''),
     (''ownerGroup'', Text ''Sahip grup''),
     (''ownerGroupHelper'', Text ''~00dcyeleri bu API~2019yi y~00f6netir. API y~00f6neticileri belirler.''),
     (''noOwnerGroup'', Text ''Sahip grup yok''),
     (''tagsHelper'', Text ''Bir etiket yaz~0131p Enter~2019a bas~0131n ya da mevcut olan~0131 se~00e7in.''),
     (''active'', Text ''Katalogda listelensin''),
     (''activeHelper'', Text ''Pasif API~2019ler kullan~0131c~0131lardan gizlenir.''),
     (''tryItHelper'', Text ''~00c7a~011f~0131rma yetkisi olan kullan~0131c~0131lar API~2019yi portal ~00fczerinden ~00e7a~011f~0131rabilir.''),
     (''policy'', Text ''Deneme istekleri''),
     (''policyBody'', Text ''Kullan~0131c~0131lar~0131n portal ~00fczerinden g~00f6nderebilecekleri.''),
     (''methodsHelper'', Text ''Bo~015f: belgelenmi~015f t~00fcm metotlar.''),
     (''pathsHelper'', Text ''Bo~015f: belgelenmi~015f t~00fcm yollar. ~00d6r. /v1/orders''),
     (''allowedHeaders'', Text ''Kullan~0131c~0131lar~0131n g~00f6nderebilece~011fi header~2019lar''),
     (''allowedHeadersHelper'', Text ''Content-Type, Accept, Accept-Language ve User-Agent d~0131~015f~0131nda. Y~00f6nlendirme header~2019lar~0131 (X-Forwarded-*, ~2026) hi~00e7bir zaman iletilmez.''),
     (''forwardAllX'', Text ''Di~011fer t~00fcm X-* header~2019lar~0131n~0131 da ilet''),
     (''forwardAllXHelper'', Text ''1.5.0 ~00f6ncesi davran~0131~015f; yaln~0131z buna ihtiya~00e7 duyan API~2019ler i~00e7in.''),
     (''injectHeaders'', Text ''Portal~0131n ekledi~011fi header~2019lar''),
     (''injectHeadersHelper'', Text ''~00d6r. bir servis API anahtar~0131. De~011ferler ~015fifreli saklan~0131r, bir daha g~00f6sterilmez ve kullan~0131c~0131n~0131n g~00f6nderdi~011fini ezer. Kay~0131tl~0131 de~011feri korumak i~00e7in bo~015f b~0131rak~0131n.''),
     (''headerName'', Text ''{{index}}. header ad~0131''),
     (''headerValue'', Text ''{{index}}. header de~011feri''),
     (''unchanged'', Text ''(de~011fi~015fmedi)''),
     (''value'', Text ''de~011fer''),
     (''removeHeader'', Text ''{{name}} header~2019~0131n~0131 kald~0131r''),
     (''addHeader'', Text ''Header ekle''),
     (''rateLimit'', Text ''H~0131z s~0131n~0131r~0131 (kullan~0131c~0131 ba~015f~0131na dakikada ~00e7a~011fr~0131)''),
     (''rateLimitHelper'', Text ''0 = varsay~0131lan (120).''),
     (''timeout'', Text ''Zaman a~015f~0131m~0131 (saniye)''),
     (''timeoutHelper'', Text ''0 = portal varsay~0131lan~0131.''),
     (''access'', Text ''Eri~015fim''),
     (''accessBody'', Text ''Bir gruba bu API~2019de do~011frudan, rol olmadan g~00f6r~00fcnt~00fcleme veya ~00e7a~011f~0131rma verir: hi~00e7bir rol de~011fi~015fmez ve verilen eri~015fim grubun Yetkiler sekmesinde g~00f6r~00fcn~00fcr. ~00dcyeler rollerinden gelenleri de korur.''),
     (''noAccess'', Text ''Bu liste ~00fczerinden eri~015fimi olan grup yok.''),
     (''accessLevel'', Text ''{{group}} eri~015fimi''),
     (''removeAccess'', Text ''{{group}} eri~015fimini kald~0131r''),
     (''grantGroup'', Text ''Bir gruba eri~015fim ver''),
     (''grantPlaceholder'', Text ''Grup se~00e7in~2026'')]"

definition admin_tr_apis_part3 :: "(string \<times> message) list" where
  "admin_tr_apis_part3 =
    [(''required'', Text ''Zorunlu.''),
     (''emptyTitle'', Text ''Kay~0131tl~0131 API yok''),
     (''emptyBody'', Text ''~0130lk API~2019yi i~00e7 OpenAPI ve temel URL~2019iyle kaydedin.''),
     (''emptyBodyOwner'', Text ''Sahip grubunda oldu~011funuz API~2019ler burada g~00f6r~00fcn~00fcr.''),
     (''refresh'', Text ''Spec~2019i yenile''),
     (''refreshed'', Text ''Spec yenilendi.''),
     (''refreshFailed'', Text ''Spec al~0131namad~0131.''),
     (''created'', Text ''API olu~015fturuldu.''),
     (''updated'', Text ''API g~00fcncellendi.''),
     (''deleted'', Text ''API silindi.''),
     (''deleteTitle'', Text ''{{name}} silinsin mi?''),
     (''deleteBody'', Text ''Yetkileri ve eri~015fim kay~0131tlar~0131 da kald~0131r~0131l~0131r. Denetim kay~0131tlar~0131 kal~0131r.'')]"

definition admin_tr_apis :: "(string \<times> message) list" where
  "admin_tr_apis = [(''apis'', Group (admin_tr_apis_part1 @ admin_tr_apis_part2 @ admin_tr_apis_part3))]"

definition admin_tr_ldapImport :: "(string \<times> message) list" where
  "admin_tr_ldapImport =
    [(''ldapImport'', Group [
      (''title'', Text ''LDAP~2019tan import''),
      (''body'', Text ''Dizindeki ki~015fileri bulun ve ilk giri~015flerinden ~00f6nce ekleyin. Her hesap ad~0131n~0131 ve e-postas~0131n~0131 dizinden al~0131r.''),
      (''groups'', Text ''Gruplara ekle''),
      (''groupsHelper'', Text ''~0130ste~011fe ba~011fl~0131. Yetkilerine kendiniz sahip olmad~0131~011f~0131n~0131z gruplar reddedilir.''),
      (''importedToGroups_one'', Text ''{{count}} kullan~0131c~0131 import edildi; {{added}} grup ~00fcyeli~011fi eklendi.''),
      (''importedToGroups_other'', Text ''{{count}} kullan~0131c~0131 import edildi; {{added}} grup ~00fcyeli~011fi eklendi.''),
      (''notImported'', Text ''Hepsi import edilmedi''),
      (''skipped'', Text ''Zaten local veya Azure AD hesab~0131 (d~00f6n~00fc~015ft~00fcr~00fclmedi): {{names}}.''),
      (''missing'', Text ''Dizinde bulunamad~0131: {{names}}.'')])]"

definition admin_tr_azurePre :: "(string \<times> message) list" where
  "admin_tr_azurePre =
    [(''azurePre'', Group [
      (''title'', Text ''Azure AD kullan~0131c~0131s~0131 ekle''),
      (''body'', Text ''Hesap ki~015finin ilk Microsoft giri~015fini bekler; b~00f6ylece ~015fimdiden gruplara koyabilirsiniz. Bu yap~0131lmazsa hesaplar ilk giri~015fte, grupsuz a~00e7~0131l~0131r.''),
      (''upn'', Text ''Oturum a~00e7ma ad~0131 (UPN)''),
      (''upnHelper'', Text ''E-postadan farkl~0131ysa, ~00f6r. jdoe@corp.onmicrosoft.com. ~0130lk giri~015f ~00f6nce bu adla, yoksa e-postayla e~015fle~015ftirilir.''),
      (''emailRequired'', Text ''Kullan~0131c~0131n~0131n e-posta adresini girin.''),
      (''submit'', Text ''Kullan~0131c~0131y~0131 ekle''),
      (''created'', Text ''{{name}} eklendi; hesap ilk Microsoft giri~015finde ba~011flan~0131r.''),
      (''createdBeside'', Text ''{{name}} eklendi; ilk Microsoft giri~015finde ba~011flan~0131r. {{other}} hesab~0131ndan ayr~0131 bir hesapt~0131r, gruplar~0131n~0131 ayr~0131ca verin.'')])]"

definition admin_tr_ldap :: "(string \<times> message) list" where
  "admin_tr_ldap =
    [(''ldap'', Group [
      (''autoCreateTitle'', Text ''~0130lk giri~015fte hesap''),
      (''autoCreateBody'', Text ''Herkesi ~00f6nce import etmek yerine, dizin kullan~0131c~0131lar~0131na ilk giri~015flerinde hesap a~00e7~0131labilir.''),
      (''autoCreate'', Text ''~0130lk giri~015fte hesap olu~015ftur''),
      (''autoCreateHelper'', Text ''Yaln~0131zca dizin parolay~0131 kabul ettikten sonra. Hesab~0131n siz verene kadar grubu ve yetkisi olmaz (dizin gruplar~0131na e~015flenmi~015f gruplar hari~00e7). Ayn~0131 adl~0131 mevcut bir local veya Azure AD hesab~0131 asla devral~0131nmaz.''),
      (''autoCreateGroups'', Text ''Yaln~0131zca bu dizin gruplar~0131n~0131n ~00fcyeleri''),
      (''autoCreateGroupsHelper'', Text ''Grup DN~2019leri, sat~0131r ba~015f~0131na bir tane; kullan~0131c~0131n~0131n memberOf de~011feriyle kar~015f~0131la~015ft~0131r~0131l~0131r. Bo~015f: kullan~0131c~0131 filtresinin buldu~011fu herkes.''),
      (''autoCreateEveryone'', Text ''Kullan~0131c~0131 filtresinin buldu~011fu her dizin kullan~0131c~0131s~0131 (yetkisiz) bir hesap alabilir. S~0131n~0131rlamak i~00e7in yukar~0131ya grup ekleyin.''),
      (''importMoved'', Text ''Dizin kullan~0131c~0131lar~0131n~0131 import etmek Kullan~0131c~0131lar ~2192 Yeni kullan~0131c~0131 ~2192 LDAP~2019tan b~00f6l~00fcm~00fcnde; konacaklar~0131 gruplarla birlikte.''),
      (''importOpen'', Text ''Kullan~0131c~0131 import et''),
      (''alreadyImported'', Text ''Zaten i~00e7e aktar~0131lm~0131~015f''),
      (''otherAccount'', Text ''{{source}} hesab~0131 var: atlan~0131r''),
      (''connection'', Text ''Ba~011flant~0131''),
      (''connectionBody'', Text ''Portal~0131n kullan~0131c~0131lar~0131 do~011frulad~0131~011f~0131 dizin.''),
      (''enabled'', Text ''LDAP ile giri~015f''),
      (''enabledHelper'', Text ''Kullan~0131c~0131lar dizin hesaplar~0131yla giri~015f yapabilir.''),
      (''host'', Text ''Sunucu''),
      (''port'', Text ''Port''),
      (''url'', Text ''URL''),
      (''urlHelper'', Text ''Sunucu ve port yerine, ~00f6r. ldaps://dc1.corp.example:636''),
      (''timeout'', Text ''Zaman a~015f~0131m~0131 (saniye)''),
      (''bindDn'', Text ''Bind DN''),
      (''bindPassword'', Text ''Bind parolas~0131''),
      (''userBaseDn'', Text ''Kullan~0131c~0131 temel DN''),
      (''userBaseDns'', Text ''Ek kullan~0131c~0131 temel DN~2019leri''),
      (''userBaseDnsHelper'', Text ''Her sat~0131ra bir tane.''),
      (''usernameAttribute'', Text ''Kullan~0131c~0131 ad~0131 ~00f6zniteli~011fi''),
      (''displayNameAttribute'', Text ''G~00f6r~00fcnen ad ~00f6zniteli~011fi''),
      (''emailAttribute'', Text ''E-posta ~00f6zniteli~011fi''),
      (''userFilter'', Text ''Kullan~0131c~0131 filtresi''),
      (''userFilterHelper'', Text ''Kullan~0131c~0131 ad~0131 aramaya her zaman dahil edilir: %s onunla de~011fi~015ftirilir, ba~015fka bir filtre (usernameAttribute=kullan~0131c~0131ad~0131) ile birle~015ftirilir. ~00d6r. (objectClass=user)''),
      (''useSsl'', Text ''SSL kullan (LDAPS)''),
      (''startTls'', Text ''StartTLS''),
      (''skipVerify'', Text ''TLS sertifika do~011frulamas~0131n~0131 atla''),
      (''skipVerifyWarning'', Text ''TLS sertifika do~011frulamas~0131 kapal~0131: a~011f yolundaki herkes kendini dizin gibi g~00f6sterip bind ve kullan~0131c~0131 parolalar~0131n~0131 okuyabilir. Yaln~0131z test i~00e7in kullan~0131n.''),
      (''test'', Text ''Ba~011flant~0131y~0131 test et''),
      (''testOk'', Text ''Dizine ba~011flan~0131ld~0131.''),
      (''testFailed'', Text ''Test ba~015far~0131s~0131z oldu.''),
      (''saved'', Text ''LDAP ayarlar~0131 kaydedildi.''),
      (''loginTest'', Text ''Giri~015f testi''),
      (''loginTestBody'', Text ''Giri~015f ad~0131mlar~0131n~0131 kay~0131tl~0131 ayarlarla ~00e7al~0131~015ft~0131r~0131r ve nerede tak~0131ld~0131~011f~0131n~0131 g~00f6sterir. Hi~00e7bir ~015fey de~011fi~015fmez.''),
      (''loginTestPasswordHelper'', Text ''Yaln~0131z aramay~0131 test etmek i~00e7in bo~015f b~0131rak~0131n.''),
      (''runTest'', Text ''Testi ~00e7al~0131~015ft~0131r''),
      (''steps'', Text ''Giri~015f ad~0131mlar~0131''),
      (''stepOk'', Text ''Ge~00e7ti''),
      (''stepFailed'', Text ''Ba~015far~0131s~0131z''),
      (''import'', Text ''Kullan~0131c~0131 aktar''),
      (''importBody'', Text ''Dizin kullan~0131c~0131lar~0131n~0131 bulun ve ilk giri~015flerinden ~00f6nce portala ekleyin.''),
      (''searchQuery'', Text ''Ad, kullan~0131c~0131 ad~0131 veya e-posta''),
      (''search'', Text ''Ara''),
      (''searchFailed'', Text ''Dizin aramas~0131 ba~015far~0131s~0131z oldu.''),
      (''results'', Text ''Dizin kullan~0131c~0131lar~0131''),
      (''noResults'', Text ''Dizin kullan~0131c~0131s~0131 bulunamad~0131''),
      (''noResultsBody'', Text ''Kullan~0131c~0131 filtresini ve ~00f6znitelikleri kontrol edin ya da ba~015fka bir ~015fey aray~0131n.''),
      (''importSelected_one'', Text ''{{count}} kullan~0131c~0131y~0131 aktar''),
      (''importSelected_other'', Text ''{{count}} kullan~0131c~0131y~0131 aktar''),
      (''imported_one'', Text ''{{count}} kullan~0131c~0131 aktar~0131ld~0131.''),
      (''imported_other'', Text ''{{count}} kullan~0131c~0131 aktar~0131ld~0131.''),
      (''importedSkipped_one'', Text ''{{count}} kullan~0131c~0131 aktar~0131ld~0131. Atlananlar (zaten yerel veya Azure AD hesab~0131): {{skipped}}.''),
      (''importedSkipped_other'', Text ''{{count}} kullan~0131c~0131 aktar~0131ld~0131. Atlananlar (zaten yerel veya Azure AD hesab~0131): {{skipped}}.'')])]"

definition admin_tr_azure :: "(string \<times> message) list" where
  "admin_tr_azure =
    [(''azure'', Group [
      (''copyRedirect'', Text ''Y~00f6nlendirme adresini kopyala''),
      (''title'', Text ''Microsoft Entra ID (Azure AD)''),
      (''body'', Text ''Kullan~0131c~0131lar Microsoft hesaplar~0131yla giri~015f yapar; neler yapabileceklerine yine portal gruplar~0131 ve rolleri karar verir.''),
      (''enabled'', Text ''Microsoft ile giri~015f''),
      (''enabledHelper'', Text ''Giri~015f sayfas~0131nda ~201cMicrosoft ile giri~015f yap~201d d~00fc~011fmesini g~00f6sterir.''),
      (''tenantId'', Text ''Tenant ID''),
      (''clientId'', Text ''Client ID''),
      (''clientSecret'', Text ''Client secret''),
      (''redirectUrl'', Text ''Y~00f6nlendirme URL~2019i''),
      (''redirectUrlHelper'', Text ''Uygulama kayd~0131nda tan~0131mlay~0131n, ~00f6r. {{url}}''),
      (''allowedGroups'', Text ''~0130zinli gruplar''),
      (''allowedGroupsHelper'', Text ''Grup nesne kimlikleri, her sat~0131ra bir tane. Doluysa yaln~0131z ~00fcyeler giri~015f yapabilir (token yap~0131land~0131rmas~0131nda groups claim~2019i gerekir).''),
      (''note'', Text ''LDAP ve yerel hesaplar ~00e7al~0131~015fmaya devam eder; Microsoft giri~015fi ek bir yoldur.''),
      (''test'', Text ''Test et''),
      (''testOk'', Text ''Tenant bulundu; client ID ve secret kabul edildi.''),
      (''testFailed'', Text ''Test ba~015far~0131s~0131z oldu.''),
      (''saved'', Text ''Azure AD ayarlar~0131 kaydedildi.'')])]"

definition admin_tr_sessionSettings :: "(string \<times> message) list" where
  "admin_tr_sessionSettings =
    [(''sessionSettings'', Group [
      (''title'', Text ''Oturum s~00fcresi''),
      (''body'', Text ''Yeni ve mevcut oturumlara uygulan~0131r.''),
      (''idle'', Text ''Hareketsizlik s~00fcresi (dakika)''),
      (''idleHelper'', Text ''Bu s~00fcre boyunca i~015flem yap~0131lmazsa oturum kapan~0131r. 5 dakika ile 24 saat aras~0131.''),
      (''idleRange'', Text ''5 ile 1440 dakika aras~0131nda olmal~0131.''),
      (''max'', Text ''En uzun oturum s~00fcresi (saat)''),
      (''maxHelper'', Text ''Oturum, etkin olsa bile giri~015ften bu kadar sonra kapan~0131r. 1 saat ile 30 g~00fcn aras~0131.''),
      (''maxRange'', Text ''1 ile 720 saat aras~0131nda olmal~0131.''),
      (''saved'', Text ''Oturum ayarlar~0131 kaydedildi.'')])]"

definition admin_tr_sessions :: "(string \<times> message) list" where
  "admin_tr_sessions =
    [(''sessions'', Group [
      (''search'', Text ''Kullan~0131c~0131 veya adrese g~00f6re ara''),
      (''user'', Text ''Kullan~0131c~0131''),
      (''you'', Text ''Siz''),
      (''device'', Text ''Cihaz''),
      (''address'', Text ''Adres''),
      (''lastActive'', Text ''Son etkinlik''),
      (''expires'', Text ''Biti~015f''),
      (''end'', Text ''Oturumu kapat''),
      (''endTitle'', Text ''{{name}} oturumu kapat~0131ls~0131n m~0131?''),
      (''endBody'', Text ''O cihazda oturumu kapan~0131r.''),
      (''ended'', Text ''{{name}} oturumu kapat~0131ld~0131.''),
      (''empty'', Text ''Aktif oturum yok.'')])]"

definition admin_tr_audit :: "(string \<times> message) list" where
  "admin_tr_audit =
    [(''audit'', Group [
      (''setByPeriod'', Text ''D~00f6nem belirliyor.''),
      (''untilNow'', Text ''~015eu ana kadar.''),
      (''period'', Text ''D~00f6nem''),
      (''presets'', Group [
        (''1h'', Text ''Son 1 saat''),
        (''24h'', Text ''Son 24 saat''),
        (''7d'', Text ''Son 7 g~00fcn''),
        (''30d'', Text ''Son 30 g~00fcn''),
        (''custom'', Text ''~00d6zel tarihler'')]),
      (''actionHelper'', Text ''~00d6r. t~00fcm kullan~0131c~0131 de~011fi~015fiklikleri i~00e7in user.; yazd~0131k~00e7a ~00f6neriler gelir.''),
      (''time'', Text ''Zaman''),
      (''user'', Text ''Kullan~0131c~0131''),
      (''action'', Text ''~0130~015flem''),
      (''actionPrefix'', Text ''~0130~015flem ~015fununla ba~015flar''),
      (''outcome'', Text ''Sonu~00e7''),
      (''anyOutcome'', Text ''Hepsi''),
      (''outcomes'', Group [
        (''success'', Text ''Ba~015far~0131l~0131''),
        (''denied'', Text ''Reddedildi''),
        (''failed'', Text ''Ba~015far~0131s~0131z'')]),
      (''target'', Text ''Hedef''),
      (''status'', Text ''Durum''),
      (''reason'', Text ''Sebep / de~011fi~015fiklikler''),
      (''changes'', Text ''De~011fi~015fen alanlar''),
      (''duration'', Text ''S~00fcre''),
      (''sourceIp'', Text ''Kaynak IP''),
      (''userAgent'', Text ''User agent''),
      (''details'', Text ''Ayr~0131nt~0131lar''),
      (''from'', Text ''Ba~015flang~0131~00e7''),
      (''to'', Text ''Biti~015f''),
      (''toHelper'', Text ''Bu g~00fcn dahil de~011fil.''),
      (''apply'', Text ''Uygula''),
      (''reset'', Text ''S~0131f~0131rla''),
      (''export'', Text ''CSV d~0131~015fa aktar''),
      (''exportFailed'', Text ''D~0131~015fa aktarma ba~015far~0131s~0131z oldu.''),
      (''truncated_one'', Text ''D~0131~015fa aktar~0131mda yaln~0131z en yeni {{count}} kay~0131t var (AUDIT_EXPORT_MAX_ROWS). Gerisi i~00e7in filtreleri daralt~0131n.''),
      (''truncated_other'', Text ''D~0131~015fa aktar~0131mda yaln~0131z en yeni {{count}} kay~0131t var (AUDIT_EXPORT_MAX_ROWS). Gerisi i~00e7in filtreleri daralt~0131n.''),
      (''entry'', Text ''Denetim kayd~0131''),
      (''empty'', Text ''Denetim kayd~0131 yok''),
      (''emptyBody'', Text ''Bu filtrelerle e~015fle~015fen kay~0131t yok.''),
      (''none'', Text ''Kay~0131t yok'')])]"

definition admin_tr_system :: "(string \<times> message) list" where
  "admin_tr_system =
    [(''system'', Group [
      (''branding'', Text ''Ad''),
      (''brandingBody'', Text ''~00dcst ~00e7ubukta, giri~015f sayfas~0131nda ve taray~0131c~0131 sekmesinde g~00f6r~00fcn~00fcr.''),
      (''brandTitle'', Text ''Portal ad~0131''),
      (''brandTitleHelper'', Text ''~00d6r. ~201cAcme API Portal~0131~201d.''),
      (''saved'', Text ''Ad kaydedildi.''),
      (''logo'', Text ''Logo''),
      (''logoBody'', Text ''Ad~0131n yan~0131nda g~00f6r~00fcn~00fcr.''),
      (''currentLogo'', Text ''Mevcut logo''),
      (''noLogo'', Text ''Logo y~00fcklenmemi~015f.''),
      (''chooseFile'', Text ''G~00f6rsel dosyas~0131''),
      (''fileHelper'', Text ''PNG, JPEG, SVG veya WEBP, en fazla 256 KB.''),
      (''upload'', Text ''Logoyu y~00fckle''),
      (''removeLogo'', Text ''Logoyu kald~0131r''),
      (''logoUploaded'', Text ''Logo y~00fcklendi.''),
      (''logoRemoved'', Text ''Logo kald~0131r~0131ld~0131.'')])]"

end
