(* ===== verification/Spec_I18n.thy ===== *)
theory Spec_I18n
  imports Spec_History I18n_En I18n_Tr I18n_Admin_En I18n_Admin_Tr
begin

text \<open>
  \<open>i18n/index.ts\<close>: the two dictionaries put together, and the choice of a language. The sections are
  compared one by one by evaluation; \<open>dictionaries_mirror\<close> is the comparison of the whole.
\<close>

definition admin_en :: "(string \<times> message) list" where
  "admin_en =
     admin_en_texts_1 @
     admin_en_navGroups @
     admin_en_overview @
     admin_en_settings @
     admin_en_texts_2 @
     admin_en_sections @
     admin_en_descriptions @
     admin_en_users @
     admin_en_groups @
     admin_en_roles @
     admin_en_apis @
     admin_en_ldapImport @
     admin_en_azurePre @
     admin_en_ldap @
     admin_en_azure @
     admin_en_sessionSettings @
     admin_en_sessions @
     admin_en_audit @
     admin_en_system"

definition en :: message where
  "en = Group (
     en_common @
     en_nav @
     en_shell @
     en_theme @
     en_language @
     en_authSource @
     en_help @
     en_palette @
     en_shortcuts @
     en_session @
     en_warnings @
     en_errors @
     en_form @
     en_confirm @
     en_combobox @
     en_table @
     en_password @
     en_login @
     en_account @
     en_catalog @
     en_api @
     en_json @
     en_schema @
     [(''admin'', Group admin_en)])"

definition admin_tr :: "(string \<times> message) list" where
  "admin_tr =
     admin_tr_texts_1 @
     admin_tr_navGroups @
     admin_tr_overview @
     admin_tr_settings @
     admin_tr_texts_2 @
     admin_tr_sections @
     admin_tr_descriptions @
     admin_tr_users @
     admin_tr_groups @
     admin_tr_roles @
     admin_tr_apis @
     admin_tr_ldapImport @
     admin_tr_azurePre @
     admin_tr_ldap @
     admin_tr_azure @
     admin_tr_sessionSettings @
     admin_tr_sessions @
     admin_tr_audit @
     admin_tr_system"

definition tr :: message where
  "tr = Group (
     tr_common @
     tr_nav @
     tr_shell @
     tr_theme @
     tr_language @
     tr_authSource @
     tr_help @
     tr_palette @
     tr_shortcuts @
     tr_session @
     tr_warnings @
     tr_errors @
     tr_form @
     tr_confirm @
     tr_combobox @
     tr_table @
     tr_password @
     tr_login @
     tr_account @
     tr_catalog @
     tr_api @
     tr_json @
     tr_schema @
     [(''admin'', Group admin_tr)])"

section \<open>The sections of both languages\<close>

lemma mirror_common: "mirror_lists en_common tr_common"
  by (unfold en_common_def tr_common_def) (simp add: mirror_eval brace_eval cong: keep)

lemma mirror_nav: "mirror_lists en_nav tr_nav"
  by (unfold en_nav_def tr_nav_def) (simp add: mirror_eval brace_eval cong: keep)

lemma mirror_shell: "mirror_lists en_shell tr_shell"
  by (unfold en_shell_def tr_shell_def) (simp add: mirror_eval brace_eval cong: keep)

lemma mirror_theme: "mirror_lists en_theme tr_theme"
  by (unfold en_theme_def tr_theme_def) (simp add: mirror_eval brace_eval cong: keep)

lemma mirror_language: "mirror_lists en_language tr_language"
  by (unfold en_language_def tr_language_def) (simp add: mirror_eval brace_eval cong: keep)

lemma mirror_authSource: "mirror_lists en_authSource tr_authSource"
  by (unfold en_authSource_def tr_authSource_def) (simp add: mirror_eval brace_eval cong: keep)

lemma mirror_help: "mirror_lists en_help tr_help"
  by (unfold en_help_def tr_help_def) (simp add: mirror_eval brace_eval cong: keep)

lemma mirror_palette: "mirror_lists en_palette tr_palette"
  by (unfold en_palette_def tr_palette_def) (simp add: mirror_eval brace_eval cong: keep)

lemma mirror_shortcuts: "mirror_lists en_shortcuts tr_shortcuts"
  by (unfold en_shortcuts_def tr_shortcuts_def) (simp add: mirror_eval brace_eval cong: keep)

lemma mirror_session: "mirror_lists en_session tr_session"
  by (unfold en_session_def tr_session_def) (simp add: mirror_eval brace_eval cong: keep)

lemma mirror_warnings: "mirror_lists en_warnings tr_warnings"
  by (unfold en_warnings_def tr_warnings_def) (simp add: mirror_eval brace_eval cong: keep)

lemma mirror_errors: "mirror_lists en_errors tr_errors"
  by (unfold en_errors_def tr_errors_def) (simp add: mirror_eval brace_eval cong: keep)

lemma mirror_form: "mirror_lists en_form tr_form"
  by (unfold en_form_def tr_form_def) (simp add: mirror_eval brace_eval cong: keep)

lemma mirror_confirm: "mirror_lists en_confirm tr_confirm"
  by (unfold en_confirm_def tr_confirm_def) (simp add: mirror_eval brace_eval cong: keep)

lemma mirror_combobox: "mirror_lists en_combobox tr_combobox"
  by (unfold en_combobox_def tr_combobox_def) (simp add: mirror_eval brace_eval cong: keep)

lemma mirror_table: "mirror_lists en_table tr_table"
  by (unfold en_table_def tr_table_def) (simp add: mirror_eval brace_eval cong: keep)

lemma mirror_password: "mirror_lists en_password tr_password"
  by (unfold en_password_def tr_password_def) (simp add: mirror_eval brace_eval cong: keep)

lemma mirror_login: "mirror_lists en_login tr_login"
  by (unfold en_login_def tr_login_def) (simp add: mirror_eval brace_eval cong: keep)

lemma mirror_account: "mirror_lists en_account tr_account"
  by (unfold en_account_def tr_account_def) (simp add: mirror_eval brace_eval cong: keep)

lemma mirror_catalog_part1: "mirror_lists en_catalog_part1 tr_catalog_part1"
  by (unfold en_catalog_part1_def tr_catalog_part1_def) (simp add: mirror_eval brace_eval cong: keep)

lemma mirror_catalog_part2: "mirror_lists en_catalog_part2 tr_catalog_part2"
  by (unfold en_catalog_part2_def tr_catalog_part2_def) (simp add: mirror_eval brace_eval cong: keep)

lemma mirror_catalog: "mirror_lists en_catalog tr_catalog"
  by (unfold en_catalog_def tr_catalog_def) (intro mirror_group mirror_lists_append mirror_catalog_part1 mirror_catalog_part2)

lemma mirror_api_part1: "mirror_lists en_api_part1 tr_api_part1"
  by (unfold en_api_part1_def tr_api_part1_def) (simp add: mirror_eval brace_eval cong: keep)

lemma mirror_api_part2: "mirror_lists en_api_part2 tr_api_part2"
  by (unfold en_api_part2_def tr_api_part2_def) (simp add: mirror_eval brace_eval cong: keep)

lemma mirror_api_part3: "mirror_lists en_api_part3 tr_api_part3"
  by (unfold en_api_part3_def tr_api_part3_def) (simp add: mirror_eval brace_eval cong: keep)

lemma mirror_api_part4: "mirror_lists en_api_part4 tr_api_part4"
  by (unfold en_api_part4_def tr_api_part4_def) (simp add: mirror_eval brace_eval cong: keep)

lemma mirror_api: "mirror_lists en_api tr_api"
  by (unfold en_api_def tr_api_def) (intro mirror_group mirror_lists_append mirror_api_part1 mirror_api_part2 mirror_api_part3 mirror_api_part4)

lemma mirror_json: "mirror_lists en_json tr_json"
  by (unfold en_json_def tr_json_def) (simp add: mirror_eval brace_eval cong: keep)

lemma mirror_schema: "mirror_lists en_schema tr_schema"
  by (unfold en_schema_def tr_schema_def) (simp add: mirror_eval brace_eval cong: keep)

lemma mirror_admin_texts_1: "mirror_lists admin_en_texts_1 admin_tr_texts_1"
  by (unfold admin_en_texts_1_def admin_tr_texts_1_def) (simp add: mirror_eval brace_eval cong: keep)

lemma mirror_admin_navGroups: "mirror_lists admin_en_navGroups admin_tr_navGroups"
  by (unfold admin_en_navGroups_def admin_tr_navGroups_def) (simp add: mirror_eval brace_eval cong: keep)

lemma mirror_admin_overview: "mirror_lists admin_en_overview admin_tr_overview"
  by (unfold admin_en_overview_def admin_tr_overview_def) (simp add: mirror_eval brace_eval cong: keep)

lemma mirror_admin_settings: "mirror_lists admin_en_settings admin_tr_settings"
  by (unfold admin_en_settings_def admin_tr_settings_def) (simp add: mirror_eval brace_eval cong: keep)

lemma mirror_admin_texts_2: "mirror_lists admin_en_texts_2 admin_tr_texts_2"
  by (unfold admin_en_texts_2_def admin_tr_texts_2_def) (simp add: mirror_eval brace_eval cong: keep)

lemma mirror_admin_sections: "mirror_lists admin_en_sections admin_tr_sections"
  by (unfold admin_en_sections_def admin_tr_sections_def) (simp add: mirror_eval brace_eval cong: keep)

lemma mirror_admin_descriptions: "mirror_lists admin_en_descriptions admin_tr_descriptions"
  by (unfold admin_en_descriptions_def admin_tr_descriptions_def) (simp add: mirror_eval brace_eval cong: keep)

lemma mirror_admin_users_part1: "mirror_lists admin_en_users_part1 admin_tr_users_part1"
  by (unfold admin_en_users_part1_def admin_tr_users_part1_def) (simp add: mirror_eval brace_eval cong: keep)

lemma mirror_admin_users_part2: "mirror_lists admin_en_users_part2 admin_tr_users_part2"
  by (unfold admin_en_users_part2_def admin_tr_users_part2_def) (simp add: mirror_eval brace_eval cong: keep)

lemma mirror_admin_users_part3: "mirror_lists admin_en_users_part3 admin_tr_users_part3"
  by (unfold admin_en_users_part3_def admin_tr_users_part3_def) (simp add: mirror_eval brace_eval cong: keep)

lemma mirror_admin_users: "mirror_lists admin_en_users admin_tr_users"
  by (unfold admin_en_users_def admin_tr_users_def) (intro mirror_group mirror_lists_append mirror_admin_users_part1 mirror_admin_users_part2 mirror_admin_users_part3)

lemma mirror_admin_groups: "mirror_lists admin_en_groups admin_tr_groups"
  by (unfold admin_en_groups_def admin_tr_groups_def) (simp add: mirror_eval brace_eval cong: keep)

lemma mirror_admin_roles: "mirror_lists admin_en_roles admin_tr_roles"
  by (unfold admin_en_roles_def admin_tr_roles_def) (simp add: mirror_eval brace_eval cong: keep)

lemma mirror_admin_apis_part1: "mirror_lists admin_en_apis_part1 admin_tr_apis_part1"
  by (unfold admin_en_apis_part1_def admin_tr_apis_part1_def) (simp add: mirror_eval brace_eval cong: keep)

lemma mirror_admin_apis_part2: "mirror_lists admin_en_apis_part2 admin_tr_apis_part2"
  by (unfold admin_en_apis_part2_def admin_tr_apis_part2_def) (simp add: mirror_eval brace_eval cong: keep)

lemma mirror_admin_apis_part3: "mirror_lists admin_en_apis_part3 admin_tr_apis_part3"
  by (unfold admin_en_apis_part3_def admin_tr_apis_part3_def) (simp add: mirror_eval brace_eval cong: keep)

lemma mirror_admin_apis: "mirror_lists admin_en_apis admin_tr_apis"
  by (unfold admin_en_apis_def admin_tr_apis_def) (intro mirror_group mirror_lists_append mirror_admin_apis_part1 mirror_admin_apis_part2 mirror_admin_apis_part3)

lemma mirror_admin_ldapImport: "mirror_lists admin_en_ldapImport admin_tr_ldapImport"
  by (unfold admin_en_ldapImport_def admin_tr_ldapImport_def) (simp add: mirror_eval brace_eval cong: keep)

lemma mirror_admin_azurePre: "mirror_lists admin_en_azurePre admin_tr_azurePre"
  by (unfold admin_en_azurePre_def admin_tr_azurePre_def) (simp add: mirror_eval brace_eval cong: keep)

lemma mirror_admin_ldap: "mirror_lists admin_en_ldap admin_tr_ldap"
  by (unfold admin_en_ldap_def admin_tr_ldap_def) (simp add: mirror_eval brace_eval cong: keep)

lemma mirror_admin_azure: "mirror_lists admin_en_azure admin_tr_azure"
  by (unfold admin_en_azure_def admin_tr_azure_def) (simp add: mirror_eval brace_eval cong: keep)

lemma mirror_admin_sessionSettings: "mirror_lists admin_en_sessionSettings admin_tr_sessionSettings"
  by (unfold admin_en_sessionSettings_def admin_tr_sessionSettings_def) (simp add: mirror_eval brace_eval cong: keep)

lemma mirror_admin_sessions: "mirror_lists admin_en_sessions admin_tr_sessions"
  by (unfold admin_en_sessions_def admin_tr_sessions_def) (simp add: mirror_eval brace_eval cong: keep)

lemma mirror_admin_audit: "mirror_lists admin_en_audit admin_tr_audit"
  by (unfold admin_en_audit_def admin_tr_audit_def) (simp add: mirror_eval brace_eval cong: keep)

lemma mirror_admin_system: "mirror_lists admin_en_system admin_tr_system"
  by (unfold admin_en_system_def admin_tr_system_def) (simp add: mirror_eval brace_eval cong: keep)

lemma mirror_admin: "mirror_lists admin_en admin_tr"
  unfolding admin_en_def admin_tr_def
  by (intro mirror_lists_append mirror_admin_texts_1 mirror_admin_navGroups mirror_admin_overview mirror_admin_settings mirror_admin_texts_2 mirror_admin_sections mirror_admin_descriptions mirror_admin_users mirror_admin_groups mirror_admin_roles mirror_admin_apis mirror_admin_ldapImport mirror_admin_azurePre mirror_admin_ldap mirror_admin_azure mirror_admin_sessionSettings mirror_admin_sessions mirror_admin_audit mirror_admin_system)

lemma mirror_dictionaries: "mirrors en tr"
  unfolding en_def tr_def mirrors.simps
  by (intro mirror_lists_append mirror_group mirror_admin mirror_common mirror_nav mirror_shell mirror_theme mirror_language mirror_authSource mirror_help mirror_palette mirror_shortcuts mirror_session mirror_warnings mirror_errors mirror_form mirror_confirm mirror_combobox mirror_table mirror_password mirror_login mirror_account mirror_catalog mirror_api mirror_json mirror_schema)

text \<open>C39: the English and the Turkish dictionary define exactly the same keys: under every path both have
  nothing, both have a group with the same names, or both have a text that is not blank, with the same
  placeholders in some order.\<close>

theorem dictionaries_agree: "rel_option agree (message_at path en) (message_at path tr)"
  by (rule mirrors_at [OF mirror_dictionaries])

section \<open>The choice of a language\<close>

definition SUPPORTED_LOCALES :: "jstr list" where
  "SUPPORTED_LOCALES = [js ''en'', js ''tr'']"

definition LOCALE_KEY :: jstr where
  "LOCALE_KEY = js ''portal.locale''"

definition isLocale :: "jstr option \<Rightarrow> bool" where
  "isLocale v = (case v of None \<Rightarrow> False | Some s \<Rightarrow> s \<noteq> [] \<and> s \<in> set SUPPORTED_LOCALES)"

text \<open>\<open>lower\<close> is the string method of the browser; \<open>language\<close> is what its navigator says, if it has one.\<close>

definition initialLocale :: "(jstr \<Rightarrow> jstr) \<Rightarrow> jstr option \<Rightarrow> Storage \<Rightarrow> jstr" where
  "initialLocale lower language st =
     (let stored = readPref LOCALE_KEY st
      in if isLocale stored then the stored
         else let browser = (case language of Some l \<Rightarrow> lower (take 2 l) | None \<Rightarrow> [])
              in if isLocale (Some browser) then browser else js ''en'')"

text \<open>The texts in use: the language of the library and of the document, which follows it.\<close>

record Texts_State =
  language :: jstr
  document_lang :: jstr

definition syncDocumentLanguage :: "jstr \<Rightarrow> Texts_State \<Rightarrow> Texts_State" where
  "syncDocumentLanguage lng t = t\<lparr>document_lang := lng\<rparr>"

definition init_texts :: "(jstr \<Rightarrow> jstr) \<Rightarrow> jstr option \<Rightarrow> Storage \<Rightarrow> Texts_State \<Rightarrow> Texts_State" where
  "init_texts lower nav st t =
     (let l = initialLocale lower nav st in syncDocumentLanguage l (t\<lparr>language := l\<rparr>))"

definition setLocale :: "jstr \<Rightarrow> Storage \<times> Texts_State \<Rightarrow> Storage \<times> Texts_State" where
  "setLocale l s = (writePref LOCALE_KEY l (fst s), syncDocumentLanguage l ((snd s)\<lparr>language := l\<rparr>))"

text \<open>The dictionary of a language; the library falls back to English.\<close>

definition resources :: "jstr \<Rightarrow> message" where
  "resources l = (if l = js ''tr'' then tr else en)"

definition text_for :: "jstr \<Rightarrow> jstr list \<Rightarrow> message option" where
  "text_for l path = (case message_at path (resources l) of
       Some (Text s) \<Rightarrow> Some (Text s)
     | _ \<Rightarrow> message_at path en)"

lemma initialLocale_supported: "initialLocale lower nav st \<in> set SUPPORTED_LOCALES"
  by (cases "readPref LOCALE_KEY st") (auto simp: initialLocale_def Let_def isLocale_def SUPPORTED_LOCALES_def)

lemma initialLocale_stored:
  "\<lbrakk>readPref LOCALE_KEY st = Some l; l \<in> set SUPPORTED_LOCALES\<rbrakk> \<Longrightarrow> initialLocale lower nav st = l"
  by (auto simp: initialLocale_def Let_def isLocale_def SUPPORTED_LOCALES_def)

lemma setLocale_next_start:
  assumes "storage_works st" "l \<in> set SUPPORTED_LOCALES"
  shows "language (init_texts lower nav (fst (setLocale l (st, t))) t') = l"
proof -
  have "readPref LOCALE_KEY (writePref LOCALE_KEY l st) = Some l" using assms by (simp add: prefs.read_write)
  then show ?thesis using assms
    by (simp add: init_texts_def setLocale_def syncDocumentLanguage_def Let_def initialLocale_stored)
qed

text \<open>No text falls back: what is missing in one language is missing in both.\<close>

lemma agree_text: "agree x y \<Longrightarrow> (\<exists>s. x = Text s) \<longleftrightarrow> (\<exists>t. y = Text t)"
  by (cases x; cases y) auto

lemma no_fallback: "(\<exists>s. message_at path (resources l) = Some (Text s)) \<longleftrightarrow> (\<exists>s. message_at path en = Some (Text s))"
  using mirrors_at [OF mirror_dictionaries, of path]
  by (cases "message_at path en"; cases "message_at path tr") (auto simp: resources_def dest: agree_text)

end
