(* ===== verification/Spec_Shortcuts.thy ===== *)
theory Spec_Shortcuts
  imports Spec_Request
begin

text \<open>
  \<open>lib/shortcuts.ts\<close>: which shortcut a key press runs. The listener keeps the sequences that the last
  press started; the document (open dialogs, the element that has the focus) and the clock come with
  each press. Moves within lists and tab bars are modelled by the index that they choose.
\<close>

section \<open>Key presses\<close>

text \<open>What \<open>isTyping\<close> reads of the target of an event.\<close>

record Target =
  tg_tagName :: jstr
  tg_isContentEditable :: bool
  tg_inEditor :: bool
  tg_type :: jstr

record KeyEvent =
  ke_key :: jstr
  ke_code :: jstr
  ke_shiftKey :: bool
  ke_altKey :: bool
  ke_ctrlKey :: bool
  ke_metaKey :: bool
  ke_repeat :: bool
  ke_defaultPrevented :: bool
  ke_isComposing :: bool
  ke_target :: "Target option"

text \<open>\<open>sc_ref\<close> stands for the identity of the object and for its action.\<close>

record Shortcut =
  sc_ref :: nat
  sc_keys :: jstr
  sc_mod :: bool
  sc_shift :: "bool option"
  sc_inDialog :: bool

definition POSITION :: "jstr \<Rightarrow> jstr option" where
  "POSITION = map_of [(js ''/'', js ''Slash''), (js ''['', js ''BracketLeft''), (js '']'', js ''BracketRight'')]"

text \<open>\<open>/^[a-z]$/\<close>.\<close>

definition letter :: "jstr \<Rightarrow> bool" where
  "letter k = (case k of [u] \<Rightarrow> is_lower u | _ \<Rightarrow> False)"

definition pressed :: "(jstr \<Rightarrow> jstr) \<Rightarrow> KeyEvent \<Rightarrow> jstr \<Rightarrow> bool" where
  "pressed lower e key =
     (if key = js ''?'' then ke_key e = js ''?''
      else if key = js ''Enter'' then ke_key e = js ''Enter''
      else if ke_key e = key \<or> lower (ke_key e) = key then True
      else case POSITION key of
          Some c \<Rightarrow> ke_code e = c \<and> \<not> ke_shiftKey e
        | None \<Rightarrow> letter key \<and> ke_code e = js ''Key'' @ map upper_unit key)"

definition NOT_TYPED :: "jstr list" where
  "NOT_TYPED = map js [''checkbox'', ''radio'', ''button'', ''submit'', ''reset'', ''range'', ''color'', ''file'']"

definition isTyping :: "Target option \<Rightarrow> bool" where
  "isTyping target =
     (case target of None \<Rightarrow> False
      | Some el \<Rightarrow>
          if tg_tagName el = [] then False
          else if tg_isContentEditable el \<or> tg_inEditor el then True
          else if tg_tagName el = js ''TEXTAREA'' \<or> tg_tagName el = js ''SELECT'' then True
          else if tg_tagName el \<noteq> js ''INPUT'' then False
          else tg_type el \<notin> set NOT_TYPED)"

definition SEQUENCE_MS :: int where
  "SEQUENCE_MS = 1200"

definition hasMod :: "KeyEvent \<Rightarrow> bool" where
  "hasMod e = (ke_metaKey e \<or> (ke_ctrlKey e \<and> \<not> ke_altKey e))"

definition key_matches :: "(jstr \<Rightarrow> jstr) \<Rightarrow> KeyEvent \<Rightarrow> Shortcut \<Rightarrow> jstr \<Rightarrow> bool" where
  "key_matches lower e s key =
     (if sc_mod s \<noteq> hasMod e \<or> (ke_altKey e \<and> \<not> ke_ctrlKey e \<and> \<not> sc_mod s \<and> letter key) then False
      else if key \<noteq> js ''?'' \<and> sc_shift s \<noteq> None \<and> sc_shift s \<noteq> Some (ke_shiftKey e) then False
      else if key \<noteq> js ''?'' \<and> sc_shift s = None \<and> ke_shiftKey e \<and> letter key then False
      else pressed lower e key)"

section \<open>The listener\<close>

text \<open>\<open>keys.split(' ')\<close>: the first key, and the second one of a sequence.\<close>

definition first_key :: "Shortcut \<Rightarrow> jstr" where
  "first_key s = hd (split_str (js '' '') (sc_keys s))"

definition next_key :: "Shortcut \<Rightarrow> jstr option" where
  "next_key s = (case split_str (js '' '') (sc_keys s) of _ # k # _ \<Rightarrow> if k = [] then None else Some k | _ \<Rightarrow> None)"

record Press =
  pr_event :: KeyEvent
  pr_shortcuts :: "Shortcut list"
  pr_dialogOpen :: bool
  pr_now :: int

type_synonym Pending = "(Shortcut \<times> int) list"

definition usable :: "Press \<Rightarrow> Shortcut list" where
  "usable p = filter (\<lambda>s. (sc_mod s \<or> \<not> isTyping (ke_target (pr_event p))) \<and> (\<not> pr_dialogOpen p \<or> sc_inDialog s)) (pr_shortcuts p)"

definition second_key :: "(jstr \<Rightarrow> jstr) \<Rightarrow> Press \<Rightarrow> Pending \<Rightarrow> Shortcut option" where
  "second_key lower p pending =
     map_option fst (find (\<lambda>(s, t). pr_now p - t < SEQUENCE_MS \<and> s \<in> set (usable p)
        \<and> (case next_key s of Some k \<Rightarrow> key_matches lower (pr_event p) s k | None \<Rightarrow> False)) pending)"

text \<open>The loop over the usable shortcuts: what is pending after it and which shortcut it runs.\<close>

fun first_keys :: "(jstr \<Rightarrow> jstr) \<Rightarrow> Press \<Rightarrow> Shortcut list \<Rightarrow> Pending \<Rightarrow> Pending \<times> Shortcut option" where
  "first_keys lower p [] pending = (pending, None)"
| "first_keys lower p (s # ss) pending =
     (if \<not> key_matches lower (pr_event p) s (first_key s) then first_keys lower p ss pending
      else if next_key s \<noteq> None then first_keys lower p ss (pending @ [(s, pr_now p)])
      else if ke_repeat (pr_event p) \<and> \<not> sc_mod s then (pending, None)
      else (pending, Some s))"

definition ignored :: "Press \<Rightarrow> bool" where
  "ignored p = (ke_defaultPrevented (pr_event p) \<or> ke_isComposing (pr_event p))"

definition onKey :: "(jstr \<Rightarrow> jstr) \<Rightarrow> Press \<Rightarrow> Pending \<Rightarrow> Pending \<times> Shortcut option" where
  "onKey lower p pending =
     (if ignored p then (pending, None)
      else case second_key lower p pending of
          Some s \<Rightarrow> ([], Some s)
        | None \<Rightarrow> first_keys lower p (usable p) [])"

text \<open>The pending sequences after the presses since the page was mounted.\<close>

definition pending_after :: "(jstr \<Rightarrow> jstr) \<Rightarrow> Press list \<Rightarrow> Pending" where
  "pending_after lower ps = fold (\<lambda>p pending. fst (onKey lower p pending)) ps []"

section \<open>Moves\<close>

text \<open>\<open>moveInList\<close> and \<open>moveTab\<close> choose an item of \<open>n\<close>; \<open>-1\<close> is the index of no item.\<close>

definition next_in_list :: "int \<Rightarrow> int \<Rightarrow> int \<Rightarrow> int" where
  "next_in_list n step index =
     (if index = - 1 then (if step = 1 then 0 else n - 1) else min (n - 1) (max 0 (index + step)))"

text \<open>The remainder of JavaScript has the sign of the dividend; of zero it is not a number, which is no index.\<close>

definition js_rem :: "int \<Rightarrow> int \<Rightarrow> int" where
  "js_rem a b = (if a < 0 then - ((- a) mod \<bar>b\<bar>) else a mod \<bar>b\<bar>)"

definition next_tab :: "int \<Rightarrow> int \<Rightarrow> int \<Rightarrow> int option" where
  "next_tab n step index =
     (if n = 0 then None else let i = js_rem (index + step + n) n in if 0 \<le> i \<and> i < n then Some i else None)"

text \<open>\<open>clickShortcutTarget\<close>: the marked element that is clicked, of those in the main area.\<close>

record Marked =
  mk_disabled :: bool
  mk_hidden :: bool

definition clickShortcutTarget :: "Marked list \<Rightarrow> Marked option" where
  "clickShortcutTarget els = find (\<lambda>e. \<not> mk_disabled e \<and> \<not> mk_hidden e) els"

section \<open>What runs a shortcut\<close>

lemma first_keys_ran:
  "snd (first_keys lower p ss pending) = Some s \<Longrightarrow>
     s \<in> set ss \<and> key_matches lower (pr_event p) s (first_key s) \<and> next_key s = None \<and> (ke_repeat (pr_event p) \<longrightarrow> sc_mod s)"
  by (induction lower p ss pending rule: first_keys.induct) (auto split: if_splits)

lemma first_keys_pending:
  "(s, t) \<in> set (fst (first_keys lower p ss pending)) \<Longrightarrow> (s, t) \<in> set pending \<or>
     (s \<in> set ss \<and> key_matches lower (pr_event p) s (first_key s) \<and> t = pr_now p)"
  by (induction lower p ss pending rule: first_keys.induct) (auto split: if_splits)

text \<open>A sequence was started by press \<open>q\<close>, the last one before that the listener did not ignore.\<close>

definition started_by :: "(jstr \<Rightarrow> jstr) \<Rightarrow> Press list \<Rightarrow> Press \<Rightarrow> Shortcut \<Rightarrow> bool" where
  "started_by lower ps q s \<longleftrightarrow>
     (\<exists>before after. ps = before @ q # after \<and> list_all ignored after \<and> \<not> ignored q) \<and>
     s \<in> set (usable q) \<and> key_matches lower (pr_event q) s (first_key s)"

lemma started_by_ignored: "started_by lower ps q s \<Longrightarrow> ignored p \<Longrightarrow> started_by lower (ps @ [p]) q s"
proof -
  assume s: "started_by lower ps q s" and p: "ignored p"
  then obtain before after where "ps = before @ q # after" "list_all ignored after" by (auto simp: started_by_def)
  then have "ps @ [p] = before @ q # (after @ [p])" "list_all ignored (after @ [p])" using p by simp_all
  with s show ?thesis unfolding started_by_def by blast
qed

lemma pending_started:
  "(s, t) \<in> set (pending_after lower ps) \<Longrightarrow> \<exists>q. started_by lower ps q s \<and> t = pr_now q"
proof (induction ps rule: rev_induct)
  case (snoc p ps)
  have step: "pending_after lower (ps @ [p]) = fst (onKey lower p (pending_after lower ps))"
    by (simp add: pending_after_def)
  show ?case
  proof (cases "ignored p")
    case True
    then show ?thesis using snoc step by (auto simp: onKey_def intro: started_by_ignored)
  next
    case False
    then have "(s, t) \<in> set (fst (first_keys lower p (usable p) []))"
      using snoc.prems step by (auto simp: onKey_def split: option.splits)
    then have "started_by lower (ps @ [p]) p s \<and> t = pr_now p"
      using first_keys_pending False by (fastforce simp: started_by_def)
    then show ?thesis by blast
  qed
qed (simp add: pending_after_def)

lemma second_key_ran:
  assumes "second_key lower p pending = Some s"
  shows "\<exists>t k. (s, t) \<in> set pending \<and> pr_now p - t < SEQUENCE_MS \<and> s \<in> set (usable p)
    \<and> next_key s = Some k \<and> key_matches lower (pr_event p) s k"
  using assms by (auto simp: second_key_def find_Some_iff split: option.splits) (metis nth_mem)

text \<open>C11: whatever keys were pressed before, a shortcut runs only by a press that the page did not handle
  itself; plain keys run nothing while the user types and only shortcuts marked for it run under an open
  dialog. A single key runs its shortcut when it matches, held keys only with the modifier; a sequence
  runs by its second key when the first one was the last press before and at most \<open>SEQUENCE_MS\<close> old.\<close>

theorem shortcut_runs_when_pressed:
  assumes "snd (onKey lower p (pending_after lower ps)) = Some s"
  shows "\<not> ignored p \<and> s \<in> set (pr_shortcuts p) \<and> (sc_mod s \<or> \<not> isTyping (ke_target (pr_event p))) \<and>
    (sc_inDialog s \<or> \<not> pr_dialogOpen p) \<and>
    (next_key s = None \<and> key_matches lower (pr_event p) s (first_key s) \<and> (sc_mod s \<or> \<not> ke_repeat (pr_event p)) \<or>
     (\<exists>q k. started_by lower ps q s \<and> pr_now p - pr_now q < 1200 \<and> next_key s = Some k \<and> key_matches lower (pr_event p) s k))"
proof (cases "second_key lower p (pending_after lower ps)")
  case None
  then have "\<not> ignored p" "snd (first_keys lower p (usable p) []) = Some s"
    using assms by (auto simp: onKey_def split: if_splits)
  then show ?thesis using first_keys_ran [of lower p "usable p" "[]" s] by (auto simp: usable_def)
next
  case (Some s')
  then have s: "\<not> ignored p" "s' = s" using assms by (auto simp: onKey_def split: if_splits)
  then show ?thesis
    using second_key_ran [OF Some] pending_started [of s _ lower ps] by (auto simp: usable_def SEQUENCE_MS_def)
qed

definition plain_press :: "string \<Rightarrow> int \<Rightarrow> Shortcut list \<Rightarrow> Press" where
  "plain_press k t ss = \<lparr>pr_event = \<lparr>ke_key = js k, ke_code = [], ke_shiftKey = False, ke_altKey = False, ke_ctrlKey = False,
       ke_metaKey = False, ke_repeat = False, ke_defaultPrevented = False, ke_isComposing = False, ke_target = None\<rparr>,
     pr_shortcuts = ss, pr_dialogOpen = False, pr_now = t\<rparr>"

definition go_catalog :: Shortcut where
  "go_catalog = \<lparr>sc_ref = 1, sc_keys = js ''g c'', sc_mod = False, sc_shift = None, sc_inDialog = False\<rparr>"

theorem shortcut_runs_when_pressed_witness:
  "\<exists>q k. started_by ascii_lower [plain_press ''g'' 0 [go_catalog]] q go_catalog \<and> 800 - pr_now q < 1200 \<and>
     next_key go_catalog = Some k"
proof -
  let ?p = "plain_press ''c'' 800 [go_catalog]"
  have r: "snd (onKey ascii_lower ?p (pending_after ascii_lower [plain_press ''g'' 0 [go_catalog]])) = Some go_catalog"
    by code_simp
  have n: "next_key go_catalog \<noteq> None" "pr_now ?p = 800" by code_simp+
  from shortcut_runs_when_pressed [OF r] n show ?thesis by auto
qed

section \<open>Moves stay in the list\<close>

lemma next_in_list_bounds:
  "\<lbrakk>0 < n; - 1 \<le> i; i < n; step \<in> {1, - 1}\<rbrakk> \<Longrightarrow> 0 \<le> next_in_list n step i \<and> next_in_list n step i < n"
  by (auto simp: next_in_list_def)

lemma next_tab_cycles:
  assumes "0 < n" "0 \<le> i" "i < n"
  shows "next_tab n 1 i = Some ((i + 1) mod n)" "next_tab n (- 1) i = Some ((i - 1) mod n)"
  using assms by (simp_all add: next_tab_def js_rem_def Let_def)

lemma next_tab_back: "\<lbrakk>0 < n; 0 \<le> i; i < n\<rbrakk> \<Longrightarrow> Option.bind (next_tab n 1 i) (next_tab n (- 1)) = Some i"
  by (simp add: next_tab_cycles mod_simps)

end
