(* ===== verification/Spec_TryIt.thy ===== *)
theory Spec_TryIt
  imports Spec_Request Spec_History Spec_Snippets Spec_Api
begin

text \<open>
  \<open>pages/api/reference/TryIt.tsx\<close>: the try-it console of an operation as a state machine over what its
  user does and what the portal answers. It puts the request builder, the validation, the history, the
  snippets and the client together. Content types are strings here, as in every document that the
  page can show; \<open>fuel\<close> is the stack that an example may use.
\<close>

section \<open>Who may use it\<close>

datatype ConsoleView = TryItOff | NoInvoke | TryItDisabled | TryItReady

definition TryItConsole :: "bool option \<Rightarrow> ApiDefinition \<Rightarrow> ConsoleView" where
  "TryItConsole feature a =
     (if feature = Some False then TryItOff
      else if \<not> (case ad_permissions a of Some p \<Rightarrow> pm_invoke p | None \<Rightarrow> False) then NoInvoke
      else if \<not> ad_tryItEnabled a \<or> \<not> ad_isActive a then TryItDisabled
      else TryItReady)"

section \<open>The state of the form\<close>

record Console =
  cn_spec :: NormalizedSpec
  cn_op :: Operation
  cn_api :: ApiDefinition
  cn_lower :: "jstr \<Rightarrow> jstr"
  cn_fuel :: nat

record TryState =
  ti_values :: param_values
  ti_extra :: "HeaderRow list"
  ti_accept :: jstr
  ti_contentType :: jstr
  ti_body :: jstr
  ti_errors :: "ValidationError list"
  ti_touched :: "jstr list"
  ti_submitted :: bool
  ti_result :: "(InvokeResponse \<times> jnum) option"
  ti_failure :: "ClientError option"
  ti_sending :: bool
  ti_retryUntil :: "jnum option"
  ti_now :: jnum
  ti_history :: "jval list"
  ti_saveDetails :: bool

definition console_raw :: "Console \<Rightarrow> jval" where
  "console_raw c = n_raw (cn_spec c)"

definition console_params :: "Console \<Rightarrow> Parameter list" where
  "console_params c = filter (\<lambda>p. p_in p \<noteq> CookieParam) (o_parameters (cn_op c))"

definition type_text :: "jval \<Rightarrow> jstr" where
  "type_text v = (case v of JStr s \<Rightarrow> s | _ \<Rightarrow> [])"

definition body_media :: "Console \<Rightarrow> MediaType list" where
  "body_media c = (case o_requestBody (cn_op c) of Some b \<Rightarrow> b_content b | None \<Rightarrow> [])"

definition bodyTypes :: "Console \<Rightarrow> jstr list" where
  "bodyTypes c = map (type_text \<circ> m_contentType) (body_media c)"

definition responseTypes :: "Console \<Rightarrow> jstr list" where
  "responseTypes c = uniq (concat (map (\<lambda>r. map (type_text \<circ> m_contentType) (r_content r)) (o_responses (cn_op c))))"

definition initialBody :: "Console \<Rightarrow> jstr \<Rightarrow> jstr jsr" where
  "initialBody c contentType =
     (case (case find (\<lambda>m. type_text (m_contentType m) = contentType) (body_media c) of
              Some m \<Rightarrow> [m] | None \<Rightarrow> take 1 (body_media c)) of
        [] \<Rightarrow> Inr []
      | m # _ \<Rightarrow>
          let given = coalesce (m_example m) (case m_examples m of x # _ \<Rightarrow> x_value x | [] \<Rightarrow> JUndef)
          in ebind (if nullish given then exampleFromSchema (cn_fuel c) (console_raw c) (m_schema m) Request [] else Inr given)
               (\<lambda>v. Inr (case stringifyExample v of Some s \<Rightarrow> s | None \<Rightarrow> [])))"

definition first_or :: "jstr list \<Rightarrow> jstr \<Rightarrow> jstr" where
  "first_or xs d = (case xs of x # _ \<Rightarrow> x | [] \<Rightarrow> d)"

definition starting_values :: "Console \<Rightarrow> param_values jsr" where
  "starting_values c =
     efold (\<lambda>p vs. ebind (parameterDefault (console_raw c) p)
        (\<lambda>v. Inr (dict_put (paramId p) (case v of Some s \<Rightarrow> s | None \<Rightarrow> []) vs))) (console_params c) []"

definition mount :: "Console \<Rightarrow> jnum \<Rightarrow> Storage \<Rightarrow> TryState jsr" where
  "mount c t st =
     ebind (starting_values c) (\<lambda>vs. ebind (initialBody c (first_or (bodyTypes c) [])) (\<lambda>b. Inr
       \<lparr>ti_values = vs, ti_extra = [], ti_accept = first_or (responseTypes c) (js ''application/json''),
        ti_contentType = first_or (bodyTypes c) [], ti_body = b, ti_errors = [], ti_touched = [], ti_submitted = False,
        ti_result = None, ti_failure = None, ti_sending = False, ti_retryUntil = None, ti_now = t,
        ti_history = readHistory (nat (ad_id (cn_api c))) (o_key (cn_op c)) st, ti_saveDetails = saveDetailsEnabled st\<rparr>))"

section \<open>What it shows\<close>

definition withBody :: "Console \<Rightarrow> bool" where
  "withBody c = (o_requestBody (cn_op c) \<noteq> None \<and> bodyTypes c \<noteq> [])"

definition shown_path :: "Console \<Rightarrow> TryState \<Rightarrow> jstr jsr" where
  "shown_path c s = resolvePath (o_path (cn_op c)) (console_params c) (ti_values s)"

definition shown_query :: "Console \<Rightarrow> TryState \<Rightarrow> jstr" where
  "shown_query c s = queryString (console_params c) (ti_values s)"

definition shown_headers :: "Console \<Rightarrow> TryState \<Rightarrow> (jstr, jstr) dict" where
  "shown_headers c s = requestHeaders (cn_op c) (ti_values s) (ti_extra s) (ti_accept s) (ti_contentType s) (withBody c)"

text \<open>\<open>waitSeconds > 0\<close>: the portal asked to wait, and the clock has not reached the time yet.\<close>

definition waiting :: "TryState \<Rightarrow> bool" where
  "waiting s = (case ti_retryUntil s of None \<Rightarrow> False
     | Some u \<Rightarrow> truthy (JNum u) \<and> num_less (Fin 0) (num_sub u (ti_now s)))"

definition visibleErrors :: "TryState \<Rightarrow> ValidationError list" where
  "visibleErrors s = (if ti_submitted s then ti_errors s else filter (\<lambda>e. v_id e \<in> set (ti_touched s)) (ti_errors s))"

definition or_none :: "'a list option \<Rightarrow> 'a list" where
  "or_none x = (case x of Some xs \<Rightarrow> xs | None \<Rightarrow> [])"

definition snippetInput :: "Console \<Rightarrow> TryState \<Rightarrow> SnippetInput jsr" where
  "snippetInput c s = ebind (shown_path c s) (\<lambda>path. Inr
     \<lparr>sn_method = o_method (cn_op c),
      sn_url = path @ (if shown_query c s \<noteq> [] then js ''?'' @ shown_query c s else []),
      sn_headers = shown_headers c s, sn_injected = or_none (ad_injectHeaderNames (cn_api c)),
      sn_body = (if withBody c then ti_body s else []), sn_baseUrl = ad_internalBaseUrl (cn_api c)\<rparr>)"

definition headerSuggestions :: "Console \<Rightarrow> jstr list" where
  "headerSuggestions c =
     filter (\<lambda>name. \<not> list_ex (\<lambda>p. p_in p = HeaderParam \<and> cn_lower c (p_name p) = cn_lower c name) (console_params c))
       (or_none (ad_allowedRequestHeaders (cn_api c)))"

text \<open>A header parameter that the portal fills in, and one that it does not forward.\<close>

definition header_locked :: "Console \<Rightarrow> Parameter \<Rightarrow> bool" where
  "header_locked c p = (p_in p = HeaderParam \<and>
     list_ex (\<lambda>n. cn_lower c n = cn_lower c (p_name p)) (or_none (ad_injectHeaderNames (cn_api c))))"

definition header_warned :: "Console \<Rightarrow> Parameter \<Rightarrow> bool" where
  "header_warned c p = (p_in p = HeaderParam \<and>
     \<not> headerAllowed (cn_lower c) (p_name p) (or_none (ad_allowedRequestHeaders (cn_api c))) (ad_forwardAllXHeaders (cn_api c) = Some True) \<and>
     \<not> list_ex (\<lambda>n. cn_lower c n = cn_lower c (p_name p)) (or_none (ad_injectHeaderNames (cn_api c))))"

definition row_blocked :: "Console \<Rightarrow> HeaderRow \<Rightarrow> bool" where
  "row_blocked c r = (trim (hr_name r) \<noteq> [] \<and>
     \<not> headerAllowed (cn_lower c) (trim (hr_name r)) (or_none (ad_allowedRequestHeaders (cn_api c))) (ad_forwardAllXHeaders (cn_api c) = Some True))"

section \<open>Sending\<close>

text \<open>The parameters first, then the body; its message is the one of a parameter that is no JSON.\<close>

definition body_error :: "Console \<Rightarrow> TryState \<Rightarrow> ValidationError list" where
  "body_error c s =
     (if withBody c \<and> isJsonContentType (ti_contentType s) \<and> trim (ti_body s) \<noteq> [] \<and> json_parse (ti_body s) = None
      then [\<lparr>v_id = js ''body'', v_name = js ''api.requestBody'', v_message = NotJson\<rparr>] else [])"

definition validate :: "Console \<Rightarrow> TryState \<Rightarrow> ValidationError list jsr" where
  "validate c s = ebind (validateParameters (console_raw c) (console_params c) (ti_values s)) (\<lambda>found. Inr (found @ body_error c s))"

definition invoke_payload :: "Console \<Rightarrow> TryState \<Rightarrow> jstr \<Rightarrow> jval" where
  "invoke_payload c s path = obj
     [(''method'', JStr (o_method (cn_op c))), (''path'', JStr path), (''query'', JStr (shown_query c s)),
      (''headers'', JObj Fresh (map (\<lambda>(k, v). (k, JStr v)) (shown_headers c s))),
      (''bodyBase64'', JStr (if withBody c \<and> ti_body s \<noteq> [] then encodeBase64Utf8 (ti_body s) else []))]"

text \<open>What a step does besides changing the state: it may call the portal, or throw.\<close>

datatype Effect = Quiet | Sends CatalogCall | Throws jserr

definition try_send :: "Console \<Rightarrow> TryState \<Rightarrow> TryState \<times> Effect" where
  "try_send c s =
     (if ti_sending s \<or> waiting s then (s, Quiet)
      else case validate c s of
          Inl e \<Rightarrow> (s, Throws e)
        | Inr found \<Rightarrow>
            let s1 = s\<lparr>ti_submitted := True, ti_errors := found\<rparr>
            in if found \<noteq> [] then (s1, Quiet)
               else case shown_path c s of
                   Inl e \<Rightarrow> (s1, Throws e)
                 | Inr path \<Rightarrow> (s1\<lparr>ti_sending := True, ti_failure := None, ti_result := None\<rparr>,
                     Sends (InvokeCall (int_str (ad_id (cn_api c))) (invoke_payload c s path))))"

text \<open>\<open>retryAfter * 1000\<close>: the header may say infinity, which stays.\<close>

definition in_ms :: "jnum \<Rightarrow> jnum" where
  "in_ms n = (case n of Fin a \<Rightarrow> num_mul n (Fin 1000) | _ \<Rightarrow> n)"

definition refused :: "ClientError \<Rightarrow> jnum \<Rightarrow> TryState \<Rightarrow> TryState" where
  "refused e t s =
     (let s1 = s\<lparr>ti_sending := False\<rparr>
      in case e of
          Aborted \<Rightarrow> s1
        | ApiFailure a \<Rightarrow>
            if er_status a = 429 \<and> truthy (JNum (er_retryAfter a))
            then s1\<lparr>ti_failure := Some e, ti_retryUntil := Some (num_add t (in_ms (er_retryAfter a))), ti_now := t\<rparr>
            else s1\<lparr>ti_failure := Some e\<rparr>
        | _ \<Rightarrow> s1\<lparr>ti_failure := Some e\<rparr>)"

text \<open>An answer, with the time that the page measured and the time of day.\<close>

definition answered :: "Console \<Rightarrow> InvokeResponse \<Rightarrow> jnum \<Rightarrow> jstr \<Rightarrow> TryState \<times> Storage \<Rightarrow> TryState \<times> Storage" where
  "answered c r measured stamp w =
     (let (s, st) = w;
          durationMs = (case ir_durationMs r of Some n \<Rightarrow> num_of_int n | None \<Rightarrow> measured);
          (h, st') = addHistory (nat (ad_id (cn_api c))) (o_key (cn_op c))
            \<lparr>he_at = stamp, he_method = o_method (cn_op c), he_path = o_path (cn_op c), he_status = num_of_int (ir_statusCode r),
             he_durationMs = Some durationMs\<rparr> \<lparr>d_values = ti_values s, d_body = ti_body s\<rparr> st
      in (s\<lparr>ti_result := Some (r, durationMs), ti_history := h, ti_sending := False\<rparr>, st'))"

section \<open>Steps\<close>

text \<open>
  What the user does and what happens to a request. The clock of the page ticks while it waits. An entry
  of the history is given by the values and the body that it has kept, if it has.
\<close>

datatype TryEvent =
    EditValue Parameter jstr | LeaveField Parameter
  | AddHeaderRow | NameHeader nat jstr | FillHeader nat jstr | RemoveHeader nat
  | ChooseAccept jstr | ChooseContentType jstr | EditBody jstr | ResetBody | FormatBody
  | Submit | ReceivedAnswer InvokeResponse jnum jstr | ReceivedError ClientError jnum | Clock jnum
  | RestoreEntry "param_values option" "jstr option" | ToggleDetails bool | ForgetHistory

definition update_row :: "nat \<Rightarrow> (HeaderRow \<Rightarrow> HeaderRow) \<Rightarrow> TryState \<Rightarrow> TryState" where
  "update_row i f s = (if i < length (ti_extra s) then s\<lparr>ti_extra := (ti_extra s)[i := f (ti_extra s ! i)]\<rparr> else s)"

definition revalidate :: "Console \<Rightarrow> TryState \<Rightarrow> TryState \<times> Effect" where
  "revalidate c s = (case validate c s of Inl e \<Rightarrow> (s, Throws e) | Inr es \<Rightarrow> (s\<lparr>ti_errors := es\<rparr>, Quiet))"

definition example_body :: "Console \<Rightarrow> jstr \<Rightarrow> TryState \<Rightarrow> TryState \<times> Effect" where
  "example_body c ct s = (case initialBody c ct of Inl e \<Rightarrow> (s, Throws e) | Inr b \<Rightarrow> (s\<lparr>ti_body := b\<rparr>, Quiet))"

text \<open>The handlers of the form.\<close>

definition edit_value :: "Parameter \<Rightarrow> jstr \<Rightarrow> TryState \<Rightarrow> TryState" where
  [simp]: "edit_value p v s = s\<lparr>ti_values := dict_put (paramId p) v (ti_values s)\<rparr>"

definition leave_field :: "Console \<Rightarrow> Parameter \<Rightarrow> TryState \<Rightarrow> TryState \<times> Effect" where
  [simp]: "leave_field c p s = revalidate c (s\<lparr>ti_touched := uniq (ti_touched s @ [paramId p])\<rparr>)"

definition add_row :: "Console \<Rightarrow> TryState \<Rightarrow> TryState" where
  [simp]: "add_row c s = s\<lparr>ti_extra := ti_extra s @ [\<lparr>hr_name =
       (if length (ti_extra s) < length (headerSuggestions c) then headerSuggestions c ! length (ti_extra s) else []),
     hr_value = []\<rparr>]\<rparr>"

definition remove_row :: "nat \<Rightarrow> TryState \<Rightarrow> TryState" where
  [simp]: "remove_row i s = s\<lparr>ti_extra := take i (ti_extra s) @ drop (Suc i) (ti_extra s)\<rparr>"

definition choose_type :: "Console \<Rightarrow> jstr \<Rightarrow> TryState \<Rightarrow> TryState \<times> Effect" where
  [simp]: "choose_type c v s = example_body c v (s\<lparr>ti_contentType := v\<rparr>)"

definition format_body :: "Console \<Rightarrow> TryState \<Rightarrow> TryState \<times> Effect" where
  "format_body c s = (case json_parse (ti_body s) of
       Some v \<Rightarrow> (s\<lparr>ti_body := (case stringify2 v of Some t \<Rightarrow> t | None \<Rightarrow> [])\<rparr>, Quiet)
     | None \<Rightarrow> revalidate c s)"

definition tick :: "jnum \<Rightarrow> TryState \<Rightarrow> TryState" where
  [simp]: "tick t s = (if ti_retryUntil s = None then s else s\<lparr>ti_now := t\<rparr>)"

definition restore :: "param_values option \<Rightarrow> jstr option \<Rightarrow> TryState \<Rightarrow> TryState" where
  [simp]: "restore vs b s =
     s\<lparr>ti_values := (case vs of Some v \<Rightarrow> v | None \<Rightarrow> ti_values s), ti_body := (case b of Some t \<Rightarrow> t | None \<Rightarrow> ti_body s)\<rparr>"

fun form_step :: "Console \<Rightarrow> TryEvent \<Rightarrow> TryState \<Rightarrow> TryState \<times> Effect" where
  "form_step c (EditValue p v) s = (edit_value p v s, Quiet)"
| "form_step c (LeaveField p) s = leave_field c p s"
| "form_step c AddHeaderRow s = (add_row c s, Quiet)"
| "form_step c (NameHeader i n) s = (update_row i (\<lambda>r. r\<lparr>hr_name := n\<rparr>) s, Quiet)"
| "form_step c (FillHeader i v) s = (update_row i (\<lambda>r. r\<lparr>hr_value := v\<rparr>) s, Quiet)"
| "form_step c (RemoveHeader i) s = (remove_row i s, Quiet)"
| "form_step c (ChooseAccept v) s = (s\<lparr>ti_accept := v\<rparr>, Quiet)"
| "form_step c (ChooseContentType v) s = choose_type c v s"
| "form_step c (EditBody b) s = (s\<lparr>ti_body := b\<rparr>, Quiet)"
| "form_step c ResetBody s = example_body c (ti_contentType s) s"
| "form_step c FormatBody s = format_body c s"
| "form_step c (Clock t) s = (tick t s, Quiet)"
| "form_step c (RestoreEntry vs b) s = (restore vs b s, Quiet)"
| "form_step c (ReceivedError e t) s = (if ti_sending s then refused e t s else s, Quiet)"
| "form_step c Submit s = try_send c s"
| "form_step c _ s = (s, Quiet)"

text \<open>The steps that reach the browser's store.\<close>

definition toggle_details :: "bool \<Rightarrow> TryState \<times> Storage \<Rightarrow> TryState \<times> Storage" where
  [simp]: "toggle_details on w = ((fst w)\<lparr>ti_saveDetails := on\<rparr>, setSaveDetails on (snd w))"

definition forget_history :: "Console \<Rightarrow> TryState \<times> Storage \<Rightarrow> TryState \<times> Storage" where
  [simp]: "forget_history c w =
     ((fst w)\<lparr>ti_history := []\<rparr>, clearHistory (nat (ad_id (cn_api c))) (o_key (cn_op c)) (snd w))"

fun try_step :: "Console \<Rightarrow> TryEvent \<Rightarrow> TryState \<times> Storage \<Rightarrow> (TryState \<times> Storage) \<times> Effect" where
  "try_step c (ReceivedAnswer r measured stamp) w = (if ti_sending (fst w) then answered c r measured stamp w else w, Quiet)"
| "try_step c (ToggleDetails on) w = (toggle_details on w, Quiet)"
| "try_step c ForgetHistory w = (forget_history c w, Quiet)"
| "try_step c e (s, st) = (case form_step c e s of (s', eff) \<Rightarrow> ((s', st), eff))"

fun try_run :: "Console \<Rightarrow> TryEvent list \<Rightarrow> TryState \<times> Storage \<Rightarrow> (TryState \<times> Storage) \<times> Effect list" where
  "try_run c [] w = (w, [])"
| "try_run c (e # es) w = (case try_step c e w of (w1, eff) \<Rightarrow> case try_run c es w1 of (w2, effs) \<Rightarrow> (w2, eff # effs))"

definition state_after :: "Console \<Rightarrow> TryEvent list \<Rightarrow> TryState \<times> Storage \<Rightarrow> TryState" where
  "state_after c es w = fst (fst (try_run c es w))"

text \<open>\<open>ProxyFailure\<close>: how a refusal is worded.\<close>

datatype FailureKind = SendFailed | NoNetwork | PolicyRefused | ForbiddenCall | RateLimited | TimedOut | Unreachable

definition failureKind :: "ClientError \<Rightarrow> FailureKind" where
  "failureKind e = (case e of
       ApiFailure a \<Rightarrow>
         let m = ascii_lower (er_message a)
         in if er_status a = 0 then NoNetwork
            else if str_includes m (js ''allowlist'') \<or> str_includes m (js ''not allowed'') then PolicyRefused
            else if er_status a = 403 then ForbiddenCall
            else if er_status a = 429 then RateLimited
            else if er_code a = JStr (js ''upstream_timeout'') \<or> er_status a = 504 then TimedOut
            else if er_code a = JStr (js ''upstream_error'') \<or> er_status a = 502 then Unreachable
            else SendFailed
     | _ \<Rightarrow> SendFailed)"

text \<open>Whether the failure is shown: a rate limit is shown by its countdown instead.\<close>

definition failure_shown :: "TryState \<Rightarrow> bool" where
  "failure_shown s = (case ti_failure s of None \<Rightarrow> False | Some e \<Rightarrow> \<not> (isApiError e (Some 429) \<and> waiting s))"

section \<open>Runs\<close>

lemma try_run_append:
  "try_run c (es @ fs) w = (case try_run c es w of (w1, e1) \<Rightarrow> case try_run c fs w1 of (w2, e2) \<Rightarrow> (w2, e1 @ e2))"
  by (induction es arbitrary: w) (auto split: prod.splits)

lemma length_effects [simp]: "length (snd (try_run c es w)) = length es"
  by (induction es arbitrary: w) (auto split: prod.splits simp: prod_eq_iff)

lemma effect_nth:
  assumes "i < length es"
  shows "snd (try_run c es w) ! i = snd (try_step c (es ! i) (fst (try_run c (take i es) w)))"
proof -
  have e: "try_run c es w = try_run c (take i es @ es ! i # drop (Suc i) es) w" using id_take_nth_drop [OF assms] by (rule arg_cong)
  obtain w1 e1 where r: "try_run c (take i es) w = (w1, e1)" by fastforce
  then have "length e1 = i" using length_effects [of c "take i es" w] assms by simp
  then show ?thesis unfolding e try_run_append r by (simp add: r nth_append split: prod.splits)
qed

lemma quiet_revalidate [simp]: "snd (revalidate c s) \<noteq> Sends req"
  by (auto simp: revalidate_def split: sum.splits)

lemma quiet_example [simp]: "snd (example_body c ct s) \<noteq> Sends req"
  by (auto simp: example_body_def split: sum.splits)

lemma quiet_format [simp]: "snd (format_body c s) \<noteq> Sends req"
  by (simp add: format_body_def split: option.splits)

lemma quiet_form: "snd (form_step c e s) = Sends req \<Longrightarrow> e = Submit"
  by (cases e) auto

text \<open>Answers and the two steps on the store send nothing; every other step is one of the form.\<close>

definition stores :: "TryEvent \<Rightarrow> bool" where
  "stores e = (case e of ReceivedAnswer _ _ _ \<Rightarrow> True | ToggleDetails _ \<Rightarrow> True | ForgetHistory \<Rightarrow> True | _ \<Rightarrow> False)"

lemma step_of_form:
  "\<not> stores e \<Longrightarrow> try_step c e w = ((fst (form_step c e (fst w)), snd w), snd (form_step c e (fst w)))"
  by (cases w; cases e) (simp_all add: stores_def case_prod_unfold)

lemma step_stores: "stores e \<Longrightarrow> snd (try_step c e w) = Quiet"
  by (cases w; cases e) (simp_all add: stores_def)

lemma only_submit_sends:
  "snd (try_step c e w) = Sends req \<Longrightarrow> e = Submit \<and> snd (try_send c (fst w)) = Sends req"
  using step_stores [of e c w] step_of_form [of e c w] quiet_form [of c e "fst w" req]
  by (cases "stores e") auto

lemma try_send_checks:
  "snd (try_send c s) = Sends req \<Longrightarrow> \<not> ti_sending s \<and> \<not> waiting s \<and> validate c s = Inr [] \<and>
     (\<exists>path. shown_path c s = Inr path \<and> req = InvokeCall (int_str (ad_id (cn_api c))) (invoke_payload c s path)) \<and>
     ti_sending (fst (try_send c s))"
  by (auto simp: try_send_def Let_def split: if_splits sum.splits)

definition answers :: "TryEvent \<Rightarrow> bool" where
  "answers e = (case e of ReceivedAnswer _ _ _ \<Rightarrow> True | ReceivedError _ _ \<Rightarrow> True | _ \<Rightarrow> False)"

lemma sending_revalidate [simp]: "ti_sending (fst (revalidate c s)) = ti_sending s"
  by (auto simp: revalidate_def split: sum.splits)

lemma sending_example [simp]: "ti_sending (fst (example_body c ct s)) = ti_sending s"
  by (auto simp: example_body_def split: sum.splits)

lemma sending_update_row [simp]: "ti_sending (update_row i f s) = ti_sending s"
  by (simp add: update_row_def)

lemma sending_format [simp]: "ti_sending (fst (format_body c s)) = ti_sending s"
  by (simp add: format_body_def split: option.splits)

lemma sending_form: "ti_sending s \<Longrightarrow> \<not> answers e \<Longrightarrow> ti_sending (fst (form_step c e s))"
  by (cases e) (auto simp: answers_def try_send_def split: option.splits)

lemma stays_sending:
  assumes "ti_sending (fst w)" "\<not> answers e"
  shows "ti_sending (fst (fst (try_step c e w)))"
proof (cases "stores e")
  case True
  with assms show ?thesis by (cases w; cases e) (auto simp: stores_def answers_def)
next
  case False
  with assms show ?thesis by (simp add: step_of_form sending_form)
qed

lemma run_stays_sending:
  "\<lbrakk>ti_sending (fst w); list_all (\<lambda>e. \<not> answers e) es\<rbrakk> \<Longrightarrow> ti_sending (fst (fst (try_run c es w)))"
proof (induction es arbitrary: w)
  case (Cons e es)
  then show ?case using stays_sending [of w e c] by (auto split: prod.splits) (metis fst_conv prod.collapse)+
qed simp

lemma take_between:
  "\<lbrakk>j < i; i < length es\<rbrakk> \<Longrightarrow> take i es = take j es @ es ! j # take (i - Suc j) (drop (Suc j) es)"
  by (metis (no_types, lifting) Cons_nth_drop_Suc append_take_drop_id drop_take le_eq_less_or_eq length_take min.absorb4
      nth_take order.strict_trans take_take min_def)


definition example_api :: ApiDefinition where
  "example_api = \<lparr>ad_id = 7, ad_name = js ''Pets'', ad_slug = js ''pets'', ad_description = [], ad_internalOpenapiUrl = None,
     ad_internalBaseUrl = None, ad_isActive = True, ad_tryItEnabled = True, ad_allowedMethods = [], ad_allowedPathPrefixes = [],
     ad_ownerTeam = [], ad_tags = [], ad_createdAt = [], ad_updatedAt = [], ad_lastSpecRefreshAt = None, ad_lastSpecStatus = None,
     ad_specState = None, ad_specError = None, ad_specVersion = None, ad_operationCount = None, ad_favorite = None,
     ad_permissions = Some \<lparr>pm_view = True, pm_invoke = True, pm_manage = False\<rparr>, ad_ownerGroupId = None,
     ad_allowedRequestHeaders = None, ad_forwardAllXHeaders = None, ad_injectHeaderNames = None, ad_rateLimitPerMinute = None,
     ad_timeoutSeconds = None\<rparr>"

definition pet_id :: Parameter where
  "pet_id = \<lparr>p_name = js ''petId'', p_in = PathParam, p_required = True, p_deprecated = False, p_description = [],
     p_schema = JObj (Loc 1) [(js ''type'', JStr (js ''integer''))], p_example = JUndef\<rparr>"

definition example_console :: Console where
  "example_console = \<lparr>cn_spec = \<lparr>n_openapi = [], n_title = [], n_version = [], n_description = [], n_tags = [],
       n_operations = [], n_raw = JObj (Loc 0) []\<rparr>,
     cn_op = \<lparr>o_key = js ''getPet'', o_method = js ''GET'', o_path = js ''/pets/{petId}'', o_operationId = None, o_summary = [],
       o_description = [], o_tags = [], o_deprecated = False, o_parameters = [pet_id], o_requestBody = None, o_responses = [],
       o_security = []\<rparr>,
     cn_api = example_api, cn_lower = ascii_lower, cn_fuel = 0\<rparr>"

definition example_start :: "TryState \<times> Storage" where
  "example_start = (\<lparr>ti_values = [], ti_extra = [], ti_accept = js ''application/json'', ti_contentType = [], ti_body = [],
     ti_errors = [], ti_touched = [], ti_submitted = False, ti_result = None, ti_failure = None, ti_sending = False,
     ti_retryUntil = None, ti_now = Fin 0, ti_history = [], ti_saveDetails = False\<rparr>,
     \<lparr>items = [], get_throws = False, set_throws = False\<rparr>)"

lemma example_mount: "mount example_console (Fin 0) (snd example_start) = Inr ((fst example_start)\<lparr>ti_values := [(js ''path:petId'', [])]\<rparr>)"
  by code_simp

definition example_session :: "TryEvent list" where
  "example_session = [Submit, EditValue pet_id (js ''12''), Submit, ReceivedError Aborted (Fin 0), Submit]"

fun sends :: "Effect \<Rightarrow> bool" where
  "sends (Sends req) = True"
| "sends _ = False"

lemma sends_iff: "sends e \<longleftrightarrow> (\<exists>req. e = Sends req)"
  by (cases e) auto


end
