(* ===== verification/Spec_Sign_In.thy ===== *)
theory Spec_Sign_In
  imports Spec_Format Js_Text Spec_Api Spec_Types Spec_Request
begin

text \<open>
  Signing in: the gate in front of the pages (\<open>routes/AuthGate.tsx\<close>), the end of a session
  (\<open>app.tsx\<close>) and the login page (\<open>pages/LoginPage.tsx\<close>). The place that the user wanted travels
  through the address of the login page and back.
\<close>

section \<open>The place that the user wanted\<close>

record Location =
  lc_pathname :: jstr
  lc_search :: jstr
  lc_hash :: jstr

definition here :: "Location \<Rightarrow> jstr" where
  "here l = lc_pathname l @ lc_search l @ lc_hash l"

definition login_address :: "jstr \<Rightarrow> jstr jsr" where
  "login_address place =
     (if place = js ''/'' then Inr (js ''/login'')
      else ebind (encodeURIComponent place) (\<lambda>e. Inr (js ''/login?next='' @ e)))"

text \<open>The session ended: nothing happens on the login page itself.\<close>

definition session_ended :: "Location \<Rightarrow> jstr option jsr" where
  "session_ended l =
     (if lc_pathname l = js ''/login'' then Inr None else ebind (login_address (here l)) (\<lambda>a. Inr (Some a)))"

section \<open>The gate\<close>

datatype MeState = MePending | MeFailed ClientError | MeLoaded User

datatype Gate = GateWaits | GateGoesTo jstr | GateShowsError | GateOpens bool

definition mustChange :: "User \<Rightarrow> bool" where
  "mustChange u = (u_mustChangePassword u \<and> u_authSource u = js ''local'')"

definition AuthGate :: "MeState \<Rightarrow> Location \<Rightarrow> Gate jsr" where
  "AuthGate me l =
     (case me of
        MePending \<Rightarrow> Inr GateWaits
      | MeFailed e \<Rightarrow>
          if isApiError e (Some 401) then ebind (login_address (here l)) (\<lambda>a. Inr (GateGoesTo a)) else Inr GateShowsError
      | MeLoaded u \<Rightarrow>
          if mustChange u \<and> lc_pathname l \<noteq> js ''/change-password'' then Inr (GateGoesTo (js ''/change-password''))
          else if \<not> mustChange u \<and> lc_pathname l = js ''/change-password'' then Inr (GateGoesTo (js ''/account#password''))
          else Inr (GateOpens (mustChange u)))"

section \<open>The login page\<close>

definition AUTH_ERRORS :: "jstr list" where
  "AUTH_ERRORS = map js [''azure_not_configured'', ''azure_state'', ''azure_denied'', ''azure_failed'', ''azure_groups'', ''account_disabled'']"

definition search_params :: "jstr \<Rightarrow> (jstr \<times> jstr) list" where
  "search_params s = form_parse (if starts_with s (js ''?'') then drop 1 s else s)"

definition next_place :: "jstr \<Rightarrow> jstr" where
  "next_place s = safeNextPath (params_get (js ''next'') (search_params s))"

datatype Notice = NoNotice | AuthNotice jstr | NetworkNotice | FailedNotice

record Login =
  lg_username :: jstr
  lg_password :: jstr
  lg_notice :: Notice
  lg_wrongPassword :: bool
  lg_lockedUntil :: "jnum option"
  lg_now :: jnum

definition auth_notice :: "jstr \<Rightarrow> Notice" where
  "auth_notice s = (case params_get (js ''auth_error'') (search_params s) of
       None \<Rightarrow> NoNotice
     | Some code \<Rightarrow> if code = [] then NoNotice
         else AuthNotice (if code \<in> set AUTH_ERRORS then code else js ''azure_failed''))"

definition login_start :: "jstr \<Rightarrow> jnum \<Rightarrow> Login" where
  "login_start s t = \<lparr>lg_username = [], lg_password = [], lg_notice = auth_notice s, lg_wrongPassword = False,
     lg_lockedUntil = None, lg_now = t\<rparr>"

text \<open>What the page leaves in its address once the error is shown.\<close>

definition shown_once :: "(jstr \<times> jstr) list \<Rightarrow> (jstr \<times> jstr) list" where
  "shown_once ps = (if params_get (js ''auth_error'') ps = None then ps else params_delete (js ''auth_error'') ps)"

definition locked :: "Login \<Rightarrow> bool" where
  "locked s = (case lg_lockedUntil s of None \<Rightarrow> False
     | Some u \<Rightarrow> truthy (JNum u) \<and> num_less (Fin 0) (num_sub u (lg_now s)))"

definition lockoutEnd :: "jnum \<Rightarrow> jnum \<Rightarrow> jnum" where
  "lockoutEnd t seconds = num_add t (case seconds of Fin a \<Rightarrow> num_mul seconds (Fin 1000) | _ \<Rightarrow> seconds)"

definition login_valid :: "Login \<Rightarrow> bool" where
  "login_valid s = (trim (lg_username s) \<noteq> [] \<and> lg_password s \<noteq> [])"

text \<open>Submitting is off while the account is locked; the fields are checked first.\<close>

definition login_submit :: "Login \<Rightarrow> Login \<times> AccountCall option" where
  "login_submit s =
     (if locked s \<or> \<not> login_valid s then (s, None)
      else (s\<lparr>lg_notice := NoNotice, lg_wrongPassword := False\<rparr>, Some (AccountCall.Login (trim (lg_username s)) (lg_password s))))"

definition login_failed :: "ClientError \<Rightarrow> jnum \<Rightarrow> Login \<Rightarrow> Login" where
  "login_failed e t s =
     (let s1 = s\<lparr>lg_password := []\<rparr>
      in case e of
          ApiFailure a \<Rightarrow>
            if er_status a = 429
            then s1\<lparr>lg_lockedUntil := Some (lockoutEnd t (if truthy (JNum (er_retryAfter a)) then er_retryAfter a else Fin 300)),
                    lg_notice := NoNotice\<rparr>
            else if er_status a = 401 then s1\<lparr>lg_wrongPassword := True\<rparr>
            else s1\<lparr>lg_notice := (if er_status a = 0 then NetworkNotice else FailedNotice)\<rparr>
        | _ \<Rightarrow> s1\<lparr>lg_notice := FailedNotice\<rparr>)"

section \<open>The address and back\<close>

definition escaped_octet :: "nat \<Rightarrow> nat list" where
  "escaped_octet b = [37, hex_digit (b div 16), hex_digit (b mod 16)]"

definition point_octets :: "nat \<Rightarrow> nat list" where
  "point_octets c = (if unreserved c then [c] else concat (map escaped_octet (utf8 c)))"

lemma pct_octets: "pct = (\<lambda>b. map word_of_nat (escaped_octet b))"
  by (simp add: fun_eq_iff pct_def escaped_octet_def hex_unit_def hex_digit_def)

lemma encode_point_octets: "encode_point = (\<lambda>c. map word_of_nat (point_octets c))"
  by (simp add: fun_eq_iff encode_point_def point_octets_def pct_octets map_concat comp_def)

lemma escaped_octet_range: "b < 256 \<Longrightarrow> x \<in> set (escaped_octet b) \<Longrightarrow> x < 128 \<and> x \<notin> {38, 43, 61}"
proof -
  assume b: "b < 256" and x: "x \<in> set (escaped_octet b)"
  have "b div 16 < 16" "b mod 16 < 16" using b by linarith+
  then show ?thesis using x by (auto simp: escaped_octet_def hex_digit_def split: if_splits)
qed

lemma point_octets_range:
  assumes "c < 1114112" "x \<in> set (point_octets c)"
  shows "x < 128 \<and> x \<notin> {38, 43, 61}"
proof (cases "unreserved c")
  case True
  with assms show ?thesis by (auto simp: point_octets_def unreserved_def)
next
  case False
  with assms obtain b where "b \<in> set (utf8 c)" "x \<in> set (escaped_octet b)" by (auto simp: point_octets_def)
  with utf8_bytes [OF assms(1)] escaped_octet_range show ?thesis by blast
qed

lemma percent_decode_escaped: "b < 256 \<Longrightarrow> percent_decode (escaped_octet b @ bs) = b # percent_decode bs"
proof -
  assume "b < 256"
  then have "b div 16 < 16" "b mod 16 < 16" by linarith+
  then show ?thesis using octet_hex_digit by (simp add: escaped_octet_def)
qed

lemma percent_decode_escapes:
  "\<forall>b\<in>set bs. b < 256 \<Longrightarrow> percent_decode (concat (map escaped_octet bs) @ r) = bs @ percent_decode r"
  by (induction bs) (simp_all add: percent_decode_escaped)

lemma percent_decode_point: "c < 1114112 \<Longrightarrow> percent_decode (point_octets c @ r) = utf8 c @ percent_decode r"
proof (cases "unreserved c")
  case True
  then have "c < 128" "c \<noteq> 37" by (auto simp: unreserved_def)
  with True show ?thesis by (simp add: point_octets_def utf8_def)
next
  case False
  assume "c < 1114112"
  then have "\<forall>b\<in>set (utf8 c). b < 256" using utf8_bytes by blast
  with False show ?thesis by (simp add: point_octets_def percent_decode_escapes)
qed

lemma percent_decode_points:
  "\<forall>c\<in>set cs. c < 1114112 \<Longrightarrow> percent_decode (concat (map point_octets cs)) = concat (map utf8 cs)"
  by (induction cs) (simp_all add: percent_decode_point)

lemma search_params_next:
  assumes "encodeURIComponent s = Inr e"
  shows "search_params (js ''?next='' @ e) = [(js ''next'', s)]"
proof -
  from assms obtain cs where cs: "code_points s = Inr cs" and e: "e = concat (map encode_point cs)"
    by (auto simp: encodeURIComponent_def ebind_Inr_iff)
  let ?v = "concat (map point_octets cs)"
  let ?k = "map of_char ''next'' :: nat list"
  have small: "\<forall>c\<in>set cs. c < 1114112" using code_points_utf16 [OF cs] by (auto simp: scalar_def)
  then have v: "\<forall>x\<in>set ?v. x < 128 \<and> x \<notin> {38, 43, 61}" using point_octets_range by auto
  have "e = map word_of_nat ?v" by (simp add: e encode_point_octets map_concat comp_def)
  then have "js ''next='' @ e = map word_of_nat (?k @ 61 # ?v)" by (simp add: js_def cu_def)
  moreover have "\<forall>b\<in>set (?k @ 61 # ?v). b < 128" using v by auto
  ultimately have octets: "utf8_encode (js ''next='' @ e) = ?k @ 61 # ?v" by (metis utf8_encode_ascii)
  have "38 \<notin> set (?k @ 61 # ?v)" using v by auto
  then have "form_parse (js ''next='' @ e) = [form_pair (?k @ 61 # ?v)]"
    by (simp add: form_parse_def octets split_octets_part)
  moreover have "form_pair (?k @ 61 # ?v) = (js ''next'', s)"
  proof -
    have "map (\<lambda>b. if b = 43 then 32 else b) ?v = ?v" using v by (intro map_idI) auto
    then have "form_text ?v = utf8_decode (utf8_encode s)"
      by (simp add: form_text_def percent_decode_points [OF small] utf8_encode_def scalar_values_code_points [OF cs])
    also have "\<dots> = s" using cs by (intro utf8_decode_encode) (auto simp: well_formed_iff)
    finally have shown: "form_text ?v = s" .
    have "form_text ?k = js ''next''" by code_simp
    then show ?thesis using shown by (simp add: form_pair_def)
  qed
  ultimately have "form_parse (js ''next='' @ e) = [(js ''next'', s)]" by simp
  moreover have "js ''?next='' @ e = 63 # js ''next='' @ e" "js ''?'' = [63]" by (simp_all add: js_def cu_def)
  ultimately show ?thesis by (simp add: search_params_def starts_with_def)
qed

lemma search_params_none: "search_params [] = []"
  by code_simp



definition sent_to :: "User \<Rightarrow> Location" where
  "sent_to u = (if mustChange u then \<lparr>lc_pathname = js ''/change-password'', lc_search = [], lc_hash = []\<rparr>
     else \<lparr>lc_pathname = js ''/account'', lc_search = [], lc_hash = js ''#password''\<rparr>)"

text \<open>While a local user must change the password, the gate opens nothing but the page for it, in the
  restricted shell; for everybody else that page leads elsewhere. Where the gate sends a signed-in user,
  it opens: it never sends twice.\<close>

theorem password_change_comes_first:
  "(AuthGate (MeLoaded u) l = Inr (GateOpens restricted) \<longleftrightarrow>
      restricted = mustChange u \<and> (mustChange u \<longleftrightarrow> lc_pathname l = js ''/change-password'')) \<and>
   AuthGate (MeLoaded u) l \<in> {Inr (GateOpens (mustChange u)), Inr (GateGoesTo (here (sent_to u)))} \<and>
   AuthGate (MeLoaded u) (sent_to u) = Inr (GateOpens (mustChange u))"
proof -
  have "here (sent_to u) = (if mustChange u then js ''/change-password'' else js ''/account#password'')"
    by (simp add: here_def sent_to_def js_def)
  then show ?thesis by (auto simp: AuthGate_def sent_to_def)
qed

text \<open>A failed attempt leaves no password in the form, and a locked form sends nothing.\<close>

lemma login_failed_forgets: "lg_password (login_failed e t s) = []"
  by (simp add: login_failed_def Let_def split: ClientError.splits)

lemma login_submit_waits: "snd (login_submit s) \<noteq> None \<Longrightarrow> \<not> locked s \<and> login_valid s"
  by (auto simp: login_submit_def split: if_splits)

end
