(* ===== verification/Spec_Admin.thy ===== *)
theory Spec_Admin
  imports Spec_Session Js_Values
begin

text \<open>
  The admin console's sections (\<open>lib/admin-sections.ts\<close>) and the page that shows one
  (\<open>pages/AdminPage.tsx\<close>).
\<close>

section \<open>Sections\<close>

datatype Needs = AnySection | AnyOf "jstr list"

datatype SectionGroup = StartGroup | PeopleGroup | ApisGroup | PlatformGroup

record AdminSection =
  as_id :: jstr
  as_path :: jstr
  as_group :: SectionGroup
  as_needs :: Needs

definition admin_section :: "string \<Rightarrow> SectionGroup \<Rightarrow> Needs \<Rightarrow> AdminSection" where
  "admin_section name g needs = \<lparr>as_id = js name, as_path = js name, as_group = g, as_needs = needs\<rparr>"

definition ADMIN_SECTIONS :: "AdminSection list" where
  "ADMIN_SECTIONS =
    [admin_section ''overview'' StartGroup AnySection,
     admin_section ''users'' PeopleGroup (AnyOf [js ''users'']),
     admin_section ''groups'' PeopleGroup (AnyOf [js ''groups'']),
     admin_section ''roles'' PeopleGroup (AnyOf [js ''roles'']),
     admin_section ''sessions'' PeopleGroup (AnyOf [js ''sessions'']),
     admin_section ''apis'' ApisGroup (AnyOf [js ''apis'']),
     admin_section ''identity'' PlatformGroup (AnyOf [js ''ldap'', js ''azureAd'']),
     admin_section ''audit'' PlatformGroup (AnyOf [js ''audit'']),
     admin_section ''settings'' PlatformGroup (AnyOf [js ''sessionSettings'', js ''system''])]"

definition open_to :: "jstr list \<Rightarrow> AdminSection \<Rightarrow> bool" where
  "open_to allowed s = (case as_needs s of AnySection \<Rightarrow> True | AnyOf needs \<Rightarrow> list_ex (\<lambda>need. need \<in> set allowed) needs)"

definition visibleAdminSections :: "jstr list \<Rightarrow> AdminSection list" where
  "visibleAdminSections allowed = (if allowed = [] then [] else filter (open_to allowed) ADMIN_SECTIONS)"

section \<open>The page\<close>

text \<open>\<open>MOVED\<close> is an object: it inherits members, which are true but no addresses.\<close>

definition MOVED :: "(jstr \<times> jval) list" where
  "MOVED = [(js ''ldap'', JStr (js ''/admin/identity?tab=ldap'')), (js ''azure-ad'', JStr (js ''/admin/identity?tab=azure'')),
     (js ''session-settings'', JStr (js ''/admin/settings?tab=session'')), (js ''system'', JStr (js ''/admin/settings?tab=branding''))]"

datatype AdminView = NotAllowed | GoesTo jstr | GoesNowhere | Shows AdminSection

definition admin_address :: "jstr \<Rightarrow> jstr" where
  "admin_address path = js ''/admin/'' @ path"

definition AdminPage :: "jstr list \<Rightarrow> jstr \<Rightarrow> AdminView" where
  "AdminPage allowed path =
     (let visible = filter (\<lambda>s. as_id s \<in> set (map as_id (visibleAdminSections allowed))) ADMIN_SECTIONS
      in if visible = [] then NotAllowed
         else if path \<noteq> [] \<and> truthy (own MOVED path)
           then (case own MOVED path of JStr a \<Rightarrow> GoesTo a | _ \<Rightarrow> GoesNowhere)
         else if path = [] then GoesTo (admin_address (as_path (hd visible)))
         else case find (\<lambda>s. as_path s = path) visible of
             Some s \<Rightarrow> Shows s
           | None \<Rightarrow> if list_ex (\<lambda>s. as_path s = path) ADMIN_SECTIONS then NotAllowed
               else GoesTo (admin_address (as_path (hd visible))))"

definition nav_group :: "jstr list \<Rightarrow> SectionGroup \<Rightarrow> AdminSection list" where
  "nav_group allowed g = filter (\<lambda>s. as_group s = g) (visibleAdminSections allowed)"

section \<open>What it shows\<close>

lemma sections_by_id: "s \<in> set ADMIN_SECTIONS \<Longrightarrow> s' \<in> set ADMIN_SECTIONS \<Longrightarrow> as_id s = as_id s' \<Longrightarrow> s = s'"
  by (auto simp: ADMIN_SECTIONS_def admin_section_def)

lemma sections_path: "s \<in> set ADMIN_SECTIONS \<Longrightarrow> as_path s = as_id s"
  by (auto simp: ADMIN_SECTIONS_def admin_section_def)

lemma visible_sections:
  "filter (\<lambda>s. as_id s \<in> set (map as_id (visibleAdminSections allowed))) ADMIN_SECTIONS = visibleAdminSections allowed"
proof (cases "allowed = []")
  case False
  have "as_id s \<in> set (map as_id (visibleAdminSections allowed)) \<longleftrightarrow> open_to allowed s" if "s \<in> set ADMIN_SECTIONS" for s
    using sections_by_id that False by (auto simp: visibleAdminSections_def)
  then show ?thesis using False by (auto simp: visibleAdminSections_def intro: filter_cong)
qed (simp add: visibleAdminSections_def)

lemma visible_starts:
  "allowed \<noteq> [] \<Longrightarrow> visibleAdminSections allowed = hd ADMIN_SECTIONS # filter (open_to allowed) (tl ADMIN_SECTIONS)"
  by (simp add: visibleAdminSections_def ADMIN_SECTIONS_def admin_section_def open_to_def)

lemma not_moved: "s \<in> set ADMIN_SECTIONS \<Longrightarrow> \<not> truthy (own MOVED (as_path s))"
proof -
  have "list_all (\<lambda>s. \<not> truthy (own MOVED (as_path s))) ADMIN_SECTIONS" by code_simp
  then show "s \<in> set ADMIN_SECTIONS \<Longrightarrow> \<not> truthy (own MOVED (as_path s))" by (simp add: list_all_iff)
qed

lemma sections_by_path: "s \<in> set ADMIN_SECTIONS \<Longrightarrow> s' \<in> set ADMIN_SECTIONS \<Longrightarrow> as_path s = as_path s' \<Longrightarrow> s = s'"
  using sections_by_id sections_path by metis

lemma sections_named: "s \<in> set ADMIN_SECTIONS \<Longrightarrow> as_path s \<noteq> []"
  by (auto simp: ADMIN_SECTIONS_def admin_section_def)

lemma visible_iff:
  "s \<in> set (visibleAdminSections allowed) \<longleftrightarrow> s \<in> set ADMIN_SECTIONS \<and> allowed \<noteq> [] \<and> open_to allowed s"
  by (auto simp: visibleAdminSections_def)

lemma visible_empty: "visibleAdminSections allowed = [] \<longleftrightarrow> allowed = []"
  using visible_starts [of allowed] by (cases "allowed = []") (auto simp: visibleAdminSections_def)

lemma section_found:
  "find (\<lambda>s. as_path s = path) (visibleAdminSections allowed) = Some s \<longleftrightarrow>
     s \<in> set (visibleAdminSections allowed) \<and> as_path s = path"
proof
  assume "find (\<lambda>s. as_path s = path) (visibleAdminSections allowed) = Some s"
  then show "s \<in> set (visibleAdminSections allowed) \<and> as_path s = path" by (auto simp: find_Some_iff)
next
  assume s: "s \<in> set (visibleAdminSections allowed) \<and> as_path s = path"
  then obtain s' where s': "find (\<lambda>s. as_path s = path) (visibleAdminSections allowed) = Some s'"
    by (cases "find (\<lambda>s. as_path s = path) (visibleAdminSections allowed)") (auto simp: find_None_iff)
  then have "s' \<in> set (visibleAdminSections allowed) \<and> as_path s' = path" by (auto simp: find_Some_iff)
  with s s' show "find (\<lambda>s. as_path s = path) (visibleAdminSections allowed) = Some s"
    using sections_by_path visible_iff by metis
qed

lemma page_cases:
  "AdminPage allowed path =
     (if allowed = [] then NotAllowed
      else if path \<noteq> [] \<and> truthy (own MOVED path) then (case own MOVED path of JStr a \<Rightarrow> GoesTo a | _ \<Rightarrow> GoesNowhere)
      else if path = [] then GoesTo (admin_address (as_path (hd (visibleAdminSections allowed))))
      else case find (\<lambda>s. as_path s = path) (visibleAdminSections allowed) of
          Some s \<Rightarrow> Shows s
        | None \<Rightarrow> if list_ex (\<lambda>s. as_path s = path) ADMIN_SECTIONS then NotAllowed
            else GoesTo (admin_address (as_path (hd (visibleAdminSections allowed)))))"
  by (simp only: AdminPage_def visible_sections Let_def visible_empty)

lemma page_shows:
  "AdminPage allowed path = Shows s \<longleftrightarrow>
     s \<in> set ADMIN_SECTIONS \<and> as_path s = path \<and> allowed \<noteq> [] \<and> open_to allowed s"
proof (cases "truthy (own MOVED path) \<or> path = []")
  case True
  then show ?thesis using not_moved [of s] sections_named [of s] by (auto simp: page_cases split: jval.splits)
next
  case False
  then show ?thesis using section_found [of path allowed s] visible_iff [of s allowed]
    by (auto simp: page_cases split: option.splits)
qed

lemma page_refuses:
  "AdminPage allowed path = NotAllowed \<longleftrightarrow>
     allowed = [] \<or> (\<exists>s \<in> set ADMIN_SECTIONS. as_path s = path \<and> \<not> open_to allowed s)"
proof (cases "truthy (own MOVED path) \<or> path = []")
  case True
  then show ?thesis using not_moved sections_named by (auto simp: page_cases split: jval.splits)
next
  case False
  show ?thesis
  proof (cases "find (\<lambda>s. as_path s = path) (visibleAdminSections allowed)")
    case None
    then have "\<not> (s \<in> set (visibleAdminSections allowed) \<and> as_path s = path)" for s
      using section_found [of path allowed s] by simp
    with None False show ?thesis by (auto simp: page_cases list_ex_iff visible_iff)
  next
    case (Some s)
    then have "s \<in> set (visibleAdminSections allowed)" "as_path s = path" using section_found by blast+
    with Some False show ?thesis using sections_by_path by (auto simp: page_cases visible_iff)
  qed
qed


text \<open>An address named like an inherited member leaves the page empty.\<close>

lemma admin_page_inherited: "AdminPage [need] (js ''constructor'') = GoesNowhere"
proof -
  have "own MOVED (js ''constructor'') = JFun (js ''constructor'')" by code_simp
  then show ?thesis by (simp add: page_cases)
qed

end
