(* ===== verification/Spec_Audit.thy ===== *)
theory Spec_Audit
  imports Spec_Api Js_Text Js_Values Js_Json Spec_Types
begin

text \<open>
  The audit log (\<open>pages/admin/AuditSection.tsx\<close>, \<open>audit/AuditDrawer.tsx\<close>): the filter in the address,
  the form over it, and the pages. The clock gives milliseconds; \<open>iso_time\<close> and \<open>local_date\<close> are the
  browser's texts of a time.
\<close>

section \<open>Periods\<close>

definition PRESETS :: "jstr list" where
  "PRESETS = map js [''1h'', ''24h'', ''7d'', ''30d'']"

text \<open>An object, which inherits members.\<close>

definition PRESET_MS :: "(jstr \<times> jval) list" where
  "PRESET_MS = [(js ''1h'', JNum (Fin 3600000)), (js ''24h'', JNum (Fin 86400000)), (js ''7d'', JNum (Fin (7 * 86400000))),
     (js ''30d'', JNum (Fin (30 * 86400000)))]"

text \<open>The milliseconds before now; an inherited member is no number.\<close>

definition before_now :: "int \<Rightarrow> jval \<Rightarrow> int option" where
  "before_now now v = (case v of JNum (Fin q) \<Rightarrow> Some (now - \<lfloor>q\<rfloor>) | _ \<Rightarrow> None)"

definition presetStart :: "(int \<Rightarrow> jstr) \<Rightarrow> int \<Rightarrow> jstr \<Rightarrow> jstr" where
  "presetStart local_date now period =
     (if \<not> truthy (own PRESET_MS period) then []
      else case before_now now (own PRESET_MS period) of Some t \<Rightarrow> local_date t | None \<Rightarrow> js ''NaN-NaN-NaN'')"

section \<open>The filter in the address\<close>

datatype FilterKey = UserKey | ActionKey | OutcomeKey | FromKey | ToKey | RangeKey

definition FILTER_KEYS :: "FilterKey list" where
  "FILTER_KEYS = [UserKey, ActionKey, OutcomeKey, FromKey, ToKey, RangeKey]"

fun filter_name :: "FilterKey \<Rightarrow> jstr" where
  "filter_name UserKey = js ''user''"
| "filter_name ActionKey = js ''action''"
| "filter_name OutcomeKey = js ''outcome''"
| "filter_name FromKey = js ''from''"
| "filter_name ToKey = js ''to''"
| "filter_name RangeKey = js ''range''"

definition preset_from :: "(int \<Rightarrow> jstr) \<Rightarrow> int \<Rightarrow> jval \<Rightarrow> jstr jsr" where
  "preset_from iso_time now v =
     (case before_now now v of Some t \<Rightarrow> Inr (iso_time (t div 60000 * 60000)) | None \<Rightarrow> Inl RangeError)"

definition filterFromParams :: "(int \<Rightarrow> jstr) \<Rightarrow> int \<Rightarrow> (jstr \<times> jstr) list \<Rightarrow> AuditFilter jsr" where
  "filterFromParams iso_time now ps =
     (let period = (case params_get (js ''range'') ps of Some r \<Rightarrow> r | None \<Rightarrow> []);
          preset = own PRESET_MS period
      in ebind (if period \<noteq> [] \<and> truthy preset then ebind (preset_from iso_time now preset) (\<lambda>t. Inr (Some t))
                else Inr (params_get (js ''from'') ps))
           (\<lambda>from_time. Inr \<lparr>af_from = from_time, af_to = (if period \<noteq> [] then None else params_get (js ''to'') ps),
              af_user = params_get (js ''user'') ps, af_action = params_get (js ''action'') ps,
              af_outcome = params_get (js ''outcome'') ps, af_targetType = params_get (js ''targetType'') ps,
              af_targetId = params_get (js ''targetId'') ps, af_apiId = None\<rparr>))"

section \<open>The page\<close>

type_synonym Draft = "FilterKey \<Rightarrow> jstr"

record AuditPage =
  ap_params :: "(jstr \<times> jstr) list"
  ap_draft :: Draft
  ap_limit :: int
  ap_offset :: int

definition PAGE_SIZES :: "int list" where
  "PAGE_SIZES = [25, 50, 100]"

definition audit_open :: "(jstr \<times> jstr) list \<Rightarrow> AuditPage" where
  "audit_open ps = \<lparr>ap_params = ps,
     ap_draft = (\<lambda>k. case params_get (filter_name k) ps of Some v \<Rightarrow> v | None \<Rightarrow> []),
     ap_limit = hd PAGE_SIZES, ap_offset = 0\<rparr>"

definition keep_target :: "(jstr \<times> jstr) list \<Rightarrow> jstr \<Rightarrow> (jstr \<times> jstr) list \<Rightarrow> (jstr \<times> jstr) list" where
  "keep_target ps key out = (case params_get key ps of Some v \<Rightarrow> if v \<noteq> [] then params_set key v out else out | None \<Rightarrow> out)"

definition put_key :: "Draft \<Rightarrow> FilterKey \<Rightarrow> (jstr \<times> jstr) list \<Rightarrow> (jstr \<times> jstr) list" where
  "put_key d k out = (if d k \<noteq> [] \<and> \<not> (d RangeKey \<noteq> [] \<and> (k = FromKey \<or> k = ToKey)) then params_set (filter_name k) (d k) out else out)"

definition applied :: "(jstr \<times> jstr) list \<Rightarrow> Draft \<Rightarrow> (jstr \<times> jstr) list" where
  "applied ps d = fold (put_key d) FILTER_KEYS (fold (keep_target ps) [js ''targetType'', js ''targetId''] [])"

definition apply_draft :: "Draft \<Rightarrow> AuditPage \<Rightarrow> AuditPage" where
  "apply_draft d s = s\<lparr>ap_offset := 0, ap_params := applied (ap_params s) d\<rparr>"

datatype AuditAction = EditKey FilterKey jstr | ChoosePeriod jstr | ApplyFilter | ResetFilter | ChooseLimit int | NextPage | PreviousPage

definition choose_period :: "jstr \<Rightarrow> AuditPage \<Rightarrow> AuditPage" where
  "choose_period v s =
     (let next_draft = (ap_draft s)(RangeKey := (if v = js ''custom'' then [] else v)); s1 = s\<lparr>ap_draft := next_draft\<rparr>
      in if v \<noteq> js ''custom'' then apply_draft next_draft s1 else s1)"

definition reset_filter :: "AuditPage \<Rightarrow> AuditPage" where
  "reset_filter s = s\<lparr>ap_draft := \<lambda>k. [], ap_offset := 0, ap_params := []\<rparr>"

definition choose_limit :: "int \<Rightarrow> AuditPage \<Rightarrow> AuditPage" where
  "choose_limit n s = s\<lparr>ap_limit := n, ap_offset := 0\<rparr>"

text \<open>\<open>n_total\<close> is how many entries the portal has counted; the dates cannot be edited under a period.\<close>

fun audit_step :: "int \<Rightarrow> AuditAction \<Rightarrow> AuditPage \<Rightarrow> AuditPage" where
  "audit_step n_total (EditKey k v) s = s\<lparr>ap_draft := (ap_draft s)(k := v)\<rparr>"
| "audit_step n_total (ChoosePeriod v) s = choose_period v s"
| "audit_step n_total ApplyFilter s = apply_draft (ap_draft s) s"
| "audit_step n_total ResetFilter s = reset_filter s"
| "audit_step n_total (ChooseLimit n) s = choose_limit n s"
| "audit_step n_total NextPage s = (if ap_offset s + ap_limit s \<ge> n_total then s else s\<lparr>ap_offset := ap_offset s + ap_limit s\<rparr>)"
| "audit_step n_total PreviousPage s = (if ap_offset s = 0 then s else s\<lparr>ap_offset := max 0 (ap_offset s - ap_limit s)\<rparr>)"

text \<open>The call that the page makes, and the one of the export, which has no page.\<close>

definition opt_text :: "jstr option \<Rightarrow> jval" where
  "opt_text v = (case v of Some s \<Rightarrow> JStr s | None \<Rightarrow> JUndef)"

definition filter_fields :: "AuditFilter \<Rightarrow> (jstr, jval) dict" where
  "filter_fields f = [(js ''user'', opt_text (af_user f)), (js ''action'', opt_text (af_action f)), (js ''outcome'', opt_text (af_outcome f)),
     (js ''from'', opt_text (af_from f)), (js ''to'', opt_text (af_to f)), (js ''targetType'', opt_text (af_targetType f)),
     (js ''targetId'', opt_text (af_targetId f))]"

definition audit_query :: "(int \<Rightarrow> jstr) \<Rightarrow> int \<Rightarrow> AuditPage \<Rightarrow> jstr jsr" where
  "audit_query iso_time now s = ebind (filterFromParams iso_time now (ap_params s)) (\<lambda>f.
     auditQuery (filter_fields f) [(js ''limit'', JNum (num_of_int (ap_limit s))), (js ''offset'', JNum (num_of_int (ap_offset s)))])"

definition canExport :: "MeResponse option \<Rightarrow> bool" where
  "canExport me = (case me of None \<Rightarrow> False | Some m \<Rightarrow>
     (case me_capabilities m of Some c \<Rightarrow> ca_canExportAudit c | None \<Rightarrow> False) \<or> u_isAdmin (me_user m))"

text \<open>The details of an entry, laid out when they are JSON.\<close>

definition audit_details :: "jstr option \<Rightarrow> jstr" where
  "audit_details d = (case d of None \<Rightarrow> [] | Some t \<Rightarrow>
     (case json_parse t of Some v \<Rightarrow> (case stringify2 v of Some x \<Rightarrow> x | None \<Rightarrow> []) | None \<Rightarrow> t))"

definition outcomeVariant :: "Outcome \<Rightarrow> jstr" where
  "outcomeVariant x = (case x of Succeeded \<Rightarrow> js ''success'' | Denied \<Rightarrow> js ''warning'' | Failed \<Rightarrow> js ''destructive'' | NoOutcome \<Rightarrow> js ''neutral'')"

section \<open>The form and the address agree\<close>

lemma get_keep:
  "params_get k (keep_target ps key out) =
     (if k = key \<and> params_get key ps \<notin> {None, Some []} then params_get key ps else params_get k out)"
  by (auto simp: keep_target_def params_get_set split: option.splits)

lemma get_put:
  "params_get k (put_key d key out) =
     (if k = filter_name key \<and> d key \<noteq> [] \<and> \<not> (d RangeKey \<noteq> [] \<and> key \<in> {FromKey, ToKey}) then Some (d key)
      else params_get k out)"
  by (auto simp: put_key_def params_get_set)

definition given :: "jstr \<Rightarrow> jstr option" where
  "given s = (if s = [] then None else Some s)"

definition target_of :: "(jstr \<times> jstr) list \<Rightarrow> string \<Rightarrow> jstr option" where
  "target_of ps key = (case params_get (js key) ps of Some v \<Rightarrow> given v | None \<Rightarrow> None)"

lemma applied_gets:
  "params_get (js ''user'') (applied ps d) = given (d UserKey)"
  "params_get (js ''action'') (applied ps d) = given (d ActionKey)"
  "params_get (js ''outcome'') (applied ps d) = given (d OutcomeKey)"
  "params_get (js ''from'') (applied ps d) = (if d RangeKey = [] then given (d FromKey) else None)"
  "params_get (js ''to'') (applied ps d) = (if d RangeKey = [] then given (d ToKey) else None)"
  "params_get (js ''range'') (applied ps d) = given (d RangeKey)"
  "params_get (js ''targetType'') (applied ps d) = target_of ps ''targetType''"
  "params_get (js ''targetId'') (applied ps d) = target_of ps ''targetId''"
proof -
  have nil: "params_get k [] = None" for k by (simp add: params_get_def)
  note gets = applied_def FILTER_KEYS_def get_put get_keep nil given_def target_of_def
  show "params_get (js ''user'') (applied ps d) = given (d UserKey)"
    "params_get (js ''action'') (applied ps d) = given (d ActionKey)"
    "params_get (js ''outcome'') (applied ps d) = given (d OutcomeKey)"
    "params_get (js ''from'') (applied ps d) = (if d RangeKey = [] then given (d FromKey) else None)"
    "params_get (js ''to'') (applied ps d) = (if d RangeKey = [] then given (d ToKey) else None)"
    "params_get (js ''range'') (applied ps d) = given (d RangeKey)" by (simp_all add: gets)
  show "params_get (js ''targetType'') (applied ps d) = target_of ps ''targetType''"
    "params_get (js ''targetId'') (applied ps d) = target_of ps ''targetId''"
    by (auto simp: gets split: option.splits)
qed

lemma preset_numbers:
  assumes "v \<in> set PRESETS"
  obtains n where "own PRESET_MS v = JNum (Fin (of_int n))" "0 < n"
proof -
  have "own PRESET_MS (js ''1h'') = JNum (Fin 3600000)" "own PRESET_MS (js ''24h'') = JNum (Fin 86400000)"
    "own PRESET_MS (js ''7d'') = JNum (Fin 604800000)" "own PRESET_MS (js ''30d'') = JNum (Fin 2592000000)"
    by (simp_all add: own_def PRESET_MS_def)
  with that [of 3600000] that [of 86400000] that [of 604800000] that [of 2592000000] assms show ?thesis
    by (auto simp: PRESETS_def)
qed

text \<open>C23: the filter that the page reads from its address after a draft is applied is the draft: each field
  that is not empty, the dates only without a period, a period as the start of the minute that lies so
  long before now, and the target of the link that led here.\<close>

theorem applied_filter_is_draft:
  assumes "d RangeKey = [] \<or> d RangeKey \<in> set PRESETS"
  shows "filterFromParams iso_time now (ap_params (apply_draft d s)) = Inr
    \<lparr>af_from = (if d RangeKey = [] then given (d FromKey)
        else map_option (\<lambda>t. iso_time (t div 60000 * 60000)) (before_now now (own PRESET_MS (d RangeKey)))),
     af_to = (if d RangeKey = [] then given (d ToKey) else None),
     af_user = given (d UserKey), af_action = given (d ActionKey), af_outcome = given (d OutcomeKey),
     af_targetType = target_of (ap_params s) ''targetType'', af_targetId = target_of (ap_params s) ''targetId'', af_apiId = None\<rparr> \<and>
    (d RangeKey \<noteq> [] \<longrightarrow> before_now now (own PRESET_MS (d RangeKey)) \<noteq> None) \<and>
    ap_offset (apply_draft d s) = 0"
proof (cases "d RangeKey = []")
  case True
  then show ?thesis by (simp add: filterFromParams_def apply_draft_def applied_gets Let_def given_def)
next
  case False
  with assms obtain n where n: "own PRESET_MS (d RangeKey) = JNum (Fin (of_int n))" "0 < n" by (auto elim: preset_numbers)
  then have "before_now now (own PRESET_MS (d RangeKey)) = Some (now - n)" "truthy (own PRESET_MS (d RangeKey))"
    by (simp_all add: before_now_def)
  with False show ?thesis by (simp add: filterFromParams_def apply_draft_def applied_gets Let_def given_def preset_from_def)
qed

definition example_draft :: Draft where
  "example_draft = (\<lambda>k. [])(UserKey := js ''eve'', RangeKey := js ''24h'', FromKey := js ''2026-01-01'')"

theorem applied_filter_is_draft_witness:
  "filterFromParams int_str 100000000 (ap_params (apply_draft example_draft (audit_open [(js ''targetType'', js ''api'')]))) = Inr
    \<lparr>af_from = Some (int_str 13560000), af_to = None, af_user = Some (js ''eve''), af_action = None, af_outcome = None,
     af_targetType = Some (js ''api''), af_targetId = None, af_apiId = None\<rparr>"
proof -
  have r: "example_draft RangeKey = js ''24h''" "example_draft UserKey = js ''eve''" "example_draft ActionKey = []"
    "example_draft OutcomeKey = []" by (simp_all add: example_draft_def)
  have t: "target_of (ap_params (audit_open [(js ''targetType'', js ''api'')])) ''targetType'' = Some (js ''api'')"
    "target_of (ap_params (audit_open [(js ''targetType'', js ''api'')])) ''targetId'' = None"
    by (simp_all add: target_of_def audit_open_def params_get_def given_def)
  have b: "before_now 100000000 (own PRESET_MS (js ''24h'')) = Some 13600000"
    by (simp add: before_now_def own_def PRESET_MS_def)
  show ?thesis
    using applied_filter_is_draft [of example_draft int_str 100000000 "audit_open [(js ''targetType'', js ''api'')]", THEN conjunct1]
    by (simp add: r t b PRESETS_def given_def)
qed

text \<open>An address whose period is named like an inherited member makes the page throw.\<close>

lemma inherited_period_throws:
  "filterFromParams iso_time now [(js ''range'', js ''constructor'')] = Inl RangeError"
proof -
  have "own PRESET_MS (js ''constructor'') = JFun (js ''constructor'')" by code_simp
  then show ?thesis by (simp add: filterFromParams_def params_get_def preset_from_def before_now_def Let_def)
qed

text \<open>Pages: the offset is a multiple of the limit and never negative, whatever the user does.\<close>

definition page_aligned :: "AuditPage \<Rightarrow> bool" where
  "page_aligned s \<longleftrightarrow> 0 < ap_limit s \<and> 0 \<le> ap_offset s \<and> ap_limit s dvd ap_offset s"

lemma audit_step_aligned:
  "\<lbrakk>page_aligned s; case a of ChooseLimit n \<Rightarrow> n \<in> set PAGE_SIZES | _ \<Rightarrow> True\<rbrakk> \<Longrightarrow> page_aligned (audit_step n_total a s)"
proof (cases a)
  case PreviousPage
  assume "page_aligned s"
  then show ?thesis using PreviousPage zdvd_imp_le [of "ap_limit s" "ap_offset s"] by (auto simp: page_aligned_def)
qed (auto simp: page_aligned_def apply_draft_def choose_period_def reset_filter_def choose_limit_def PAGE_SIZES_def Let_def)

end
