(* ===== verification/Spec_Catalog_Page.thy ===== *)
theory Spec_Catalog_Page
  imports Spec_Catalog Spec_Request
begin

text \<open>
  \<open>pages/CatalogPage.tsx\<close> and \<open>components/shell/GlobalSearch.tsx\<close>: the catalog as a state machine over the
  browser's history. The filters live in the address; each change of them is an entry of the history,
  and typing in the search box replaces its entry.
\<close>

section \<open>The page over the history\<close>

text \<open>The entries of the history that belong to the catalog, the current one first, and the browser's store.\<close>

record CatalogPage =
  pg_history :: "(jstr \<times> jstr) list list"
  pg_storage :: Storage

record Patch =
  pt_q :: "jstr option"
  pt_tags :: "jstr list option"
  pt_owners :: "jstr list option"
  pt_status :: "StatusFilter list option"
  pt_sort :: "Sort option"
  pt_view :: "View option"

definition no_patch :: Patch where
  "no_patch = \<lparr>pt_q = None, pt_tags = None, pt_owners = None, pt_status = None, pt_sort = None, pt_view = None\<rparr>"

definition patched_with :: "'a option \<Rightarrow> 'a \<Rightarrow> 'a" where
  "patched_with new old = (case new of Some v \<Rightarrow> v | None \<Rightarrow> old)"

definition patched :: "CatalogFilters \<Rightarrow> Patch \<Rightarrow> CatalogFilters" where
  "patched f p = \<lparr>cf_q = patched_with (pt_q p) (cf_q f), cf_tags = patched_with (pt_tags p) (cf_tags f),
     cf_owners = patched_with (pt_owners p) (cf_owners f), cf_status = patched_with (pt_status p) (cf_status f),
     cf_sort = patched_with (pt_sort p) (cf_sort f), cf_view = patched_with (pt_view p) (cf_view f)\<rparr>"

definition params :: "CatalogPage \<Rightarrow> (jstr \<times> jstr) list" where
  "params s = hd (pg_history s)"

definition filters :: "CatalogPage \<Rightarrow> CatalogFilters" where
  "filters s = parseFilters (params s)"

text \<open>The router writes the parameters as text and reads them back.\<close>

definition setParams :: "bool \<Rightarrow> (jstr \<times> jstr) list \<Rightarrow> CatalogPage \<Rightarrow> CatalogPage" where
  "setParams replace ps s =
     s\<lparr>pg_history := form_parse (form_serialize ps) # (if replace then tl (pg_history s) else pg_history s)\<rparr>"

definition has_param :: "string \<Rightarrow> (jstr \<times> jstr) list \<Rightarrow> bool" where
  "has_param k ps = (params_get (js k) ps \<noteq> None)"

text \<open>Entering the catalog: what the address does not say comes from the last choice.\<close>

definition enter_catalog :: "CatalogPage \<Rightarrow> CatalogPage" where
  "enter_catalog s =
     (if has_param ''view'' (params s) \<and> has_param ''sort'' (params s) then s
      else let remembered = rememberedLayout (pg_storage s);
               f = (filters s)\<lparr>cf_view := (if has_param ''view'' (params s) then cf_view (filters s) else fst remembered),
                               cf_sort := (if has_param ''sort'' (params s) then cf_sort (filters s) else snd remembered)\<rparr>
           in if cf_view f \<noteq> cf_view (filters s) \<or> cf_sort f \<noteq> cf_sort (filters s)
              then setParams True (filtersToParams f) s else s)"

definition update_filters :: "Patch \<Rightarrow> CatalogPage \<Rightarrow> CatalogPage" where
  "update_filters p s =
     setParams False (filtersToParams (patched (filters s) p)) (s\<lparr>pg_storage := rememberLayout (pt_view p) (pt_sort p) (pg_storage s)\<rparr>)"

datatype Facet = TagFacet jstr | OwnerFacet jstr | StatusFacet StatusFilter

definition toggled :: "bool \<Rightarrow> 'a \<Rightarrow> 'a list \<Rightarrow> 'a list" where
  "toggled on v current = (if on then current @ [v] else filter (\<lambda>x. x \<noteq> v) current)"

fun toggle_facet :: "Facet \<Rightarrow> bool \<Rightarrow> CatalogPage \<Rightarrow> CatalogPage" where
  "toggle_facet (TagFacet v) on s = update_filters (no_patch\<lparr>pt_tags := Some (toggled on v (cf_tags (filters s)))\<rparr>) s"
| "toggle_facet (OwnerFacet v) on s = update_filters (no_patch\<lparr>pt_owners := Some (toggled on v (cf_owners (filters s)))\<rparr>) s"
| "toggle_facet (StatusFacet v) on s = update_filters (no_patch\<lparr>pt_status := Some (toggled on v (cf_status (filters s)))\<rparr>) s"

definition clearFilters :: "CatalogPage \<Rightarrow> CatalogPage" where
  "clearFilters = update_filters (no_patch\<lparr>pt_q := Some [], pt_tags := Some [], pt_owners := Some [], pt_status := Some []\<rparr>)"

text \<open>The chips of the active filters.\<close>

datatype Chip = QueryChip jstr | FacetChip Facet

definition chips :: "CatalogFilters \<Rightarrow> Chip list" where
  "chips f = (if trim (cf_q f) \<noteq> [] then [QueryChip (trim (cf_q f))] else []) @ map (FacetChip \<circ> StatusFacet) (cf_status f) @
     map (FacetChip \<circ> OwnerFacet) (cf_owners f) @ map (FacetChip \<circ> TagFacet) (cf_tags f)"

fun remove_chip :: "Chip \<Rightarrow> CatalogPage \<Rightarrow> CatalogPage" where
  "remove_chip (QueryChip t) s = update_filters (no_patch\<lparr>pt_q := Some []\<rparr>) s"
| "remove_chip (FacetChip v) s = toggle_facet v False s"

text \<open>The search box, while the catalog is open.\<close>

definition search_value :: "CatalogPage \<Rightarrow> jstr" where
  "search_value s = (case params_get (js ''q'') (params s) of Some q \<Rightarrow> q | None \<Rightarrow> [])"

definition search_for :: "jstr \<Rightarrow> CatalogPage \<Rightarrow> CatalogPage" where
  "search_for t s =
     setParams (has_param ''q'' (params s))
       (if t \<noteq> [] then params_set (js ''q'') t (params s) else params_delete (js ''q'') (params s)) s"

text \<open>From another page it opens the catalog.\<close>

definition search_address :: "jstr \<Rightarrow> jstr jsr" where
  "search_address t = (if t = [] then Inr (js ''/'') else ebind (encodeURIComponent t) (\<lambda>e. Inr (js ''/?q='' @ e)))"

datatype CatalogEvent =
    OpenCatalog "(jstr \<times> jstr) list" | ChooseView View | ChooseSort Sort | ToggleFacet Facet bool | ShowProblems
  | RemoveChip Chip | ClearFilters | SearchFor jstr | GoBack

fun catalog_step :: "CatalogEvent \<Rightarrow> CatalogPage \<Rightarrow> CatalogPage" where
  "catalog_step (OpenCatalog ps) s = enter_catalog (s\<lparr>pg_history := ps # pg_history s\<rparr>)"
| "catalog_step (ChooseView v) s = update_filters (no_patch\<lparr>pt_view := Some v\<rparr>) s"
| "catalog_step (ChooseSort v) s = update_filters (no_patch\<lparr>pt_sort := Some v\<rparr>) s"
| "catalog_step (ToggleFacet v on) s = toggle_facet v on s"
| "catalog_step ShowProblems s = update_filters (no_patch\<lparr>pt_status := Some [SpecErrors]\<rparr>) s"
| "catalog_step (RemoveChip c) s = remove_chip c s"
| "catalog_step ClearFilters s = clearFilters s"
| "catalog_step (SearchFor t) s = search_for t s"
| "catalog_step GoBack s = (if 1 < length (pg_history s) then s\<lparr>pg_history := tl (pg_history s)\<rparr> else s)"

definition catalog_run :: "CatalogEvent list \<Rightarrow> CatalogPage \<Rightarrow> CatalogPage" where
  "catalog_run es s = fold catalog_step es s"

definition catalog_open :: "(jstr \<times> jstr) list \<Rightarrow> Storage \<Rightarrow> CatalogPage" where
  "catalog_open ps st = enter_catalog \<lparr>pg_history = [ps], pg_storage = st\<rparr>"

section \<open>What it shows\<close>

definition visible_apis :: "Platform \<Rightarrow> jnum \<Rightarrow> ApiSummary list \<Rightarrow> CatalogPage \<Rightarrow> ApiSummary list" where
  "visible_apis p now apis s = sortApis p (filterApis p apis (filters s) now) (cf_sort (filters s))"

definition canCreate :: "MeResponse option \<Rightarrow> bool" where
  "canCreate me = (case me of None \<Rightarrow> False | Some m \<Rightarrow>
     (case me_capabilities m of Some c \<Rightarrow> ca_canCreateApi c | None \<Rightarrow> False) \<or> u_isAdmin (me_user m))"

definition specProblems :: "Platform \<Rightarrow> jnum \<Rightarrow> ApiSummary list \<Rightarrow> nat" where
  "specProblems p now apis = length (filter (\<lambda>a. specHealth p a now \<in> {HealthError, HealthMissing}) apis)"

definition status_items :: "Platform \<Rightarrow> jnum \<Rightarrow> ApiSummary list \<Rightarrow> CatalogFilters \<Rightarrow> (StatusFilter \<times> nat) list" where
  "status_items p now apis f = filter (\<lambda>(s, n). 0 < n \<or> s \<in> set (cf_status f)) (countByStatus p apis now)"

definition tag_items :: "Platform \<Rightarrow> ApiSummary list \<Rightarrow> (jstr \<times> nat) list" where
  "tag_items p apis = facetCounts p apis api_tags"

definition owner_items :: "Platform \<Rightarrow> ApiSummary list \<Rightarrow> (jstr \<times> nat) list" where
  "owner_items p apis = facetCounts p apis (\<lambda>a. if as_ownerTeam a \<noteq> [] then [as_ownerTeam a] else [])"

definition favorites :: "Platform \<Rightarrow> ApiSummary list \<Rightarrow> ApiSummary list" where
  "favorites p apis = sort_by (\<lambda>a b. plain_order p (as_name a) (as_name b)) (filter as_favorite apis)"

definition was_viewed :: "ApiSummary \<Rightarrow> bool" where
  "was_viewed a = (case as_lastViewedAt a of Some t \<Rightarrow> t \<noteq> [] | None \<Rightarrow> False)"

definition recent :: "Platform \<Rightarrow> ApiSummary list \<Rightarrow> ApiSummary list" where
  "recent p apis = take 5 (sort_by (\<lambda>a b. num_sign (num_sub (stamp_time p (as_lastViewedAt b)) (stamp_time p (as_lastViewedAt a))))
     (filter was_viewed apis))"

datatype CatalogBody = Loading | LoadFailed | EmptyCatalog bool | NoMatch | Listed bool "ApiSummary list"

text \<open>\<open>Listed\<close> says whether the list is a table.\<close>

definition catalog_body :: "Platform \<Rightarrow> jnum \<Rightarrow> bool \<Rightarrow> ApiSummary list option \<Rightarrow> MeResponse option \<Rightarrow> CatalogPage \<Rightarrow> CatalogBody" where
  "catalog_body p now pending loaded me s =
     (if pending then Loading
      else case loaded of
          None \<Rightarrow> LoadFailed
        | Some apis \<Rightarrow>
            if apis = [] then EmptyCatalog (canCreate me)
            else if visible_apis p now apis s = [] then NoMatch
            else Listed (cf_view (filters s) = ListView) (visible_apis p now apis s))"

definition SEARCH_LIMIT :: nat where
  "SEARCH_LIMIT = 50"

definition SHOWN_FIRST :: nat where
  "SHOWN_FIRST = 10"

definition shown_operations :: "jstr \<Rightarrow> jstr \<Rightarrow> OperationHit list \<Rightarrow> OperationHit list" where
  "shown_operations expandedFor query ops = (if expandedFor = query then ops else take SHOWN_FIRST ops)"

definition searches_operations :: "CatalogFilters \<Rightarrow> bool" where
  "searches_operations f = (2 \<le> length (trim (cf_q f)))"

definition operation_target :: "OperationHit \<Rightarrow> jstr jsr" where
  "operation_target h = ebind (encodeURIComponent (if oh_apiSlug h \<noteq> [] then oh_apiSlug h else int_str (oh_apiId h)))
     (\<lambda>e. Inr (js ''/apis/'' @ e @ js ''?'' @ form_serialize [(js ''op'', oh_method h @ js '' '' @ oh_path h)]))"

definition canTry :: "ApiSummary \<Rightarrow> bool" where
  "canTry a = (as_canInvoke a \<and> as_tryItEnabled a \<and> as_isActive a)"

section \<open>The abstract catalog\<close>

text \<open>
  What the page promises, without addresses: a stack of filters and the layout chosen last. A change of
  the filters is put on the stack; typing replaces the top while it searches already.
\<close>

type_synonym AbstractCatalog = "CatalogFilters list \<times> View \<times> Sort"

definition opened_filters :: "(jstr \<times> jstr) list \<Rightarrow> View \<times> Sort \<Rightarrow> CatalogFilters" where
  "opened_filters ps layout = (parseFilters ps)
     \<lparr>cf_view := (if has_param ''view'' ps then cf_view (parseFilters ps) else fst layout),
      cf_sort := (if has_param ''sort'' ps then cf_sort (parseFilters ps) else snd layout)\<rparr>"

fun without_facet :: "Facet \<Rightarrow> bool \<Rightarrow> CatalogFilters \<Rightarrow> CatalogFilters" where
  "without_facet (TagFacet v) on f = f\<lparr>cf_tags := toggled on v (cf_tags f)\<rparr>"
| "without_facet (OwnerFacet v) on f = f\<lparr>cf_owners := toggled on v (cf_owners f)\<rparr>"
| "without_facet (StatusFacet v) on f = f\<lparr>cf_status := toggled on v (cf_status f)\<rparr>"

fun change :: "CatalogEvent \<Rightarrow> CatalogFilters \<Rightarrow> CatalogFilters" where
  "change (ChooseView v) f = f\<lparr>cf_view := v\<rparr>"
| "change (ChooseSort v) f = f\<lparr>cf_sort := v\<rparr>"
| "change (ToggleFacet v on) f = without_facet v on f"
| "change ShowProblems f = f\<lparr>cf_status := [SpecErrors]\<rparr>"
| "change (RemoveChip (QueryChip t)) f = f\<lparr>cf_q := []\<rparr>"
| "change (RemoveChip (FacetChip v)) f = without_facet v False f"
| "change ClearFilters f = f\<lparr>cf_q := [], cf_tags := [], cf_owners := [], cf_status := []\<rparr>"
| "change (SearchFor t) f = f\<lparr>cf_q := t\<rparr>"
| "change _ f = f"

fun chosen :: "CatalogEvent \<Rightarrow> View \<times> Sort \<Rightarrow> View \<times> Sort" where
  "chosen (ChooseView v) layout = (v, snd layout)"
| "chosen (ChooseSort v) layout = (fst layout, v)"
| "chosen _ layout = layout"

fun abstract_step :: "CatalogEvent \<Rightarrow> AbstractCatalog \<Rightarrow> AbstractCatalog" where
  "abstract_step (OpenCatalog ps) (fs, layout) = (opened_filters ps layout # fs, layout)"
| "abstract_step (SearchFor t) (fs, layout) = (change (SearchFor t) (hd fs) # (if cf_q (hd fs) \<noteq> [] then tl fs else fs), layout)"
| "abstract_step GoBack (fs, layout) = (if 1 < length fs then tl fs else fs, layout)"
| "abstract_step e (fs, layout) = (change e (hd fs) # fs, chosen e layout)"

definition shown_catalog :: "CatalogPage \<Rightarrow> AbstractCatalog" where
  "shown_catalog s = (map parseFilters (pg_history s), rememberedLayout (pg_storage s))"

section \<open>Parameters\<close>

lemma set_params_set: "set (params_set k v ps) \<subseteq> insert (k, v) (set ps)"
  by (induction ps) auto

lemma set_params_delete: "set (params_delete k ps) \<subseteq> set ps"
  by (auto simp: params_delete_def)

lemma parse_set_q: "parseFilters (params_set (js ''q'') t ps) = (parseFilters ps)\<lparr>cf_q := t\<rparr>"
  by (simp add: parseFilters_def params_get_set params_all_set)

lemma parse_delete_q: "parseFilters (params_delete (js ''q'') ps) = (parseFilters ps)\<lparr>cf_q := []\<rparr>"
  by (simp add: parseFilters_def params_get_delete params_all_delete)

section \<open>Refinement\<close>

definition params_ok :: "(jstr \<times> jstr) list \<Rightarrow> bool" where
  "params_ok ps \<longleftrightarrow> list_all (\<lambda>(k, v). well_formed k \<and> well_formed v) ps \<and> params_get (js ''q'') ps \<noteq> Some []"

fun facet_ok :: "Facet \<Rightarrow> bool" where
  "facet_ok (TagFacet v) = well_formed v"
| "facet_ok (OwnerFacet v) = well_formed v"
| "facet_ok (StatusFacet v) = True"

fun event_ok :: "CatalogEvent \<Rightarrow> bool" where
  "event_ok (OpenCatalog ps) = params_ok ps"
| "event_ok (ToggleFacet v on) = facet_ok v"
| "event_ok (SearchFor t) = well_formed t"
| "event_ok _ = True"

definition page_ok :: "CatalogPage \<Rightarrow> bool" where
  "page_ok s \<longleftrightarrow> pg_history s \<noteq> [] \<and> list_all params_ok (pg_history s) \<and> storage_works (pg_storage s)"

lemma written_back: "list_all (\<lambda>(k, v). well_formed k \<and> well_formed v) ps \<Longrightarrow> form_parse (form_serialize ps) = ps"
  by (rule form_text.dec_enc) (auto simp: list_all_iff)

lemma params_q: "params_ok ps \<Longrightarrow> has_param ''q'' ps \<longleftrightarrow> cf_q (parseFilters ps) \<noteq> []"
  by (auto simp: params_ok_def has_param_def parseFilters_def split: option.splits)

lemma all_in_params: "v \<in> set (params_all k ps) \<Longrightarrow> (k, v) \<in> set ps"
  by (auto simp: params_all_def)

lemma parsed_ok: "params_ok ps \<Longrightarrow> filters_ok (parseFilters ps)"
proof -
  assume ok: "params_ok ps"
  have "well_formed v" if "v \<in> set (params_all k ps)" for k v
    using all_in_params [OF that] ok by (auto simp: params_ok_def list_all_iff)
  moreover have "well_formed v" if "params_get k ps = Some v" for k v
    using map_of_SomeD that ok by (fastforce simp: params_ok_def params_get_def list_all_iff)
  moreover have "well_formed []" by code_simp
  ultimately show ?thesis by (auto simp: filters_ok_def parseFilters_def list_all_iff split: option.splits)
qed

lemma filters_params_ok: "filters_ok f \<Longrightarrow> params_ok (filtersToParams f)"
proof -
  assume "filters_ok f"
  then have "list_all (\<lambda>(k, v). well_formed k \<and> well_formed v) (filtersToParams f)"
    using filters_well_formed by (auto simp: list_all_iff)
  moreover have "params_get (js ''q'') (filtersToParams f) \<noteq> Some []"
    by (auto simp: filter_keys_list params_simps split: option.splits)
  ultimately show ?thesis by (simp add: params_ok_def)
qed

lemma set_filters:
  assumes "filters_ok f"
  shows "setParams r (filtersToParams f) s = s\<lparr>pg_history := filtersToParams f # (if r then tl (pg_history s) else pg_history s)\<rparr>"
  using filters_params_ok [OF assms] by (simp add: setParams_def params_ok_def written_back)

lemma update_refines:
  assumes "page_ok s" "filters_ok (patched (filters s) p)"
  shows "page_ok (update_filters p s)"
    "shown_catalog (update_filters p s) = (patched (filters s) p # fst (shown_catalog s),
       patched_with (pt_view p) (fst (snd (shown_catalog s))), patched_with (pt_sort p) (snd (snd (shown_catalog s))))"
proof -
  have w: "storage_works (rememberLayout v o' (pg_storage s))" for v o'
    using assms(1) by (auto simp: page_ok_def rememberLayout_def Let_def prefs.works_write split: option.splits)
  then show "page_ok (update_filters p s)"
    using assms filters_params_ok by (simp add: update_filters_def set_filters page_ok_def)
  show "shown_catalog (update_filters p s) = (patched (filters s) p # fst (shown_catalog s),
       patched_with (pt_view p) (fst (snd (shown_catalog s))), patched_with (pt_sort p) (snd (snd (shown_catalog s))))"
    using assms remembered [of "pg_storage s"]
    by (simp add: update_filters_def set_filters shown_catalog_def parse_filters page_ok_def patched_with_def)
qed

lemma filters_top: "page_ok s \<Longrightarrow> filters s = hd (fst (shown_catalog s))"
  by (simp add: filters_def params_def shown_catalog_def page_ok_def hd_map)

lemma filters_page_ok: "page_ok s \<Longrightarrow> filters_ok (filters s)"
  by (cases "pg_history s") (auto simp: page_ok_def filters_def params_def parsed_ok)

lemma enter_refines:
  assumes "page_ok s"
  shows "page_ok (enter_catalog s)"
    "shown_catalog (enter_catalog s) = (opened_filters (params s) (snd (shown_catalog s)) # tl (fst (shown_catalog s)), snd (shown_catalog s))"
proof -
  obtain ps h where h: "pg_history s = ps # h" using assms by (cases "pg_history s") (auto simp: page_ok_def)
  let ?f = "opened_filters ps (rememberedLayout (pg_storage s))"
  have f: "filters_ok ?f" using filters_page_ok [OF assms] h by (simp add: filters_ok_def opened_filters_def filters_def params_def)
  have "?f = parseFilters ps \<longleftrightarrow> cf_view ?f = cf_view (parseFilters ps) \<and> cf_sort ?f = cf_sort (parseFilters ps)"
    by (cases "parseFilters ps") (auto simp: opened_filters_def)
  then have e: "enter_catalog s = (if ?f = parseFilters ps then s else s\<lparr>pg_history := filtersToParams ?f # h\<rparr>)"
    using set_filters [OF f, of True s] h
    by (cases "has_param ''view'' ps"; cases "has_param ''sort'' ps")
      (auto simp: enter_catalog_def opened_filters_def filters_def params_def Let_def)
  show "page_ok (enter_catalog s)" using assms h filters_params_ok [OF f] by (simp add: e page_ok_def)
  show "shown_catalog (enter_catalog s) = (opened_filters (params s) (snd (shown_catalog s)) # tl (fst (shown_catalog s)), snd (shown_catalog s))"
    by (simp add: e shown_catalog_def params_def h parse_filters)
qed

lemma search_refines:
  assumes "page_ok s" "well_formed t"
  shows "page_ok (search_for t s)"
    "shown_catalog (search_for t s) = abstract_step (SearchFor t) (shown_catalog s)"
proof -
  obtain ps h where h: "pg_history s = ps # h" using assms by (cases "pg_history s") (auto simp: page_ok_def)
  have ok: "params_ok ps" using assms h by (simp add: page_ok_def)
  let ?qs = "if t \<noteq> [] then params_set (js ''q'') t ps else params_delete (js ''q'') ps"
  have "well_formed (js ''q'')" by code_simp
  then have "list_all (\<lambda>(k, v). well_formed k \<and> well_formed v) ?qs"
    using ok assms(2) set_params_set [of "js ''q''" t ps] set_params_delete [of "js ''q''" ps]
    by (auto simp: params_ok_def list_all_iff)
  moreover have "params_get (js ''q'') ?qs \<noteq> Some []" by (simp add: params_get_set params_get_delete)
  ultimately have qs: "params_ok ?qs" "form_parse (form_serialize ?qs) = ?qs" by (simp_all add: params_ok_def written_back)
  have parsed: "parseFilters ?qs = (parseFilters ps)\<lparr>cf_q := t\<rparr>" by (simp add: parse_set_q parse_delete_q)
  have e: "search_for t s = s\<lparr>pg_history := ?qs # (if has_param ''q'' ps then h else ps # h)\<rparr>"
    by (simp only: search_for_def setParams_def params_def h list.sel qs(2))
  show "page_ok (search_for t s)" using assms h qs(1) ok by (simp add: e page_ok_def)
  show "shown_catalog (search_for t s) = abstract_step (SearchFor t) (shown_catalog s)"
    using params_q [OF ok] parsed by (simp add: e shown_catalog_def h)
qed

lemma toggled_ok: "list_all well_formed xs \<Longrightarrow> well_formed v \<Longrightarrow> list_all well_formed (toggled on v xs)"
  by (auto simp: toggled_def list_all_iff)

lemma toggle_facet_refines:
  assumes "page_ok s" "facet_ok v \<or> \<not> on"
  shows "page_ok (toggle_facet v on s)"
    "shown_catalog (toggle_facet v on s) = (without_facet v on (filters s) # fst (shown_catalog s), snd (shown_catalog s))"
proof -
  have f: "filters_ok (filters s)" using assms(1) by (rule filters_page_ok)
  have "list_all well_formed (toggled on w xs)" if "list_all well_formed xs" "well_formed w \<or> \<not> on" for w xs
    using that by (auto simp: toggled_def list_all_iff)
  then have g: "filters_ok (without_facet v on (filters s))"
    using f assms(2) by (cases v) (auto simp: filters_ok_def)
  show "page_ok (toggle_facet v on s)"
    using g assms(1) by (cases v) (auto intro!: update_refines simp: patched_def patched_with_def no_patch_def filters_ok_def)
  show "shown_catalog (toggle_facet v on s) = (without_facet v on (filters s) # fst (shown_catalog s), snd (shown_catalog s))"
    using g assms(1) by (cases v) (simp_all add: update_refines patched_def patched_with_def no_patch_def filters_ok_def)
qed

lemma step_refines:
  assumes "page_ok s" "event_ok e"
  shows "page_ok (catalog_step e s) \<and> shown_catalog (catalog_step e s) = abstract_step e (shown_catalog s)"
proof -
  have f: "filters_ok (filters s)" "filters s = hd (fst (shown_catalog s))" using assms(1) by (rule filters_page_ok filters_top)+
  note upd = update_refines [OF assms(1)] and parts = patched_def patched_with_def no_patch_def filters_ok_def
  obtain fs view order where sh: "shown_catalog s = (fs, view, order)" by (cases "shown_catalog s") auto
  have w: "well_formed []" by code_simp
  show ?thesis
  proof (cases e)
    case (OpenCatalog ps)
    let ?s = "s\<lparr>pg_history := ps # pg_history s\<rparr>"
    have "page_ok ?s" using assms OpenCatalog by (simp add: page_ok_def)
    then show ?thesis using enter_refines [of ?s] by (simp add: OpenCatalog shown_catalog_def params_def)
  next
    case (RemoveChip c)
    then show ?thesis using f w upd toggle_facet_refines [OF assms(1)] sh by (cases c) (auto simp: parts)
  next
    case GoBack
    then show ?thesis using assms(1) by (auto simp: page_ok_def shown_catalog_def map_tl neq_Nil_conv)
  qed (use f w upd toggle_facet_refines [OF assms(1)] search_refines [OF assms(1)] sh assms(2) in
      \<open>auto simp: parts clearFilters_def\<close>)
qed

lemma run_refines:
  "page_ok s \<Longrightarrow> list_all event_ok es \<Longrightarrow>
     page_ok (catalog_run es s) \<and> shown_catalog (catalog_run es s) = fold abstract_step es (shown_catalog s)"
proof (induction es arbitrary: s)
  case (Cons e es)
  then show ?case using step_refines [of s e] by (simp add: catalog_run_def)
qed (simp add: catalog_run_def)

section \<open>What the catalog promises\<close>


definition example_visit :: "CatalogEvent list" where
  "example_visit = [ToggleFacet (TagFacet (js ''pay & ship'')) True, ChooseView ListView, SearchFor (js ''p''), SearchFor (js ''pe''),
     GoBack, OpenCatalog []]"

definition fresh_storage :: Storage where
  "fresh_storage = \<lparr>items = [], get_throws = False, set_throws = False\<rparr>"


text \<open>Back undoes a change of the filters, and a search typed letter by letter at once.\<close>

definition changes_filters :: "CatalogEvent \<Rightarrow> bool" where
  "changes_filters e = (case e of OpenCatalog _ \<Rightarrow> False | SearchFor _ \<Rightarrow> False | GoBack \<Rightarrow> False | _ \<Rightarrow> True)"

lemma back_undoes_change:
  "changes_filters e \<Longrightarrow> fs \<noteq> [] \<Longrightarrow> fst (abstract_step GoBack (abstract_step e (fs, layout))) = fs"
  by (cases e) (auto simp: changes_filters_def)

lemma back_clears_search:
  assumes "cf_q (hd fs) = []" "list_all (\<lambda>t. t \<noteq> []) (t # ts)" "fs \<noteq> []"
  shows "fold abstract_step (map SearchFor (t # ts)) (fs, layout) = ((hd fs)\<lparr>cf_q := last (t # ts)\<rparr> # fs, layout)"
    "abstract_step GoBack (fold abstract_step (map SearchFor (t # ts)) (fs, layout)) = (fs, layout)"
proof -
  have "fold abstract_step (map SearchFor us) (g # fs, layout) = ((if us = [] then g else g\<lparr>cf_q := last us\<rparr>) # fs, layout)"
    if "cf_q g \<noteq> []" "list_all (\<lambda>t. t \<noteq> []) us" for us g
    using that by (induction us arbitrary: g) simp_all
  then show "fold abstract_step (map SearchFor (t # ts)) (fs, layout) = ((hd fs)\<lparr>cf_q := last (t # ts)\<rparr> # fs, layout)"
    using assms by (cases ts) simp_all
  then show "abstract_step GoBack (fold abstract_step (map SearchFor (t # ts)) (fs, layout)) = (fs, layout)"
    using assms(3) by simp
qed

text \<open>Removing the chips one by one leaves no filter; a blank search has no chip and is none.\<close>

lemma remove_chips_clears:
  "\<not> hasFilters (fold (\<lambda>c. change (RemoveChip c)) (chips f) (f\<lparr>cf_q := (if trim (cf_q f) = [] then [] else cf_q f)\<rparr>))"
proof -
  have st: "fold (\<lambda>c. change (RemoveChip c)) (map (FacetChip \<circ> StatusFacet) ss) g = g\<lparr>cf_status := filter (\<lambda>x. x \<notin> set ss) (cf_status g)\<rparr>" for ss g
    by (induction ss arbitrary: g) (auto simp: toggled_def intro: filter_cong)
  have ow: "fold (\<lambda>c. change (RemoveChip c)) (map (FacetChip \<circ> OwnerFacet) ss) g = g\<lparr>cf_owners := filter (\<lambda>x. x \<notin> set ss) (cf_owners g)\<rparr>" for ss g
    by (induction ss arbitrary: g) (auto simp: toggled_def intro: filter_cong)
  have tg: "fold (\<lambda>c. change (RemoveChip c)) (map (FacetChip \<circ> TagFacet) ss) g = g\<lparr>cf_tags := filter (\<lambda>x. x \<notin> set ss) (cf_tags g)\<rparr>" for ss g
    by (induction ss arbitrary: g) (auto simp: toggled_def intro: filter_cong)
  have "trim [] = []" by code_simp
  then show ?thesis by (auto simp: chips_def st ow tg hasFilters_def)
qed

text \<open>The panel lists a status when it is chosen or some API has it.\<close>

lemma status_items_count:
  "(s, n) \<in> set (status_items p now apis f) \<Longrightarrow>
     n = length (filterApis p apis (no_filters\<lparr>cf_status := [s]\<rparr>) now) \<and> (0 < n \<or> s \<in> set (cf_status f))"
  by (auto simp: status_items_def countByStatus_def)

end
