(* ===== verification/Spec_Palette.thy ===== *)
theory Spec_Palette
  imports Spec_Admin Spec_Fuzzy Spec_Catalog Spec_Request
begin

text \<open>
  \<open>components/shell/CommandPalette.tsx\<close>: what the palette lists, how the choice moves, what it runs and what
  it remembers of it; and \<open>lib/theme.tsx\<close>. The texts of the interface and the folding of letters are
  parameters; an item that was stored is read by its texts, other members count as missing.
\<close>

section \<open>The theme\<close>

datatype ThemePreference = LightTheme | DarkTheme | SystemTheme

fun theme_text :: "ThemePreference \<Rightarrow> jstr" where
  "theme_text LightTheme = js ''light''"
| "theme_text DarkTheme = js ''dark''"
| "theme_text SystemTheme = js ''system''"

definition THEME_KEY :: jstr where
  "THEME_KEY = js ''portal.theme''"

definition loadThemePreference :: "Storage \<Rightarrow> ThemePreference" where
  "loadThemePreference st =
     (case find (\<lambda>p. readPref THEME_KEY st = Some (theme_text p)) [LightTheme, DarkTheme, SystemTheme] of
        Some p \<Rightarrow> p | None \<Rightarrow> SystemTheme)"

definition theme_dark :: "bool \<Rightarrow> ThemePreference \<Rightarrow> bool" where
  "theme_dark systemIsDark p = (p = DarkTheme \<or> (p = SystemTheme \<and> systemIsDark))"

definition setPreference :: "ThemePreference \<Rightarrow> Storage \<Rightarrow> Storage" where
  "setPreference p st = writePref THEME_KEY (theme_text p) st"

lemma theme_remembered: "storage_works st \<Longrightarrow> loadThemePreference (setPreference p st) = p"
  by (cases p) (simp_all add: loadThemePreference_def setPreference_def prefs.read_write)

section \<open>Items\<close>

datatype ItemGroup = RecentGroup | ApiGroup | OperationGroup | NavigateGroup | ActionGroup

datatype ItemAction = UseTheme ThemePreference | UseLocale jstr | ShowHelp | SignOut

record Item =
  it_id :: jstr
  it_group :: ItemGroup
  it_label :: jstr
  it_keywords :: "jstr option"
  it_detail :: "jstr option"
  it_method :: "jstr option"
  it_href :: "jstr option"
  it_action :: "ItemAction option"

record Wording =
  tx_of :: "jstr \<Rightarrow> jstr"
  tx_backTo :: "jstr \<Rightarrow> jstr"

record Palette =
  pl_catalog :: "ApiSummary list"
  pl_allowed :: "jstr list"
  pl_operations :: "OperationHit list"
  pl_recent :: "jval list"

definition link_item :: "jstr \<Rightarrow> ItemGroup \<Rightarrow> jstr \<Rightarrow> jstr \<Rightarrow> Item" where
  "link_item i g label href = \<lparr>it_id = i, it_group = g, it_label = label, it_keywords = None, it_detail = None, it_method = None,
     it_href = Some href, it_action = None\<rparr>"

definition action_item :: "string \<Rightarrow> jstr \<Rightarrow> ItemAction \<Rightarrow> Item" where
  "action_item i label a = \<lparr>it_id = js ''action:'' @ js i, it_group = ActionGroup, it_label = label, it_keywords = None,
     it_detail = None, it_method = None, it_href = None, it_action = Some a\<rparr>"

definition middle_dot :: jstr where
  "middle_dot = [32, 183, 32]"

definition viewable :: "ApiSummary list \<Rightarrow> ApiSummary list" where
  "viewable apis = filter as_canView apis"

definition viewed_at :: "ApiSummary \<Rightarrow> jstr" where
  "viewed_at a = (case as_lastViewedAt a of Some t \<Rightarrow> t | None \<Rightarrow> [])"

definition lastViewed :: "Platform \<Rightarrow> ApiSummary list \<Rightarrow> ApiSummary option" where
  "lastViewed p apis = (case sort_by (\<lambda>a b. plain_order p (viewed_at b) (viewed_at a)) (filter (\<lambda>a. viewed_at a \<noteq> []) apis) of
     a # _ \<Rightarrow> Some a | [] \<Rightarrow> None)"

definition api_href :: "ApiSummary \<Rightarrow> jstr jsr" where
  "api_href a = ebind (encodeURIComponent (as_slug a)) (\<lambda>e. Inr (js ''/apis/'' @ e))"

definition section_item :: "Wording \<Rightarrow> AdminSection \<Rightarrow> Item" where
  "section_item tx s = link_item (js ''nav:admin:'' @ AdminSection.as_id s) NavigateGroup
     (tx_of tx (js ''nav.admin'') @ middle_dot @ tx_of tx (js ''admin.sections.'' @ AdminSection.as_id s)) (admin_address (as_path s))"

definition navigateItems :: "Wording \<Rightarrow> jstr list \<Rightarrow> Item list" where
  "navigateItems tx allowed =
     [link_item (js ''nav:catalog'') NavigateGroup (tx_of tx (js ''nav.catalog'')) (js ''/'')] @
     map (section_item tx) (visibleAdminSections allowed) @
     [link_item (js ''nav:account'') NavigateGroup (tx_of tx (js ''shell.account'')) (js ''/account'')]"

definition last_item :: "Wording \<Rightarrow> ApiSummary option \<Rightarrow> Item list jsr" where
  "last_item tx a = (case a of None \<Rightarrow> Inr [] | Some a \<Rightarrow>
     ebind (api_href a) (\<lambda>h. Inr [link_item (js ''action:last-api'') ActionGroup (tx_backTo tx (as_name a)) h]))"

definition plain_actions :: "Wording \<Rightarrow> Item list" where
  "plain_actions tx =
     [action_item ''theme-light'' (tx_of tx (js ''palette.themeLight'')) (UseTheme LightTheme),
      action_item ''theme-dark'' (tx_of tx (js ''palette.themeDark'')) (UseTheme DarkTheme),
      action_item ''theme-system'' (tx_of tx (js ''palette.themeSystem'')) (UseTheme SystemTheme),
      (action_item ''lang-en'' (js ''Language: English'') (UseLocale (js ''en'')))\<lparr>it_keywords := Some (js ''dil ingilizce'')\<rparr>,
      (action_item ''lang-tr'' (js ''Dil: T'' @ [252] @ js ''rk'' @ [231] @ js ''e'') (UseLocale (js ''tr'')))\<lparr>it_keywords := Some (js ''language turkish'')\<rparr>,
      action_item ''help'' (tx_of tx (js ''palette.shortcuts'')) ShowHelp,
      action_item ''signout'' (tx_of tx (js ''shell.signOut'')) SignOut]"

definition api_item :: "ApiSummary \<Rightarrow> Item jsr" where
  "api_item a = ebind (api_href a) (\<lambda>h. Inr \<lparr>it_id = js ''api:'' @ int_str (ApiSummary.as_id a), it_group = ApiGroup,
     it_label = as_name a, it_keywords = Some (join (js '' '') ([as_slug a, as_ownerTeam a] @ api_tags a)),
     it_detail = Some (as_ownerTeam a), it_method = None, it_href = Some h, it_action = None\<rparr>)"

definition operation_item :: "OperationHit \<Rightarrow> Item jsr" where
  "operation_item h = ebind (encodeURIComponent (if oh_apiSlug h \<noteq> [] then oh_apiSlug h else int_str (oh_apiId h)))
     (\<lambda>e. let label = oh_method h @ js '' '' @ oh_path h in Inr
       \<lparr>it_id = js ''op:'' @ int_str (oh_apiId h) @ js '':'' @ label, it_group = OperationGroup, it_label = label,
        it_keywords = None,
        it_detail = Some (join middle_dot (filter (\<lambda>s. s \<noteq> []) [case oh_summary h of Some s \<Rightarrow> s | None \<Rightarrow> [], oh_apiName h])),
        it_method = Some (oh_method h),
        it_href = Some (js ''/apis/'' @ e @ js ''?'' @ form_serialize [(js ''op'', label)]), it_action = None\<rparr>)"

section \<open>What was chosen before\<close>

definition RECENT_KEY :: jstr where
  "RECENT_KEY = js ''portal.palette.recent''"

definition RECENT_MAX :: nat where
  "RECENT_MAX = 5"

record Recent =
  rc_id :: jstr
  rc_label :: jstr
  rc_href :: "jstr option"
  rc_method :: "jstr option"

definition text_member :: "jval \<Rightarrow> string \<Rightarrow> jstr option" where
  "text_member v k = (case jget_opt v (js k) of JStr s \<Rightarrow> Some s | _ \<Rightarrow> None)"

definition readRecent :: "Storage \<Rightarrow> jval list" where
  "readRecent st =
     (case json_parse (case readPref RECENT_KEY st of None \<Rightarrow> js ''[]'' | Some t \<Rightarrow> t) of
        Some (JArr _ vs) \<Rightarrow> take RECENT_MAX (filter (\<lambda>r. truthy r \<and> text_member r ''id'' \<noteq> None) vs) | _ \<Rightarrow> [])"

definition recent_of :: "jval \<Rightarrow> Recent" where
  "recent_of v = \<lparr>rc_id = the (text_member v ''id''), rc_label = (case text_member v ''label'' of Some s \<Rightarrow> s | None \<Rightarrow> []),
     rc_href = text_member v ''href'', rc_method = text_member v ''method''\<rparr>"

definition recent_item :: "Item list \<Rightarrow> Recent \<Rightarrow> Item option" where
  "recent_item known r =
     (case find (\<lambda>i. it_id i = rc_id r) (rev known) of
        Some i \<Rightarrow> Some (i\<lparr>it_group := RecentGroup\<rparr>)
      | None \<Rightarrow> if rc_href r \<notin> {None, Some []} \<and> starts_with (rc_id r) (js ''op:'')
          then Some \<lparr>it_id = rc_id r, it_group = RecentGroup, it_label = rc_label r, it_keywords = None, it_detail = None,
            it_method = rc_method r, it_href = rc_href r, it_action = None\<rparr>
          else None)"

section \<open>The list\<close>

definition actions :: "Platform \<Rightarrow> Wording \<Rightarrow> ApiSummary list \<Rightarrow> Item list jsr" where
  "actions p tx apis = ebind (last_item tx (lastViewed p apis)) (\<lambda>l. Inr (l @ plain_actions tx))"

definition item_text :: "Item \<Rightarrow> jstr" where
  "item_text i = it_label i @ js '' '' @ (case it_keywords i of Some k \<Rightarrow> k | None \<Rightarrow> [])"

definition first_list :: "Item list \<Rightarrow> Item list \<Rightarrow> Item list \<Rightarrow> jval list \<Rightarrow> Item list" where
  "first_list nav acts apis recent =
     (let recentItems = List.map_filter (recent_item (nav @ acts @ apis)) (map recent_of recent);
          unused = filter (\<lambda>i. it_id i \<notin> set (map it_id recentItems))
      in recentItems @ unused nav @ take 5 (unused apis) @ unused acts)"

definition items_of :: "Platform \<Rightarrow> (jstr \<Rightarrow> jstr) \<Rightarrow> (jstr \<Rightarrow> jstr) \<Rightarrow> Wording \<Rightarrow> Palette \<Rightarrow> jstr \<Rightarrow> Item list jsr" where
  "items_of p lower nfkd tx pal query =
     ebind (actions p tx (viewable (pl_catalog pal))) (\<lambda>acts.
     ebind (emap api_item (viewable (pl_catalog pal))) (\<lambda>apis.
     let nav = navigateItems tx (pl_allowed pal); q = trim query
     in if q = [] then Inr (first_list nav acts apis (pl_recent pal))
        else ebind (if 2 \<le> length q then emap operation_item (take 8 (pl_operations pal)) else Inr []) (\<lambda>ops. Inr
          (fuzzyFilter lower nfkd q apis item_text (Some 6) @ ops @ fuzzyFilter lower nfkd q nav item_text (Some 6)
           @ fuzzyFilter lower nfkd q acts item_text (Some 6)))))"

section \<open>Choosing\<close>

definition entry_of :: "Item \<Rightarrow> Recent" where
  "entry_of i = \<lparr>rc_id = it_id i, rc_label = it_label i, rc_href = it_href i, rc_method = it_method i\<rparr>"

definition opt_member :: "string \<Rightarrow> jstr option \<Rightarrow> (jstr \<times> jval)" where
  "opt_member k v = (js k, case v of Some s \<Rightarrow> JStr s | None \<Rightarrow> JUndef)"

definition stored_recent :: "Recent \<Rightarrow> jval" where
  "stored_recent r = JObj Fresh [(js ''id'', JStr (rc_id r)), (js ''label'', JStr (rc_label r)),
     opt_member ''href'' (rc_href r), opt_member ''method'' (rc_method r)]"

definition remembers :: "Item \<Rightarrow> bool" where
  "remembers i = (it_group i \<noteq> ActionGroup \<or> it_href i \<notin> {None, Some []})"

definition remember :: "Item \<Rightarrow> Storage \<Rightarrow> Storage" where
  "remember i st = (if remembers i
     then writePref RECENT_KEY (the (stringify (JArr Fresh (take RECENT_MAX
       (stored_recent (entry_of i) # filter (\<lambda>r. text_member r ''id'' \<noteq> Some (it_id i)) (readRecent st)))))) st
     else st)"

text \<open>\<open>run\<close>: it remembers, closes, goes and acts.\<close>

definition run_item :: "Item \<Rightarrow> Storage \<Rightarrow> Storage \<times> jstr option \<times> ItemAction option" where
  "run_item i st = (remember i st, if it_href i = Some [] then None else it_href i, it_action i)"

definition current_index :: "int \<Rightarrow> int \<Rightarrow> int" where
  "current_index n active = min active (max 0 (n - 1))"

definition move_to :: "int \<Rightarrow> int \<Rightarrow> int" where
  "move_to n next_index = (next_index + n) mod max n 1"

datatype PaletteKey = ArrowDown | ArrowUp | CtrlHome | CtrlEnd | OtherKey

definition palette_key :: "int \<Rightarrow> int \<Rightarrow> PaletteKey \<Rightarrow> int" where
  "palette_key n active k = (let index = current_index n active in
     case k of ArrowDown \<Rightarrow> move_to n (index + 1) | ArrowUp \<Rightarrow> move_to n (index - 1) | CtrlHome \<Rightarrow> move_to n 0
       | CtrlEnd \<Rightarrow> move_to n (n - 1) | OtherKey \<Rightarrow> active)"

section \<open>The choices remembered\<close>

text \<open>A remembered choice as it is read back: what it does not have is no property any more.\<close>

definition kept_recent :: "Recent \<Rightarrow> jval" where
  "kept_recent r = JObj Fresh ([(js ''id'', JStr (rc_id r)), (js ''label'', JStr (rc_label r))] @
     (case rc_href r of Some h \<Rightarrow> [(js ''href'', JStr h)] | None \<Rightarrow> []) @
     (case rc_method r of Some m \<Rightarrow> [(js ''method'', JStr m)] | None \<Rightarrow> []))"

lemma kept_recent_text: "json_text [] [] (stored_recent r) = json_text [] [] (kept_recent r)"
  by (cases "rc_href r"; cases "rc_method r") (simp_all add: stored_recent_def kept_recent_def opt_member_def)

lemma member_names:
  "array_index (js ''id'') = None" "array_index (js ''label'') = None" "array_index (js ''href'') = None"
  "array_index (js ''method'') = None" "js ''href'' \<notin> set object_members" "js ''method'' \<notin> set object_members"
  "js ''href'' \<noteq> proto_key" "js ''method'' \<noteq> proto_key"
  by code_simp+

lemma kept_recent_storable: "storable (kept_recent r)"
proof -
  obtain fs where fs: "kept_recent r = JObj Fresh fs" by (simp add: kept_recent_def)
  have "distinct (map fst fs)" "\<forall>k\<in>fst ` set fs. array_index k = None" "list_all (\<lambda>(k, v). storable v) fs"
    using fs by (cases "rc_href r"; cases "rc_method r"; force simp: kept_recent_def member_names)+
  then show ?thesis unfolding fs using put_all_define_id by simp
qed

lemma recent_of_kept: "recent_of (kept_recent r) = r" "text_member (kept_recent r) ''id'' = Some (rc_id r)" "truthy (kept_recent r)"
  using member_names by (cases "rc_href r"; cases "rc_method r";
      simp add: recent_of_def kept_recent_def text_member_def jget_opt_def own_def inherited_def)+

definition keeps_recent :: "Recent list \<Rightarrow> Storage \<Rightarrow> bool" where
  "keeps_recent rs st \<longleftrightarrow> storage_works st \<and> length rs \<le> RECENT_MAX \<and>
     (readPref RECENT_KEY st = stringify (JArr Fresh (map kept_recent rs)) \<or> rs = [] \<and> readPref RECENT_KEY st = None)"

lemma readRecent_kept: "keeps_recent rs st \<Longrightarrow> readRecent st = map kept_recent rs"
proof -
  assume k: "keeps_recent rs st"
  have "list_all storable (map kept_recent rs)" by (simp add: list_all_iff kept_recent_storable)
  then have "json_parse t = Some (JArr Fresh (map kept_recent rs))" if "stringify (JArr Fresh (map kept_recent rs)) = Some t" for t
    using that by (rule parse_array)
  moreover have "stringify (JArr Fresh (map kept_recent rs)) \<noteq> None" by (simp add: stringify_def)
  ultimately have p: "json_parse (case readPref RECENT_KEY st of None \<Rightarrow> js ''[]'' | Some t \<Rightarrow> t) = Some (JArr Fresh (map kept_recent rs))"
    using k parse_empty by (auto simp: keeps_recent_def)
  have "filter (\<lambda>r. truthy r \<and> text_member r ''id'' \<noteq> None) (map kept_recent rs) = map kept_recent rs"
    by (rule filter_True) (auto simp: recent_of_kept)
  then show ?thesis using k by (simp add: readRecent_def p keeps_recent_def)
qed

text \<open>The list of choices: the last one first, each once, no more than there is room for.\<close>

definition remembered_after :: "Item \<Rightarrow> Recent list \<Rightarrow> Recent list" where
  "remembered_after i rs = (if remembers i then take RECENT_MAX (entry_of i # filter (\<lambda>r. rc_id r \<noteq> it_id i) rs) else rs)"

lemma remember_keeps: "keeps_recent rs st \<Longrightarrow> keeps_recent (remembered_after i rs) (remember i st)"
proof (cases "remembers i")
  case True
  assume k: "keeps_recent rs st"
  let ?rs = "filter (\<lambda>r. rc_id r \<noteq> it_id i) rs"
  have "filter (\<lambda>r. text_member r ''id'' \<noteq> Some (it_id i)) (readRecent st) = map kept_recent ?rs"
    by (simp add: readRecent_kept [OF k] filter_map comp_def recent_of_kept)
  moreover have "take RECENT_MAX (x # map kept_recent ?rs) = x # map kept_recent (take 4 ?rs)" for x
    by (simp add: RECENT_MAX_def take_map)
  moreover have "stringify (JArr Fresh (stored_recent r # vs)) = stringify (JArr Fresh (kept_recent r # vs))" for r vs
    by (simp add: stringify_def kept_recent_text)
  moreover have "stringify (JArr Fresh vs) \<noteq> None" for vs by (simp add: stringify_def)
  ultimately show ?thesis
    using k True by (auto simp: keeps_recent_def remember_def remembered_after_def prefs.read_write prefs.works_write RECENT_MAX_def)
qed (simp add: remember_def remembered_after_def)

lemma distinct_map_take: "distinct (map f xs) \<Longrightarrow> distinct (map f (take n xs))"
  unfolding take_map [symmetric] by (rule distinct_take)

lemma remembered_distinct: "distinct (map rc_id rs) \<Longrightarrow> distinct (map rc_id (remembered_after i rs))"
proof -
  assume d: "distinct (map rc_id rs)"
  have "distinct (map rc_id (entry_of i # filter (\<lambda>r. rc_id r \<noteq> it_id i) rs))"
    using d by (auto simp: entry_of_def distinct_map intro: inj_on_subset)
  from distinct_map_take [OF this] show ?thesis using d by (simp only: remembered_after_def split: if_split) simp
qed

lemma runs_keep:
  "keeps_recent rs st \<Longrightarrow> keeps_recent (fold remembered_after is rs) (fold (\<lambda>i s. fst (run_item i s)) is st)"
  by (induction "is" arbitrary: rs st) (simp_all add: run_item_def remember_keeps)

lemma runs_distinct: "distinct (map rc_id rs) \<Longrightarrow> distinct (map rc_id (fold remembered_after is rs))"
  by (induction "is" arbitrary: rs) (simp_all add: remembered_distinct)

text \<open>C27: whatever is chosen in the palette, it remembers the last five choices that are places, the last one
  first and each once, and reads them back as they were stored; actions are not remembered.\<close>

theorem palette_remembers_choices:
  assumes "storage_works st" "readPref RECENT_KEY st = None"
  shows "map recent_of (readRecent (fold (\<lambda>i s. fst (run_item i s)) is st)) = fold remembered_after is [] \<and>
    distinct (map rc_id (fold remembered_after is [])) \<and> length (fold remembered_after is []) \<le> 5"
proof -
  have "keeps_recent [] st" using assms by (simp add: keeps_recent_def)
  from runs_keep [OF this] have k: "keeps_recent (fold remembered_after is []) (fold (\<lambda>i s. fst (run_item i s)) is st)" .
  have "map recent_of (map kept_recent rs) = rs" for rs by (induction rs) (simp_all add: recent_of_kept)
  then show ?thesis using readRecent_kept [OF k] k runs_distinct [of "[]" "is"] by (simp add: keeps_recent_def RECENT_MAX_def)
qed

definition some_choices :: "Item list" where
  "some_choices = [link_item (js ''api:7'') ApiGroup (js ''Pets'') (js ''/apis/pets''), link_item (js ''nav:catalog'') NavigateGroup (js ''Catalog'') (js ''/''),
     action_item ''help'' (js ''Shortcuts'') ShowHelp, link_item (js ''api:7'') ApiGroup (js ''Pets'') (js ''/apis/pets'')]"

theorem palette_remembers_choices_witness:
  "map rc_id (map recent_of (readRecent (fold (\<lambda>i s. fst (run_item i s)) some_choices
     \<lparr>items = [], get_throws = False, set_throws = False\<rparr>))) = [js ''api:7'', js ''nav:catalog'']"
proof -
  let ?st = "\<lparr>items = [], get_throws = False, set_throws = False\<rparr>"
  have "storage_works ?st" "readPref RECENT_KEY ?st = None" by code_simp+
  note r = palette_remembers_choices [OF this, of some_choices, THEN conjunct1]
  have "map rc_id (fold remembered_after some_choices []) = [js ''api:7'', js ''nav:catalog'']" by code_simp
  then show ?thesis unfolding r .
qed

section \<open>What the list holds\<close>

lemma recent_item_id: "recent_item known r = Some i \<Longrightarrow> it_id i = rc_id r"
  by (auto simp: recent_item_def find_Some_iff split: option.splits if_splits)

lemma recent_ids: "distinct (map rc_id rs) \<Longrightarrow> distinct (map it_id (List.map_filter (recent_item known) rs))"
proof (induction rs)
  case (Cons r rs)
  have "it_id i \<notin> it_id ` set (List.map_filter (recent_item known) rs)" if "recent_item known r = Some i" for i
  proof
    assume "it_id i \<in> it_id ` set (List.map_filter (recent_item known) rs)"
    then obtain r' j where "r' \<in> set rs" "recent_item known r' = Some j" "it_id j = it_id i"
      by (auto simp: List.map_filter_def)
    with that have "rc_id r' = rc_id r" using recent_item_id by metis
    with \<open>r' \<in> set rs\<close> Cons.prems show False by (auto simp: image_iff)
  qed
  with Cons show ?case by (auto simp: List.map_filter_simps split: option.splits)
qed (simp add: List.map_filter_simps)

lemma map_id_filter: "distinct (map it_id xs) \<Longrightarrow> distinct (map it_id (filter P xs))"
  by (auto simp: distinct_map intro: inj_on_subset)

lemma distinct_parts:
  "\<lbrakk>distinct a; distinct (b @ c @ d); set a \<inter> set (b @ c @ d) = {}\<rbrakk> \<Longrightarrow> distinct (a @ b @ take n c @ d)"
  using set_take_subset [of n c] by (auto simp: distinct_take)

lemma images_apart: "f ` A \<inter> f ` {x \<in> B. f x \<notin> f ` A} = {}"
proof (rule equals0I)
  fix z assume "z \<in> f ` A \<inter> f ` {x \<in> B. f x \<notin> f ` A}"
  then have "z \<in> f ` A" "\<exists>x. z = f x \<and> f x \<notin> f ` A" by blast+
  then show False by metis
qed

lemma first_list_distinct:
  assumes "distinct (map rc_id (map recent_of recent))" "distinct (map it_id (nav @ apis @ acts))"
  shows "distinct (map it_id (first_list nav acts apis recent))"
proof -
  let ?r = "List.map_filter (recent_item (nav @ acts @ apis)) (map recent_of recent)"
  let ?u = "filter (\<lambda>i::Item. it_id i \<notin> set (map it_id ?r))"
  have "distinct (map it_id (?u (nav @ apis @ acts)))" by (rule map_id_filter [OF assms(2)])
  then have "distinct (map it_id (?u nav) @ map it_id (?u apis) @ map it_id (?u acts))" by simp
  moreover have "set (map it_id ?r) \<inter> set (map it_id (?u xs)) = {}" for xs
    unfolding set_map set_filter by (rule images_apart)
  then have "set (map it_id ?r) \<inter> set (map it_id (?u nav) @ map it_id (?u apis) @ map it_id (?u acts)) = {}"
    unfolding set_append Int_Un_distrib by (simp only: Un_empty_left)
  ultimately have "distinct (map it_id ?r @ map it_id (?u nav) @ take 5 (map it_id (?u apis)) @ map it_id (?u acts))"
    by (rule distinct_parts [OF recent_ids [OF assms(1)]])
  then show ?thesis by (simp add: first_list_def Let_def take_map)
qed

lemma int_str_inject: "int_str m = int_str n \<longleftrightarrow> m = n"
proof -
  have "hd (nat_str k) \<noteq> 45" "nat_str k \<noteq> []" for k
    using nat_str_digits(1) [of k] int_str_units(2) [of "int k"]
    by (cases "nat_str k"; force simp: is_digit_def int_str_def)+
  then have "nat_str k \<noteq> 45 # nat_str l" for k l by (metis list.sel(1))
  then show ?thesis by (auto simp: int_str_def nat_str_inject) (metis)+
qed

definition plain_ids :: "jstr list" where
  "plain_ids = map js [''nav:catalog'', ''nav:account'', ''action:theme-light'', ''action:theme-dark'', ''action:theme-system'',
     ''action:lang-en'', ''action:lang-tr'', ''action:help'', ''action:signout'', ''action:last-api'']"

lemma nav_ids: "distinct (map it_id (navigateItems tx allowed))"
  "x \<in> it_id ` set (navigateItems tx allowed) \<Longrightarrow> starts_with x (js ''nav:'')"
proof -
  let ?all = "map (\<lambda>s. js ''nav:admin:'' @ AdminSection.as_id s) ADMIN_SECTIONS"
  have all: "distinct (js ''nav:catalog'' # ?all @ [js ''nav:account''])"
    "list_all (\<lambda>x. starts_with x (js ''nav:'')) (js ''nav:catalog'' # ?all @ [js ''nav:account''])" by code_simp+
  have v: "visibleAdminSections allowed = (if allowed = [] then [] else filter (open_to allowed) ADMIN_SECTIONS)"
    by (simp add: visibleAdminSections_def)
  have ids: "map it_id (navigateItems tx allowed) =
      js ''nav:catalog'' # map (\<lambda>s. js ''nav:admin:'' @ AdminSection.as_id s) (visibleAdminSections allowed) @ [js ''nav:account'']"
    by (simp add: navigateItems_def link_item_def section_item_def)
  show "distinct (map it_id (navigateItems tx allowed))"
    unfolding ids v using all(1) by (auto simp: distinct_map intro: inj_on_subset)
  show "x \<in> it_id ` set (navigateItems tx allowed) \<Longrightarrow> starts_with x (js ''nav:'')"
    unfolding set_map [symmetric] ids v using all(2) by (auto simp: list_all_iff split: if_splits)
qed

text \<open>Without a search the list has every item once, when the catalog has every API once.\<close>

lemma api_items_ids: "emap api_item apis = Inr is \<Longrightarrow> map it_id is = map (\<lambda>a. js ''api:'' @ int_str (ApiSummary.as_id a)) apis"
  by (induction apis arbitrary: "is") (auto simp: ebind_Inr_iff api_item_def)

lemma action_ids: "actions p tx apis = Inr acts \<Longrightarrow>
    distinct (map it_id acts) \<and> list_all (\<lambda>i. starts_with (it_id i) (js ''action:'')) acts"
proof -
  assume a: "actions p tx apis = Inr acts"
  let ?ids = "map (\<lambda>x. js ''action:'' @ js x) [''theme-light'', ''theme-dark'', ''theme-system'', ''lang-en'', ''lang-tr'', ''help'', ''signout'']"
  have p: "map it_id (plain_actions tx) = ?ids" by (simp add: plain_actions_def action_item_def)
  from a obtain l where acts: "acts = l @ plain_actions tx" and "map it_id l \<in> {[], [js ''action:last-api'']}"
    by (auto simp: actions_def last_item_def ebind_Inr_iff link_item_def split: option.splits)
  then have "map it_id acts \<in> {?ids, js ''action:last-api'' # ?ids}" using p by auto
  moreover have "distinct (js ''action:last-api'' # ?ids)" "list_all (\<lambda>x. starts_with x (js ''action:'')) (js ''action:last-api'' # ?ids)"
    by code_simp+
  ultimately have "distinct (map it_id acts)" "list_all (\<lambda>x. starts_with x (js ''action:'')) (map it_id acts)" by auto
  then show ?thesis by (simp add: list_all_iff)
qed

lemma prefixes_apart:
  "starts_with x (js ''nav:'') \<Longrightarrow> \<not> starts_with x (js ''action:'')" "starts_with x (js ''nav:'') \<Longrightarrow> x \<noteq> js ''api:'' @ y"
  "starts_with x (js ''action:'') \<Longrightarrow> x \<noteq> js ''api:'' @ y"
  by (auto simp: starts_with_def js_def cu_def prefix_def)

lemma palette_lists_once:
  assumes "items_of p lower nfkd tx pal query = Inr is" "trim query = []"
    "distinct (map ApiSummary.as_id (viewable (pl_catalog pal)))" "distinct (map rc_id (map recent_of (pl_recent pal)))"
  shows "distinct (map it_id is)"
proof -
  from assms(1,2) obtain acts apis where r: "actions p tx (viewable (pl_catalog pal)) = Inr acts"
    "emap api_item (viewable (pl_catalog pal)) = Inr apis"
    and l: "is = first_list (navigateItems tx (pl_allowed pal)) acts apis (pl_recent pal)"
    by (auto simp: items_of_def ebind_Inr_iff Let_def)
  have ids: "map it_id apis = map (\<lambda>a. js ''api:'' @ int_str (ApiSummary.as_id a)) (viewable (pl_catalog pal))"
    by (rule api_items_ids [OF r(2)])
  then have d: "distinct (map it_id apis)"
    using assms(3) by (simp add: distinct_map inj_on_def int_str_inject)
  have api: "x \<in> it_id ` set apis \<Longrightarrow> \<exists>y. x = js ''api:'' @ y" for x
    unfolding set_map [symmetric] ids by auto
  have act: "x \<in> it_id ` set acts \<Longrightarrow> starts_with x (js ''action:'')" for x
    using action_ids [OF r(1)] by (auto simp: list_all_iff)
  have "set (map it_id (navigateItems tx (pl_allowed pal))) \<inter> set (map it_id apis) = {}"
    "set (map it_id (navigateItems tx (pl_allowed pal))) \<inter> set (map it_id acts) = {}" "set (map it_id apis) \<inter> set (map it_id acts) = {}"
    unfolding set_map disjoint_iff using nav_ids(2) api act prefixes_apart by metis+
  then have "distinct (map it_id (navigateItems tx (pl_allowed pal) @ apis @ acts))"
    using nav_ids(1) d action_ids [OF r(1)] by (simp add: Int_Un_distrib del: set_map)
  then show ?thesis unfolding l by (rule first_list_distinct [OF assms(4)])
qed

text \<open>The choice stays in the list, and moving wraps around.\<close>

lemma palette_key_bounds:
  "\<lbrakk>0 < n; 0 \<le> active\<rbrakk> \<Longrightarrow> 0 \<le> current_index n (palette_key n active k) \<and> current_index n (palette_key n active k) < n"
  by (auto simp: palette_key_def current_index_def move_to_def Let_def split: PaletteKey.splits)

lemma palette_down_up:
  assumes "0 < n" "0 \<le> active" "active < n"
  shows "palette_key n (palette_key n active ArrowDown) ArrowUp = active"
proof -
  have i: "current_index n active = active" using assms by (simp add: current_index_def)
  have m: "palette_key n active ArrowDown = (active + 1) mod n" using assms i by (simp add: palette_key_def move_to_def)
  have "0 \<le> (active + 1) mod n \<and> (active + 1) mod n < n" using assms by simp
  then have "current_index n ((active + 1) mod n) = (active + 1) mod n" by (simp add: current_index_def)
  then have "palette_key n ((active + 1) mod n) ArrowUp = ((active + 1) mod n - 1 + n) mod n"
    using assms by (simp add: palette_key_def move_to_def)
  also have "\<dots> = active" using assms by (simp add: mod_simps)
  finally show ?thesis by (simp add: m)
qed

end
