(* ===== verification/Spec_Highlight.thy ===== *)
theory Spec_Highlight
  imports Spec_Catalog Spec_Fuzzy
begin

text \<open>
  \<open>components/ui/highlight.tsx\<close>: the parts of a text that a query matches, as the catalog folds them.
\<close>

section \<open>The first occurrence\<close>

lemma find_from_steps:
  "find_from ch [] 0 = (if ch = [] then Some 0 else None)"
  "find_from ch (v # r) 0 = (if prefix ch (v # r) then Some 0 else map_option Suc (find_from ch r 0))"
  "find_from ch (v # r) (Suc n) = map_option Suc (find_from ch r n)"
  by (simp_all add: find_from.simps(1) [of ch "[]"] find_from.simps(1) [of ch "v # r"])

declare find_from.simps [simp del] find_from_steps [simp]

text \<open>Both cases of the search, in one statement for the induction.\<close>

lemma find_from_first:
  "n \<le> length t \<Longrightarrow> (case find_from ch t n of
     None \<Rightarrow> \<forall>j. n \<le> j \<longrightarrow> j \<le> length t \<longrightarrow> \<not> prefix ch (drop j t)
   | Some i \<Rightarrow> n \<le> i \<and> i \<le> length t \<and> prefix ch (drop i t) \<and> (\<forall>j. n \<le> j \<longrightarrow> j < i \<longrightarrow> \<not> prefix ch (drop j t)))"
proof (induction t arbitrary: n)
  case (Cons v r)
  have drops: "drop j (v # r) = (case j of 0 \<Rightarrow> v # r | Suc l \<Rightarrow> drop l r)" for j by (cases j) simp_all
  show ?case
  proof (cases n)
    case 0
    then show ?thesis using Cons.IH [of 0]
      by (cases "prefix ch (v # r)"; cases "find_from ch r 0") (auto simp: drops split: nat.splits)
  next
    case (Suc m)
    then show ?thesis using Cons.IH [of m] Cons.prems
      by (cases "find_from ch r m") (auto simp: drops split: nat.splits)
  qed
qed auto

lemma find_from_Some:
  assumes "find_from ch t n = Some i" "n \<le> length t"
  shows "n \<le> i" "i + length ch \<le> length t" "take (length ch) (drop i t) = ch"
    "\<And>j. n \<le> j \<Longrightarrow> j < i \<Longrightarrow> \<not> prefix ch (drop j t)"
proof -
  have f: "n \<le> i \<and> i \<le> length t \<and> prefix ch (drop i t) \<and> (\<forall>j. n \<le> j \<longrightarrow> j < i \<longrightarrow> \<not> prefix ch (drop j t))"
    using find_from_first [OF assms(2), of ch] assms(1) by simp
  then obtain r where r: "drop i t = ch @ r" by (auto simp: prefix_def)
  have "length t - i = length ch + length r" using arg_cong [OF r, of length] by simp
  moreover have "i \<le> length t" using f by blast
  ultimately show "i + length ch \<le> length t" by linarith
  show "n \<le> i" "take (length ch) (drop i t) = ch" "\<And>j. n \<le> j \<Longrightarrow> j < i \<Longrightarrow> \<not> prefix ch (drop j t)"
    using f r by auto
qed

lemma part_at: "str_includes s ch \<Longrightarrow> \<exists>j. j + length ch \<le> length s \<and> prefix ch (drop j s)"
proof -
  assume "str_includes s ch"
  then obtain a b where "s = a @ ch @ b" unfolding str_includes_iff by blast
  then have "length a + length ch \<le> length s \<and> prefix ch (drop (length a) s)" by simp
  then show ?thesis by blast
qed

lemma find_from_None: "find_from ch t n = None \<Longrightarrow> n \<le> length t \<Longrightarrow> \<not> str_includes (drop n t) ch"
proof
  assume a: "find_from ch t n = None" "n \<le> length t" "str_includes (drop n t) ch"
  then obtain j where j: "j + length ch \<le> length (drop n t)" "prefix ch (drop j (drop n t))" using part_at by blast
  then have "n \<le> n + j" "n + j \<le> length t" "prefix ch (drop (n + j) t)" using a(2) by (simp_all add: add.commute)
  then show False using find_from_first [OF a(2), of ch] a(1) by simp
qed

lemma no_prefix_no_part:
  assumes "\<And>j. n \<le> j \<Longrightarrow> j < i \<Longrightarrow> \<not> prefix ch (drop j t)" "i \<le> length t" "n \<le> i" "ch \<noteq> []"
  shows "\<not> str_includes (take (i - n) (drop n t)) ch"
proof
  assume "str_includes (take (i - n) (drop n t)) ch"
  then obtain j where j: "j + length ch \<le> length (take (i - n) (drop n t))" "prefix ch (drop j (take (i - n) (drop n t)))"
    using part_at by blast
  have len: "length (take (i - n) (drop n t)) = i - n" using assms(2) by simp
  moreover have "drop j (take (i - n) (drop n t)) = take (i - n - j) (drop (n + j) t)" by (simp add: drop_take add.commute)
  ultimately have "prefix ch (drop (n + j) t)" using j(2) by (metis prefix_order.trans take_is_prefix)
  moreover have "n + j < i" using j(1) len assms(3,4) by (cases ch) auto
  ultimately show False using assms(1) [of "n + j"] by simp
qed

section \<open>The parts\<close>

type_synonym Part = "jstr \<times> bool"

function marked_parts :: "jstr \<Rightarrow> jstr \<Rightarrow> jstr \<Rightarrow> nat \<Rightarrow> Part list" where
  "marked_parts needle folded t start =
     (case (if start \<le> length folded then find_from needle folded start else None) of
        Some i \<Rightarrow> if needle \<noteq> []
          then (if start < i then [(take (i - start) (drop start t), False)] else []) @
            (take (length needle) (drop i t), True) # marked_parts needle folded t (i + length needle)
          else []
      | None \<Rightarrow> if start < length t then [(drop start t, False)] else [])"
  by pat_completeness auto

termination
proof (relation "measure (\<lambda>(needle, folded, t, start). Suc (length folded) - start)")
  fix needle folded t :: jstr and start i
  assume a: "(if start \<le> length folded then find_from needle folded start else None) = Some i" "needle \<noteq> []"
  then have "start \<le> length folded" "find_from needle folded start = Some i" by (auto split: if_splits)
  from find_from_Some(1,2) [OF this(2,1)] a(2) this(1)
  show "((needle, folded, t, i + length needle), needle, folded, t, start) \<in> measure (\<lambda>(needle, folded, t, start). Suc (length folded) - start)"
    by (cases needle) auto
qed simp

declare marked_parts.simps [simp del]

definition Highlight :: "Platform \<Rightarrow> jstr \<Rightarrow> jstr \<Rightarrow> Part list" where
  "Highlight p t query =
     (let needle = fold_tr p (trim query); folded = fold_tr p t
      in if needle = [] \<or> t = [] then [(t, False)]
         else if length folded \<noteq> length t then [(t, False)]
         else marked_parts needle folded t 0)"

section \<open>What is marked\<close>

definition shows_part :: "jstr \<Rightarrow> Part \<Rightarrow> jstr \<Rightarrow> bool" where
  "shows_part needle part f = (length (fst part) = length f \<and> (if snd part then f = needle else \<not> str_includes f needle))"

lemma marked_parts_cover:
  assumes "needle \<noteq> []" "length folded = length t" "start \<le> length t"
  shows "concat (map fst (marked_parts needle folded t start)) = drop start t \<and>
    (\<exists>fs. list_all2 (shows_part needle) (marked_parts needle folded t start) fs \<and> concat fs = drop start folded)"
  using assms
proof (induction needle folded t start rule: marked_parts.induct)
  case (1 needle folded t start)
  show ?case
  proof (cases "find_from needle folded start")
    case None
    then have parts: "marked_parts needle folded t start = (if start < length t then [(drop start t, False)] else [])"
      using 1(3,4) by (simp add: marked_parts.simps)
    have "\<not> str_includes (drop start folded) needle" using None find_from_None 1(3,4) by simp
    then have "list_all2 (shows_part needle) [(drop start t, False)] [drop start folded]" using 1(3) by (simp add: shows_part_def)
    then show ?thesis using 1(3) unfolding parts by (cases "start < length t") (auto intro!: exI [of _ "[drop start folded]"])
  next
    case (Some i)
    have i: "start \<le> i" "i + length needle \<le> length folded" "take (length needle) (drop i folded) = needle"
      "\<And>j. start \<le> j \<Longrightarrow> j < i \<Longrightarrow> \<not> prefix needle (drop j folded)"
      using find_from_Some [OF Some] 1(3,4) by auto
    let ?rest = "marked_parts needle folded t (i + length needle)"
    let ?gap = "\<lambda>s :: jstr. take (i - start) (drop start s)"
    have parts: "marked_parts needle folded t start =
        (if start < i then [(?gap t, False)] else []) @ (take (length needle) (drop i t), True) # ?rest"
      using Some 1(2,3,4) by (simp add: marked_parts.simps [of needle folded t start])
    have "(if start \<le> length folded then find_from needle folded start else None) = Some i" using Some 1(3,4) by simp
    from 1(1) [OF this 1(2) 1(2,3)] i 1(3) obtain fs where ih: "concat (map fst ?rest) = drop (i + length needle) t"
      "list_all2 (shows_part needle) ?rest fs" "concat fs = drop (i + length needle) folded" by auto
    have split_at: "drop start s = ?gap s @ take (length needle) (drop i s) @ drop (i + length needle) s" for s :: jstr
    proof -
      have "drop start s = ?gap s @ drop (i - start) (drop start s)" by (rule append_take_drop_id [symmetric])
      also have "drop (i - start) (drop start s) = drop i s" using i(1) by simp
      also have "drop i s = take (length needle) (drop i s) @ drop (length needle) (drop i s)"
        by (rule append_take_drop_id [symmetric])
      also have "drop (length needle) (drop i s) = drop (i + length needle) s" by (simp add: add.commute)
      finally show ?thesis .
    qed
    have gap: "shows_part needle (?gap t, False) (?gap folded)"
      using no_prefix_no_part [OF i(4)] i 1(2,3) by (simp add: shows_part_def)
    have hit: "shows_part needle (take (length needle) (drop i t), True) needle"
      using i 1(3) by (simp add: shows_part_def)
    have "concat (map fst (marked_parts needle folded t start)) = ?gap t @ take (length needle) (drop i t) @ drop (i + length needle) t"
      unfolding parts using ih(1) i(1) by auto
    then have t: "concat (map fst (marked_parts needle folded t start)) = drop start t" unfolding split_at [symmetric] .
    have "list_all2 (shows_part needle) (marked_parts needle folded t start)
        ((if start < i then [?gap folded] else []) @ needle # fs)"
      unfolding parts using gap hit ih(2) by simp
    moreover have "concat ((if start < i then [?gap folded] else []) @ needle # fs) =
        ?gap folded @ take (length needle) (drop i folded) @ drop (i + length needle) folded"
      using i ih(3) by auto
    then have "concat ((if start < i then [?gap folded] else []) @ needle # fs) = drop start folded"
      unfolding split_at [symmetric] .
    ultimately show ?thesis using t by blast
  qed
qed

text \<open>C26: the parts make up the text, and where the folded text is as long as the text they lie over it: a
  part is marked exactly when the folded text has the folded query there, and no occurrence is left
  between. Something is marked exactly when the catalog's search finds the query in the text.\<close>

theorem highlight_marks_matches:
  assumes "length (fold_tr p t) = length t" "fold_tr p (trim query) \<noteq> []"
  shows "concat (map fst (Highlight p t query)) = t \<and>
    (\<exists>fs. list_all2 (shows_part (fold_tr p (trim query))) (Highlight p t query) fs \<and> concat fs = fold_tr p t) \<and>
    (list_ex snd (Highlight p t query) \<longleftrightarrow> str_includes (fold_tr p t) (fold_tr p (trim query)))"
proof -
  let ?n = "fold_tr p (trim query)"
  have "concat (map fst (Highlight p t query)) = t \<and> (\<exists>fs. list_all2 (shows_part ?n) (Highlight p t query) fs \<and> concat fs = fold_tr p t)"
  proof (cases "t = []")
    case True
    then have "Highlight p t query = [([], False)]" "fold_tr p t = []" using assms by (simp_all add: Highlight_def Let_def)
    then show ?thesis using True assms(2) by (auto intro!: exI [of _ "[[]]"] simp: shows_part_def)
  next
    case False
    then have "Highlight p t query = marked_parts ?n (fold_tr p t) t 0" using assms by (simp add: Highlight_def Let_def)
    then show ?thesis using marked_parts_cover [OF assms(2,1), of 0] by simp
  qed
  then obtain fs where fs: "list_all2 (shows_part ?n) (Highlight p t query) fs" "concat fs = fold_tr p t"
    and t: "concat (map fst (Highlight p t query)) = t" by blast
  have "str_includes (fold_tr p t) ?n" if "list_ex snd (Highlight p t query)"
  proof -
    from that obtain part where "part \<in> set (Highlight p t query)" "snd part" by (auto simp: list_ex_iff)
    then have "?n \<in> set fs" using fs(1) by (auto simp: list_all2_conv_all_nth in_set_conv_nth shows_part_def)
    then obtain a b where "fs = a @ ?n # b" using split_list by fast
    then have "fold_tr p t = concat a @ ?n @ concat b" using fs(2) by simp
    then show ?thesis unfolding str_includes_iff by blast
  qed
  moreover have "list_ex snd (Highlight p t query)" if "str_includes (fold_tr p t) ?n"
  proof (rule ccontr)
    assume no: "\<not> list_ex snd (Highlight p t query)"
    have "t \<noteq> []" using that assms by (auto simp: str_includes_iff)
    then have h: "Highlight p t query = marked_parts ?n (fold_tr p t) t 0" using assms by (simp add: Highlight_def Let_def)
    show False
    proof (cases "find_from ?n (fold_tr p t) 0")
      case None
      then show False using find_from_None [OF None] that by simp
    next
      case (Some i)
      then show False using no assms(2) unfolding h by (simp add: marked_parts.simps [of ?n "fold_tr p t" t 0])
    qed
  qed
  ultimately show ?thesis using fs t by blast
qed

definition latin_platform :: Platform where
  "latin_platform = \<lparr>lower_tr = map lower_unit,
     nfd = (\<lambda>s. concat (map (\<lambda>u. if u = 54620 then [4370, 4449, 4523] else if u = 233 then [101, 769] else [u]) s)),
     diacritic = (\<lambda>c. c = [769]), time_of = (\<lambda>s. NaN), natural_order = (\<lambda>a b. 0), plain_order = (\<lambda>a b. 0)\<rparr>"

theorem highlight_marks_matches_witness:
  "list_ex snd (Highlight latin_platform (js ''Pets caf'' @ [233]) (js '' CAFE''))"
proof -
  have "length (fold_tr latin_platform (js ''Pets caf'' @ [233])) = length (js ''Pets caf'' @ [233])"
    "fold_tr latin_platform (trim (js '' CAFE'')) \<noteq> []"
    "str_includes (fold_tr latin_platform (js ''Pets caf'' @ [233])) (fold_tr latin_platform (trim (js '' CAFE'')))" by code_simp+
  then show ?thesis using highlight_marks_matches [of latin_platform "js ''Pets caf'' @ [233]" "js '' CAFE''"] by blast
qed

text \<open>Equal lengths do not keep the parts in their places: a syllable that is decomposed into three letters makes
  up for two accents that are dropped, and the mark is put on an accent.\<close>

lemma highlight_marks_wrong_part:
  "Highlight latin_platform [54620, 101, 769, 101, 769, 98] (js ''e'') =
     [([54620, 101, 769], False), ([101], True), ([769], True), ([98], False)]"
  by code_simp

end
