(* ===== verification/Spec_Table.thy ===== *)
theory Spec_Table
  imports Spec_Request Spec_Shortcuts
begin

text \<open>
  \<open>components/ui/table.tsx\<close>: the table of the lists that the console shows. It sorts, pages and selects rows
  of any type; \<open>order\<close> is the language's collation. Page sizes are positive.
\<close>

section \<open>Sorting\<close>

datatype SortValue = TextValue jstr | NumberValue jnum

datatype Dir = Ascending | Descending

record 'r Column =
  cl_id :: jstr
  cl_sortValue :: "('r \<Rightarrow> SortValue) option"

record Table =
  tb_sort :: "(jstr \<times> Dir) option"
  tb_pageSize :: nat
  tb_page :: nat

fun value_text :: "SortValue \<Rightarrow> jstr" where
  "value_text (TextValue s) = s"
| "value_text (NumberValue n) = num_str n"

definition cmp_values :: "(jstr \<Rightarrow> jstr \<Rightarrow> int) \<Rightarrow> SortValue \<Rightarrow> SortValue \<Rightarrow> int" where
  "cmp_values order a b = (case (a, b) of
     (NumberValue m, NumberValue n) \<Rightarrow> num_sign (num_sub m n)
   | _ \<Rightarrow> order (value_text a) (value_text b))"

definition sorted_rows :: "(jstr \<Rightarrow> jstr \<Rightarrow> int) \<Rightarrow> 'r Column list \<Rightarrow> Table \<Rightarrow> 'r list \<Rightarrow> 'r list" where
  "sorted_rows order columns s rows = (case tb_sort s of None \<Rightarrow> rows
     | Some (i, dir) \<Rightarrow> (case find (\<lambda>c. cl_id c = i) columns of None \<Rightarrow> rows
         | Some c \<Rightarrow> (case cl_sortValue c of None \<Rightarrow> rows
             | Some v \<Rightarrow> sort_by (\<lambda>a b. let result = cmp_values order (v a) (v b) in if dir = Ascending then result else - result) rows)))"

definition toggleSort :: "jstr \<Rightarrow> Table \<Rightarrow> Table" where
  "toggleSort i s = s\<lparr>tb_sort := (case tb_sort s of
       Some (j, dir) \<Rightarrow> if j \<noteq> i then Some (i, Ascending) else if dir = Ascending then Some (i, Descending) else None
     | None \<Rightarrow> Some (i, Ascending))\<rparr>"

section \<open>Pages\<close>

definition pageCount :: "Table \<Rightarrow> 'r list \<Rightarrow> nat" where
  "pageCount s rows = max 1 ((length rows + tb_pageSize s - 1) div tb_pageSize s)"

definition currentPage :: "Table \<Rightarrow> 'r list \<Rightarrow> nat" where
  "currentPage s rows = min (tb_page s) (pageCount s rows - 1)"

definition visible_rows :: "(jstr \<Rightarrow> jstr \<Rightarrow> int) \<Rightarrow> 'r Column list \<Rightarrow> Table \<Rightarrow> 'r list \<Rightarrow> 'r list" where
  "visible_rows order columns s rows =
     take (tb_pageSize s) (drop (currentPage s rows * tb_pageSize s) (sorted_rows order columns s rows))"

definition choose_size :: "nat \<Rightarrow> Table \<Rightarrow> Table" where
  "choose_size n s = s\<lparr>tb_pageSize := n, tb_page := 0\<rparr>"

definition previous_page :: "'r list \<Rightarrow> Table \<Rightarrow> Table" where
  "previous_page rows s = (if currentPage s rows = 0 then s else s\<lparr>tb_page := currentPage s rows - 1\<rparr>)"

definition next_page :: "'r list \<Rightarrow> Table \<Rightarrow> Table" where
  "next_page rows s = (if pageCount s rows - 1 \<le> currentPage s rows then s else s\<lparr>tb_page := currentPage s rows + 1\<rparr>)"

section \<open>Selection\<close>

text \<open>A set that lists its members in the order of their insertion.\<close>

definition set_add :: "jstr \<Rightarrow> jstr list \<Rightarrow> jstr list" where
  "set_add k ks = (if k \<in> set ks then ks else ks @ [k])"

definition set_delete :: "jstr \<Rightarrow> jstr list \<Rightarrow> jstr list" where
  "set_delete k ks = filter (\<lambda>x. x \<noteq> k) ks"

definition toggleRow :: "jstr \<Rightarrow> bool \<Rightarrow> jstr list \<Rightarrow> jstr list" where
  "toggleRow k on selected = (if on then set_add k (uniq selected) else set_delete k (uniq selected))"

definition toggleAll :: "('r \<Rightarrow> jstr) \<Rightarrow> 'r list \<Rightarrow> bool \<Rightarrow> jstr list \<Rightarrow> jstr list" where
  "toggleAll rowKey visible on selected =
     fold (\<lambda>row. if on then set_add (rowKey row) else set_delete (rowKey row)) visible (uniq selected)"

datatype Checked = Unchecked | Indeterminate | AllChecked

definition all_checkbox :: "('r \<Rightarrow> jstr) \<Rightarrow> 'r list \<Rightarrow> jstr list \<Rightarrow> Checked" where
  "all_checkbox rowKey visible selected =
     (if visible \<noteq> [] \<and> list_all (\<lambda>r. rowKey r \<in> set selected) visible then AllChecked
      else if list_ex (\<lambda>r. rowKey r \<in> set selected) visible then Indeterminate else Unchecked)"

text \<open>The row that "d" asks to delete: the focused one, when it may be deleted.\<close>

definition row_to_delete :: "(jstr \<Rightarrow> jstr) \<Rightarrow> KeyEvent \<Rightarrow> ('r \<Rightarrow> jstr) \<Rightarrow> ('r \<Rightarrow> bool) option \<Rightarrow> 'r list \<Rightarrow> jstr option \<Rightarrow> 'r option" where
  "row_to_delete lower e rowKey can visible focused =
     (if ke_metaKey e \<or> ke_ctrlKey e \<or> ke_altKey e \<or> \<not> pressed lower e (js ''d'') then None
      else case find (\<lambda>r. Some (rowKey r) = focused) visible of
          Some r \<Rightarrow> if (case can of Some c \<Rightarrow> c r | None \<Rightarrow> True) then Some r else None
        | None \<Rightarrow> None)"

section \<open>What a table shows\<close>

lemma sorted_rows_mset: "mset (sorted_rows order columns s rows) = mset rows"
  by (simp add: sorted_rows_def split: option.splits)

lemma sorted_rows_length: "length (sorted_rows order columns s rows) = length rows"
  using arg_cong [OF sorted_rows_mset, of size] by simp

lemma sorted_rows_page [simp]: "sorted_rows order columns (s\<lparr>tb_page := k\<rparr>) rows = sorted_rows order columns s rows"
  by (simp add: sorted_rows_def)

lemma pages_join: "concat (map (\<lambda>k. take n (drop (k * n) xs)) [0..<m]) = take (m * n) xs"
proof (induction m)
  case (Suc m)
  then show ?case by (simp add: take_add [symmetric] add.commute)
qed simp

lemma ceil_bounds:
  fixes l n :: nat
  assumes "0 < n"
  shows "l \<le> (l + n - 1) div n * n" "(l + n - 1) div n * n \<le> l + n - 1"
proof -
  have "(l + n - 1) div n * n + (l + n - 1) mod n = l + n - 1" by (rule div_mult_mod_eq)
  moreover have "(l + n - 1) mod n < n" using assms by (rule mod_less_divisor)
  ultimately show "l \<le> (l + n - 1) div n * n" "(l + n - 1) div n * n \<le> l + n - 1" using assms by linarith+
qed

lemma pages_enough: "0 < (n :: nat) \<Longrightarrow> l \<le> max 1 ((l + n - 1) div n) * n"
  using ceil_bounds(1) [of n l] mult_le_mono1 [of "(l + n - 1) div n" "max 1 ((l + n - 1) div n)" n] by linarith

lemma last_page_starts: "0 < (l :: nat) \<Longrightarrow> 0 < n \<Longrightarrow> (max 1 ((l + n - 1) div n) - 1) * n < l"
proof -
  assume l: "0 < l" and n: "0 < n"
  have "(l + n - 1) div n \<noteq> 0" using ceil_bounds(1) [OF n, of l] l by (intro notI) simp
  then obtain q where q: "(l + n - 1) div n = Suc q" using not0_implies_Suc by blast
  then have "q * n + n \<le> l + n - 1" using ceil_bounds(2) [OF n, of l] by simp
  then show ?thesis using q l n by simp
qed

lemma page_at: "currentPage s rows < pageCount s rows"
  by (simp add: currentPage_def pageCount_def)

text \<open>C25: going through the pages shows every row of the list once, in the order of the sort: the pages joined
  are the sorted rows. No page is longer than the size chosen, none is empty unless the list is, and
  wherever the table stands, also after the list has become shorter, it stands on one of them.\<close>

theorem table_pages_show_all:
  assumes "0 < tb_pageSize s"
  shows "concat (map (\<lambda>k. visible_rows order columns (s\<lparr>tb_page := k\<rparr>) rows) [0..<pageCount s rows]) = sorted_rows order columns s rows \<and>
    mset (sorted_rows order columns s rows) = mset rows \<and>
    length (visible_rows order columns s rows) \<le> tb_pageSize s \<and>
    (visible_rows order columns s rows = [] \<longleftrightarrow> rows = []) \<and>
    (\<exists>k < pageCount s rows. visible_rows order columns s rows = visible_rows order columns (s\<lparr>tb_page := k\<rparr>) rows)"
proof -
  let ?n = "tb_pageSize s" and ?rows = "sorted_rows order columns s rows" and ?m = "pageCount s rows"
  have c: "pageCount (s\<lparr>tb_page := k\<rparr>) rows = ?m" for k by (simp add: pageCount_def)
  have v: "visible_rows order columns (s\<lparr>tb_page := k\<rparr>) rows = take ?n (drop (k * ?n) ?rows)" if "k < ?m" for k
    using that c by (simp add: visible_rows_def currentPage_def)
  have "concat (map (\<lambda>k. visible_rows order columns (s\<lparr>tb_page := k\<rparr>) rows) [0..<?m]) = take (?m * ?n) ?rows"
    unfolding pages_join [symmetric] using v by (intro arg_cong [where f = concat] map_cong) simp_all
  also have "\<dots> = ?rows" using pages_enough [OF assms, of "length rows"] by (simp add: pageCount_def sorted_rows_length)
  finally have "concat (map (\<lambda>k. visible_rows order columns (s\<lparr>tb_page := k\<rparr>) rows) [0..<?m]) = ?rows" .
  moreover have "visible_rows order columns s rows = [] \<longleftrightarrow> rows = []"
  proof (cases "rows = []")
    case False
    have "currentPage s rows * ?n \<le> (?m - 1) * ?n" by (simp add: currentPage_def)
    also have "\<dots> < length rows" using last_page_starts [of "length rows" ?n] assms False by (simp add: pageCount_def)
    finally show ?thesis using assms False by (simp add: visible_rows_def sorted_rows_length)
  next
    case True
    then have "?rows = []" using sorted_rows_length [of order columns s rows] by simp
    then show ?thesis using True by (simp add: visible_rows_def)
  qed
  moreover have "visible_rows order columns s rows = visible_rows order columns (s\<lparr>tb_page := currentPage s rows\<rparr>) rows"
    using v [OF page_at] by (simp add: visible_rows_def)
  then have "\<exists>k < ?m. visible_rows order columns s rows = visible_rows order columns (s\<lparr>tb_page := k\<rparr>) rows" using page_at by blast
  moreover have "length (visible_rows order columns s rows) \<le> ?n" by (simp add: visible_rows_def)
  ultimately show ?thesis using sorted_rows_mset by blast
qed

definition name_column :: "jstr Column" where
  "name_column = \<lparr>cl_id = js ''name'', cl_sortValue = Some TextValue\<rparr>"

definition shrunk_table :: Table where
  "shrunk_table = \<lparr>tb_sort = Some (js ''name'', Descending), tb_pageSize = 2, tb_page = 7\<rparr>"

theorem table_pages_show_all_witness:
  "length (visible_rows (\<lambda>a b. int (length a) - int (length b)) [name_column] shrunk_table [js ''a'', js ''ccc'', js ''bb'']) \<le> 2"
  using table_pages_show_all [of shrunk_table "\<lambda>a b. int (length a) - int (length b)" "[name_column]" "[js ''a'', js ''ccc'', js ''bb'']"]
  by (simp add: shrunk_table_def)

text \<open>The select-all box changes the rows of the page and no others.\<close>

lemma set_add_set: "set (set_add k ks) = insert k (set ks)"
  by (auto simp: set_add_def)

lemma set_delete_set: "set (set_delete k ks) = set ks - {k}"
  by (auto simp: set_delete_def)

lemma toggleAll_set:
  "set (toggleAll rowKey visible on selected) = (if on then set selected \<union> rowKey ` set visible else set selected - rowKey ` set visible)"
proof -
  have "set (fold (\<lambda>row. set_add (rowKey row)) vs ks) = set ks \<union> rowKey ` set vs" for vs :: "'a list" and ks
    by (induction vs arbitrary: ks) (auto simp: set_add_set)
  moreover have "set (fold (\<lambda>row. set_delete (rowKey row)) vs ks) = set ks - rowKey ` set vs" for vs :: "'a list" and ks
    by (induction vs arbitrary: ks) (auto simp: set_delete_set)
  ultimately show ?thesis by (simp add: toggleAll_def)
qed

lemma toggleAll_checks: "visible \<noteq> [] \<Longrightarrow> all_checkbox rowKey visible (toggleAll rowKey visible True selected) = AllChecked"
  "all_checkbox rowKey visible (toggleAll rowKey visible False selected) = Unchecked"
  by (auto simp: all_checkbox_def toggleAll_set list_all_iff list_ex_iff)

lemma toggleRow_set: "set (toggleRow k on selected) = (if on then insert k (set selected) else set selected - {k})"
  by (simp add: toggleRow_def set_add_set set_delete_set)

lemma toggleSort_cycles: "tb_sort s \<noteq> None \<Longrightarrow> fst (the (tb_sort s)) = i \<Longrightarrow> toggleSort i (toggleSort i (toggleSort i s)) = s"
  by (cases "tb_sort s"; cases "snd (the (tb_sort s))") (auto simp: toggleSort_def)

lemma deleted_row_visible:
  "row_to_delete lower e rowKey can visible focused = Some r \<Longrightarrow> r \<in> set visible \<and> focused = Some (rowKey r) \<and> (\<forall>c. can = Some c \<longrightarrow> c r)"
  by (auto simp: row_to_delete_def find_Some_iff split: if_splits option.splits)

end
