(* ===== verification/Spec_Account.thy ===== *)
theory Spec_Account
  imports Spec_Api Spec_Types Js_Text Js_Values
begin

text \<open>
  \<open>pages/AccountPage.tsx\<close>: the change of the password, beside the policy of the portal's server
  (\<open>backend/internal/password/policy.go\<close>) as the reference, the label of a session's device, and the
  sessions that can be ended. Lower case is a parameter, as are the server's own lower case, its trimming
  and its list of common passwords.
\<close>

section \<open>Devices\<close>

definition device_browser :: "jstr \<Rightarrow> jstr option" where
  "device_browser ua =
     (if str_includes ua (js ''Edg/'') then Some (js ''Edge'')
      else if str_includes ua (js ''Chrome/'') then Some (js ''Chrome'')
      else if str_includes ua (js ''Firefox/'') then Some (js ''Firefox'')
      else if str_includes ua (js ''Safari/'') then Some (js ''Safari'')
      else None)"

definition device_os :: "jstr \<Rightarrow> jstr" where
  "device_os ua =
     (if str_includes ua (js ''Windows'') then js ''Windows''
      else if str_includes ua (js ''Mac OS X'') then js ''macOS''
      else if str_includes ua (js ''Android'') then js ''Android''
      else if str_includes ua (js ''iPhone'') \<or> str_includes ua (js ''iPad'') then js ''iOS''
      else if str_includes ua (js ''Linux'') then js ''Linux''
      else [])"

definition deviceLabel :: "jstr \<Rightarrow> (jstr \<Rightarrow> jstr \<Rightarrow> jstr) \<Rightarrow> jstr \<Rightarrow> jstr" where
  "deviceLabel other device_on ua =
     (let browser = (case device_browser ua of Some b \<Rightarrow> b | None \<Rightarrow> other); os = device_os ua
      in if os \<noteq> [] then device_on browser os else browser)"

text \<open>Every iPhone and iPad says "like Mac OS X", so none of them is ever labelled \<open>iOS\<close>.\<close>

lemma iphone_is_labelled_mac:
  "device_os (js ''Mozilla/5.0 (iPhone; CPU iPhone OS 17_5 like Mac OS X) AppleWebKit/605.1.15 Version/17.5 Mobile/15E148 Safari/604.1'') = js ''macOS''"
  by code_simp

lemma ios_needs_no_mac: "device_os ua = js ''iOS'' \<Longrightarrow> \<not> str_includes ua (js ''Mac OS X'')"
proof -
  have "js ''iOS'' \<notin> {js ''Windows'', js ''macOS'', js ''Android'', js ''Linux'', []}" by (simp add: js_def)
  then show "device_os ua = js ''iOS'' \<Longrightarrow> \<not> str_includes ua (js ''Mac OS X'')"
    by (auto simp: device_os_def split: if_splits)
qed

section \<open>The password form\<close>

record PasswordForm =
  pf_current :: jstr
  pf_new :: jstr
  pf_confirm :: jstr

definition empty_form :: PasswordForm where
  "empty_form = \<lparr>pf_current = [], pf_new = [], pf_confirm = []\<rparr>"

definition minLength :: "MeResponse \<Rightarrow> int" where
  "minLength me = (case me_passwordPolicy me of Some p \<Rightarrow> pp_minLength p | None \<Rightarrow> 12)"

definition long_enough :: "MeResponse \<Rightarrow> jstr \<Rightarrow> bool" where
  "long_enough me v = (minLength me \<le> int (length (string_chars v)))"

definition without_name :: "(jstr \<Rightarrow> jstr) \<Rightarrow> MeResponse \<Rightarrow> jstr \<Rightarrow> bool" where
  "without_name lower me v = (\<not> str_includes (lower v) (lower (u_username (me_user me))))"

definition password_valid :: "(jstr \<Rightarrow> jstr) \<Rightarrow> MeResponse \<Rightarrow> PasswordForm \<Rightarrow> bool" where
  "password_valid lower me f =
     (pf_current f \<noteq> [] \<and> long_enough me (pf_new f) \<and> without_name lower me (pf_new f) \<and> pf_new f = pf_confirm f)"

text \<open>The rules that the form ticks off: length, name, repetition.\<close>

definition password_rules :: "(jstr \<Rightarrow> jstr) \<Rightarrow> MeResponse \<Rightarrow> PasswordForm \<Rightarrow> bool list" where
  "password_rules lower me f =
     [long_enough me (pf_new f), pf_new f \<noteq> [] \<and> without_name lower me (pf_new f), pf_new f \<noteq> [] \<and> pf_new f = pf_confirm f]"

definition password_submit :: "(jstr \<Rightarrow> jstr) \<Rightarrow> MeResponse \<Rightarrow> PasswordForm \<Rightarrow> AccountCall option" where
  "password_submit lower me f = (if password_valid lower me f then Some (ChangePassword (pf_current f) (pf_new f)) else None)"

datatype PasswordResult = Changed int "jstr option" | CurrentWrong | PolicyMessage jstr | ServerMessage jstr

text \<open>After an answer the form is empty and, if it was forced, the catalog opens; a refusal keeps it.\<close>

definition password_changed :: "bool \<Rightarrow> int option \<Rightarrow> PasswordForm \<Rightarrow> PasswordForm \<times> PasswordResult" where
  "password_changed forced revoked f =
     (empty_form, Changed (case revoked of Some n \<Rightarrow> n | None \<Rightarrow> 0) (if forced then Some (js ''/'') else None))"

definition password_refused :: "(ClientError \<Rightarrow> jstr) \<Rightarrow> ClientError \<Rightarrow> PasswordResult" where
  "password_refused message e = (case e of
       ApiFailure a \<Rightarrow> if er_code a = JStr (js ''invalid_current_password'') then CurrentWrong
         else if er_code a = JStr (js ''password_policy'') then PolicyMessage (er_message a) else ServerMessage (er_message a)
     | _ \<Rightarrow> ServerMessage (message e))"

section \<open>The server's policy\<close>

datatype Problem = NoProblem | Required | TooShort | TooLong | HasName | Common

definition MaxLength :: int where
  "MaxLength = 128"

definition FloorLength :: int where
  "FloorLength = 8"

definition NewPolicy :: "int \<Rightarrow> int" where
  "NewPolicy n = (let m = (if n < FloorLength then FloorLength else n) in if MaxLength < m then MaxLength else m)"

record Server =
  sv_lower :: "jstr \<Rightarrow> jstr"
  sv_trim :: "jstr \<Rightarrow> jstr"
  sv_common :: "jstr list"

definition policy_problem :: "Server \<Rightarrow> int \<Rightarrow> jstr \<Rightarrow> jstr \<Rightarrow> Problem" where
  "policy_problem sv minimum pw username =
     (let n = int (length (scalar_values pw)); low = sv_lower sv pw; u = sv_lower sv (sv_trim sv username)
      in if sv_trim sv pw = [] then Required
         else if n < minimum then TooShort
         else if MaxLength < n then TooLong
         else if 3 \<le> length (utf8_encode u) \<and> str_includes low u then HasName
         else if low \<in> set (sv_common sv) then Common
         else NoProblem)"

section \<open>The form agrees with the policy\<close>

lemma chars_scalars: "length (string_chars s) = length (scalar_values s)"
  by (induction s rule: scalar_values.induct) auto

lemma trimmed_empty: "str_includes s []"
  by (cases s) auto


definition some_user :: "string \<Rightarrow> User" where
  "some_user name = \<lparr>u_id = 1, u_username = js name, u_displayName = [], u_email = [], u_authSource = js ''local'',
     u_mustChangePassword = True, u_isActive = True, u_isAdmin = False, u_createdAt = [], u_updatedAt = [],
     u_lastLoginAt = None, u_groupIds = None\<rparr>"

definition signed_in :: "string \<Rightarrow> MeResponse" where
  "signed_in name = \<lparr>me_user = some_user name, me_permissions = [], me_groupIds = [],
     me_branding = \<lparr>sy_brandTitle = [], sy_logoDataUrl = [], sy_projectLink = None\<rparr>,
     me_passwordPolicy = Some \<lparr>pp_minLength = 12\<rparr>, me_session = None, me_warnings = None, me_capabilities = None,
     me_features = None, me_version = None, me_projectLink = None\<rparr>"

definition some_server :: Server where
  "some_server = \<lparr>sv_lower = map lower_unit, sv_trim = trim, sv_common = [js ''contortionist'']\<rparr>"

definition filled_form :: "string \<Rightarrow> PasswordForm" where
  "filled_form v = \<lparr>pf_current = js ''old'', pf_new = js v, pf_confirm = js v\<rparr>"


text \<open>Names of one or two letters are no part of a password for the server, but are for the form: it sends no
  password that contains such a letter.\<close>

lemma short_name_stops_form:
  "policy_problem some_server (NewPolicy 12) (js ''Correct horse battery'') (js ''a'') = NoProblem"
  "password_submit (map lower_unit) (signed_in ''a'') (filled_form ''Correct horse battery'') = None"
  by code_simp+

text \<open>The rules are ticked off exactly when the form, with the current password, can be sent.\<close>

lemma rules_are_the_check:
  "pf_new f \<noteq> [] \<Longrightarrow> password_valid lower me f \<longleftrightarrow> pf_current f \<noteq> [] \<and> list_all id (password_rules lower me f)"
  by (auto simp: password_valid_def password_rules_def)

section \<open>Sessions\<close>

definition is_current :: "Session \<Rightarrow> bool" where
  "is_current s = (se_current s = Some True)"

definition others :: "Session list option \<Rightarrow> nat" where
  "others ss = length (filter (\<lambda>s. \<not> is_current s) (case ss of Some xs \<Rightarrow> xs | None \<Rightarrow> []))"

text \<open>The calls that the list offers: never one that ends the session it is shown in.\<close>

definition session_calls :: "Session list \<Rightarrow> AccountCall list" where
  "session_calls ss = map (\<lambda>s. RevokeMySession (se_id s)) (filter (\<lambda>s. \<not> is_current s) ss) @
     (if others (Some ss) = 0 then [] else [RevokeMyOtherSessions])"

lemma session_calls_spare_current:
  "\<lbrakk>distinct (map se_id ss); s \<in> set ss; is_current s\<rbrakk> \<Longrightarrow> RevokeMySession (se_id s) \<notin> set (session_calls ss)"
  by (auto simp: session_calls_def distinct_map inj_on_def)

end
