(* ===== verification/Spec_Workspace.thy ===== *)
theory Spec_Workspace
  imports Spec_Catalog_Page Spec_Sign_In Spec_Admin
begin

text \<open>
  The pages of one API: \<open>pages/api/context.ts\<close>, \<open>ApiLayout.tsx\<close>, \<open>ReferenceTab.tsx\<close>, \<open>OverviewTab.tsx\<close> and
  \<open>reference/OperationTree.tsx\<close>. Which tab and which operation an address shows, and what the lists of
  operations link to. The router hands over the part of the address as decoded by \<open>decodeURIComponent\<close>.
\<close>

section \<open>Addresses\<close>

definition operationPath :: "jstr \<Rightarrow> jstr \<Rightarrow> jstr jsr" where
  "operationPath base k = ebind (encodeURIComponent k) (\<lambda>e. Inr (base @ js ''/operations/'' @ e))"

definition workspace_base :: "ApiDefinition \<Rightarrow> jstr jsr" where
  "workspace_base d = ebind (encodeURIComponent (if ad_slug d \<noteq> [] then ad_slug d else int_str (ad_id d)))
     (\<lambda>e. Inr (js ''/apis/'' @ e))"

definition manages :: "ApiDefinition \<Rightarrow> bool" where
  "manages d = (case ad_permissions d of Some p \<Rightarrow> pm_manage p | None \<Rightarrow> False)"

section \<open>Tabs\<close>

record Tab =
  tab_to :: jstr
  tab_label :: jstr
  tab_also :: "jstr option"

definition a_tab :: "jstr \<Rightarrow> string \<Rightarrow> jstr option \<Rightarrow> Tab" where
  "a_tab base name also_at = \<lparr>tab_to = base @ js ''/'' @ js name, tab_label = js ''api.tabs.'' @ js name, tab_also = also_at\<rparr>"

definition tabs :: "jstr \<Rightarrow> bool \<Rightarrow> Tab list" where
  "tabs base manage =
     [a_tab base ''overview'' None, a_tab base ''reference'' (Some (base @ js ''/operations/'')), a_tab base ''classic'' None] @
     (if manage then [a_tab base ''access'' None, a_tab base ''activity'' None] else [])"

definition tab_active :: "jstr \<Rightarrow> Tab \<Rightarrow> bool" where
  "tab_active pathname tab = (pathname = tab_to tab \<or> (case tab_also tab of
       Some a \<Rightarrow> a \<noteq> [] \<and> starts_with pathname a | None \<Rightarrow> False))"

section \<open>The document of the API\<close>

record SpecQuery =
  sq_isPending :: bool
  sq_isError :: bool
  sq_data :: jval

definition workspace_spec :: "(jstr \<Rightarrow> jstr \<Rightarrow> int) \<Rightarrow> SpecQuery \<Rightarrow> NormalizedSpec option jsr" where
  "workspace_spec lc q = (if truthy (sq_data q) then ebind (normalizeSpec lc (sq_data q)) (\<lambda>n. Inr (Some n)) else Inr None)"

section \<open>The address without a tab\<close>

definition op_of_text :: "jstr \<Rightarrow> jstr \<times> jstr" where
  "op_of_text op = (let parts = split_str (js '' '') op in (hd parts, join (js '' '') (tl parts)))"

definition api_index_op :: "NormalizedSpec option \<Rightarrow> jstr \<Rightarrow> jstr \<Rightarrow> jstr jsr" where
  "api_index_op spec base op =
     (let (meth, path) = op_of_text op in
      case (case spec of None \<Rightarrow> None | Some n \<Rightarrow> find (\<lambda>o'. o_method o' = meth \<and> o_path o' = path) (n_operations n)) of
        Some o' \<Rightarrow> operationPath base (o_key o') | None \<Rightarrow> Inr (base @ js ''/reference''))"

text \<open>\<open>None\<close> where the page shows nothing yet.\<close>

definition ApiIndex :: "(jstr \<Rightarrow> jstr \<Rightarrow> int) \<Rightarrow> jstr \<Rightarrow> ApiDefinition option \<Rightarrow> SpecQuery \<Rightarrow> (jstr \<times> jstr) list \<Rightarrow> jstr option jsr" where
  "ApiIndex lc ref details q ps =
     ebind (encodeURIComponent (case details of Some d \<Rightarrow> if ad_slug d \<noteq> [] then ad_slug d else ref | None \<Rightarrow> ref)) (\<lambda>e.
       let base = js ''/apis/'' @ e; op = params_get (js ''op'') ps; tab = params_get (js ''tab'') ps in
       if details = None \<or> sq_isPending q then Inr None
       else if op \<noteq> None \<and> op \<noteq> Some [] then
         ebind (workspace_spec lc q) (\<lambda>spec. ebind (api_index_op spec base (the op)) (\<lambda>a. Inr (Some a)))
       else if tab = Some (js ''docs'') then Inr (Some (base @ js ''/classic''))
       else if tab = Some (js ''details'') then Inr (Some (base @ js ''/overview''))
       else ebind (workspace_spec lc q) (\<lambda>spec.
         Inr (Some (base @ (if (case spec of Some n \<Rightarrow> n_operations n \<noteq> [] | None \<Rightarrow> False) then js ''/reference'' else js ''/overview'')))))"

section \<open>The reference\<close>

datatype ReferenceView = ReferenceLoading | ReferenceFailed | ReferenceEmpty | ReferenceGoesTo jstr
  | OperationNotFound jstr jstr | OperationShown Operation

definition first_address :: "(jstr \<Rightarrow> jstr \<Rightarrow> int) \<Rightarrow> NormalizedSpec \<Rightarrow> jstr \<Rightarrow> jstr jsr" where
  "first_address lc spec base = (case firstOperation lc spec of
       Some o' \<Rightarrow> operationPath base (o_key o') | None \<Rightarrow> Inl TypeError)"

definition ReferenceTab :: "(jstr \<Rightarrow> jstr \<Rightarrow> int) \<Rightarrow> SpecQuery \<Rightarrow> NormalizedSpec option \<Rightarrow> jstr \<Rightarrow> jstr option \<Rightarrow> ReferenceView jsr" where
  "ReferenceTab lc q spec base opKey =
     (if sq_isPending q then Inr ReferenceLoading
      else if sq_isError q then Inr ReferenceFailed
      else case spec of
          None \<Rightarrow> Inr ReferenceFailed
        | Some n \<Rightarrow> if n_operations n = [] then Inr ReferenceEmpty
            else if opKey = None \<or> opKey = Some [] then ebind (first_address lc n base) (\<lambda>a. Inr (ReferenceGoesTo a))
            else case find (\<lambda>o'. o_key o' = the opKey) (n_operations n) of
                Some o' \<Rightarrow> Inr (OperationShown o')
              | None \<Rightarrow> ebind (first_address lc n base) (\<lambda>a. Inr (OperationNotFound (the opKey) a)))"

text \<open>The narrow page shows one pane at a time; the wide one may hide the console.\<close>

datatype Pane = DocsPane | TryPane

definition pane_of :: "(jstr \<times> jstr) list \<Rightarrow> Pane" where
  "pane_of ps = (if params_get (js ''pane'') ps = Some (js ''try'') then TryPane else DocsPane)"

definition choose_pane :: "Pane \<Rightarrow> (jstr \<times> jstr) list \<Rightarrow> (jstr \<times> jstr) list" where
  "choose_pane p ps = (if p = TryPane then params_set (js ''pane'') (js ''try'') ps else params_delete (js ''pane'') ps)"

definition CONSOLE_KEY :: jstr where
  "CONSOLE_KEY = js ''portal.consoleCollapsed''"

definition console_collapsed :: "Storage \<Rightarrow> bool" where
  "console_collapsed st = (readPref CONSOLE_KEY st = Some (js ''1''))"

definition collapse_console :: "bool \<Rightarrow> Storage \<Rightarrow> Storage" where
  "collapse_console on st = writePref CONSOLE_KEY (if on then js ''1'' else js ''0'') st"

section \<open>The tree of operations\<close>

datatype TreeRow = GroupRow jstr nat | OpRow Operation

definition op_text :: "Operation \<Rightarrow> jstr" where
  "op_text o' = o_method o' @ js '' '' @ o_path o' @ js '' '' @ o_summary o' @ js '' '' @
     (case o_operationId o' of Some i \<Rightarrow> i | None \<Rightarrow> [])"

definition op_matches :: "Platform \<Rightarrow> jstr \<Rightarrow> Operation \<Rightarrow> bool" where
  "op_matches p text o' = (let q = fold_tr p (trim text) in q = [] \<or> str_includes (fold_tr p (op_text o')) q)"

definition group_rows :: "jstr \<Rightarrow> Operation list \<Rightarrow> TreeRow list" where
  "group_rows label ops = GroupRow label (length ops) # map OpRow ops"

definition tree_rows :: "Platform \<Rightarrow> (jstr \<Rightarrow> jstr \<Rightarrow> int) \<Rightarrow> jstr \<Rightarrow> jstr \<Rightarrow> NormalizedSpec \<Rightarrow> jstr \<Rightarrow> TreeRow list" where
  "tree_rows p lc untagged deprecatedGroup spec text =
     (let live = spec\<lparr>n_operations := filter (\<lambda>o'. \<not> o_deprecated o' \<and> op_matches p text o') (n_operations spec)\<rparr>;
          deprecated = filter (\<lambda>o'. o_deprecated o' \<and> op_matches p text o') (n_operations spec)
      in concat (map (\<lambda>(tag, ops). group_rows tag ops) (operationsByTag lc live untagged)) @
         (if deprecated \<noteq> [] then group_rows deprecatedGroup deprecated else []))"

primrec row_ops :: "TreeRow \<Rightarrow> Operation list" where
  "row_ops (GroupRow label n) = []"
| "row_ops (OpRow o') = [o']"

definition tree_total :: "TreeRow list \<Rightarrow> nat" where
  "tree_total rows = length (filter (\<lambda>r. row_ops r \<noteq> []) rows)"

definition row_link :: "jstr \<Rightarrow> TreeRow \<Rightarrow> jstr option jsr" where
  "row_link base r = (case r of GroupRow label n \<Rightarrow> Inr None
     | OpRow o' \<Rightarrow> ebind (operationPath base (o_key o')) (\<lambda>a. Inr (Some a)))"

section \<open>The overview\<close>

record OverviewGroup =
  og_tag :: jstr
  og_to :: jstr
  og_description :: "jstr option"
  og_count :: nat

definition overview_groups :: "(jstr \<Rightarrow> jstr \<Rightarrow> int) \<Rightarrow> jstr \<Rightarrow> NormalizedSpec option \<Rightarrow> jstr \<Rightarrow> OverviewGroup list jsr" where
  "overview_groups lc untagged spec base = (case spec of None \<Rightarrow> Inr []
     | Some n \<Rightarrow> emap (\<lambda>(tag, ops). ebind (operationPath base (o_key (ops ! 0))) (\<lambda>a. Inr \<lparr>og_tag = tag, og_to = a,
         og_description = (case find (\<lambda>x. t_name x = tag) (n_tags n) of
             Some x \<Rightarrow> if t_description x \<noteq> [] then Some (t_description x) else None | None \<Rightarrow> None),
         og_count = length ops\<rparr>)) (operationsByTag lc n untagged))"

definition describe :: "jstr list option \<Rightarrow> jstr \<Rightarrow> jstr" where
  "describe xs everything = (case xs of Some (x # r) \<Rightarrow> join (js '', '') (x # r) | _ \<Rightarrow> everything)"

section \<open>An operation's address opens it\<close>

text \<open>An address opens an operation where its last segment, decoded, is the key that the reference shows it for.\<close>

definition opens :: "(jstr \<Rightarrow> jstr \<Rightarrow> int) \<Rightarrow> SpecQuery \<Rightarrow> NormalizedSpec \<Rightarrow> jstr \<Rightarrow> jstr \<Rightarrow> Operation \<Rightarrow> bool" where
  "opens lc q n base a o' \<longleftrightarrow> (\<exists>e k. a = base @ js ''/operations/'' @ e \<and> 47 \<notin> set e \<and> decodeURIComponent e = Inr k \<and>
     ReferenceTab lc q (Some n) base (Some k) = Inr (OperationShown o'))"

lemma find_distinct: "distinct (map f xs) \<Longrightarrow> x \<in> set xs \<Longrightarrow> find (\<lambda>y. f y = f x) xs = Some x"
  by (induction xs) auto

lemma operation_address_opens:
  assumes "\<not> sq_isPending q" "\<not> sq_isError q" "distinct (map o_key (n_operations n))" "o' \<in> set (n_operations n)" "o_key o' \<noteq> []"
    "operationPath base (o_key o') = Inr a"
  shows "opens lc q n base a o'"
proof -
  from assms(6) obtain e where e: "encodeURIComponent (o_key o') = Inr e" "a = base @ js ''/operations/'' @ e"
    by (auto simp: operationPath_def ebind_Inr_iff)
  moreover have "ReferenceTab lc q (Some n) base (Some (o_key o')) = Inr (OperationShown o')"
    using assms(1-5) by (auto simp: ReferenceTab_def find_distinct)
  ultimately show ?thesis using decode_encode [OF e(1)] encode_no_slash [OF e(1)] unfolding opens_def by blast
qed

lemma first_address_opens:
  assumes "\<not> sq_isPending q" "\<not> sq_isError q" "distinct (map o_key (n_operations n))" "\<forall>o'\<in>set (n_operations n). o_key o' \<noteq> []"
    "ReferenceTab lc q (Some n) base opKey = Inr (ReferenceGoesTo a)"
  shows "\<exists>o'. firstOperation lc n = Some o' \<and> opens lc q n base a o'"
proof -
  have ne: "n_operations n \<noteq> []" using assms(1,2,5) by (auto simp: ReferenceTab_def split: if_splits)
  then obtain o' where o: "firstOperation lc n = Some o'" "o' \<in> set (n_operations n)" using firstOperation_in by blast
  have "operationPath base (o_key o') = Inr a"
    using assms(1,2,5) ne o(1) by (auto simp: ReferenceTab_def first_address_def ebind_Inr_iff split: if_splits option.splits)
  then show ?thesis using operation_address_opens assms(1-4) o by blast
qed

section \<open>The search leads to the operation\<close>

lemma op_of_label: "32 \<notin> set m \<Longrightarrow> op_of_text (m @ js '' '' @ p) = (m, p)"
proof -
  assume a: "32 \<notin> set m"
  have s: "js '' '' = [32]" by code_simp
  have j: "join [32] (split_str [32] p) = p" by (rule join_split)
  have "split_str [32] (m @ 32 # p) = m # split_str [32] p"
    using a by (rule split_str_part)
  then show ?thesis unfolding op_of_text_def s by (simp add: Let_def j del: join.simps)
qed

lemma form_octet_no_hash: "b < 256 \<Longrightarrow> c \<in> set (form_octet b) \<Longrightarrow> c \<noteq> 35"
  by (auto simp: form_octet_def form_safe_def hex_digit_def split: if_splits)

lemma form_octets_no_hash: "well_formed s \<Longrightarrow> c \<in> set (form_octets s) \<Longrightarrow> c < 128 \<and> c \<noteq> 35"
  using utf8_encode_octets [of s] form_octet_no_hash form_octet_range by (auto simp: form_octets_def)

lemma form_no_hash: "well_formed k \<Longrightarrow> well_formed v \<Longrightarrow> 35 \<notin> set (form_serialize [(k, v)])"
proof
  assume w: "well_formed k" "well_formed v" and "35 \<in> set (form_serialize [(k, v)])"
  then obtain c where c: "c \<in> set (form_octets k @ [61] @ form_octets v)" "(35 :: unit16) = word_of_nat c"
    by (fastforce simp: form_serialize_def)
  then have "c < 128" "c \<noteq> 35" using w form_octets_no_hash by auto
  moreover have "unat (35 :: unit16) = unat (word_of_nat c :: unit16)" using c(2) by simp
  ultimately show False by (simp add: unat_of_nat)
qed

lemma op_found:
  assumes "distinct (map (\<lambda>o'. (o_path o', o_method o')) ops)" "o' \<in> set ops"
  shows "find (\<lambda>x. o_method x = o_method o' \<and> o_path x = o_path o') ops = Some o'"
  using find_distinct [OF assms] by (simp add: conj_commute)

lemma label_words: "normalizeSpec lc raw = Inr n \<Longrightarrow> o' \<in> set (n_operations n) \<Longrightarrow> op_of_text (method_path o') = (o_method o', o_path o')"
  using op_of_label normalizeSpec_method_one_word by (simp add: method_path_def)

text \<open>C7: an operation found by the catalog's search opens: the link of the result names the API in one segment and
  the operation in its query, the page at that address looks the operation up by method and path and goes on to the
  operation's own address, and what the reference shows there is that operation.\<close>

theorem search_hit_opens_operation:
  assumes "normalizeSpec lc raw = Inr n" "truthy raw" "distinct (map fst (obj_entries (asObject (field (asObject raw) ''paths''))))"
    "distinct (map o_key (n_operations n))" "o' \<in> set (n_operations n)" "o_key o' \<noteq> []" "well_formed (o_key o')" "well_formed (method_path o')"
    "oh_method h = o_method o'" "oh_path h = o_path o'" "ad_slug d = oh_apiSlug h" "ad_id d = oh_apiId h"
    "operation_target h = Inr target" "q = \<lparr>sq_isPending = False, sq_isError = False, sq_data = raw\<rparr>"
  shows "\<exists>segment ref search base a. target = js ''/apis/'' @ segment @ js ''?'' @ search \<and> {47, 63, 35} \<inter> set segment = {} \<and> 35 \<notin> set search \<and>
    decodeURIComponent segment = Inr ref \<and> workspace_base d = Inr base \<and>
    ApiIndex lc ref (Some d) q (search_params (js ''?'' @ search)) = Inr (Some a) \<and> opens lc q n base a o'"
proof -
  define ref where "ref = (if oh_apiSlug h \<noteq> [] then oh_apiSlug h else int_str (oh_apiId h))"
  define search where "search = form_serialize [(js ''op'', method_path o')]"
  obtain segment where seg: "encodeURIComponent ref = Inr segment" "target = js ''/apis/'' @ segment @ js ''?'' @ search"
    using assms(9,10,13) by (auto simp: operation_target_def ref_def search_def ebind_Inr_iff method_path_def)
  have plain: "{47, 63, 35} \<inter> set segment = {}" using encode_safe [OF seg(1)] uri_safe_not_special by blast
  have op: "well_formed (js ''op'')" by code_simp
  have hash: "35 \<notin> set search" unfolding search_def using op assms(8) by (rule form_no_hash)
  have ref: "decodeURIComponent segment = Inr ref" by (rule decode_encode [OF seg(1)])
  have base: "workspace_base d = Inr (js ''/apis/'' @ segment)"
    using seg(1) assms(11,12) by (auto simp: workspace_base_def ref_def)
  have slug: "encodeURIComponent (if ad_slug d \<noteq> [] then ad_slug d else ref) = Inr segment"
    using seg(1) assms(11) by (auto simp: ref_def)
  have "search_params (js ''?'' @ search) = [(js ''op'', method_path o')]"
    using op assms(8) form_parse_serialize [of "[(js ''op'', method_path o')]"]
    by (simp add: search_params_def search_def starts_with_def js_def)
  then have got: "params_get (js ''op'') (search_params (js ''?'' @ search)) = Some (method_path o')" by (simp add: params_get_def)
  obtain e where e: "encodeURIComponent (o_key o') = Inr e" using assms(7) encode_total by blast
  then have a: "operationPath (js ''/apis/'' @ segment) (o_key o') = Inr (js ''/apis/'' @ segment @ js ''/operations/'' @ e)"
    by (simp add: operationPath_def)
  have "method_path o' \<noteq> []" by (simp add: method_path_def js_def)
  moreover have "find (\<lambda>x. o_method x = o_method o' \<and> o_path x = o_path o') (n_operations n) = Some o'"
    using op_found normalizeSpec_distinct_pairs [OF assms(1,3)] assms(5) by blast
  ultimately have index: "ApiIndex lc ref (Some d) q (search_params (js ''?'' @ search)) =
      Inr (Some (js ''/apis/'' @ segment @ js ''/operations/'' @ e))"
    using slug a assms(1,2,14) label_words [OF assms(1,5)]
    by (simp add: ApiIndex_def got api_index_op_def workspace_spec_def)
  have shown: "opens lc q n (js ''/apis/'' @ segment) (js ''/apis/'' @ segment @ js ''/operations/'' @ e) o'"
    by (rule operation_address_opens [OF _ _ assms(4,5,6) a]) (simp_all add: assms(14))
  show ?thesis by (intro exI conjI) (rule seg(2) plain hash ref base index shown)+
qed

definition pets_api :: ApiDefinition where
  "pets_api = \<lparr>ad_id = 7, ad_name = js ''Pets'', ad_slug = js ''pet store'', ad_description = [], ad_internalOpenapiUrl = None,
     ad_internalBaseUrl = None, ad_isActive = True, ad_tryItEnabled = True, ad_allowedMethods = [], ad_allowedPathPrefixes = [],
     ad_ownerTeam = [], ad_tags = [], ad_createdAt = [], ad_updatedAt = [], ad_lastSpecRefreshAt = None, ad_lastSpecStatus = None,
     ad_specState = None, ad_specError = None, ad_specVersion = None, ad_operationCount = None, ad_favorite = None,
     ad_permissions = None, ad_ownerGroupId = None, ad_allowedRequestHeaders = None, ad_forwardAllXHeaders = None,
     ad_injectHeaderNames = None, ad_rateLimitPerMinute = None, ad_timeoutSeconds = None\<rparr>"

definition pets_hit :: OperationHit where
  "pets_hit = \<lparr>oh_apiId = 7, oh_apiName = js ''Pets'', oh_apiSlug = js ''pet store'', oh_method = js ''GET'', oh_path = js ''/pets/{id}'',
     oh_operationId = None, oh_summary = None, oh_tags = None, oh_deprecated = None\<rparr>"

definition pets_query :: SpecQuery where
  "pets_query = \<lparr>sq_isPending = False, sq_isError = False, sq_data = pets_doc\<rparr>"

lemma pets_show:
  "map o_key (n_operations pets) ! 1 = js ''show''" "map method_path (n_operations pets) ! 1 = js ''GET /pets/{id}''"
  "map o_method (n_operations pets) ! 1 = js ''GET''" "map o_path (n_operations pets) ! 1 = js ''/pets/{id}''"
  "length (n_operations pets) = 3" "distinct (map o_key (n_operations pets))"
  by code_simp+

theorem search_hit_opens_operation_witness:
  "\<exists>segment ref search base a. js ''/apis/pet%20store?op=GET+%2Fpets%2F%7Bid%7D'' = js ''/apis/'' @ segment @ js ''?'' @ search \<and>
    {47, 63, 35} \<inter> set segment = {} \<and> 35 \<notin> set search \<and> decodeURIComponent segment = Inr ref \<and> workspace_base pets_api = Inr base \<and>
    ApiIndex unit_cmp ref (Some pets_api) pets_query (search_params (js ''?'' @ search)) = Inr (Some a) \<and>
    opens unit_cmp pets_query pets base a (n_operations pets ! 1)"
proof (rule search_hit_opens_operation [OF pets_normalized _ pets_paths, where h = pets_hit])
  show "n_operations pets ! 1 \<in> set (n_operations pets)" using pets_show(5) by simp
  show "distinct (map o_key (n_operations pets))" by (rule pets_show)
  show "truthy pets_doc" by code_simp
  have k: "o_key (n_operations pets ! 1) = js ''show''" "method_path (n_operations pets ! 1) = js ''GET /pets/{id}''"
    "o_method (n_operations pets ! 1) = js ''GET''" "o_path (n_operations pets ! 1) = js ''/pets/{id}''"
    using pets_show by (simp_all add: nth_map)
  show "o_key (n_operations pets ! 1) \<noteq> []" "well_formed (o_key (n_operations pets ! 1))" "well_formed (method_path (n_operations pets ! 1))"
    unfolding k by code_simp+
  show "oh_method pets_hit = o_method (n_operations pets ! 1)" "oh_path pets_hit = o_path (n_operations pets ! 1)"
    unfolding k by code_simp+
  show "ad_slug pets_api = oh_apiSlug pets_hit" "ad_id pets_api = oh_apiId pets_hit"
    "operation_target pets_hit = Inr (js ''/apis/pet%20store?op=GET+%2Fpets%2F%7Bid%7D'')"
    by code_simp+
qed (simp add: pets_query_def)

section \<open>What the tree lists\<close>

lemma filter_mset_groups:
  "distinct ts \<Longrightarrow> mset (concat (map (\<lambda>t. filter (\<lambda>x. f x = t) xs) ts)) = mset (filter (\<lambda>x. f x \<in> set ts) xs)"
proof (induction ts)
  case (Cons t ts)
  then have "t \<notin> set ts" "mset (concat (map (\<lambda>t. filter (\<lambda>x. f x = t) xs) ts)) = mset (filter (\<lambda>x. f x \<in> set ts) xs)" by simp_all
  moreover have "t \<notin> set ts \<Longrightarrow> mset (filter (\<lambda>x. f x = t) xs) + mset (filter (\<lambda>x. f x \<in> set ts) xs) = mset (filter (\<lambda>x. f x \<in> set (t # ts)) xs)"
    by (induction xs) auto
  ultimately show ?case by simp
qed simp

lemma operationsByTag_mset:
  assumes "comparator lc"
  shows "mset (concat (map snd (operationsByTag lc n untagged))) = mset (n_operations n)"
proof -
  let ?gs = "operationsByTag lc n untagged" and ?ops = "n_operations n"
  note parts = operationsByTag_partitions [OF assms, of n untagged]
  have "map snd ?gs = map (\<lambda>t. filter (\<lambda>op. op_tag untagged op = t) ?ops) (map fst ?gs)"
    unfolding map_map comp_def
  proof (rule map_cong [OF refl])
    fix g assume "g \<in> set ?gs"
    then have "(fst g, snd g) \<in> set ?gs" by simp
    then show "snd g = filter (\<lambda>op. op_tag untagged op = fst g) ?ops" unfolding operationsByTag_iff by (rule conjunct1)
  qed
  moreover have "distinct (map fst ?gs)" using parts by (rule conjunct1)
  ultimately have "mset (concat (map snd ?gs)) = mset (filter (\<lambda>op. op_tag untagged op \<in> set (map fst ?gs)) ?ops)"
    by (simp only: filter_mset_groups)
  moreover have "op_tag untagged op \<in> set (map fst ?gs)" if "op \<in> set ?ops" for op
  proof -
    have "set (map fst ?gs) = op_tag untagged ` set ?ops" using parts by simp
    then show ?thesis using that by simp
  qed
  then have "filter (\<lambda>op. op_tag untagged op \<in> set (map fst ?gs)) ?ops = ?ops" by (intro filter_True ballI)
  ultimately show ?thesis by (simp only:)
qed

definition shown_ops :: "TreeRow list \<Rightarrow> Operation list" where
  "shown_ops rows = concat (map row_ops rows)"

lemma shown_ops_append [simp]: "shown_ops (xs @ ys) = shown_ops xs @ shown_ops ys"
  by (simp add: shown_ops_def)

lemma shown_ops_groups: "shown_ops (concat (map (\<lambda>(l, os). group_rows l os) gs)) = concat (map snd gs)"
proof (induction gs)
  case (Cons g gs)
  have "shown_ops (group_rows l os) = os" for l os by (simp add: shown_ops_def group_rows_def comp_def)
  with Cons show ?case by (cases g) simp
qed (simp add: shown_ops_def)

text \<open>The groups of the tree, as one list.\<close>

definition tree_groups :: "Platform \<Rightarrow> (jstr \<Rightarrow> jstr \<Rightarrow> int) \<Rightarrow> jstr \<Rightarrow> jstr \<Rightarrow> NormalizedSpec \<Rightarrow> jstr \<Rightarrow> (jstr \<times> Operation list) list" where
  "tree_groups p lc untagged deprecatedGroup n text =
     operationsByTag lc (n\<lparr>n_operations := filter (\<lambda>o'. \<not> o_deprecated o' \<and> op_matches p text o') (n_operations n)\<rparr>) untagged @
     (let deprecated = filter (\<lambda>o'. o_deprecated o' \<and> op_matches p text o') (n_operations n)
      in if deprecated \<noteq> [] then [(deprecatedGroup, deprecated)] else [])"

lemma tree_rows_groups:
  "tree_rows p lc untagged deprecatedGroup n text =
   concat (map (\<lambda>(l, os). group_rows l os) (tree_groups p lc untagged deprecatedGroup n text))"
  by (simp add: tree_rows_def tree_groups_def Let_def)

lemma tree_total_shown: "tree_total rows = length (shown_ops rows)"
proof (induction rows)
  case (Cons r rows)
  then show ?case by (cases r) (simp_all add: tree_total_def shown_ops_def)
qed (simp add: tree_total_def shown_ops_def)

lemma deprecated_last:
  assumes "\<forall>a\<in>set xs. \<not> d a" "\<forall>b\<in>set ys. d b"
  shows "sorted_wrt (\<lambda>a b. d a \<longrightarrow> d b) (xs @ ys)"
proof -
  have "sorted_wrt (\<lambda>a b. d a \<longrightarrow> d b) ys" using assms(2) by (induction ys) auto
  then show ?thesis using assms(1) by (induction xs) auto
qed

text \<open>C24: the tree lists every operation that the filter matches exactly once, the deprecated ones last, and says how
  many there are; each group is not empty and counts its rows; and every row's link opens the row's operation.\<close>

theorem tree_lists_matching:
  assumes "comparator lc" "rows = tree_rows p lc untagged deprecatedGroup n text"
    "\<not> sq_isPending q" "\<not> sq_isError q" "distinct (map o_key (n_operations n))" "\<forall>o'\<in>set (n_operations n). o_key o' \<noteq> []"
  shows "mset (shown_ops rows) = mset (filter (op_matches p text) (n_operations n)) \<and>
    tree_total rows = length (filter (op_matches p text) (n_operations n)) \<and>
    sorted_wrt (\<lambda>a b. o_deprecated a \<longrightarrow> o_deprecated b) (shown_ops rows) \<and>
    (\<exists>gs. rows = concat (map (\<lambda>(l, os). GroupRow l (length os) # map OpRow os) gs) \<and> (\<forall>(l, os)\<in>set gs. os \<noteq> [])) \<and>
    (\<forall>o' a. OpRow o' \<in> set rows \<longrightarrow> row_link base (OpRow o') = Inr (Some a) \<longrightarrow> opens lc q n base a o')"
proof -
  let ?live = "filter (\<lambda>o'. \<not> o_deprecated o' \<and> op_matches p text o') (n_operations n)"
  let ?old = "filter (\<lambda>o'. o_deprecated o' \<and> op_matches p text o') (n_operations n)"
  let ?gs = "operationsByTag lc (n\<lparr>n_operations := ?live\<rparr>) untagged"
  have shown: "shown_ops rows = concat (map snd ?gs) @ ?old"
    unfolding assms(2) tree_rows_groups shown_ops_groups by (simp add: tree_groups_def Let_def)
  have live: "mset (concat (map snd ?gs)) = mset ?live" using operationsByTag_mset [OF assms(1)] by simp
  have split: "mset (filter (\<lambda>x. \<not> d x \<and> m x) xs) + mset (filter (\<lambda>x. d x \<and> m x) xs) = mset (filter m xs)" for d m and xs :: "Operation list"
    by (induction xs) auto
  have ms: "mset (shown_ops rows) = mset (filter (op_matches p text) (n_operations n))"
    unfolding shown mset_append live by (rule split)
  then have total: "tree_total rows = length (filter (op_matches p text) (n_operations n))"
    unfolding tree_total_shown by (metis size_mset)
  have "set (concat (map snd ?gs)) = set ?live" using live by (metis set_mset_mset)
  then have new: "\<forall>a\<in>set (concat (map snd ?gs)). \<not> o_deprecated a" by simp
  have sorted: "sorted_wrt (\<lambda>a b. o_deprecated a \<longrightarrow> o_deprecated b) (shown_ops rows)"
    unfolding shown by (rule deprecated_last [of _ o_deprecated, OF new]) simp
  have groups: "\<exists>gs. rows = concat (map (\<lambda>(l, os). GroupRow l (length os) # map OpRow os) gs) \<and> (\<forall>(l, os)\<in>set gs. os \<noteq> [])"
  proof (intro exI conjI)
    show "rows = concat (map (\<lambda>(l, os). GroupRow l (length os) # map OpRow os) (tree_groups p lc untagged deprecatedGroup n text))"
      unfolding assms(2) tree_rows_groups group_rows_def ..
    show "\<forall>(l, os)\<in>set (tree_groups p lc untagged deprecatedGroup n text). os \<noteq> []"
      by (auto simp: tree_groups_def Let_def operationsByTag_iff)
  qed
  have "opens lc q n base a o'" if "OpRow o' \<in> set rows" "row_link base (OpRow o') = Inr (Some a)" for o' a
  proof -
    have "o' \<in> set (shown_ops rows)" using that(1) by (force simp: shown_ops_def)
    then have o: "o' \<in> set (n_operations n)" using ms by (metis set_mset_mset mset_eq_setD filter_is_subset subsetD)
    have "operationPath base (o_key o') = Inr a" using that(2) by (auto simp: row_link_def ebind_Inr_iff)
    then show ?thesis using operation_address_opens assms(3-6) o by blast
  qed
  then show ?thesis using ms total sorted groups by blast
qed

definition pets_tree :: "TreeRow list" where
  "pets_tree = tree_rows example_platform unit_cmp (js ''Other'') (js ''Deprecated'') pets (js '' pets '')"

lemma pets_texts: "map op_text (n_operations pets) = map js [''GET /owners  list'', ''GET /pets/{id}  show'', ''DELETE /pets/{id}  drop'']"
  by code_simp

definition text_matches :: "jstr \<Rightarrow> bool" where
  "text_matches s = str_includes (fold_tr example_platform s) (js ''pets'')"

lemma op_matches_text: "op_matches example_platform (js '' pets '') o' = text_matches (op_text o')"
proof -
  have "fold_tr example_platform (trim (js '' pets '')) = js ''pets''" "js ''pets'' \<noteq> []" by code_simp+
  then show ?thesis by (simp add: op_matches_def text_matches_def Let_def)
qed

theorem tree_lists_matching_witness:
  "mset (shown_ops pets_tree) = mset (filter (op_matches example_platform (js '' pets '')) (n_operations pets)) \<and> tree_total pets_tree = 2"
proof -
  have k: "\<forall>o'\<in>set (n_operations pets). o_key o' \<noteq> []"
  proof -
    have "list_all (\<lambda>k. k \<noteq> []) (map o_key (n_operations pets))" unfolding pets_keys by code_simp
    then show ?thesis by (simp add: list_all_iff)
  qed
  have q: "\<not> sq_isPending pets_query" "\<not> sq_isError pets_query" by (simp_all add: pets_query_def)
  have "length (filter (op_matches example_platform (js '' pets '')) (n_operations pets)) = length (filter text_matches (map op_text (n_operations pets)))"
    by (simp add: op_matches_text [abs_def] filter_map comp_def)
  also have "\<dots> = 2" unfolding pets_texts by code_simp
  finally have two: "length (filter (op_matches example_platform (js '' pets '')) (n_operations pets)) = 2" .
  note t = tree_lists_matching [OF unit_order.comparator_axioms pets_tree_def q pets_show(6) k]
  show ?thesis using conjunct1 [OF t] conjunct1 [OF conjunct2 [OF t]] unfolding two by (rule conjI)
qed

text \<open>The tabs' addresses name the API by its slug: on a page opened by the number, as links without a slug do,
  the overview's tab is not marked.\<close>

lemma tab_unmarked_by_number:
  "workspace_base pets_api = Inr (js ''/apis/pet%20store'')"
  "\<forall>tab\<in>set (tabs (js ''/apis/pet%20store'') True). \<not> tab_active (js ''/apis/7/overview'') tab"
  by code_simp+

text \<open>On the addresses the page itself leads to, one tab is marked.\<close>

lemma own_tab_active:
  assumes "tab \<in> set (tabs base manage)" shows "tab_active (tab_to tab) tab"
  by (simp add: tab_active_def)

lemma operation_marks_reference:
  "operationPath base k = Inr a \<Longrightarrow> tab_active a (a_tab base ''reference'' (Some (base @ js ''/operations/'')))"
  by (auto simp: operationPath_def ebind_Inr_iff tab_active_def a_tab_def starts_with_def js_def)

text \<open>The groups of the overview are those of the whole document, and each links to its first operation.\<close>

lemma overview_group_opens:
  assumes "overview_groups lc untagged (Some n) base = Inr gs" "g \<in> set gs" "\<not> sq_isPending q" "\<not> sq_isError q"
    "distinct (map o_key (n_operations n))" "\<forall>o'\<in>set (n_operations n). o_key o' \<noteq> []"
  shows "\<exists>o'\<in>set (n_operations n). op_tag untagged o' = og_tag g \<and> opens lc q n base (og_to g) o'"
proof -
  let ?row = "\<lambda>(tag, ops). ebind (operationPath base (o_key (ops ! 0))) (\<lambda>a. Inr \<lparr>og_tag = tag, og_to = a,
         og_description = (case find (\<lambda>x. t_name x = tag) (n_tags n) of
             Some x \<Rightarrow> if t_description x \<noteq> [] then Some (t_description x) else None | None \<Rightarrow> None),
         og_count = length ops\<rparr>)"
  have "emap ?row (operationsByTag lc n untagged) = Inr gs" using assms(1) by (simp add: overview_groups_def)
  from emap_set [OF this assms(2)] obtain tag ops where
    g: "(tag, ops) \<in> set (operationsByTag lc n untagged)" "?row (tag, ops) = Inr g" by auto
  then obtain o' rest where o: "ops = o' # rest" unfolding operationsByTag_iff by (meson list.exhaust)
  have "o' \<in> set (filter (\<lambda>op. op_tag untagged op = tag) (n_operations n))" using g(1) o unfolding operationsByTag_iff by (metis list.set_intros(1))
  then have "o' \<in> set (n_operations n)" "op_tag untagged o' = tag" by auto
  moreover have "operationPath base (o_key o') = Inr (og_to g)" "og_tag g = tag" using g(2) by (auto simp: o ebind_Inr_iff)
  moreover have "o_key o' \<noteq> []" using assms(6) calculation(1) by blast
  ultimately show ?thesis using operation_address_opens [OF assms(3-5)] by metis
qed

end
