(* ===== verification/Spec_Api_Pages.thy ===== *)
theory Spec_Api_Pages
  imports Spec_Workspace Spec_TryIt Spec_ApiForm Spec_Session
begin

text \<open>
  The other pages of one API: \<open>AccessTab.tsx\<close> with its form, \<open>ActivityTab.tsx\<close>, the notes of
  \<open>reference/OperationDoc.tsx\<close> and \<open>reference/ResponseViewer.tsx\<close>.
\<close>

section \<open>Access of groups\<close>

datatype AccessView = AccessLeaves jstr | AccessFailed | AccessLoading | AccessFormShown "ApiAccess list" "Group list"

record 'a Fetch =
  ft_isError :: bool
  ft_data :: "'a option"

definition AccessTab :: "bool \<Rightarrow> jstr \<Rightarrow> ApiAccess list Fetch \<Rightarrow> Group list Fetch \<Rightarrow> AccessView" where
  "AccessTab manage base access groups =
     (if \<not> manage then AccessLeaves (base @ js ''/overview'')
      else if ft_isError access \<or> ft_isError groups then AccessFailed
      else case (ft_data access, ft_data groups) of
          (Some initial, Some gs) \<Rightarrow> AccessFormShown initial gs
        | _ \<Rightarrow> AccessLoading)"

definition group_name :: "Group list \<Rightarrow> ApiAccess \<Rightarrow> jstr" where
  "group_name groups row = (case find (\<lambda>g. g_id g = aa_groupId row) groups of Some g \<Rightarrow> g_name g
     | None \<Rightarrow> (case aa_groupName row of Some n \<Rightarrow> n | None \<Rightarrow> js ''#'' @ int_str (aa_groupId row)))"

definition free_groups :: "Group list \<Rightarrow> ApiAccess list \<Rightarrow> Group list" where
  "free_groups groups rows = filter (\<lambda>g. \<not> list_ex (\<lambda>r. aa_groupId r = g_id g) rows) groups"

text \<open>What can be done: the list offers a level and a bin per row, and the groups without a row.\<close>

datatype AccessEdit = ChooseLevel nat AccessLevel | RemoveAccess nat | GrantGroup Group | CancelEdits

definition access_offered :: "Group list \<Rightarrow> ApiAccess list \<Rightarrow> AccessEdit \<Rightarrow> bool" where
  "access_offered groups rows e = (case e of ChooseLevel i l \<Rightarrow> i < length rows | RemoveAccess i \<Rightarrow> i < length rows
     | GrantGroup g \<Rightarrow> g \<in> set (free_groups groups rows) | CancelEdits \<Rightarrow> True)"

definition access_edit :: "ApiAccess list \<Rightarrow> AccessEdit \<Rightarrow> ApiAccess list \<Rightarrow> ApiAccess list" where
  "access_edit initial e rows = (case e of
       ChooseLevel i l \<Rightarrow> map (\<lambda>(r, j). if j = i then r\<lparr>aa_level := l\<rparr> else r) (zip rows [0..<length rows])
     | RemoveAccess i \<Rightarrow> map fst (filter (\<lambda>(r, j). j \<noteq> i) (zip rows [0..<length rows]))
     | GrantGroup g \<Rightarrow> rows @ [\<lparr>aa_groupId = g_id g, aa_groupName = None, aa_level = ViewAccess\<rparr>]
     | CancelEdits \<Rightarrow> initial)"

inductive access_reach :: "Group list \<Rightarrow> ApiAccess list \<Rightarrow> ApiAccess list \<Rightarrow> bool" for groups initial where
  start: "access_reach groups initial initial"
| edit: "access_reach groups initial rows \<Longrightarrow> access_offered groups rows e \<Longrightarrow> access_reach groups initial (access_edit initial e rows)"

definition access_row_value :: "ApiAccess \<Rightarrow> jval" where
  "access_row_value r = JObj Fresh ([(js ''groupId'', JNum (num_of_int (aa_groupId r)))] @
     (case aa_groupName r of Some n \<Rightarrow> [(js ''groupName'', JStr n)] | None \<Rightarrow> []) @
     [(js ''level'', JStr (case aa_level r of ViewAccess \<Rightarrow> js ''view'' | InvokeAccess \<Rightarrow> js ''invoke''))])"

definition access_save :: "int \<Rightarrow> ApiAccess list \<Rightarrow> SettingsCall" where
  "access_save n rows = SetApiAccess n (JArr Fresh (map access_row_value rows))"

lemma zip_upt_nth: "zip xs [0..<length xs] = map (\<lambda>i. (xs ! i, i)) [0..<length xs]"
  by (rule nth_equalityI) simp_all

lemma levels_keep_groups:
  "map aa_groupId (map (\<lambda>(r, j). if j = i then r\<lparr>aa_level := l\<rparr> else r) (zip rows [0..<length rows])) = map aa_groupId rows"
  by (rule nth_equalityI) simp_all

lemma removed_rows: "map fst (filter (\<lambda>(r, j). j \<noteq> i) (zip rows [m..<m + length rows])) =
    (if m \<le> i then take (i - m) rows @ drop (Suc (i - m)) rows else rows)"
proof (induction rows arbitrary: m)
  case (Cons r rows)
  have up: "[m..<m + length (r # rows)] = m # [Suc m..<Suc m + length rows]" by (simp add: upt_rec)
  note ih = Cons.IH [of "Suc m"]
  consider "i < m" | "i = m" | d where "i = Suc m + d" by (metis less_imp_Suc_add nat_neq_iff add_Suc)
  then show ?case unfolding up by cases (use ih in \<open>simp_all del: upt_Suc\<close>)
qed simp

text \<open>Whatever is done in the form, it grants each group once, and only groups that had a row or that there are.\<close>

theorem access_grants_groups_once:
  assumes "access_reach groups initial rows" "distinct (map aa_groupId initial)"
  shows "distinct (map aa_groupId rows) \<and> set (map aa_groupId rows) \<subseteq> set (map aa_groupId initial) \<union> set (map g_id groups)"
  using assms
proof (induction rule: access_reach.induct)
  case (edit rows e)
  then have ih: "distinct (map aa_groupId rows)" "set (map aa_groupId rows) \<subseteq> set (map aa_groupId initial) \<union> set (map g_id groups)" by auto
  show ?case
  proof (cases e)
    case (ChooseLevel i l)
    then show ?thesis using ih levels_keep_groups [of i l rows] unfolding access_edit_def by (simp only: AccessEdit.case)
  next
    case (RemoveAccess i)
    then have e: "access_edit initial e rows = take i rows @ drop (Suc i) rows"
      using removed_rows [of i rows 0] by (simp add: access_edit_def)
    have "map aa_groupId (take i rows @ drop (Suc i) rows) = take i (map aa_groupId rows) @ drop (Suc i) (map aa_groupId rows)"
      by (simp add: take_map drop_map)
    moreover have "distinct (take i xs @ drop (Suc i) xs) \<and> set (take i xs @ drop (Suc i) xs) \<subseteq> set xs" if "distinct xs" for xs :: "int list"
      using that set_take_disj_set_drop_if_distinct [of xs i "Suc i"] by (auto dest: in_set_takeD in_set_dropD)
    ultimately show ?thesis using ih unfolding e by (metis subset_trans)
  next
    case (GrantGroup g)
    then have "g \<in> set groups" "g_id g \<notin> set (map aa_groupId rows)" using edit.hyps(2)
      by (auto simp: access_offered_def free_groups_def list_ex_iff)
    then show ?thesis using ih GrantGroup by (auto simp: access_edit_def)
  qed (use edit.prems in \<open>auto simp: access_edit_def\<close>)
qed auto

section \<open>Activity\<close>

datatype ActivityView = ActivityLeaves jstr | ActivityShown bool

definition ActivityTab :: "bool \<Rightarrow> jstr \<Rightarrow> MeResponse option \<Rightarrow> ActivityView" where
  "ActivityTab manage base me =
     (if \<not> manage then ActivityLeaves (base @ js ''/overview'') else ActivityShown (js ''audit'' \<in> set (useAdminSections me)))"

definition calls_query :: "ApiDefinition \<Rightarrow> jstr jsr" where
  "calls_query d = auditQuery [(js ''targetType'', JStr (js ''api'')), (js ''targetId'', JStr (int_str (ad_id d))),
     (js ''action'', JStr (js ''api.invoke''))] [(js ''limit'', JNum (Fin 20))]"

text \<open>The details of a call, its method and its path; what does not parse counts as empty.\<close>

definition call_details :: "AuditLog \<Rightarrow> jval" where
  "call_details c = (case json_parse (if al_detailsJson c \<noteq> [] then al_detailsJson c else js ''{}'') of
       Some v \<Rightarrow> v | None \<Rightarrow> JObj Fresh [])"

record CallLine =
  cl_method :: "jval option"
  cl_path :: "jval option"
  cl_note :: jstr
  cl_status :: "int option"

definition call_line :: "AuditLog \<Rightarrow> CallLine jsr" where
  "call_line c =
     ebind (jget (call_details c) (js ''method'')) (\<lambda>m. ebind (jget (call_details c) (js ''path'')) (\<lambda>p. Inr
       \<lparr>cl_method = (if truthy m then Some m else None), cl_path = (if truthy p then Some p else None),
        cl_note = (if al_errorMessage c \<noteq> [] then al_errorMessage c else al_action c),
        cl_status = (if al_statusCode c \<noteq> 0 then Some (al_statusCode c) else None)\<rparr>))"

datatype ChangeVariant = AddedOps | RemovedOps | ChangedOps

record ChangeList =
  ch_variant :: ChangeVariant
  ch_count :: int
  ch_items :: "(jstr \<times> jstr) list"
  ch_more :: int

definition change_lists :: "SpecChange \<Rightarrow> ChangeList list" where
  "change_lists e = List.map_filter (\<lambda>(v, items, n). if 0 < n then Some \<lparr>ch_variant = v, ch_count = n,
       ch_items = map op_of_text items, ch_more = (if int (length items) < n then n - int (length items) else 0)\<rparr> else None)
     [(AddedOps, sc_added e, sc_addedCount e), (RemovedOps, sc_removed e, sc_removedCount e), (ChangedOps, sc_changed e, sc_changedCount e)]"

section \<open>The notes of an operation's documentation\<close>

definition credential_header :: "SecurityScheme \<Rightarrow> jstr option" where
  "credential_header s =
     (if s_type s = js ''apiKey'' \<and> s_in s = Some (js ''header'') then s_name s
      else if s_type s \<in> set (map js [''http'', ''basic'', ''oauth2'', ''openIdConnect'']) then Some (js ''Authorization'') else None)"

text \<open>\<open>lo\<close> is \<open>toLowerCase\<close>.\<close>

definition allows_header :: "(jstr \<Rightarrow> jstr) \<Rightarrow> ApiDefinition \<Rightarrow> jstr \<Rightarrow> bool" where
  "allows_header lo d h = headerAllowed lo h (or_none (ad_allowedRequestHeaders d)) (ad_forwardAllXHeaders d = Some True)"

definition injects_header :: "(jstr \<Rightarrow> jstr) \<Rightarrow> ApiDefinition \<Rightarrow> jstr \<Rightarrow> bool" where
  "injects_header lo d h = list_ex (\<lambda>n. lo n = lo h) (or_none (ad_injectHeaderNames d))"

datatype CredentialStatus = ByPortal | ByUser | BlockedCredential | UnknownCredential

definition credential_status :: "(jstr \<Rightarrow> jstr) \<Rightarrow> ApiDefinition \<Rightarrow> SecurityScheme \<Rightarrow> CredentialStatus" where
  "credential_status lo d s = (case credential_header s of
       None \<Rightarrow> UnknownCredential
     | Some h \<Rightarrow> if h = [] then UnknownCredential
         else if injects_header lo d h then ByPortal
         else if allows_header lo d h then ByUser else BlockedCredential)"

text \<open>The note's lines, and whether it warns.\<close>

definition security_note :: "(jstr \<Rightarrow> jstr) \<Rightarrow> ApiDefinition \<Rightarrow> Operation \<Rightarrow> ((jstr \<times> CredentialStatus) list \<times> bool) option" where
  "security_note lo d o' = (if o_security o' = [] then None
     else let lines = map (\<lambda>s. (s_key s, credential_status lo d s)) (concat (o_security o'))
          in Some (lines, list_ex (\<lambda>l. snd l = BlockedCredential) lines))"

datatype ParameterNote = NoNote | InjectedNote | DroppedNote

definition parameter_note :: "(jstr \<Rightarrow> jstr) \<Rightarrow> ApiDefinition \<Rightarrow> Parameter \<Rightarrow> ParameterNote" where
  "parameter_note lo d p =
     (let dropped = (p_in p = HeaderParam \<and> \<not> allows_header lo d (p_name p));
          injected = (p_in p = HeaderParam \<and> injects_header lo d (p_name p))
      in if injected then InjectedNote else if dropped then DroppedNote else NoNote)"

definition media_example :: "nat \<Rightarrow> jval \<Rightarrow> ExampleMode \<Rightarrow> MediaType \<Rightarrow> jval jsr" where
  "media_example n raw mode m =
     (let given = coalesce (m_example m) (case m_examples m of x # _ \<Rightarrow> x_value x | [] \<Rightarrow> JUndef)
      in if nullish given then exampleFromSchema n raw (m_schema m) mode [] else Inr given)"

text \<open>What the documentation says of a header is what the console does with it: it locks those that the portal adds,
  warns of those that are not forwarded, and blocks a row for a credential exactly when the note calls it blocked.\<close>

theorem notes_agree_with_console:
  shows "parameter_note (cn_lower c) (cn_api c) p = InjectedNote \<longleftrightarrow> header_locked c p"
    "parameter_note (cn_lower c) (cn_api c) p = DroppedNote \<longleftrightarrow> header_warned c p"
    "\<lbrakk>credential_header s = Some h; trim h = h; h \<noteq> []; hr_name r = h\<rbrakk> \<Longrightarrow>
       credential_status (cn_lower c) (cn_api c) s = BlockedCredential \<longleftrightarrow>
         row_blocked c r \<and> \<not> injects_header (cn_lower c) (cn_api c) h"
    "\<lbrakk>credential_header s = Some h; trim h = h; hr_name r = h; credential_status (cn_lower c) (cn_api c) s = ByUser\<rbrakk> \<Longrightarrow> \<not> row_blocked c r"
  by (auto simp: parameter_note_def header_locked_def header_warned_def allows_header_def injects_header_def row_blocked_def
      credential_status_def Let_def split: if_splits)

text \<open>The example of the request body in the documentation is the body that the console starts with.\<close>

lemma documented_example_is_initial_body:
  assumes "find (\<lambda>m. type_text (m_contentType m) = contentType) (body_media c) = Some m"
  shows "initialBody c contentType = ebind (media_example (cn_fuel c) (console_raw c) Request m)
    (\<lambda>v. Inr (case stringifyExample v of Some s \<Rightarrow> s | None \<Rightarrow> []))"
  using assms by (simp add: initialBody_def media_example_def Let_def)

section \<open>The response\<close>

definition REASONS :: "(int \<times> string) list" where
  "REASONS = [(200, ''OK''), (201, ''Created''), (202, ''Accepted''), (204, ''No Content''), (301, ''Moved Permanently''),
     (302, ''Found''), (304, ''Not Modified''), (400, ''Bad Request''), (401, ''Unauthorized''), (403, ''Forbidden''),
     (404, ''Not Found''), (405, ''Method Not Allowed''), (409, ''Conflict''), (410, ''Gone''), (415, ''Unsupported Media Type''),
     (422, ''Unprocessable Content''), (429, ''Too Many Requests''), (500, ''Internal Server Error''), (501, ''Not Implemented''),
     (502, ''Bad Gateway''), (503, ''Service Unavailable''), (504, ''Gateway Timeout'')]"

text \<open>\<open>/^\s*[[{]/\<close>, and the value that the structured views show.\<close>

definition starts_bracket :: "jstr \<Rightarrow> bool" where
  "starts_bracket s = (case dropWhile is_space s of u # _ \<Rightarrow> u = 91 \<or> u = 123 | [] \<Rightarrow> False)"

definition viewer_parsed :: "jstr \<Rightarrow> jstr \<Rightarrow> jval option" where
  "viewer_parsed raw contentType =
     (if trim raw = [] \<or> \<not> (isJsonContentType contentType \<or> starts_bracket raw) then None else json_parse raw)"

datatype ViewerTab = PrettyTab | TreeTab | RawTab | HeadersTab

record Viewer =
  vw_raw :: jstr
  vw_pretty :: jstr
  vw_parsed :: "jval option"
  vw_reason :: "string option"
  vw_tabs :: "ViewerTab list"
  vw_tab :: ViewerTab
  vw_copied :: jstr
  vw_download :: "jstr option"

definition ResponseViewer :: "InvokeResponse \<Rightarrow> jstr \<Rightarrow> Viewer" where
  "ResponseViewer r fileName =
     (let raw = decodeBase64Utf8 (ir_bodyBase64 r); pretty = prettyBody raw (ir_contentType r);
          parsed = viewer_parsed raw (ir_contentType r)
      in \<lparr>vw_raw = raw, vw_pretty = pretty, vw_parsed = parsed, vw_reason = map_of REASONS (ir_statusCode r),
          vw_tabs = (if parsed \<noteq> None then [PrettyTab, TreeTab] else []) @ [RawTab, HeadersTab],
          vw_tab = (if parsed \<noteq> None then PrettyTab else RawTab),
          vw_copied = (if pretty \<noteq> [] then pretty else raw),
          vw_download = (if raw = [] then None else Some (fileName @ (if parsed \<noteq> None then js ''.json'' else js ''.txt'')))\<rparr>)"

lemma viewer_opens_listed: "vw_tab (ResponseViewer r f) \<in> set (vw_tabs (ResponseViewer r f))"
  by (simp add: ResponseViewer_def Let_def)

text \<open>The formatted text is made from the trimmed body, the structured views from the body as it is: after a space that
  JSON does not know, a body that is formatted for the clipboard is shown as raw text only.\<close>

lemma formatted_body_not_shown:
  "prettyBody (160 # js ''[1]'') (js ''application/json'') \<noteq> 160 # js ''[1]''"
  "viewer_parsed (160 # js ''[1]'') (js ''application/json'') = None"
  by code_simp+

text \<open>Details that are the text \<open>null\<close> parse, and reading a member of them throws.\<close>

lemma null_details_throw: "al_detailsJson c = js ''null'' \<Longrightarrow> call_line c = Inl TypeError"
proof -
  assume "al_detailsJson c = js ''null''"
  moreover have "json_parse (js ''null'') = Some JNull" "js ''null'' \<noteq> []" by code_simp+
  ultimately show ?thesis by (simp add: call_line_def call_details_def)
qed

end
