(* ===== verification/Spec_Directory.thy ===== *)
theory Spec_Directory
  imports Spec_Common Spec_ApiForm
begin

text \<open>
  The settings of the console: \<open>pages/admin/LdapSection.tsx\<close>, \<open>AzureSection.tsx\<close>, \<open>SessionSettingsSection.tsx\<close>
  and \<open>users/LdapImportDrawer.tsx\<close>, with the range check of \<open>handleUpdateSession\<close> as the reference.
  The number fields of the LDAP form are left out.
\<close>

section \<open>Lists in a text area\<close>

text \<open>The area shows the entries of the form's list, one per line; what is typed becomes the list at once.\<close>

definition list_area :: "jstr list option \<Rightarrow> jstr" where
  "list_area xs = join [10] (case xs of Some ys \<Rightarrow> ys | None \<Rightarrow> [])"

definition type_base_dns :: "jstr \<Rightarrow> LdapConfig \<Rightarrow> LdapConfig" where
  "type_base_dns s f = f\<lparr>lc_userBaseDns := splitList s\<rparr>"

definition type_allowed_groups :: "jstr \<Rightarrow> AzureADConfig \<Rightarrow> AzureADConfig" where
  "type_allowed_groups s f = f\<lparr>az_allowedGroups := splitList s\<rparr>"

definition type_auto_groups :: "jstr \<Rightarrow> LdapConfig \<Rightarrow> LdapConfig" where
  "type_auto_groups s f = f\<lparr>lc_autoCreateGroups := Some (split_str [10] s)\<rparr>"

section \<open>The forms\<close>

definition ldap_initial :: "LdapConfig \<Rightarrow> LdapConfig" where
  "ldap_initial c = c\<lparr>lc_bindPassword := Some []\<rparr>"

definition azure_initial :: "AzureADConfig \<Rightarrow> AzureADConfig" where
  "azure_initial c = c\<lparr>az_clientSecret := Some []\<rparr>"

definition insecure :: "LdapConfig \<Rightarrow> bool" where
  "insecure f = (lc_sslSkipVerify f \<and> (lc_useSsl f \<or> lc_startTls f))"

text \<open>With automatic accounts and no group named, whoever can sign in to the directory gets an account.\<close>

definition admits_everyone :: "LdapConfig \<Rightarrow> bool" where
  "admits_everyone f = (lc_autoCreate f = Some True \<and>
     filter (\<lambda>g. trim g \<noteq> []) (case lc_autoCreateGroups f of Some gs \<Rightarrow> gs | None \<Rightarrow> []) = [])"

definition copied_redirect :: "jstr \<Rightarrow> AzureADConfig \<Rightarrow> jstr" where
  "copied_redirect origin f = (if az_redirectUrl f \<noteq> [] then az_redirectUrl f else origin @ js ''/api/auth/azure/callback'')"

record LoginTest =
  lt_username :: jstr
  lt_password :: jstr
  lt_steps :: "LdapLoginStep list option"

definition run_login_test :: "LoginTest \<Rightarrow> AccountCall option" where
  "run_login_test s = (if lt_username s \<noteq> [] then Some (TestLdapLogin (lt_username s) (lt_password s)) else None)"

definition login_tested :: "LdapLoginStep list \<Rightarrow> LoginTest \<Rightarrow> LoginTest" where
  "login_tested steps s = s\<lparr>lt_steps := Some steps, lt_password := []\<rparr>"

section \<open>Importing users\<close>

record LdapImport =
  li_results :: "LdapUser list option"
  li_selected :: "jstr list"
  li_groupIds :: "int list"
  li_outcome :: "(jstr list \<times> jstr list) option"

text \<open>\<open>new Map(...)\<close>: of two accounts with one name the later one counts. \<open>lo\<close> is \<open>toLowerCase\<close>.\<close>

definition existing_source :: "(jstr \<Rightarrow> jstr) \<Rightarrow> User list \<Rightarrow> jstr \<Rightarrow> jstr option" where
  "existing_source lo users name = map_of (rev (map (\<lambda>u. (lo (u_username u), u_authSource u)) users)) (lo name)"

datatype ImportMark = NotKnown | AlreadyImported | OtherAccount jstr

definition import_mark :: "(jstr \<Rightarrow> jstr) \<Rightarrow> User list \<Rightarrow> LdapUser \<Rightarrow> ImportMark" where
  "import_mark lo users u = (case existing_source lo users (lu_username u) of None \<Rightarrow> NotKnown
     | Some src \<Rightarrow> if src = [] then NotKnown else if src = js ''ldap'' then AlreadyImported else OtherAccount src)"

definition search_call :: "jstr \<Rightarrow> SetupCall" where
  "search_call query = SearchLdap (trim query)"

definition users_found :: "LdapUser list option \<Rightarrow> LdapImport \<Rightarrow> LdapImport" where
  "users_found found s = s\<lparr>li_results := Some (case found of Some us \<Rightarrow> us | None \<Rightarrow> []), li_selected := []\<rparr>"

definition import_call :: "LdapImport \<Rightarrow> SetupCall option" where
  "import_call s = (if li_selected s = [] then None else Some (ImportLdap (li_selected s) (li_groupIds s)))"

definition users_imported :: "jstr list \<Rightarrow> jstr list \<Rightarrow> LdapImport \<Rightarrow> LdapImport" where
  "users_imported skipped missing s = s\<lparr>li_selected := [],
     li_outcome := (if skipped \<noteq> [] \<or> missing \<noteq> [] then Some (skipped, missing) else None)\<rparr>"

section \<open>Session settings\<close>

record SessionForm =
  sf_idle :: jstr
  sf_max :: jstr

definition session_form :: "SessionSettings \<Rightarrow> SessionForm" where
  "session_form s = \<lparr>sf_idle = int_str (ss_sessionMinutes s), sf_max = int_str (ss_maxHours s)\<rparr>"

definition whole_between :: "int \<Rightarrow> int \<Rightarrow> jnum \<Rightarrow> bool" where
  "whole_between lo hi n = (is_integer n \<and> \<not> num_less n (num_of_int lo) \<and> \<not> num_less (num_of_int hi) n)"

record SessionErrors =
  sr_idle :: bool
  sr_max :: bool

definition session_errors :: "SessionForm \<Rightarrow> SessionErrors" where
  "session_errors f = \<lparr>sr_idle = (\<not> whole_between 5 1440 (to_number (sf_idle f))), sr_max = (\<not> whole_between 1 720 (to_number (sf_max f)))\<rparr>"

definition session_submit :: "SessionForm \<Rightarrow> (jnum \<times> jnum) option" where
  "session_submit f = (if sr_idle (session_errors f) \<or> sr_max (session_errors f) then None
     else Some (to_number (sf_idle f), to_number (sf_max f)))"

text \<open>The server: \<open>handleUpdateSession\<close>.\<close>

datatype SessionProblem = SessionSaved | IdleRange | MaxRange | IdleBeyondMax

definition handleUpdateSession :: "SessionSettings \<Rightarrow> SessionSettings \<Rightarrow> SessionProblem \<times> SessionSettings" where
  "handleUpdateSession current payload =
     (let p = (if ss_maxHours payload = 0 then payload\<lparr>ss_maxHours := ss_maxHours current\<rparr> else payload)
      in if ss_sessionMinutes p < 5 \<or> 24 * 60 < ss_sessionMinutes p then (IdleRange, current)
         else if ss_maxHours p < 1 \<or> 30 * 24 < ss_maxHours p then (MaxRange, current)
         else if ss_maxHours p * 60 < ss_sessionMinutes p then (IdleBeyondMax, current)
         else (SessionSaved, p))"

section \<open>What the lists keep\<close>

lemma split_units_free: "\<forall>x\<in>set (split_units p s). \<forall>u\<in>set x. \<not> p u"
proof (induction s)
  case (Cons u s)
  then show ?case by (cases "split_units p s") auto
qed simp

lemma split_units_ne: "split_units p s \<noteq> []"
  by (cases s) (auto split: list.splits)

lemma split_units_plain: "\<forall>u\<in>set x. \<not> p u \<Longrightarrow> split_units p x = [x]"
  by (induction x) auto

lemma split_units_sep: "\<forall>u\<in>set x. \<not> p u \<Longrightarrow> p c \<Longrightarrow> split_units p (x @ c # s) = x # split_units p s"
  by (induction x) auto

lemma split_units_join:
  "xs \<noteq> [] \<Longrightarrow> \<forall>x\<in>set xs. \<forall>u\<in>set x. \<not> p u \<Longrightarrow> p c \<Longrightarrow> split_units p (join [c] xs) = xs"
proof (induction xs)
  case (Cons x xs)
  show ?case
  proof (cases "xs = []")
    case False
    then have "join [c] (x # xs) = x @ c # join [c] xs" by (simp add: join_Cons del: join.simps)
    with Cons False show ?thesis by (simp add: split_units_sep del: join.simps)
  qed (use Cons.prems in \<open>simp add: split_units_plain\<close>)
qed simp

lemma split_units_snoc: "p c \<Longrightarrow> split_units p (s @ [c]) = split_units p s @ [[]]"
proof (induction s)
  case (Cons u s)
  then show ?case using split_units_ne [of p s] by (cases "split_units p s") auto
qed simp

lemma trim_subset: "set (trim s) \<subseteq> set s"
proof
  fix x assume "x \<in> set (trim s)"
  then have "x \<in> set (dropWhile is_space (rev (dropWhile is_space s)))" by (simp add: trim_def)
  from set_dropWhileD [OF this] have "x \<in> set (dropWhile is_space s)" by simp
  then show "x \<in> set s" by (rule set_dropWhileD)
qed

lemma splitList_entries:
  assumes "x \<in> set (splitList s)"
  shows "x \<noteq> [] \<and> trim x = x \<and> 44 \<notin> set x \<and> 10 \<notin> set x"
proof -
  obtain y where y: "y \<in> set (split_units (\<lambda>u. u = 10 \<or> u = 44) s)" "x = trim y" "x \<noteq> []"
    using assms by (auto simp: splitList_def)
  then have "44 \<notin> set y" "10 \<notin> set y" using split_units_free [of "\<lambda>u. u = 10 \<or> u = 44" s] by blast+
  then show ?thesis using y(2,3) trim_subset [of y] by auto
qed

lemma splitList_shown:
  assumes "list_all (\<lambda>x. x \<noteq> [] \<and> trim x = x \<and> 44 \<notin> set x \<and> 10 \<notin> set x) xs"
  shows "splitList (list_area (Some xs)) = xs"
proof (cases "xs = []")
  case True
  moreover have "splitList [] = []" by code_simp
  ultimately show ?thesis by (simp add: list_area_def)
next
  case False
  have free: "\<forall>x\<in>set xs. \<forall>u\<in>set x. \<not> (u = 10 \<or> u = 44)" using assms by (auto simp: list_all_iff)
  have "split_units (\<lambda>u. u = 10 \<or> u = 44) (join [10] xs) = xs" by (rule split_units_join [OF False free]) simp
  moreover have "map trim xs = xs" "filter (\<lambda>x. x \<noteq> []) xs = xs" using assms by (auto simp: list_all_iff map_idI)
  ultimately show ?thesis by (simp add: splitList_def list_area_def)
qed


text \<open>The name of an entry of a directory is a list with commas: no such name can be entered, and one that is pasted, or
  was saved and is edited, falls apart.\<close>

lemma base_dn_falls_apart:
  "lc_userBaseDns (type_base_dns (js ''OU=People,DC=corp,DC=example'') f) = map js [''OU=People'', ''DC=corp'', ''DC=example'']"
  "44 \<in> set dn \<Longrightarrow> dn \<notin> set (lc_userBaseDns (type_base_dns s f))"
proof -
  have "splitList (js ''OU=People,DC=corp,DC=example'') = map js [''OU=People'', ''DC=corp'', ''DC=example'']" by code_simp
  then show "lc_userBaseDns (type_base_dns (js ''OU=People,DC=corp,DC=example'') f) = map js [''OU=People'', ''DC=corp'', ''DC=example'']"
    by (simp add: type_base_dns_def)
  show "44 \<in> set dn \<Longrightarrow> dn \<notin> set (lc_userBaseDns (type_base_dns s f))"
    using splitList_entries by (auto simp: type_base_dns_def)
qed

text \<open>The list beside it keeps what is typed, line by line.\<close>

lemma auto_groups_kept: "list_area (lc_autoCreateGroups (type_auto_groups s f)) = s"
  by (simp add: type_auto_groups_def list_area_def join_split)

section \<open>The session form and the server\<close>

lemma whole_between_iff: "whole_between a b n \<longleftrightarrow> (\<exists>i. n = num_of_int i \<and> a \<le> i \<and> i \<le> b)"
proof (cases n)
  case (Fin r)
  show ?thesis
  proof
    assume w: "whole_between a b n"
    then have "r = of_int \<lfloor>r\<rfloor>" "\<not> r < of_int a" "\<not> of_int b < r" by (auto simp: whole_between_def Fin num_of_int_def)
    then have "of_int a \<le> (of_int \<lfloor>r\<rfloor> :: rat)" "(of_int \<lfloor>r\<rfloor> :: rat) \<le> of_int b" by linarith+
    then show "\<exists>i. n = num_of_int i \<and> a \<le> i \<and> i \<le> b"
      using \<open>r = of_int \<lfloor>r\<rfloor>\<close> by (intro exI [of _ "\<lfloor>r\<rfloor>"]) (simp add: Fin num_of_int_def)
  qed (auto simp: whole_between_def Fin num_of_int_def)
qed (auto simp: whole_between_def num_of_int_def)

text \<open>C21: the session form sends whole numbers in the server's ranges and nothing else; of these the server refuses only
  an idle time longer than the longest session; and all that the server accepts the form sends.\<close>

theorem session_form_agrees:
  shows "(session_submit f = Some (m, h) \<longrightarrow> (\<exists>i j. m = num_of_int i \<and> h = num_of_int j \<and> 5 \<le> i \<and> i \<le> 1440 \<and> 1 \<le> j \<and> j \<le> 720 \<and>
      fst (handleUpdateSession current \<lparr>ss_sessionMinutes = i, ss_maxHours = j\<rparr>) = (if 60 * j < i then IdleBeyondMax else SessionSaved))) \<and>
    (fst (handleUpdateSession current p) = SessionSaved \<and> ss_maxHours p \<noteq> 0 \<longrightarrow>
      session_submit (session_form p) = Some (num_of_int (ss_sessionMinutes p), num_of_int (ss_maxHours p)))"
proof (intro conjI impI)
  assume "session_submit f = Some (m, h)"
  then have "whole_between 5 1440 m" "whole_between 1 720 h" by (auto simp: session_submit_def session_errors_def split: if_splits)
  then obtain i j where "m = num_of_int i" "5 \<le> i" "i \<le> 1440" "h = num_of_int j" "1 \<le> j" "j \<le> 720" unfolding whole_between_iff by blast
  then show "\<exists>i j. m = num_of_int i \<and> h = num_of_int j \<and> 5 \<le> i \<and> i \<le> 1440 \<and> 1 \<le> j \<and> j \<le> 720 \<and>
      fst (handleUpdateSession current \<lparr>ss_sessionMinutes = i, ss_maxHours = j\<rparr>) = (if 60 * j < i then IdleBeyondMax else SessionSaved)"
    by (intro exI [of _ i] exI [of _ j]) (simp add: handleUpdateSession_def Let_def)
next
  assume a: "fst (handleUpdateSession current p) = SessionSaved \<and> ss_maxHours p \<noteq> 0"
  then have r: "5 \<le> ss_sessionMinutes p" "ss_sessionMinutes p \<le> 1440" "1 \<le> ss_maxHours p" "ss_maxHours p \<le> 720"
    by (auto simp: handleUpdateSession_def Let_def split: if_splits)
  have n: "to_number (int_str i) = num_of_int i" if "0 \<le> i" "i < 10 ^ 15" for i
    using to_number_nat [of "nat i"] that by (simp add: int_str_def num_of_int_def nat_less_iff)
  show "session_submit (session_form p) = Some (num_of_int (ss_sessionMinutes p), num_of_int (ss_maxHours p))"
    using r by (simp add: session_submit_def session_errors_def session_form_def n whole_between_iff) (auto simp: num_of_int_def)
qed

theorem session_form_agrees_witness:
  "session_submit \<lparr>sf_idle = js '' 60 '', sf_max = js ''12''\<rparr> = Some (num_of_int 60, num_of_int 12) \<and>
   (\<exists>i j. num_of_int 60 = num_of_int i \<and> num_of_int 12 = num_of_int j \<and> 5 \<le> i \<and> i \<le> 1440 \<and> 1 \<le> j \<and> j \<le> 720)"
proof -
  have s: "session_submit \<lparr>sf_idle = js '' 60 '', sf_max = js ''12''\<rparr> = Some (num_of_int 60, num_of_int 12)" by code_simp
  with session_form_agrees [THEN conjunct1, of "\<lparr>sf_idle = js '' 60 '', sf_max = js ''12''\<rparr>" "num_of_int 60" "num_of_int 12"
      "\<lparr>ss_sessionMinutes = 60, ss_maxHours = 12\<rparr>"] show ?thesis by blast
qed

end
