(* ===== verification/Spec_Groups.thy ===== *)
theory Spec_Groups
  imports Spec_Roles Spec_Session Spec_ApiForm
begin

text \<open>
  \<open>pages/admin/groups/GroupDrawer.tsx\<close>, \<open>groups/GroupPermissions.tsx\<close> and \<open>users/EffectivePermissions.tsx\<close>: the form of a
  group with the calls of its save, the members with the calls that change them, and the lists of what a group or a
  user may do.
\<close>

section \<open>The form\<close>

record GroupForm =
  gf_id :: "int option"
  gf_name :: jstr
  gf_description :: jstr
  gf_roleIds :: "int list"
  gf_azureGroupId :: jstr
  gf_ldapGroupDn :: jstr

definition EMPTY :: GroupForm where
  "EMPTY = \<lparr>gf_id = None, gf_name = [], gf_description = [], gf_roleIds = [], gf_azureGroupId = [], gf_ldapGroupDn = []\<rparr>"

definition or_blank :: "jstr option \<Rightarrow> jstr" where
  "or_blank x = (case x of Some s \<Rightarrow> s | None \<Rightarrow> [])"

definition group_initial :: "Group option \<Rightarrow> int list option \<Rightarrow> GroupForm" where
  "group_initial existing roles = (case existing of None \<Rightarrow> EMPTY
     | Some g \<Rightarrow> \<lparr>gf_id = Some (g_id g), gf_name = g_name g, gf_description = g_description g,
         gf_roleIds = (case roles of Some rs \<Rightarrow> rs | None \<Rightarrow> []),
         gf_azureGroupId = or_blank (g_azureGroupId g), gf_ldapGroupDn = or_blank (g_ldapGroupDn g)\<rparr>)"

definition group_payload :: "GroupForm \<Rightarrow> jval" where
  "group_payload f = obj [(''name'', JStr (trim (gf_name f))), (''description'', JStr (trim (gf_description f))),
     (''azureGroupId'', JStr (trim (gf_azureGroupId f))), (''ldapGroupDn'', JStr (trim (gf_ldapGroupDn f)))]"

text \<open>The calls of a save, in order, when each succeeds; \<open>created\<close> is the id that the server gives a new group.\<close>

definition group_save :: "GroupForm \<Rightarrow> GroupForm \<Rightarrow> int \<Rightarrow> PeopleCall list" where
  "group_save initial f created =
     (let n = (case gf_id f of Some i \<Rightarrow> i | None \<Rightarrow> created)
      in (if gf_id f = None then [CreateGroup (group_payload f)] else []) @
         (if truthy_id (gf_id f) then [UpdateGroup (the (gf_id f)) (group_payload f)] else []) @
         (if \<not> sameValue (id_list (gf_roleIds f)) (id_list (gf_roleIds initial)) then [SetGroupRoles n (gf_roleIds f)] else []))"

datatype GroupTab = DetailsTab | MembersTab | PermissionsTab

definition group_tabs :: "bool \<Rightarrow> jstr list \<Rightarrow> GroupTab list" where
  "group_tabs existing sections =
     DetailsTab # (if existing \<and> js ''users'' \<in> set sections then [MembersTab] else []) @ (if existing then [PermissionsTab] else [])"

datatype GroupSubmit = NameRequired GroupTab | GroupSaves "PeopleCall list"

definition group_submit :: "GroupForm \<Rightarrow> GroupForm \<Rightarrow> int \<Rightarrow> GroupSubmit" where
  "group_submit initial f created = (if trim (gf_name f) = [] then NameRequired DetailsTab else GroupSaves (group_save initial f created))"

text \<open>Ids are numbers that JavaScript holds exactly.\<close>

definition id_ok :: "int \<Rightarrow> bool" where
  "id_ok n = (\<bar>n\<bar> < 10 ^ 15)"

lemma same_ids: "list_all id_ok a \<Longrightarrow> list_all id_ok b \<Longrightarrow> sameValue (id_list a) (id_list b) \<longleftrightarrow> a = b"
proof -
  assume ok: "list_all id_ok a" "list_all id_ok b"
  have st: "storable (id_list x)" if "list_all id_ok x" for x
  proof -
    have "\<bar>of_int n :: rat\<bar> < 10 ^ 15" if "\<bar>n\<bar> < 10 ^ 15" for n :: int
      using that by (metis of_int_abs of_int_less_iff of_int_numeral of_int_power)
    then show ?thesis using that by (simp add: id_list_def list_all_iff num_of_int_def id_ok_def)
  qed
  moreover have "inj (\<lambda>n. JNum (num_of_int n))" by (simp add: inj_def num_of_int_def)
  ultimately show ?thesis using sameValue_storable [OF st st] ok by (simp add: id_list_def inj_map_eq_map)
qed

text \<open>After a save the group has the chosen roles and every other group those it had, although the roles are only sent
  when they changed; and the group itself is written once.\<close>

theorem group_save_sets_roles:
  assumes "n = (case gf_id f of Some i \<Rightarrow> i | None \<Rightarrow> created)" "dir_roles d n = set (gf_roleIds initial)" "gf_id f \<noteq> Some 0"
    "list_all id_ok (gf_roleIds initial)" "list_all id_ok (gf_roleIds f)"
  shows "dir_roles (fold serve (group_save initial f created) d) = (dir_roles d)(n := set (gf_roleIds f)) \<and>
    length (filter (\<lambda>c. \<exists>v. c = CreateGroup v \<or> c = UpdateGroup n v) (group_save initial f created)) = 1"
  using assms by (cases "gf_id f") (auto simp: group_save_def Let_def same_ids truthy_id_def fun_eq_iff)

section \<open>The members\<close>

definition may_manage :: "MeResponse option \<Rightarrow> bool" where
  "may_manage me = (case me of None \<Rightarrow> False
     | Some m \<Rightarrow> (case me_capabilities m of Some c \<Rightarrow> ca_canManageUsers c = Some True | None \<Rightarrow> False) \<or> u_isAdmin (me_user m))"

definition is_admin :: "MeResponse option \<Rightarrow> bool" where
  "is_admin me = (case me of Some m \<Rightarrow> u_isAdmin (me_user m) | None \<Rightarrow> False)"

definition mayChange :: "MeResponse option \<Rightarrow> User \<Rightarrow> bool" where
  "mayChange me u = (may_manage me \<and> (\<not> u_isAdmin u \<or> is_admin me))"

definition member_ids :: "Group list option \<Rightarrow> Group \<Rightarrow> int list" where
  "member_ids groups g =
     (let live = (case groups of None \<Rightarrow> None | Some gs \<Rightarrow> (case find (\<lambda>x. g_id x = g_id g) gs of None \<Rightarrow> None | Some x \<Rightarrow> g_memberIds x))
      in case live of Some ids \<Rightarrow> ids | None \<Rightarrow> (case g_memberIds g of Some ids \<Rightarrow> ids | None \<Rightarrow> []))"

text \<open>\<open>new Map(users.map(u => [u.id, u]))\<close>: of two entries with one key the later one counts.\<close>

definition user_by_id :: "User list \<Rightarrow> int \<Rightarrow> User option" where
  "user_by_id users n = map_of (rev (map (\<lambda>u. (u_id u, u)) users)) n"

definition group_members :: "User list \<Rightarrow> int list \<Rightarrow> User list" where
  "group_members users ids = List.map_filter (user_by_id users) ids"

definition candidates :: "MeResponse option \<Rightarrow> User list \<Rightarrow> int list \<Rightarrow> User list" where
  "candidates me users ids = filter (\<lambda>u. u_id u \<notin> set ids \<and> mayChange me u) users"

text \<open>The calls that the page offers, when \<open>adding\<close> is chosen in the list of candidates.\<close>

definition member_calls :: "MeResponse option \<Rightarrow> Group \<Rightarrow> User list \<Rightarrow> int list \<Rightarrow> int list \<Rightarrow> ConsoleCall list" where
  "member_calls me g users ids adding =
     (if may_manage me \<and> adding \<noteq> [] then [AddGroupMembers (g_id g) adding] else []) @
     map (\<lambda>u. RemoveGroupMember (g_id g) (u_id u)) (filter (mayChange me) (group_members users ids))"

fun touched :: "ConsoleCall \<Rightarrow> int list" where
  "touched (AddGroupMembers g ids) = ids"
| "touched (RemoveGroupMember g n) = [n]"
| "touched _ = []"

lemma user_by_id_in: "user_by_id users n = Some u \<Longrightarrow> u \<in> set users \<and> u_id u = n"
  unfolding user_by_id_def by (drule map_of_SomeD) auto


definition group_user :: "int \<Rightarrow> bool \<Rightarrow> User" where
  "group_user n admin = \<lparr>u_id = n, u_username = [], u_displayName = [], u_email = [], u_authSource = js ''local'',
     u_mustChangePassword = False, u_isActive = True, u_isAdmin = admin, u_createdAt = [], u_updatedAt = [],
     u_lastLoginAt = None, u_groupIds = None\<rparr>"

definition user_manager :: MeResponse where
  "user_manager = \<lparr>me_user = group_user 9 False, me_permissions = [], me_groupIds = [],
     me_branding = \<lparr>sy_brandTitle = [], sy_logoDataUrl = [], sy_projectLink = None\<rparr>, me_passwordPolicy = None, me_session = None,
     me_warnings = None, me_capabilities = Some \<lparr>ca_adminSections = [], ca_managesAllApis = False, ca_managedApis = [],
       ca_canCreateApi = False, ca_canExportAudit = False, ca_canManageUsers = Some True\<rparr>,
     me_features = None, me_version = None, me_projectLink = None\<rparr>"


section \<open>Permissions\<close>

text \<open>\<open>/^api:(\d+):(\w+)$/\<close>.\<close>

definition apiOf :: "jstr \<Rightarrow> (jnum \<times> jstr) option" where
  "apiOf scope = (if \<not> starts_with scope (js ''api:'') then None
     else let r = drop 4 scope; ds = takeWhile is_digit r; q = drop (length ds) r
          in if ds = [] \<or> q = [] \<or> hd q \<noteq> 58 \<or> tl q = [] \<or> \<not> list_all is_word_unit (tl q) then None
             else Some (to_number ds, tl q))"

definition by_via :: "Via \<Rightarrow> PermissionSource list \<Rightarrow> PermissionSource list" where
  "by_via v = filter (\<lambda>s. ps_via s = v)"

text \<open>The list of direct access reads the API of each scope without a check: a scope of another form throws.\<close>

definition direct_access :: "PermissionSource list \<Rightarrow> (jnum \<times> jstr \<times> Via) list jsr" where
  "direct_access sources = emap (\<lambda>s. case apiOf (ps_scope s) of
       Some (n, a) \<Rightarrow> Inr (n, a, ps_via s) | None \<Rightarrow> Inl TypeError) (by_via ViaOwner sources @ by_via ViaAccess sources)"

text \<open>The preview: the scopes after the change, new ones marked, and those that go away.\<close>

datatype ScopeMark = KeptScope | AddedScope | RemovedScope

definition permission_rows :: "bool \<Rightarrow> jstr list option \<Rightarrow> jstr list \<Rightarrow> (jstr \<times> ScopeMark) list" where
  "permission_rows changed current shown =
     (let before = uniq (case current of Some xs \<Rightarrow> xs | None \<Rightarrow> [])
      in map (\<lambda>s. (s, if changed \<and> s \<notin> set before then AddedScope else KeptScope)) shown @
         (if changed then map (\<lambda>s. (s, RemovedScope)) (filter (\<lambda>s. s \<notin> set shown) before) else []))"

definition sources_of :: "PermissionSource list \<Rightarrow> jstr \<Rightarrow> PermissionSource list" where
  "sources_of sources scope = filter (\<lambda>s. ps_scope s = scope) sources"

lemma digits_there: "nat_str n \<noteq> []"
  unfolding nat_str_def digit_str_def by (subst dec_digits.simps) simp

lemma api_scope_read:
  assumes "0 \<le> n" "n < 10 ^ 15"
  shows "apiOf (api_scope n a) = Some (num_of_int n, action_text a)"
proof -
  define ds where "ds = nat_str (nat n)"
  have d: "list_all is_digit ds" "ds \<noteq> []" unfolding ds_def by (simp_all add: nat_str_digits digits_there)
  have s: "api_scope n a = js ''api:'' @ ds @ 58 # action_text a"
    using assms(1) by (simp add: api_scope_def int_str_def ds_def js_def cu_def)
  have "list_all (\<lambda>b. action_text b \<noteq> [] \<and> list_all is_word_unit (action_text b)) PER_API_ACTIONS" by code_simp
  moreover have "a \<in> set PER_API_ACTIONS" by (cases a) (simp_all add: PER_API_ACTIONS_def)
  ultimately have w: "action_text a \<noteq> []" "list_all is_word_unit (action_text a)" by (simp_all add: list_all_iff)
  have t: "takeWhile is_digit (ds @ 58 # r) = ds" for r
    using d(1) by (simp add: takeWhile_append list_all_iff is_digit_def)
  have "to_number ds = num_of_int n"
    using to_number_nat [of "nat n"] assms by (simp add: ds_def num_of_int_def nat_less_iff)
  moreover have "starts_with (js ''api:'' @ x) (js ''api:'')" "drop 4 (js ''api:'' @ x) = x" for x by (simp_all add: starts_with_def js_def)
  ultimately show ?thesis unfolding apiOf_def s by (simp add: t d w Let_def)
qed

text \<open>The preview marks exactly the difference.\<close>

lemma permission_rows_marks:
  "(s, AddedScope) \<in> set (permission_rows True current shown) \<longleftrightarrow> s \<in> set shown - set (case current of Some xs \<Rightarrow> xs | None \<Rightarrow> [])"
  "(s, RemovedScope) \<in> set (permission_rows True current shown) \<longleftrightarrow> s \<in> set (case current of Some xs \<Rightarrow> xs | None \<Rightarrow> []) - set shown"
  by (auto simp: permission_rows_def Let_def split: option.splits if_splits)

end
