(* ===== verification/Spec_Combobox.thy ===== *)
theory Spec_Combobox
  imports Spec_ApiForm
begin

text \<open>
  \<open>components/ui/combobox.tsx\<close>: the field for several values as a state machine over the keys, the list and the chips, with
  the two fields built on it, for ids and for free values. Options may change from one event to the next.
\<close>

section \<open>State\<close>

record ComboOption =
  co_value :: jstr
  co_label :: jstr

record ComboRow = ComboOption +
  cr_create :: bool

record Combo =
  cb_open :: bool
  cb_query :: jstr
  cb_active :: int
  cb_value :: "jstr list"

text \<open>\<open>cc_lower\<close> is \<open>toLowerCase\<close>.\<close>

record ComboProps =
  cc_creatable :: bool
  cc_normalize :: "jstr \<Rightarrow> jstr"
  cc_lower :: "jstr \<Rightarrow> jstr"
  cc_disabled :: bool

definition combo_start :: "jstr list \<Rightarrow> Combo" where
  "combo_start vs = \<lparr>cb_open = False, cb_query = [], cb_active = 0, cb_value = vs\<rparr>"

section \<open>Rows\<close>

definition typed :: "ComboProps \<Rightarrow> Combo \<Rightarrow> jstr" where
  "typed c s = cc_normalize c (trim (cb_query s))"

definition option_matches :: "ComboProps \<Rightarrow> jstr \<Rightarrow> ComboOption \<Rightarrow> bool" where
  "option_matches c q o' = (q = [] \<or> str_includes (cc_lower c (co_label o')) q \<or> str_includes (cc_lower c (co_value o')) q)"

definition plain_row :: "ComboOption \<Rightarrow> ComboRow" where
  "plain_row o' = \<lparr>co_value = co_value o', co_label = co_label o', cr_create = False\<rparr>"

definition combo_rows :: "ComboProps \<Rightarrow> ComboOption list \<Rightarrow> Combo \<Rightarrow> ComboRow list" where
  "combo_rows c opts s =
     map plain_row (filter (option_matches c (cc_lower c (trim (cb_query s)))) opts) @
     (if cc_creatable c \<and> typed c s \<noteq> [] \<and> typed c s \<notin> set (cb_value s) \<and> typed c s \<notin> set (map co_value opts)
      then [\<lparr>co_value = typed c s, co_label = typed c s, cr_create = True\<rparr>] else [])"

definition activeIndex :: "ComboRow list \<Rightarrow> Combo \<Rightarrow> int" where
  "activeIndex rows s = min (cb_active s) (max (int (length rows) - 1) 0)"

definition activeRow :: "ComboRow list \<Rightarrow> Combo \<Rightarrow> ComboRow option" where
  "activeRow rows s =
     (if cb_open s \<and> 0 \<le> activeIndex rows s \<and> activeIndex rows s < int (length rows) then Some (rows ! nat (activeIndex rows s)) else None)"

section \<open>Events\<close>

datatype ComboEvent = TypeText jstr | ArrowDown | ArrowUp | HomeKey | EndKey | EnterKey | EscapeKey | BackspaceKey
  | ClickRow nat | HoverRow nat | RemoveChip jstr | OpenField | Dismiss

definition toggle_value :: "ComboProps \<Rightarrow> ComboRow \<Rightarrow> Combo \<Rightarrow> Combo" where
  "toggle_value c row s =
     (let s' = s\<lparr>cb_value := (if co_value row \<in> set (cb_value s) then filter (\<lambda>v. v \<noteq> co_value row) (cb_value s)
                             else cb_value s @ [co_value row])\<rparr>
      in if cr_create row \<or> cc_creatable c then s'\<lparr>cb_query := []\<rparr> else s')"

definition remove_value :: "jstr \<Rightarrow> Combo \<Rightarrow> Combo" where
  "remove_value item s = s\<lparr>cb_value := filter (\<lambda>v. v \<noteq> item) (cb_value s)\<rparr>"

definition enter_key :: "ComboProps \<Rightarrow> ComboOption list \<Rightarrow> Combo \<Rightarrow> Combo" where
  "enter_key c opts s = (case activeRow (combo_rows c opts s) s of
       Some row \<Rightarrow> toggle_value c row s
     | None \<Rightarrow> if cc_creatable c \<and> typed c s \<noteq> []
         then s\<lparr>cb_value := (if typed c s \<in> set (cb_value s) then cb_value s else cb_value s @ [typed c s]), cb_query := []\<rparr> else s)"

fun combo_event :: "ComboProps \<Rightarrow> ComboOption list \<Rightarrow> ComboEvent \<Rightarrow> Combo \<Rightarrow> Combo" where
  "combo_event c opts (TypeText t) s = s\<lparr>cb_query := t, cb_active := 0, cb_open := True\<rparr>"
| "combo_event c opts ArrowDown s =
     (if \<not> cb_open s then s\<lparr>cb_open := True\<rparr> else s\<lparr>cb_active := min (cb_active s + 1) (int (length (combo_rows c opts s)) - 1)\<rparr>)"
| "combo_event c opts ArrowUp s = s\<lparr>cb_active := max (cb_active s - 1) 0\<rparr>"
| "combo_event c opts HomeKey s = (if cb_open s then s\<lparr>cb_active := 0\<rparr> else s)"
| "combo_event c opts EndKey s = (if cb_open s then s\<lparr>cb_active := int (length (combo_rows c opts s)) - 1\<rparr> else s)"
| "combo_event c opts EnterKey s = enter_key c opts s"
| "combo_event c opts EscapeKey s = s\<lparr>cb_open := False\<rparr>"
| "combo_event c opts BackspaceKey s = (if cb_query s = [] \<and> cb_value s \<noteq> [] then remove_value (last (cb_value s)) s else s)"
| "combo_event c opts (ClickRow i) s =
     (if cb_open s \<and> i < length (combo_rows c opts s) then toggle_value c (combo_rows c opts s ! i) s else s)"
| "combo_event c opts (HoverRow i) s = s\<lparr>cb_active := int i\<rparr>"
| "combo_event c opts (RemoveChip v) s = (if v \<in> set (cb_value s) then (remove_value v s)\<lparr>cb_open := True\<rparr> else s)"
| "combo_event c opts OpenField s = s\<lparr>cb_open := True\<rparr>"
| "combo_event c opts Dismiss s = s\<lparr>cb_open := False\<rparr>"

definition combo_step :: "ComboProps \<Rightarrow> ComboOption list \<times> ComboEvent \<Rightarrow> Combo \<Rightarrow> Combo" where
  "combo_step c oe s = (if cc_disabled c then s else combo_event c (fst oe) (snd oe) s)"

definition combo_run :: "ComboProps \<Rightarrow> jstr list \<Rightarrow> (ComboOption list \<times> ComboEvent) list \<Rightarrow> Combo" where
  "combo_run c vs es = fold (combo_step c) es (combo_start vs)"

section \<open>The values\<close>

definition combo_source :: "ComboProps \<Rightarrow> jstr list \<Rightarrow> ComboOption list \<Rightarrow> jstr \<Rightarrow> bool" where
  "combo_source c vs opts v \<longleftrightarrow> v \<in> set vs \<or> v \<in> co_value ` set opts \<or>
     (cc_creatable c \<and> v \<noteq> [] \<and> (\<exists>q. v = cc_normalize c (trim q)))"

definition combo_ok :: "ComboProps \<Rightarrow> jstr list \<Rightarrow> ComboOption list \<Rightarrow> Combo \<Rightarrow> bool" where
  "combo_ok c vs opts s \<longleftrightarrow> distinct (cb_value s) \<and> (\<forall>v\<in>set (cb_value s). combo_source c vs opts v)"

lemma combo_source_mono: "combo_source c vs opts v \<Longrightarrow> set opts \<subseteq> set opts' \<Longrightarrow> combo_source c vs opts' v"
  unfolding combo_source_def by blast

lemma combo_row_source: "row \<in> set (combo_rows c opts s) \<Longrightarrow> combo_source c vs opts (co_value row)"
  by (auto simp: combo_rows_def combo_source_def plain_row_def typed_def split: if_splits)

lemma combo_ok_toggle: "combo_ok c vs opts s \<Longrightarrow> combo_source c vs opts (co_value row) \<Longrightarrow> combo_ok c vs opts (toggle_value c row s)"
  by (auto simp: combo_ok_def toggle_value_def Let_def)

lemma combo_ok_remove: "combo_ok c vs opts s \<Longrightarrow> combo_ok c vs opts (remove_value v s)"
  by (auto simp: combo_ok_def remove_value_def)

lemma combo_ok_fields:
  "combo_ok c vs opts (s\<lparr>cb_query := q\<rparr>) = combo_ok c vs opts s" "combo_ok c vs opts (s\<lparr>cb_active := i\<rparr>) = combo_ok c vs opts s"
  "combo_ok c vs opts (s\<lparr>cb_open := b\<rparr>) = combo_ok c vs opts s"
  by (simp_all add: combo_ok_def)

lemma active_row_listed: "activeRow rows s = Some row \<Longrightarrow> row \<in> set rows"
  by (auto simp: activeRow_def split: if_splits)

lemma combo_ok_enter:
  assumes "combo_ok c vs opts s" "set now \<subseteq> set opts"
  shows "combo_ok c vs opts (enter_key c now s)"
proof (cases "activeRow (combo_rows c now s) s")
  case None
  have "cc_creatable c \<Longrightarrow> typed c s \<noteq> [] \<Longrightarrow> combo_source c vs opts (typed c s)" by (auto simp: combo_source_def typed_def)
  then show ?thesis using assms(1) None by (auto simp: enter_key_def combo_ok_def)
next
  case (Some row)
  have "combo_source c vs opts (co_value row)"
    by (rule combo_source_mono [OF combo_row_source [OF active_row_listed [OF Some]] assms(2)])
  then show ?thesis using combo_ok_toggle [OF assms(1)] Some by (simp add: enter_key_def)
qed

lemma combo_ok_step:
  assumes "combo_ok c vs opts s" "set now \<subseteq> set opts"
  shows "combo_ok c vs opts (combo_step c (now, e) s)"
proof -
  have "combo_ok c vs opts (toggle_value c (combo_rows c now s ! i) s)" if "i < length (combo_rows c now s)" for i
    by (rule combo_ok_toggle [OF assms(1) combo_source_mono [OF combo_row_source [OF nth_mem [OF that]] assms(2)]])
  then show ?thesis using assms combo_ok_remove [OF assms(1)] combo_ok_enter [OF assms]
    by (cases e) (auto simp: combo_step_def combo_ok_fields)
qed

lemma combo_run_ok:
  assumes "distinct vs"
  shows "combo_ok c vs (concat (map fst es)) (combo_run c vs es)"
proof -
  have run: "combo_ok c vs opts s \<Longrightarrow> set (concat (map fst es)) \<subseteq> set opts \<Longrightarrow> combo_ok c vs opts (fold (combo_step c) es s)" for opts s
  proof (induction es arbitrary: s)
    case (Cons oe es)
    obtain now e where oe: "oe = (now, e)" by (cases oe)
    have "combo_ok c vs opts (combo_step c oe s)" using combo_ok_step [OF Cons.prems(1), of now e] Cons.prems(2) by (simp add: oe)
    then show ?case using Cons.IH Cons.prems(2) by simp
  qed simp
  have "combo_ok c vs (concat (map fst es)) (combo_start vs)" using assms by (simp add: combo_ok_def combo_start_def combo_source_def)
  from run [OF this subset_refl] show ?thesis by (simp add: combo_run_def)
qed


definition tag_field :: ComboProps where
  "tag_field = \<lparr>cc_creatable = True, cc_normalize = map lower_unit, cc_lower = map lower_unit, cc_disabled = False\<rparr>"

definition tag_events :: "(ComboOption list \<times> ComboEvent) list" where
  "tag_events = map (\<lambda>e. ([\<lparr>co_value = js ''billing'', co_label = js ''Billing''\<rparr>], e))
     [TypeText (js ''bil''), EnterKey, TypeText (js '' New Tag ''), EnterKey, TypeText (js ''old''), EnterKey]"


section \<open>The fields built on it\<close>

definition select_options :: "(int \<times> jstr) list \<Rightarrow> ComboOption list" where
  "select_options opts = map (\<lambda>(n, l). \<lparr>co_value = int_str n, co_label = l\<rparr>) opts"

definition select_change :: "jstr list \<Rightarrow> jnum list" where
  "select_change vs = map to_number vs"

definition chip_options :: "(jstr \<Rightarrow> jstr) option \<Rightarrow> jstr list \<Rightarrow> jstr list \<Rightarrow> ComboOption list" where
  "chip_options nf suggestions vs = map (\<lambda>s. \<lparr>co_value = s, co_label = s\<rparr>)
     (filter (\<lambda>s. s \<notin> set vs) (uniq (map (case nf of Some f \<Rightarrow> f | None \<Rightarrow> id) suggestions)))"

text \<open>The ids that the field reports are ids it was given or offered.\<close>

definition id_range :: "int set" where
  "id_range = {n. 0 \<le> n \<and> n < 10 ^ 15}"

lemma id_read: "n \<in> id_range \<Longrightarrow> to_number (int_str n) = num_of_int n"
  using to_number_nat [of "nat n"] by (simp add: id_range_def int_str_def num_of_int_def nat_less_iff)

lemma id_text_inj:
  assumes "m \<in> id_range" "n \<in> id_range" "int_str m = int_str n"
  shows "m = n"
proof -
  have "num_of_int m = num_of_int n" unfolding id_read [OF assms(1), symmetric] id_read [OF assms(2), symmetric] assms(3) ..
  then show ?thesis by (simp add: num_of_int_def)
qed

lemma select_texts:
  "set vs \<subseteq> int_str ` A \<Longrightarrow> A \<subseteq> id_range \<Longrightarrow> distinct vs \<Longrightarrow>
   \<exists>ns. select_change vs = map num_of_int ns \<and> distinct ns \<and> set ns \<subseteq> A \<and> vs = map int_str ns"
proof (induction vs)
  case (Cons v vs)
  then obtain ns where ns: "select_change vs = map num_of_int ns" "distinct ns" "set ns \<subseteq> A" "vs = map int_str ns" by auto
  from Cons.prems(1) obtain n where n: "n \<in> A" "v = int_str n" by auto
  have "n \<notin> set ns" using Cons.prems(3) n(2) ns(4) by auto
  moreover have "to_number v = num_of_int n" using id_read n Cons.prems(2) by blast
  ultimately show ?case using ns n by (intro exI [of _ "n # ns"]) (simp add: select_change_def)
qed (simp add: select_change_def)

lemma selected_ids_are_known:
  assumes "distinct ids" "\<not> cc_creatable c" "set ids \<union> fst ` set opts \<subseteq> id_range"
    "\<forall>oe\<in>set es. fst oe = select_options opts"
  shows "\<exists>ns. select_change (cb_value (combo_run c (map int_str ids) es)) = map num_of_int ns \<and> distinct ns \<and> set ns \<subseteq> set ids \<union> fst ` set opts"
proof -
  let ?s = "combo_run c (map int_str ids) es"
  have "inj_on int_str (set ids)" using assms(3) id_text_inj by (intro inj_onI) blast
  then have "distinct (map int_str ids)" using assms(1) by (simp add: distinct_map)
  from combo_run_ok [OF this, of c es] assms(2)
  have v: "distinct (cb_value ?s)" "\<And>v. v \<in> set (cb_value ?s) \<Longrightarrow> v \<in> int_str ` set ids \<or> v \<in> co_value ` set (concat (map fst es))"
    by (auto simp: combo_ok_def combo_source_def)
  have "co_value ` set (concat (map fst es)) \<subseteq> int_str ` fst ` set opts"
  proof
    fix x assume "x \<in> co_value ` set (concat (map fst es))"
    then obtain oe o' where o: "oe \<in> set es" "o' \<in> set (fst oe)" "x = co_value o'" by auto
    then have "o' \<in> set (select_options opts)" using assms(4) by metis
    then obtain n l where "(n, l) \<in> set opts" "o' = \<lparr>co_value = int_str n, co_label = l\<rparr>" unfolding select_options_def by auto
    then have "x = int_str (fst (n, l))" "(n, l) \<in> set opts" using o(3) by simp_all
    then show "x \<in> int_str ` fst ` set opts" by blast
  qed
  then have "x \<in> int_str ` set ids \<union> int_str ` fst ` set opts" if "x \<in> set (cb_value ?s)" for x using v(2) [OF that] by (meson UnI1 UnI2 subsetD)
  then have "set (cb_value ?s) \<subseteq> int_str ` (set ids \<union> fst ` set opts)" unfolding image_Un by (rule subsetI)
  from select_texts [OF this assms(3) v(1)] show ?thesis by blast
qed

end
