(* ===== verification/Spec_Sections.thy ===== *)
theory Spec_Sections
  imports Spec_Users Spec_Audit Spec_Admin Spec_Common Spec_Sign_In Spec_Shortcuts Spec_Palette Spec_ApiForm
begin

text \<open>
  The lists of the console and the frame around the pages: \<open>pages/admin/UsersSection.tsx\<close>, \<open>ApisSection.tsx\<close>,
  \<open>GroupsSection.tsx\<close>, \<open>RolesSection.tsx\<close>, \<open>SessionsSection.tsx\<close>, \<open>OverviewSection.tsx\<close> and
  \<open>components/shell/AppShell.tsx\<close>. \<open>lo\<close> is \<open>toLowerCase\<close>.
\<close>

section \<open>Users\<close>

record UserFilter =
  uf_search :: jstr
  uf_source :: jstr
  uf_status :: jstr
  uf_group :: "jnum option"

definition param_text :: "string \<Rightarrow> (jstr \<times> jstr) list \<Rightarrow> jstr" where
  "param_text k ps = (case params_get (js k) ps of Some v \<Rightarrow> v | None \<Rightarrow> [])"

text \<open>\<open>Number(x) || 0\<close>: no group where the number is zero or none; an absent parameter reads as zero.\<close>

definition group_filter :: "(jstr \<times> jstr) list \<Rightarrow> jnum option" where
  "group_filter ps = (case params_get (js ''group'') ps of None \<Rightarrow> None
     | Some v \<Rightarrow> let n = to_number v in if n = Fin 0 \<or> n = NaN then None else Some n)"

definition user_filter :: "(jstr \<times> jstr) list \<Rightarrow> UserFilter" where
  "user_filter ps = \<lparr>uf_search = param_text ''q'' ps, uf_source = param_text ''source'' ps, uf_status = param_text ''status'' ps,
     uf_group = group_filter ps\<rparr>"

definition set_user_filter :: "jstr \<Rightarrow> jstr \<Rightarrow> (jstr \<times> jstr) list \<Rightarrow> (jstr \<times> jstr) list" where
  "set_user_filter k v ps = (if v \<noteq> [] then params_set k v ps else params_delete k ps)"

definition users_listed :: "(jstr \<Rightarrow> jstr) \<Rightarrow> User list option \<Rightarrow> (jstr \<times> jstr) list \<Rightarrow> User list" where
  "users_listed lo users ps =
     (let f = user_filter ps
      in filter (\<lambda>u. case uf_group f of None \<Rightarrow> True | Some n \<Rightarrow> n \<in> num_of_int ` set (group_ids u))
           (user_rows lo (case users of Some us \<Rightarrow> us | None \<Rightarrow> []) (uf_search f) (uf_source f) (uf_status f) 0))"

definition users_filtered :: "UserFilter \<Rightarrow> bool" where
  "users_filtered f = (uf_search f \<noteq> [] \<or> uf_source f \<noteq> [] \<or> uf_status f \<noteq> [] \<or> uf_group f \<noteq> None)"

definition selected_users :: "User list option \<Rightarrow> jstr list \<Rightarrow> User list" where
  "selected_users users selected = filter (\<lambda>u. int_str (u_id u) \<in> set selected) (case users of Some us \<Rightarrow> us | None \<Rightarrow> [])"

text \<open>What a link opens with the page, for who may manage users.\<close>

definition opens_new_user :: "bool \<Rightarrow> (jstr \<times> jstr) list \<Rightarrow> bool" where
  "opens_new_user canManage ps = (param_text ''new'' ps \<noteq> [] \<and> canManage)"

definition opens_import :: "bool \<Rightarrow> (jstr \<times> jstr) list \<Rightarrow> bool" where
  "opens_import canManage ps = (params_get (js ''import'') ps = Some (js ''ldap'') \<and> canManage)"

section \<open>API definitions\<close>

record ApisPage =
  ax_params :: "(jstr \<times> jstr) list"
  ax_creating :: bool
  ax_editing :: "ApiDefinition option"
  ax_openedEdit :: jnum
  ax_apis :: "ApiDefinition list option"

definition edit_id :: "(jstr \<times> jstr) list \<Rightarrow> jnum" where
  "edit_id ps = (case params_get (js ''edit'') ps of Some v \<Rightarrow> to_number v | None \<Rightarrow> Fin 0)"

definition apis_open :: "bool \<Rightarrow> (jstr \<times> jstr) list \<Rightarrow> ApiDefinition list option \<Rightarrow> ApisPage" where
  "apis_open canCreate ps apis = \<lparr>ax_params = ps, ax_creating = (param_text ''new'' ps \<noteq> [] \<and> canCreate),
     ax_editing = None, ax_openedEdit = Fin 0, ax_apis = apis\<rparr>"

text \<open>The adjustment during a render, and the effect after it.\<close>

definition apis_render :: "ApisPage \<Rightarrow> ApisPage" where
  "apis_render s = (case ax_apis s of None \<Rightarrow> s
     | Some apis \<Rightarrow> let n = edit_id (ax_params s) in
         if n \<noteq> Fin 0 \<and> n \<noteq> NaN \<and> n \<noteq> ax_openedEdit s
         then s\<lparr>ax_openedEdit := n,
           ax_editing := (case find (\<lambda>a. num_of_int (ad_id a) = n) apis of Some a \<Rightarrow> Some a | None \<Rightarrow> ax_editing s)\<rparr>
         else s)"

definition apis_effect :: "ApisPage \<Rightarrow> ApisPage" where
  "apis_effect s =
     (let ps = ax_params s; rest = params_delete (js ''new'') ps
      in if params_get (js ''new'') ps = None \<and> params_get (js ''edit'') ps = None then s
         else s\<lparr>ax_params := (if ax_apis s \<noteq> None then params_delete (js ''edit'') rest else rest)\<rparr>)"

definition apis_show :: "ApisPage \<Rightarrow> ApisPage" where
  "apis_show s = apis_effect (apis_render s)"

definition apis_arrive :: "ApiDefinition list \<Rightarrow> ApisPage \<Rightarrow> ApisPage" where
  "apis_arrive apis s = s\<lparr>ax_apis := Some apis\<rparr>"

definition api_rows :: "(jstr \<Rightarrow> jstr) \<Rightarrow> jstr \<Rightarrow> ApiDefinition list option \<Rightarrow> ApiDefinition list" where
  "api_rows lo search apis = filter (\<lambda>a. matches lo search ([Some (ad_name a), Some (ad_slug a), Some (ad_ownerTeam a)] @ map Some (ad_tags a)))
     (case apis of Some xs \<Rightarrow> xs | None \<Rightarrow> [])"

datatype SpecCellView = NeverRefreshed | SpecFailed | SpecOperations "int option"

definition spec_cell :: "ApiDefinition \<Rightarrow> SpecCellView" where
  "spec_cell a =
     (let failed = (case ad_lastSpecStatus a of Some s \<Rightarrow> s \<noteq> [] \<and> starts_with (map lower_unit s) (js ''error'') | None \<Rightarrow> False);
          refreshed = (case ad_lastSpecRefreshAt a of Some s \<Rightarrow> s \<noteq> [] | None \<Rightarrow> False)
      in if \<not> refreshed \<and> \<not> failed then NeverRefreshed else if failed then SpecFailed else SpecOperations (ad_operationCount a))"

section \<open>Groups, roles and sessions\<close>

definition group_list :: "(jstr \<Rightarrow> jstr) \<Rightarrow> jstr \<Rightarrow> Group list \<Rightarrow> Group list" where
  "group_list lo search = filter (\<lambda>g. matches lo search [Some (g_name g), Some (g_description g)])"

definition session_list :: "(jstr \<Rightarrow> jstr) \<Rightarrow> jstr \<Rightarrow> Session list \<Rightarrow> Session list" where
  "session_list lo search = filter (\<lambda>s. matches lo search [se_username s, Some (se_ip s), Some (se_authSource s)])"

text \<open>Names from a map; three of them are shown, and how many more there are.\<close>

definition names_of :: "(int \<times> jstr) list \<Rightarrow> int list option \<Rightarrow> jstr list" where
  "names_of names ids = map (\<lambda>n. case map_of (rev names) n of Some s \<Rightarrow> s | None \<Rightarrow> js ''#'' @ int_str n)
     (case ids of Some ns \<Rightarrow> ns | None \<Rightarrow> [])"

definition name_badges :: "jstr list \<Rightarrow> jstr list \<times> nat" where
  "name_badges ns = (take 3 ns, length ns - 3)"

section \<open>The overview\<close>

definition invoke_total :: "Activity \<Rightarrow> int" where
  "invoke_total a = (let n = (\<lambda>k. case map_of (av_invokes a) k of Some i \<Rightarrow> i | None \<Rightarrow> 0) in n Outcome.Succeeded + n Outcome.Denied + n Outcome.Failed)"

definition overview_links :: "AdminOverview \<Rightarrow> jstr list" where
  "overview_links o' =
     (if ao_apis o' \<noteq> None then [js ''/admin/apis''] else []) @ (if ao_users o' \<noteq> None then [js ''/admin/users''] else []) @
     (if ao_activeSessions o' \<noteq> None then [js ''/admin/sessions''] else []) @
     (if ao_activity o' \<noteq> None then [js ''/admin/audit?range=24h&action=api.invoke'', js ''/admin/audit?range=24h&outcome=denied''] else [])"

definition attention_link :: "AttentionItem \<Rightarrow> jstr option" where
  "attention_link i = (if ai_kind i = LdapSkipVerify then Some (js ''/admin/identity?tab=ldap'')
     else case ai_apiId i of Some n \<Rightarrow> if n \<noteq> 0 then Some (js ''/admin/apis?edit='' @ int_str n) else None | None \<Rightarrow> None)"

section \<open>The frame\<close>

definition PANEL_KEY :: jstr where
  "PANEL_KEY = js ''portal.panelCollapsed''"

definition panel_collapsed :: "Storage \<Rightarrow> bool" where
  "panel_collapsed st = (readPref PANEL_KEY st = Some (js ''1''))"

definition toggleCollapsed :: "bool \<Rightarrow> Storage \<Rightarrow> bool \<times> Storage" where
  "toggleCollapsed prev st = (\<not> prev, writePref PANEL_KEY (if prev then js ''0'' else js ''1'') st)"

definition registerPanel :: "jstr \<Rightarrow> jstr \<Rightarrow> (jstr \<times> jstr) list \<Rightarrow> (jstr \<times> jstr) list" where
  "registerPanel i title panels = filter (\<lambda>p. fst p \<noteq> i) panels @ [(i, title)]"

definition unregisterPanel :: "jstr \<Rightarrow> (jstr \<times> jstr) list \<Rightarrow> (jstr \<times> jstr) list" where
  "unregisterPanel i = filter (\<lambda>p. fst p \<noteq> i)"

definition shown_panel :: "(jstr \<times> jstr) list \<Rightarrow> (jstr \<times> jstr) option" where
  "shown_panel panels = (if panels = [] then None else Some (last panels))"

definition shell_nav :: "bool \<Rightarrow> jstr list \<Rightarrow> jstr list" where
  "shell_nav restricted sections =
     (if restricted then [] else js ''/'' # (if sections \<noteq> [] then [js ''/admin''] else []))"

definition shell_warnings :: "MeResponse option \<Rightarrow> jstr list" where
  "shell_warnings me = (case me of Some m \<Rightarrow> if u_isAdmin (me_user m) then (case me_warnings m of Some ws \<Rightarrow> ws | None \<Rightarrow> []) else [] | None \<Rightarrow> [])"

definition shell_shortcuts :: "Shortcut list" where
  "shell_shortcuts = map (\<lambda>(n, k, md, dlg). \<lparr>sc_ref = n, sc_keys = js k, sc_mod = md, sc_shift = None, sc_inDialog = dlg\<rparr>)
     [(0, ''k'', True, True), (1, ''?'', False, False), (2, ''/'', False, False), (3, ''g c'', False, False), (4, ''g a'', False, False),
      (5, ''['', False, True), (6, '']'', False, True), (7, ''j'', False, False), (8, ''k'', False, False), (9, ''n'', False, False),
      (10, ''p'', False, False), (11, ''f'', False, False)]"

section \<open>What the lists show\<close>

lemma user_filter_set:
  "user_filter (set_user_filter (js ''q'') v ps) = (user_filter ps)\<lparr>uf_search := v\<rparr>"
  "user_filter (set_user_filter (js ''source'') v ps) = (user_filter ps)\<lparr>uf_source := v\<rparr>"
  "user_filter (set_user_filter (js ''status'') v ps) = (user_filter ps)\<lparr>uf_status := v\<rparr>"
proof -
  have d: "distinct (map js [''q'', ''source'', ''status'', ''group''])" by code_simp
  show "user_filter (set_user_filter (js ''q'') v ps) = (user_filter ps)\<lparr>uf_search := v\<rparr>"
    "user_filter (set_user_filter (js ''source'') v ps) = (user_filter ps)\<lparr>uf_source := v\<rparr>"
    "user_filter (set_user_filter (js ''status'') v ps) = (user_filter ps)\<lparr>uf_status := v\<rparr>"
    using d by (auto simp: user_filter_def set_user_filter_def param_text_def group_filter_def params_get_set params_get_delete)
qed

text \<open>A status that is none of the four shows nobody.\<close>

lemma unknown_status_shows_nobody:
  assumes "uf_status (user_filter ps) \<notin> set (map js ['''', ''active'', ''inactive'', ''admins'', ''mustChange''])"
  shows "users_listed lo users ps = []"
  using assms by (auto simp: users_listed_def user_rows_def user_status_def filter_empty_conv js_def Let_def)

text \<open>The overview's links lead to the audit log with the filter that they count.\<close>

lemma overview_links_filter_audit:
  "filterFromParams iso_time now (search_params (js ''?range=24h&action=api.invoke'')) = Inr
     \<lparr>af_from = Some (iso_time ((now - 86400000) div 60000 * 60000)), af_to = None, af_user = None, af_action = Some (js ''api.invoke''),
      af_outcome = None, af_targetType = None, af_targetId = None, af_apiId = None\<rparr>"
  "filterFromParams iso_time now (search_params (js ''?range=24h&outcome=denied'')) = Inr
     \<lparr>af_from = Some (iso_time ((now - 86400000) div 60000 * 60000)), af_to = None, af_user = None, af_action = None,
      af_outcome = Some (js ''denied''), af_targetType = None, af_targetId = None, af_apiId = None\<rparr>"
proof -
  have p: "search_params (js ''?range=24h&action=api.invoke'') = [(js ''range'', js ''24h''), (js ''action'', js ''api.invoke'')]"
    "search_params (js ''?range=24h&outcome=denied'') = [(js ''range'', js ''24h''), (js ''outcome'', js ''denied'')]" by code_simp+
  have o: "own PRESET_MS (js ''24h'') = JNum (Fin 86400000)" by code_simp
  have t: "truthy (JNum (Fin 86400000))" "js ''24h'' \<noteq> []" by code_simp+
  have d: "distinct (map js [''range'', ''from'', ''to'', ''user'', ''action'', ''outcome'', ''targetType'', ''targetId''])" by code_simp
  show "filterFromParams iso_time now (search_params (js ''?range=24h&action=api.invoke'')) = Inr
     \<lparr>af_from = Some (iso_time ((now - 86400000) div 60000 * 60000)), af_to = None, af_user = None, af_action = Some (js ''api.invoke''),
      af_outcome = None, af_targetType = None, af_targetId = None, af_apiId = None\<rparr>"
    "filterFromParams iso_time now (search_params (js ''?range=24h&outcome=denied'')) = Inr
     \<lparr>af_from = Some (iso_time ((now - 86400000) div 60000 * 60000)), af_to = None, af_user = None, af_action = None,
      af_outcome = Some (js ''denied''), af_targetType = None, af_targetId = None, af_apiId = None\<rparr>"
    unfolding p using d t by (auto simp: filterFromParams_def params_get_def o preset_from_def before_now_def Let_def)
qed

section \<open>A link to an API's definition\<close>

lemma apis_show_waits: "ax_apis s = None \<Longrightarrow> apis_show s = s\<lparr>ax_params := params_delete (js ''new'') (ax_params s)\<rparr> \<or> apis_show s = s"
  by (auto simp: apis_show_def apis_render_def apis_effect_def Let_def)

text \<open>While the list is on its way the page keeps the link and opens nothing.\<close>

lemma apis_wait:
  assumes "ax_apis s = None"
  shows "ax_apis ((apis_show ^^ k) s) = None \<and> ax_editing ((apis_show ^^ k) s) = ax_editing s \<and>
    ax_openedEdit ((apis_show ^^ k) s) = ax_openedEdit s \<and> ax_creating ((apis_show ^^ k) s) = ax_creating s \<and>
    (\<forall>j. j \<noteq> js ''new'' \<longrightarrow> params_all j (ax_params ((apis_show ^^ k) s)) = params_all j (ax_params s) \<and>
       params_get j (ax_params ((apis_show ^^ k) s)) = params_get j (ax_params s))"
proof (induction k)
  case (Suc k)
  let ?t = "(apis_show ^^ k) s"
  have n: "ax_apis ?t = None" using Suc.IH by blast
  show ?case using apis_show_waits [OF n] Suc.IH by (auto simp: params_all_delete params_get_delete)
qed (simp add: assms)

lemma number_of_id: "0 < n \<Longrightarrow> n < 10 ^ 15 \<Longrightarrow> to_number (int_str n) = num_of_int n"
  using to_number_nat [of "nat n"] by (simp add: int_str_def num_of_int_def nat_less_iff)

text \<open>C19: a link to an API's definition opens it: however often the page is shown before the list of APIs arrives, it opens that
  API when the list is there, once, and takes the link, and that for a new API, out of the address, and nothing else.\<close>

theorem edit_link_opens_api:
  assumes "params_get (js ''edit'') ps = Some (int_str (ad_id a))" "0 < ad_id a" "ad_id a < 10 ^ 15" "a \<in> set apis" "distinct (map ad_id apis)"
    "s = apis_show (apis_arrive apis ((apis_show ^^ k) (apis_open canCreate ps None)))"
  shows "ax_editing s = Some a \<and> params_get (js ''edit'') (ax_params s) = None \<and> params_get (js ''new'') (ax_params s) = None \<and>
    (\<forall>j. j \<noteq> js ''edit'' \<and> j \<noteq> js ''new'' \<longrightarrow> params_all j (ax_params s) = params_all j ps) \<and>
    (ax_creating s \<longleftrightarrow> param_text ''new'' ps \<noteq> [] \<and> canCreate) \<and> apis_show s = s"
proof -
  define w where "w = (apis_show ^^ k) (apis_open canCreate ps None)"
  have d: "js ''edit'' \<noteq> js ''new''" by code_simp
  have "ax_apis (apis_open canCreate ps None) = None" by (simp add: apis_open_def)
  from apis_wait [OF this, of k]
  have w: "ax_apis w = None" "ax_openedEdit w = Fin 0" "ax_creating w \<longleftrightarrow> param_text ''new'' ps \<noteq> [] \<and> canCreate"
    "\<And>j. j \<noteq> js ''new'' \<Longrightarrow> params_all j (ax_params w) = params_all j ps"
    "\<And>j. j \<noteq> js ''new'' \<Longrightarrow> params_get j (ax_params w) = params_get j ps"
    by (simp_all add: w_def apis_open_def)
  have link: "params_get (js ''edit'') (ax_params w) = Some (int_str (ad_id a))"
    using w(5) assms(1) d by simp
  have n: "edit_id (ax_params w) = num_of_int (ad_id a)" using link number_of_id assms(2,3) by (simp add: edit_id_def)
  have ne: "num_of_int (ad_id a) \<noteq> Fin 0" "num_of_int (ad_id a) \<noteq> NaN" using assms(2) by (simp_all add: num_of_int_def)
  have f: "find (\<lambda>b. num_of_int (ad_id b) = num_of_int (ad_id a)) apis = Some a"
    using assms(4,5) by (induction apis) (auto simp: num_of_int_def)
  have r: "apis_render (apis_arrive apis w) = (apis_arrive apis w)\<lparr>ax_openedEdit := num_of_int (ad_id a), ax_editing := Some a\<rparr>"
    using w(2) n ne by (simp add: apis_render_def apis_arrive_def Let_def f)
  have s: "s = w\<lparr>ax_apis := Some apis, ax_openedEdit := num_of_int (ad_id a), ax_editing := Some a,
      ax_params := params_delete (js ''edit'') (params_delete (js ''new'') (ax_params w))\<rparr>"
    using link unfolding assms(6) w_def [symmetric] apis_show_def [of "apis_arrive apis w"] r by (simp add: apis_effect_def apis_arrive_def Let_def)
  have gone: "params_get (js ''edit'') (ax_params s) = None" "params_get (js ''new'') (ax_params s) = None"
    by (simp_all add: s params_get_delete)
  have "edit_id (ax_params s) = Fin 0" using gone by (simp add: edit_id_def)
  then have "apis_show s = s" using gone by (simp add: apis_show_def apis_render_def apis_effect_def Let_def split: option.splits)
  moreover have "\<forall>j. j \<noteq> js ''edit'' \<and> j \<noteq> js ''new'' \<longrightarrow> params_all j (ax_params s) = params_all j ps"
    using w(4) by (simp add: s params_all_delete)
  ultimately show ?thesis using gone w(3) by (simp add: s)
qed

lemma edit_link_opens_api_witness:
  "params_get (js ''edit'') [(js ''new'', js ''1''), (js ''edit'', js ''3'')] = Some (int_str (ad_id example_definition)) \<and>
   ax_editing (apis_show (apis_arrive [example_definition]
     ((apis_show ^^ 2) (apis_open True [(js ''new'', js ''1''), (js ''edit'', js ''3'')] None)))) = Some example_definition"
proof -
  have i: "ad_id example_definition = 3" by (simp add: example_definition_def)
  have e: "params_get (js ''edit'') [(js ''new'', js ''1''), (js ''edit'', js ''3'')] = Some (int_str (ad_id example_definition))"
    unfolding i by code_simp
  from edit_link_opens_api [OF e _ _ _ _ refl, of "[example_definition]" 2 True] show ?thesis using e by (simp add: i)
qed

section \<open>Panels and keys\<close>

lemma panels_distinct:
  "distinct (map fst ps) \<Longrightarrow> distinct (map fst (registerPanel i t ps))" "distinct (map fst ps) \<Longrightarrow> distinct (map fst (unregisterPanel i ps))"
  by (auto simp: registerPanel_def unregisterPanel_def distinct_map_filter)

lemma panel_shown:
  "shown_panel (registerPanel i t ps) = Some (i, t)"
  "shown_panel (unregisterPanel i (registerPanel i t ps)) = shown_panel (unregisterPanel i ps)"
  by (simp_all add: shown_panel_def registerPanel_def unregisterPanel_def)

lemma shell_keys_distinct: "distinct (map (\<lambda>s. (sc_keys s, sc_mod s)) shell_shortcuts)"
  by code_simp

lemma shell_nav_admin: "js ''/admin'' \<in> set (shell_nav restricted sections) \<longleftrightarrow> \<not> restricted \<and> sections \<noteq> []"
proof -
  have "js ''/admin'' \<noteq> js ''/''" by code_simp
  then show ?thesis by (simp add: shell_nav_def)
qed

end
