(* ===== verification/Spec_Schema_Tree.thy ===== *)
theory Spec_Schema_Tree
  imports Spec_Schema
begin

text \<open>
  \<open>components/api/SchemaTree.tsx\<close> and \<open>JsonTree.tsx\<close>: a schema and a JSON value as nested, expandable lists.
  \<open>st\<close> is the call stack that is left for the labels and merges of one component. The components of a schema's tree
  are not calls of each other; the number of nested ones that have been rendered is an argument of its own, and
  \<open>Unrendered\<close> stands for what is deeper. A row is open at first on the first level only; \<open>toggled\<close> tells which rows,
  by their path, have changed from that.
\<close>

section \<open>The tree of a schema\<close>

definition MAX_TREE_DEPTH :: nat where
  "MAX_TREE_DEPTH = 10"

record Kids =
  kd_schema :: jval
  kd_required :: "jval list"
  kd_properties :: jval
  kd_variants :: jval

definition or_object :: "jval \<Rightarrow> jval" where
  "or_object v = (if nullish v then JObj Fresh [] else v)"

definition kids_of :: "jval \<Rightarrow> Kids jsr" where
  "kids_of s = ebind (required_of s) (\<lambda>req. ebind (jget s (js ''properties'')) (\<lambda>props.
     Inr \<lparr>kd_schema = s, kd_required = req, kd_properties = or_object props,
       kd_variants = coalesce (jget_opt s (js ''oneOf'')) (jget_opt s (js ''anyOf''))\<rparr>))"

definition children :: "nat \<Rightarrow> jval \<Rightarrow> jval \<Rightarrow> Kids jsr" where
  "children st spec raw = ebind (mergeAllOf st spec raw) (\<lambda>schema.
     if js ''array'' \<in> set (schemaTypes schema)
     then ebind (mergeAllOf st spec (or_object (jget_opt schema (js ''items'')))) kids_of
     else kids_of schema)"

text \<open>Properties that the mode hides are left out.\<close>

definition shown_entries :: "jval \<Rightarrow> ExampleMode \<Rightarrow> jval \<Rightarrow> (jstr \<times> jval) list jsr" where
  "shown_entries spec mode props = ebind (entries props) (\<lambda>es.
     ebind (emap (\<lambda>(k, p). ebind (resolveRef spec p) (\<lambda>r. Inr (\<not> hidden mode r, k, p))) es) (\<lambda>ms.
       Inr (map snd (filter fst ms))))"

subsection \<open>A row\<close>

definition row_ref :: "jval \<Rightarrow> jval \<Rightarrow> jstr option jsr" where
  "row_ref spec prop = (case refName prop of Some r \<Rightarrow> Inr (Some r)
     | None \<Rightarrow> ebind (resolveRef spec prop) (\<lambda>r. Inr (refName (jget_opt r (js ''items'')))))"

definition circular :: "jstr option \<Rightarrow> jstr list \<Rightarrow> bool" where
  "circular ref ancestors = (case ref of Some r \<Rightarrow> r \<noteq> [] \<and> r \<in> set ancestors | None \<Rightarrow> False)"

definition entry_count :: "jval \<Rightarrow> nat" where
  "entry_count v = (case entries v of Inr es \<Rightarrow> length es | Inl _ \<Rightarrow> 0)"

definition expandable :: "bool \<Rightarrow> nat \<Rightarrow> Kids \<Rightarrow> bool" where
  "expandable circ depth nested \<longleftrightarrow> \<not> circ \<and> depth < MAX_TREE_DEPTH \<and> (0 < entry_count (kd_properties nested) \<or> is_array (kd_variants nested))"

text \<open>One part of the line of constraints: the text of a value that is given. \<open>default_text\<close> is the translated word.\<close>

definition given_part :: "bool \<Rightarrow> jstr \<Rightarrow> jval \<Rightarrow> jstr list jsr" where
  "given_part given pre v = (if given then ebind (to_str v) (\<lambda>s. Inr [pre @ s]) else Inr [])"

definition constraints :: "jstr \<Rightarrow> jval \<Rightarrow> jstr list jsr" where
  "constraints default_text s =
     (let g = (\<lambda>k. jget_opt s (js k)) in
      ebind (emap (\<lambda>x. x)
        [given_part (truthy (g ''format'')) (js ''format: '') (g ''format''),
         given_part (g ''minimum'' \<noteq> JUndef) [8805, 32] (g ''minimum''),
         given_part (g ''maximum'' \<noteq> JUndef) [8804, 32] (g ''maximum''),
         given_part (g ''minLength'' \<noteq> JUndef) (js ''minLength '') (g ''minLength''),
         given_part (g ''maxLength'' \<noteq> JUndef) (js ''maxLength '') (g ''maxLength''),
         given_part (truthy (g ''pattern'')) (js ''pattern '') (g ''pattern''),
         Inr (if g ''default'' \<noteq> JUndef
              then [default_text @ js '': '' @ (case stringify (g ''default'') of Some t \<Rightarrow> t | None \<Rightarrow> js ''undefined'')] else [])])
        (\<lambda>ps. Inr (concat ps)))"

text \<open>\<open>String(v)\<close> is the key of each value and may throw; the text is its JSON.\<close>

definition enum_texts :: "jval \<Rightarrow> jstr option list jsr" where
  "enum_texts s = (case jget_opt s (js ''enum'') of JArr _ vs \<Rightarrow> emap (\<lambda>v. ebind (to_str v) (\<lambda>_. Inr (stringify v))) vs | _ \<Rightarrow> Inr [])"

record RowHead =
  rh_name :: jstr
  rh_required :: bool
  rh_label :: jstr
  rh_ref :: "jstr option"
  rh_circular :: bool
  rh_deprecated :: bool
  rh_readOnly :: bool
  rh_writeOnly :: bool
  rh_description :: jval
  rh_enum :: "jstr option list"
  rh_constraints :: "jstr list"
  rh_expandable :: bool

definition row_head :: "nat \<Rightarrow> jstr \<Rightarrow> jval \<Rightarrow> jval list \<Rightarrow> nat \<Rightarrow> jstr list \<Rightarrow> jstr \<Rightarrow> jval \<Rightarrow> RowHead jsr" where
  "row_head st default_text spec required depth ancestors name prop =
     ebind (row_ref spec prop) (\<lambda>ref.
     ebind (mergeAllOf st spec prop) (\<lambda>resolved.
     ebind (children st spec prop) (\<lambda>nested.
     ebind (jget resolved (js ''format'')) (\<lambda>_.
     ebind (constraints default_text resolved) (\<lambda>cs.
     ebind (typeLabel st spec prop) (\<lambda>label.
     ebind (enum_texts resolved) (\<lambda>texts.
       Inr \<lparr>rh_name = name, rh_required = (JStr name \<in> set required), rh_label = label, rh_ref = ref,
         rh_circular = circular ref ancestors, rh_deprecated = truthy (jget_opt resolved (js ''deprecated'')),
         rh_readOnly = truthy (jget_opt resolved (js ''readOnly'')), rh_writeOnly = truthy (jget_opt resolved (js ''writeOnly'')),
         rh_description = jget_opt resolved (js ''description''), rh_enum = texts, rh_constraints = cs,
         rh_expandable = expandable (circular ref ancestors) depth nested\<rparr>)))))))"

subsection \<open>The components\<close>

datatype SchemaView =
    Unrendered
  | UnionView "(jstr \<times> SchemaView) list"
  | TypeLine jstr
  | RowsView "(RowHead \<times> SchemaView option) list"

datatype PathStep = PropertyStep jstr | VariantStep nat

definition nested_ancestors :: "jstr option \<Rightarrow> jstr list \<Rightarrow> jstr list" where
  "nested_ancestors ref ancestors = (case ref of Some r \<Rightarrow> if r \<noteq> [] then ancestors @ [r] else ancestors | None \<Rightarrow> ancestors)"

text \<open>A schema with variants and no properties of its own shows the variants.\<close>

definition variants_of :: "jval \<Rightarrow> (jstr \<times> jval) list \<Rightarrow> jval list" where
  "variants_of v es = (case v of JArr _ vs \<Rightarrow> if es = [] then vs else [] | _ \<Rightarrow> [])"

fun schema_children :: "nat \<Rightarrow> nat \<Rightarrow> jstr \<Rightarrow> (PathStep list \<Rightarrow> bool) \<Rightarrow> jval \<Rightarrow> ExampleMode \<Rightarrow> PathStep list \<Rightarrow> jval \<Rightarrow> nat \<Rightarrow> jstr list \<Rightarrow> SchemaView jsr"
where
  "schema_children 0 st default_text toggled spec mode path schema depth ancestors = Inr Unrendered"
| "schema_children (Suc n) st default_text toggled spec mode path schema depth ancestors =
     ebind (children st spec schema) (\<lambda>kids.
     ebind (shown_entries spec mode (kd_properties kids)) (\<lambda>es.
       if variants_of (kd_variants kids) es \<noteq> []
       then ebind (emap (typeLabel st spec) (variants_of (kd_variants kids) es)) (\<lambda>labels.
            ebind (emap (\<lambda>(i, v). schema_children n st default_text toggled spec mode (path @ [VariantStep i]) v (depth + 1) ancestors)
                    (List.enumerate 0 (variants_of (kd_variants kids) es))) (\<lambda>views.
              Inr (UnionView (zip labels views))))
       else if es = [] then ebind (typeLabel st spec schema) (\<lambda>l. Inr (TypeLine l))
       else ebind (emap (\<lambda>(name, prop).
              ebind (row_head st default_text spec (kd_required kids) depth ancestors name prop) (\<lambda>h.
                if rh_expandable h \<and> ((depth < 1) \<noteq> toggled (path @ [PropertyStep name]))
                then ebind (schema_children n st default_text toggled spec mode (path @ [PropertyStep name]) prop (depth + 1)
                       (nested_ancestors (rh_ref h) ancestors)) (\<lambda>view. Inr (h, Some view))
                else Inr (h, None))) es) (\<lambda>rows. Inr (RowsView rows))))"

definition SchemaTree :: "nat \<Rightarrow> nat \<Rightarrow> jstr \<Rightarrow> (PathStep list \<Rightarrow> bool) \<Rightarrow> jval \<Rightarrow> ExampleMode \<Rightarrow> jval \<Rightarrow> SchemaView jsr" where
  "SchemaTree n st default_text toggled spec mode schema = schema_children n st default_text toggled spec mode [] schema 0 []"

section \<open>How far a tree goes\<close>

fun complete :: "SchemaView \<Rightarrow> bool" where
  "complete Unrendered = False"
| "complete (UnionView vs) = list_all (\<lambda>(l, v). complete v) vs"
| "complete (TypeLine l) = True"
| "complete (RowsView rows) = list_all (\<lambda>(h, c). case c of None \<Rightarrow> True | Some v \<Rightarrow> complete v) rows"

text \<open>The references of the open rows along each branch of a tree.\<close>

fun branches :: "SchemaView \<Rightarrow> jstr option list set" where
  "branches (UnionView vs) = (\<Union>(l, v)\<in>set vs. branches v)"
| "branches (RowsView rows) = {[]} \<union> (\<Union>(h, c)\<in>set rows. case c of None \<Rightarrow> {} | Some v \<Rightarrow> (#) (rh_ref h) ` branches v)"
| "branches _ = {[]}"

definition ref_names :: "jstr option list \<Rightarrow> jstr list" where
  "ref_names b = filter (\<lambda>r. r \<noteq> []) (List.map_filter id b)"

lemma ref_names_simps:
  "ref_names [] = []"
  "ref_names (None # b) = ref_names b"
  "ref_names (Some r # b) = (if r = [] then ref_names b else r # ref_names b)"
  by (simp_all add: ref_names_def List.map_filter_def)

lemma row_head_fields:
  assumes "row_head st default_text spec required depth ancestors name prop = Inr h"
  shows "rh_expandable h \<Longrightarrow> \<not> circular (rh_ref h) ancestors \<and> depth < MAX_TREE_DEPTH" "rh_circular h = circular (rh_ref h) ancestors"
  using assms by (auto simp: row_head_def ebind_Inr_iff expandable_def)

lemma schema_children_cases [consumes 1, case_names variants line rows]:
  assumes "schema_children (Suc n) st dt tg spec mode path schema depth ancestors = Inr view"
  obtains (variants) kids es labels views where "children st spec schema = Inr kids" "shown_entries spec mode (kd_properties kids) = Inr es"
      "view = UnionView (zip labels views)"
      "emap (\<lambda>(i, v). schema_children n st dt tg spec mode (path @ [VariantStep i]) v (depth + 1) ancestors)
         (List.enumerate 0 (variants_of (kd_variants kids) es)) = Inr views"
  | (line) l where "view = TypeLine l"
  | (rows) kids es rows where "children st spec schema = Inr kids" "shown_entries spec mode (kd_properties kids) = Inr es"
      "view = RowsView rows"
      "\<And>h v. (h, Some v) \<in> set rows \<Longrightarrow> \<not> circular (rh_ref h) ancestors \<and> depth < MAX_TREE_DEPTH \<and>
         (\<exists>name prop. (name, prop) \<in> set es \<and> schema_children n st dt tg spec mode (path @ [PropertyStep name]) prop (depth + 1)
            (nested_ancestors (rh_ref h) ancestors) = Inr v)"
proof -
  from assms obtain kids es where k: "children st spec schema = Inr kids" and e: "shown_entries spec mode (kd_properties kids) = Inr es"
    by (auto simp: ebind_Inr_iff)
  show ?thesis
  proof (cases "variants_of (kd_variants kids) es \<noteq> []")
    case True
    with assms k e obtain labels views where "view = UnionView (zip labels views)"
      "emap (\<lambda>(i, v). schema_children n st dt tg spec mode (path @ [VariantStep i]) v (depth + 1) ancestors)
         (List.enumerate 0 (variants_of (kd_variants kids) es)) = Inr views" by (auto simp: ebind_Inr_iff)
    with k e that(1) show ?thesis by blast
  next
    case False
    show ?thesis
    proof (cases "es = []")
      case True
      with assms k e False that(2) show ?thesis by (auto simp: ebind_Inr_iff)
    next
      case ne: False
      let ?f = "\<lambda>(name, prop). ebind (row_head st dt spec (kd_required kids) depth ancestors name prop) (\<lambda>h.
                if rh_expandable h \<and> ((depth < 1) \<noteq> tg (path @ [PropertyStep name]))
                then ebind (schema_children n st dt tg spec mode (path @ [PropertyStep name]) prop (depth + 1)
                       (nested_ancestors (rh_ref h) ancestors)) (\<lambda>view. Inr (h, Some view))
                else Inr (h, None))"
      from assms k e False ne obtain rows where r: "emap ?f es = Inr rows" "view = RowsView rows" by (auto simp: ebind_Inr_iff)
      have "\<not> circular (rh_ref h) ancestors \<and> depth < MAX_TREE_DEPTH \<and>
         (\<exists>name prop. (name, prop) \<in> set es \<and> schema_children n st dt tg spec mode (path @ [PropertyStep name]) prop (depth + 1)
            (nested_ancestors (rh_ref h) ancestors) = Inr v)" if "(h, Some v) \<in> set rows" for h v
        using emap_set [OF r(1) that] row_head_fields(1)
        by (fastforce simp: ebind_Inr_iff split: if_splits)
      with k e r(2) that(3) show ?thesis by blast
    qed
  qed
qed

lemma variant_view:
  assumes "emap (\<lambda>(i, v). f i v) (List.enumerate 0 vs) = Inr views" "(l, view) \<in> set (zip labels views)"
  shows "\<exists>i v. v \<in> set vs \<and> f i v = Inr view"
proof -
  have "view \<in> set views" using assms(2) by (rule set_zip_rightD)
  from emap_set [OF assms(1) this] obtain i v where "(i, v) \<in> set (List.enumerate 0 vs)" "f i v = Inr view" by auto
  then show ?thesis by (auto simp: in_set_enumerate_eq intro: nth_mem)
qed

definition branch_fine :: "nat \<Rightarrow> jstr list \<Rightarrow> jstr option list \<Rightarrow> bool" where
  "branch_fine depth ancestors b \<longleftrightarrow> length b \<le> MAX_TREE_DEPTH - depth \<and> distinct (ref_names b) \<and> set (ref_names b) \<inter> set ancestors = {}"

lemma branch_fine_nil: "branch_fine depth ancestors []"
  by (simp add: branch_fine_def ref_names_simps)

lemma branch_fine_Cons:
  assumes "branch_fine (depth + 1) (nested_ancestors ref ancestors) b" "\<not> circular ref ancestors" "depth < MAX_TREE_DEPTH"
  shows "branch_fine depth ancestors (ref # b)"
  using assms by (cases ref) (auto simp: branch_fine_def ref_names_simps circular_def nested_ancestors_def split: if_splits)

lemma branch_fine_deeper: "branch_fine (depth + 1) ancestors b \<Longrightarrow> branch_fine depth ancestors b"
  by (auto simp: branch_fine_def)

lemma branches_fine:
  "schema_children n st dt tg spec mode path schema depth ancestors = Inr view \<Longrightarrow> b \<in> branches view \<Longrightarrow> branch_fine depth ancestors b"
proof (induction n arbitrary: path schema depth ancestors view b)
  case (Suc n)
  from Suc.prems(1) show ?case
  proof (cases rule: schema_children_cases)
    case (variants kids es labels views)
    with Suc.prems(2) obtain l v where v: "(l, v) \<in> set (zip labels views)" "b \<in> branches v" by auto
    from variant_view [OF variants(4) v(1)] Suc.IH [OF _ v(2)] show ?thesis by (blast intro: branch_fine_deeper)
  next
    case (line l)
    with Suc.prems(2) show ?thesis by (simp add: branch_fine_nil)
  next
    case (rows kids es rows)
    with Suc.prems(2) consider "b = []" | h v b' where "(h, Some v) \<in> set rows" "b = rh_ref h # b'" "b' \<in> branches v"
      by (auto split: option.splits)
    then show ?thesis
    proof cases
      case 2
      from rows(4) [OF 2(1)] Suc.IH [OF _ 2(3)] show ?thesis unfolding 2(2) by (blast intro: branch_fine_Cons)
    qed (simp add: branch_fine_nil)
  qed
qed (auto simp: branch_fine_nil)

text \<open>The schemas one level down.\<close>

definition tree_variants :: "nat \<Rightarrow> jval \<Rightarrow> ExampleMode \<Rightarrow> jval \<Rightarrow> jval list" where
  "tree_variants st spec mode v = (case children st spec v of Inl _ \<Rightarrow> []
     | Inr kids \<Rightarrow> case shown_entries spec mode (kd_properties kids) of Inl _ \<Rightarrow> [] | Inr es \<Rightarrow> variants_of (kd_variants kids) es)"

definition tree_properties :: "nat \<Rightarrow> jval \<Rightarrow> ExampleMode \<Rightarrow> jval \<Rightarrow> jval list" where
  "tree_properties st spec mode v = (case children st spec v of Inl _ \<Rightarrow> []
     | Inr kids \<Rightarrow> case shown_entries spec mode (kd_properties kids) of Inl _ \<Rightarrow> [] | Inr es \<Rightarrow> map snd es)"

lemma tree_complete:
  assumes v: "\<And>v w. v \<in> S \<Longrightarrow> w \<in> set (tree_variants st spec mode v) \<Longrightarrow> w \<in> S \<and> rank w < rank v"
    and p: "\<And>v w. v \<in> S \<Longrightarrow> w \<in> set (tree_properties st spec mode v) \<Longrightarrow> w \<in> S"
    and b: "\<And>v. v \<in> S \<Longrightarrow> rank v \<le> B"
  shows "schema_children n st dt tg spec mode path schema depth ancestors = Inr view \<Longrightarrow> schema \<in> S \<Longrightarrow>
    (MAX_TREE_DEPTH - depth) + (if depth < MAX_TREE_DEPTH then B else rank schema) < n \<Longrightarrow> complete view"
proof (induction n arbitrary: path schema depth ancestors view)
  case (Suc n)
  from Suc.prems(1) show ?case
  proof (cases rule: schema_children_cases)
    case (variants kids es labels views)
    have "complete c" if c: "(l, c) \<in> set (zip labels views)" for l c
    proof -
      from variant_view [OF variants(4) c] obtain i w where w: "w \<in> set (variants_of (kd_variants kids) es)"
        "schema_children n st dt tg spec mode (path @ [VariantStep i]) w (depth + 1) ancestors = Inr c" by blast
      then have "w \<in> set (tree_variants st spec mode schema)" by (simp add: tree_variants_def variants(1,2))
      with v Suc.prems(2) have r: "w \<in> S" "rank w < rank schema" by auto
      then have "rank w \<le> B" using b by blast
      with Suc.prems(3) r(2) have "(MAX_TREE_DEPTH - (depth + 1)) + (if depth + 1 < MAX_TREE_DEPTH then B else rank w) < n"
        by (auto split: if_splits)
      with Suc.IH [OF w(2) r(1)] show ?thesis by blast
    qed
    then show ?thesis unfolding variants(3) by (auto simp: list_all_iff)
  next
    case (rows kids es rows)
    have "complete c" if c: "(h, Some c) \<in> set rows" for h c
    proof -
      from rows(4) [OF c] obtain name w where d: "depth < MAX_TREE_DEPTH" and w: "(name, w) \<in> set es"
        "schema_children n st dt tg spec mode (path @ [PropertyStep name]) w (depth + 1) (nested_ancestors (rh_ref h) ancestors) = Inr c" by blast
      then have "w \<in> set (tree_properties st spec mode schema)" by (force simp: tree_properties_def rows(1,2))
      with p Suc.prems(2) have r: "w \<in> S" by blast
      have "(MAX_TREE_DEPTH - (depth + 1)) + (if depth + 1 < MAX_TREE_DEPTH then B else rank w) < n"
        using Suc.prems(3) d b [OF r] by (auto split: if_splits)
      with Suc.IH [OF w(2) r] show ?thesis by blast
    qed
    then show ?thesis unfolding rows(3) by (auto simp: list_all_iff split: option.splits)
  qed simp
qed simp

text \<open>C18: the tree of a schema ends, whatever rows are open: no branch opens more than ten rows, none opens a reference's
  name twice, and when variants nest to a depth of at most \<open>B\<close>, eleven components more than that, one in the other, show all of it.\<close>

theorem schema_tree_ends:
  assumes "SchemaTree n st dt toggled spec mode schema = Inr view"
  shows "(\<forall>b\<in>branches view. length b \<le> 10 \<and> distinct (ref_names b)) \<and>
    ((\<forall>v\<in>S. \<forall>w\<in>set (tree_variants st spec mode v). w \<in> S \<and> rank w < rank v) \<and>
     (\<forall>v\<in>S. \<forall>w\<in>set (tree_properties st spec mode v). w \<in> S) \<and> (\<forall>v\<in>S. rank v \<le> B) \<and> schema \<in> S \<and> n = B + 11 \<longrightarrow> complete view)"
proof (intro conjI impI ballI)
  fix b assume "b \<in> branches view"
  with assms branches_fine have "branch_fine 0 [] b" unfolding SchemaTree_def by blast
  then show "length b \<le> 10" "distinct (ref_names b)" by (simp_all add: branch_fine_def MAX_TREE_DEPTH_def)
next
  assume a: "(\<forall>v\<in>S. \<forall>w\<in>set (tree_variants st spec mode v). w \<in> S \<and> rank w < rank v) \<and>
     (\<forall>v\<in>S. \<forall>w\<in>set (tree_properties st spec mode v). w \<in> S) \<and> (\<forall>v\<in>S. rank v \<le> B) \<and> schema \<in> S \<and> n = B + 11"
  have 1: "w \<in> S \<and> rank w < rank v" if "v \<in> S" "w \<in> set (tree_variants st spec mode v)" for v w using a that by blast
  have 2: "w \<in> S" if "v \<in> S" "w \<in> set (tree_properties st spec mode v)" for v w using a that by blast
  have 3: "rank v \<le> B" if "v \<in> S" for v using a that by blast
  have 4: "schema \<in> S" "n = B + 11" using a by blast+
  show "complete view"
    by (rule tree_complete [where S = S and rank = rank and B = B, OF 1 2 3 assms [unfolded SchemaTree_def] 4(1)])
      (simp_all add: MAX_TREE_DEPTH_def 4(2))
qed

definition tree_node :: jval where
  "tree_node = JObj Fresh [(js ''$ref'', JStr (js ''#/schemas/Node''))]"

definition tree_pet :: jval where
  "tree_pet = JObj Fresh [(js ''$ref'', JStr (js ''#/schemas/Pet''))]"

definition tree_name :: jval where
  "tree_name = JObj Fresh [(js ''type'', JStr (js ''string''))]"

definition tree_doc :: jval where
  "tree_doc = JObj Fresh [(js ''schemas'', JObj Fresh
     [(js ''Node'', JObj Fresh [(js ''properties'', JObj Fresh [(js ''name'', tree_name), (js ''next'', tree_node), (js ''pet'', tree_pet)])]),
      (js ''Pet'', JObj Fresh [(js ''oneOf'', JArr Fresh [tree_node, tree_name])])])]"

definition tree_rank :: "jval \<Rightarrow> nat" where
  "tree_rank v = (if v = tree_pet then 1 else 0)"

lemma tree_doc_steps:
  "map (tree_variants 9 tree_doc Request) [tree_node, tree_pet, tree_name] = [[], [tree_node, tree_name], []]"
  "map (tree_properties 9 tree_doc Request) [tree_node, tree_pet, tree_name] = [[tree_name, tree_node, tree_pet], [], []]"
  by code_simp+

theorem schema_tree_ends_witness:
  "\<exists>view. SchemaTree 12 9 (js ''default'') (\<lambda>p. False) tree_doc Request tree_node = Inr view \<and> complete view"
proof -
  have "\<not> isl (SchemaTree 12 9 (js ''default'') (\<lambda>p. False) tree_doc Request tree_node)" by code_simp
  then obtain view where view: "SchemaTree 12 9 (js ''default'') (\<lambda>p. False) tree_doc Request tree_node = Inr view"
    by (cases "SchemaTree 12 9 (js ''default'') (\<lambda>p. False) tree_doc Request tree_node") auto
  have d: "tree_pet \<noteq> tree_node" "tree_pet \<noteq> tree_name" by code_simp+
  have "complete view"
    by (rule schema_tree_ends [OF view, of "set [tree_node, tree_pet, tree_name]" tree_rank 1, THEN conjunct2, THEN mp])
      (use tree_doc_steps d in \<open>auto simp: tree_rank_def\<close>)
  with view show ?thesis by blast
qed

text \<open>References are compared by the last part of their address: a schema that an open row's name stands for, but which is
  another schema, is called circular and cannot be opened.\<close>

lemma other_schema_called_circular:
  assumes "refName p = Some r" "refName q = Some r" "r \<noteq> []"
    "row_head st dt spec required depth (nested_ancestors (refName p) ancestors) name q = Inr h"
  shows "rh_circular h \<and> \<not> rh_expandable h"
  using assms by (auto simp: row_head_def ebind_Inr_iff row_ref_def circular_def nested_ancestors_def expandable_def)

lemma other_schema_same_name:
  "refName (JObj Fresh [(js ''$ref'', JStr (js ''#/components/schemas/Order/properties/address''))]) =
   refName (JObj Fresh [(js ''$ref'', JStr (js ''#/components/schemas/Customer/properties/address''))])"
  by code_simp

section \<open>The tree of a JSON value\<close>

definition PAGE :: nat where
  "PAGE = 200"

text \<open>A path names the entries that lead to a value; \<open>pages\<close> tells how often more was asked for.\<close>

datatype JsonView =
    ScalarLine "jstr option" jval
  | ClosedNode "jstr option" bool nat
  | OpenNode "jstr option" bool "JsonView list" nat

fun json_node :: "(jstr list \<Rightarrow> bool) \<Rightarrow> (jstr list \<Rightarrow> nat) \<Rightarrow> nat \<Rightarrow> jval \<Rightarrow> jstr option \<Rightarrow> jstr list \<Rightarrow> JsonView" where
  "json_node toggled pages depth (JArr i xs) name path =
     (if (depth < 2) \<noteq> toggled path
      then OpenNode name True (take (PAGE * (1 + pages path))
             (map2 (\<lambda>k f. f None (path @ [k])) (index_keys xs) (map (\<lambda>v. (\<lambda>nm p. json_node toggled pages (depth + 1) v nm p)) xs)))
             (length xs - PAGE * (1 + pages path))
      else ClosedNode name True (length xs))"
| "json_node toggled pages depth (JObj i fs) name path =
     (if (depth < 2) \<noteq> toggled path
      then OpenNode name False (take (PAGE * (1 + pages path))
             (map (\<lambda>(k, v). json_node toggled pages (depth + 1) v (Some k) (path @ [k])) fs))
             (length fs - PAGE * (1 + pages path))
      else ClosedNode name False (length fs))"
| "json_node toggled pages depth v name path = ScalarLine name v"

definition JsonTree :: "(jstr list \<Rightarrow> bool) \<Rightarrow> (jstr list \<Rightarrow> nat) \<Rightarrow> jval \<Rightarrow> JsonView" where
  "JsonTree toggled pages v = json_node toggled pages 0 v None []"

definition scalar_text :: "jval \<Rightarrow> jstr jsr" where
  "scalar_text v = (case v of JStr s \<Rightarrow> Inr (case stringify v of Some t \<Rightarrow> t | None \<Rightarrow> []) | _ \<Rightarrow> to_str v)"

text \<open>The value that a tree shows, when it hides nothing; \<open>plain\<close> forgets which objects the parts of a value are.\<close>

fun plain :: "jval \<Rightarrow> jval" where
  "plain (JArr i xs) = JArr Fresh (map plain xs)"
| "plain (JObj i fs) = JObj Fresh (map (\<lambda>(k, v). (k, plain v)) fs)"
| "plain v = v"

definition view_name :: "JsonView \<Rightarrow> jstr" where
  "view_name w = (case w of ScalarLine nm _ \<Rightarrow> the nm | ClosedNode nm _ _ \<Rightarrow> the nm | OpenNode nm _ _ _ \<Rightarrow> the nm)"

fun shown_value :: "JsonView \<Rightarrow> jval option" where
  "shown_value (ScalarLine nm v) = Some v"
| "shown_value (ClosedNode nm arr n) = None"
| "shown_value (OpenNode nm arr kids left) =
     (if left = 0 \<and> list_all (\<lambda>c. shown_value c \<noteq> None) kids
      then Some (if arr then JArr Fresh (map (\<lambda>c. the (shown_value c)) kids) else JObj Fresh (map (\<lambda>c. (view_name c, the (shown_value c))) kids))
      else None)"

lemma index_keys_length [simp]: "length (index_keys xs) = length xs"
  by (simp add: index_keys_def)

lemma json_node_name: "view_name (json_node toggled pages depth v (Some k) path) = k"
  by (cases v) (simp_all add: view_name_def)

lemma map_eq_via: "(\<And>k v. (k, v) \<in> set fs \<Longrightarrow> h (f k v) = g k v) \<Longrightarrow> map h (map (\<lambda>(k, v). f k v) fs) = map (\<lambda>(k, v). g k v) fs"
  by auto

lemma json_node_shows:
  "shown_value (json_node toggled pages depth v nm path) = None \<or> shown_value (json_node toggled pages depth v nm path) = Some (plain v)"
proof (induction v arbitrary: depth nm path)
  case (JArr i xs)
  let ?kids = "map2 (\<lambda>k f. f None (path @ [k])) (index_keys xs) (map (\<lambda>v. (\<lambda>nm p. json_node toggled pages (depth + 1) v nm p)) xs)"
  show ?case
  proof (cases "length xs \<le> PAGE * (1 + pages path)")
    case True
    have len: "length ?kids = length xs" by (simp add: index_keys_def)
    have "map (\<lambda>c. the (shown_value c)) ?kids = map plain xs" if "list_all (\<lambda>c. shown_value c \<noteq> None) ?kids"
    proof (rule nth_equalityI)
      fix j assume "j < length (map (\<lambda>c. the (shown_value c)) ?kids)"
      then have j: "j < length xs" using len by simp
      then have k: "?kids ! j = json_node toggled pages (depth + 1) (xs ! j) None (path @ [index_keys xs ! j])"
        by (simp add: index_keys_def)
      from that j len have "shown_value (?kids ! j) \<noteq> None" by (simp add: list_all_length)
      with JArr [of "xs ! j"] j have "shown_value (?kids ! j) = Some (plain (xs ! j))" unfolding k by (metis nth_mem)
      then show "map (\<lambda>c. the (shown_value c)) ?kids ! j = map plain xs ! j" using j len by simp
    qed simp
    then show ?thesis using True len by (simp del: map_map)
  qed auto
next
  case (JObj i fs)
  let ?kids = "map (\<lambda>(k, v). json_node toggled pages (depth + 1) v (Some k) (path @ [k])) fs"
  show ?case
  proof (cases "length fs \<le> PAGE * (1 + pages path)")
    case True
    have "map (\<lambda>c. (view_name c, the (shown_value c))) ?kids = map (\<lambda>(k, v). (k, plain v)) fs"
      if "list_all (\<lambda>c. shown_value c \<noteq> None) ?kids"
    proof (rule map_eq_via)
      fix k v assume kv: "(k, v) \<in> set fs"
      then have "shown_value (json_node toggled pages (depth + 1) v (Some k) (path @ [k])) \<noteq> None" using that by (auto simp: list_all_iff)
      with JObj [OF kv, of v "depth + 1" "Some k" "path @ [k]"] have "shown_value (json_node toggled pages (depth + 1) v (Some k) (path @ [k])) = Some (plain v)"
        by (auto simp: prod_set_simps)
      then show "(view_name (json_node toggled pages (depth + 1) v (Some k) (path @ [k])),
          the (shown_value (json_node toggled pages (depth + 1) v (Some k) (path @ [k])))) = (k, plain v)"
        by (simp add: json_node_name)
    qed
    then show ?thesis using True by (simp del: map_map)
  qed auto
qed simp_all

text \<open>A tree that hides nothing shows the value it was given.\<close>

lemma json_tree_shows:
  "shown_value (JsonTree toggled pages v) = None \<or> shown_value (JsonTree toggled pages v) = Some (plain v)"
  unfolding JsonTree_def by (rule json_node_shows)

lemma json_tree_pages: "shown_value (JsonTree toggled pages (JArr i xs)) \<noteq> None \<Longrightarrow> length xs \<le> PAGE * (1 + pages [])"
  by (auto simp: JsonTree_def split: if_splits)

end
