(* ===== verification/Spec_Menus.thy ===== *)
theory Spec_Menus
  imports Spec_Session
begin

text \<open>
  The small parts around the pages: \<open>components/ui/error-state.tsx\<close> and \<open>toaster.tsx\<close>, the menus of
  \<open>components/shell/TopBarMenus.tsx\<close> and \<open>ProjectLink.tsx\<close>, \<open>hooks/useDocumentTitle.ts\<close>, and of the console
  \<open>TabbedSection.tsx\<close>, \<open>SettingsSection.tsx\<close>, \<open>IdentitySection.tsx\<close>, \<open>SystemSection.tsx\<close>, \<open>SystemInfoPanel.tsx\<close>,
  \<open>apis/SpecPreview.tsx\<close>, \<open>users/NewUserMenu.tsx\<close> and \<open>users/AzurePreregisterDialog.tsx\<close>.
\<close>

section \<open>Errors\<close>

definition error_status :: "ClientError \<Rightarrow> int option" where
  "error_status e = (case e of ApiFailure a \<Rightarrow> Some (er_status a) | _ \<Rightarrow> None)"

datatype ErrorHeading = OwnTitle jstr | ForbiddenTitle | NotFoundTitle | NetworkTitle | LoadFailedTitle

datatype ErrorDetail = ForbiddenBody | NetworkBody | ErrorText jstr

definition error_heading :: "jstr option \<Rightarrow> ClientError \<Rightarrow> ErrorHeading" where
  "error_heading title e = (case title of Some s \<Rightarrow> OwnTitle s
     | None \<Rightarrow> if error_status e = Some 403 then ForbiddenTitle else if error_status e = Some 404 then NotFoundTitle
         else if error_status e = Some 0 then NetworkTitle else LoadFailedTitle)"

text \<open>\<open>message_of\<close> is the message of an error that is not an answer of the portal, which the browser words.\<close>

definition error_text :: "(ClientError \<Rightarrow> jstr) \<Rightarrow> ClientError \<Rightarrow> jstr" where
  "error_text message_of e = (case e of ApiFailure a \<Rightarrow> er_message a | _ \<Rightarrow> message_of e)"

definition error_detail :: "(ClientError \<Rightarrow> jstr) \<Rightarrow> ClientError \<Rightarrow> ErrorDetail" where
  "error_detail message_of e =
     (if error_status e = Some 403 then ForbiddenBody else if error_status e = Some 0 then NetworkBody else ErrorText (error_text message_of e))"

definition error_retries :: "bool \<Rightarrow> ClientError \<Rightarrow> bool" where
  "error_retries onRetry e \<longleftrightarrow> onRetry \<and> error_status e \<noteq> Some 403 \<and> error_status e \<noteq> Some 404"

definition error_request_id :: "ClientError \<Rightarrow> jval option" where
  "error_request_id e = (case e of ApiFailure a \<Rightarrow> if truthy (er_requestId a) then Some (er_requestId a) else None | _ \<Rightarrow> None)"

record Toast =
  to_message :: jstr
  to_requestId :: "jval option"

definition notifyError :: "(ClientError \<Rightarrow> jstr) \<Rightarrow> ClientError \<Rightarrow> jstr \<Rightarrow> Toast" where
  "notifyError message_of e fallback = \<lparr>to_message = (if error_text message_of e \<noteq> [] then error_text message_of e else fallback),
     to_requestId = error_request_id e\<rparr>"

section \<open>The top bar\<close>

text \<open>The answer to the call does not matter; the query cache is emptied.\<close>

definition useSignOut :: "(ClientError + unit) \<Rightarrow> SessionState \<Rightarrow> AccountCall list \<times> SessionState \<times> jstr" where
  "useSignOut answer st = ([Logout], markSessionEstablished False st, js ''/login'')"

definition user_menu_name :: "User \<Rightarrow> jstr" where
  "user_menu_name u = (if u_displayName u \<noteq> [] then u_displayName u else u_username u)"

definition user_menu_links :: "bool \<Rightarrow> User \<Rightarrow> jstr list" where
  "user_menu_links restricted u =
     (if restricted then []
      else [js ''/account'', js ''/account#sessions''] @ (if u_authSource u = js ''local'' then [js ''/account#password''] else []))"

text \<open>The public settings, and whether they only hold the place of those that are on their way.\<close>

definition useProjectLink :: "MeResponse option \<Rightarrow> (SystemSettings \<times> bool) option \<Rightarrow> bool" where
  "useProjectLink me pub = (case me of Some m \<Rightarrow> me_projectLink m \<noteq> Some False
     | None \<Rightarrow> (case pub of Some (p, holds_place) \<Rightarrow> \<not> holds_place \<and> sy_projectLink p \<noteq> Some False | None \<Rightarrow> False))"

definition version_line :: "MeResponse option \<Rightarrow> (SystemSettings \<times> bool) option \<Rightarrow> (jstr option \<times> bool) option" where
  "version_line me pub =
     (let version = (case me of None \<Rightarrow> None | Some m \<Rightarrow> (case me_version m of Some v \<Rightarrow> if v \<noteq> [] then Some v else None | None \<Rightarrow> None))
      in if version = None \<and> \<not> useProjectLink me pub then None else Some (version, useProjectLink me pub))"

definition document_title :: "jstr option \<Rightarrow> jstr \<Rightarrow> jstr" where
  "document_title title brand = (case title of Some t \<Rightarrow> if t \<noteq> [] then t @ [32, 183, 32] @ brand else brand | None \<Rightarrow> brand)"

section \<open>Tabs of a section\<close>

definition identity_tabs :: "jstr list \<Rightarrow> jstr list" where
  "identity_tabs sections = (if js ''ldap'' \<in> set sections then [js ''ldap''] else []) @ (if js ''azureAd'' \<in> set sections then [js ''azure''] else [])"

definition settings_tabs :: "jstr list \<Rightarrow> jstr list" where
  "settings_tabs sections = (if js ''sessionSettings'' \<in> set sections then [js ''session''] else []) @
     (if js ''system'' \<in> set sections then [js ''branding'', js ''system''] else [])"

definition current_tab :: "jstr list \<Rightarrow> (jstr \<times> jstr) list \<Rightarrow> jstr option" where
  "current_tab ts ps = (case find (\<lambda>t. Some t = params_get (js ''tab'') ps) ts of Some t \<Rightarrow> Some t
     | None \<Rightarrow> (case ts of [] \<Rightarrow> None | t # _ \<Rightarrow> Some t))"

definition choose_tab :: "jstr \<Rightarrow> (jstr \<times> jstr) list \<Rightarrow> (jstr \<times> jstr) list" where
  "choose_tab t ps = params_set (js ''tab'') t ps"

section \<open>Small forms\<close>

record AzureForm =
  zf_email :: jstr
  zf_upn :: jstr
  zf_displayName :: jstr
  zf_groupIds :: "int list"

text \<open>\<open>/^[^\s@]+@[^\s@]+$/\<close>.\<close>

definition email_ok :: "jstr \<Rightarrow> bool" where
  "email_ok s = (case split_str [64] s of [a, b] \<Rightarrow> a \<noteq> [] \<and> b \<noteq> [] \<and> list_all (\<lambda>u. \<not> is_space u) (a @ b) | _ \<Rightarrow> False)"

definition azure_submit :: "AzureForm \<Rightarrow> ConsoleCall option" where
  "azure_submit f =
     (if \<not> email_ok (trim (zf_email f)) then None
      else Some (PreregisterAzure (obj [(''email'', JStr (trim (zf_email f))),
        (''upn'', if trim (zf_upn f) \<noteq> [] then JStr (trim (zf_upn f)) else JUndef),
        (''displayName'', JStr (trim (zf_displayName f))), (''groupIds'', id_list (zf_groupIds f))])))"

definition new_user_kinds :: "bool \<Rightarrow> bool \<Rightarrow> jstr list" where
  "new_user_kinds ldap azure = js ''local'' # (if ldap then [js ''ldap''] else []) @ (if azure then [js ''azure''] else [])"

definition system_save :: "SystemSettings \<Rightarrow> jstr \<Rightarrow> SettingsCall" where
  "system_save settings title = UpdateSystem (obj [(''brandTitle'', JStr (trim title)), (''logoDataUrl'', JStr (sy_logoDataUrl settings))])"

definition remove_logo :: "SystemSettings \<Rightarrow> SettingsCall option" where
  "remove_logo settings = (if sy_logoDataUrl settings \<noteq> [] then Some DeleteSystemLogo else None)"

definition preview_call :: "jstr \<Rightarrow> ConsoleCall option" where
  "preview_call url = (if trim url \<noteq> [] then Some (SpecPreviewCall (trim url)) else None)"

text \<open>A size is shown in whole KB or in tenths of an MB.\<close>

datatype Size = Kilobytes int | MegabyteTenths int

definition byte_size :: "int \<Rightarrow> Size" where
  "byte_size n =
     (if n < 1024 * 1024 then Kilobytes \<lceil>of_int n / (1024 :: rat)\<rceil>
      else MegabyteTenths \<lfloor>of_int n / 1024 / 1024 * 10 + (1 / 2 :: rat)\<rfloor>)"

section \<open>Lemmas\<close>

text \<open>A failure after a sign-out ends no session, however the sign-out went.\<close>

lemma signed_out_is_quiet: "fst (handleError e (fst (snd (useSignOut answer st)))) = 0"
  by (simp add: useSignOut_def handleError_def markSessionEstablished_def)

lemma chosen_tab_shown:
  assumes "t \<in> set ts"
  shows "current_tab ts (choose_tab t ps) = Some t" "k \<noteq> js ''tab'' \<Longrightarrow> params_all k (choose_tab t ps) = params_all k ps"
proof -
  have "find (\<lambda>x. x = t) ts = Some t" using assms by (induction ts) auto
  then show "current_tab ts (choose_tab t ps) = Some t" by (simp add: current_tab_def choose_tab_def params_get_set)
  show "k \<noteq> js ''tab'' \<Longrightarrow> params_all k (choose_tab t ps) = params_all k ps" by (simp add: choose_tab_def params_all_set)
qed

lemma current_tab_listed: "current_tab ts ps = Some t \<Longrightarrow> t \<in> set ts" "current_tab ts ps = None \<longleftrightarrow> ts = []"
  by (auto simp: current_tab_def find_Some_iff split: option.splits list.splits)

lemma split_two:
  assumes "split_str [c] s = [a, b]"
  shows "s = a @ c # b \<and> c \<notin> set a \<and> c \<notin> set b"
proof -
  have more: "\<exists>x y zs. split_str [c] u = x # y # zs" if "c \<in> set u" for u
  proof -
    from split_list_first [OF that] obtain x y where "u = x @ c # y" "c \<notin> set x" by blast
    moreover have "split_str [c] y \<noteq> []" by (metis join.simps(1) join_split split_str_none empty_iff list.set(1) list.distinct(1))
    ultimately show ?thesis by (cases "split_str [c] y") (auto simp: split_str_part)
  qed
  have "c \<in> set s" using assms split_str_none [of c s] by fastforce
  from split_list_first [OF this] obtain x y where s: "s = x @ c # y" "c \<notin> set x" by blast
  with assms have y: "x = a" "split_str [c] y = [b]" by (simp_all add: split_str_part)
  have "c \<notin> set y" using more [of y] y(2) by auto
  with y(2) have "y = b" by (simp add: split_str_none)
  with s y \<open>c \<notin> set y\<close> show ?thesis by simp
qed

text \<open>An address has one @, with something on either side of it and no space.\<close>

lemma email_ok_iff:
  "email_ok s \<longleftrightarrow> (\<exists>a b. s = a @ 64 # b \<and> a \<noteq> [] \<and> b \<noteq> [] \<and> (\<forall>u\<in>set (a @ b). \<not> is_space u \<and> u \<noteq> 64))"
proof
  assume "email_ok s"
  then obtain a b where ab: "split_str [64] s = [a, b]" "a \<noteq> []" "b \<noteq> []" "\<forall>u\<in>set (a @ b). \<not> is_space u"
    by (auto simp: email_ok_def list_all_iff split: list.splits)
  from split_two [OF ab(1)] ab(2-4) show "\<exists>a b. s = a @ 64 # b \<and> a \<noteq> [] \<and> b \<noteq> [] \<and> (\<forall>u\<in>set (a @ b). \<not> is_space u \<and> u \<noteq> 64)"
    by (intro exI [of _ a] exI [of _ b]) auto
next
  assume "\<exists>a b. s = a @ 64 # b \<and> a \<noteq> [] \<and> b \<noteq> [] \<and> (\<forall>u\<in>set (a @ b). \<not> is_space u \<and> u \<noteq> 64)"
  then obtain a b where ab: "s = a @ 64 # b" "a \<noteq> []" "b \<noteq> []" "\<forall>u\<in>set (a @ b). \<not> is_space u \<and> u \<noteq> 64" by blast
  then have "64 \<notin> set a" "64 \<notin> set b" by auto
  then have "split_str [64] s = [a, b]" by (simp add: ab(1) split_str_part split_str_none)
  with ab show "email_ok s" by (auto simp: email_ok_def list_all_iff)
qed

text \<open>A size in KB is never below the size.\<close>

lemma byte_size_covers: "byte_size n = Kilobytes k \<Longrightarrow> n \<le> 1024 * k \<and> 1024 * (k - 1) < n"
proof -
  assume "byte_size n = Kilobytes k"
  then have k: "k = \<lceil>of_int n / (1024 :: rat)\<rceil>" by (auto simp: byte_size_def split: if_splits)
  have "of_int n / (1024 :: rat) \<le> of_int k" "of_int (k - 1) < of_int n / (1024 :: rat)" unfolding k by linarith+
  then have "(of_int n :: rat) \<le> of_int (1024 * k)" "(of_int (1024 * (k - 1)) :: rat) < of_int n" by (simp_all add: field_simps)
  then show ?thesis by (simp only: of_int_le_iff of_int_less_iff)
qed

end
