(* ===== verification/Spec2Isabelle.thy ===== *)
theory Spec2Isabelle
  imports Spec_Normalize Spec_Request Spec_Snippets Spec_History Spec_Format Spec_Fuzzy Spec_Catalog Spec_Session
    Spec_Users Spec_Roles Spec_ApiForm Spec_I18n Spec_Shortcuts Spec_TryIt Spec_Sign_In Spec_Admin Spec_Audit Spec_Catalog_Page Spec_Palette
    Spec_Highlight Spec_Table Spec_Account Spec_Workspace Spec_Api_Pages
    Spec_Directory Spec_Groups Spec_Combobox Spec_Sections Spec_Schema_Tree Spec_Menus
begin

text \<open>
  The internal API portal: a catalog of OpenAPI documents, a reference with a console that calls the documented APIs
  through the portal's server, and an administration console. This development models the frontend, the TypeScript code
  under \<open>frontend/src\<close>: its data, the pure parts of every page, and the state that the pages keep in the address, in
  the browser's store, in their components and in the query cache. The server is written in Go; three of its functions are
  modelled as references that the frontend has to agree with. Paths below are relative to \<open>frontend/src\<close>.

  \<^bold>\<open>How the parts work together.\<close>
  A document of an API is loaded by the client (\<open>Spec_Api\<close>), its references are followed (\<open>Spec_Resolve\<close>), its schemas
  merged and labelled (\<open>Spec_Schema\<close>) and its operations listed (\<open>Spec_Normalize\<close>). The reference shows them
  (\<open>Spec_Workspace\<close>, \<open>Spec_Api_Pages\<close>, \<open>Spec_Schema_Tree\<close>); the console (\<open>Spec_TryIt\<close>) builds a request
  (\<open>Spec_Request\<close>), shows it as a command (\<open>Spec_Snippets\<close>) and remembers it (\<open>Spec_History\<close>). The catalog
  (\<open>Spec_Catalog\<close>, \<open>Spec_Catalog_Page\<close>), the search and the command palette (\<open>Spec_Fuzzy\<close>, \<open>Spec_Palette\<close>) lead
  there. The gate and the sign-in (\<open>Spec_Sign_In\<close>) stand before the pages, and an answer 401 leads back to them
  (\<open>Spec_Session\<close>). The administration console (\<open>Spec_Admin\<close> and the theories after it below) edits users, groups,
  roles, APIs and settings by the calls of the client.

  \<^bold>\<open>Theories: the language.\<close>
  \<^item> \<open>Prelude\<close>: errors as values (\<open>jsr\<close>, \<open>ebind\<close>, \<open>emap\<close>, \<open>efold\<close>), the stable sort with the locale
    \<open>comparator\<close>, insertion-ordered maps with the locale \<open>dictionary\<close>, and the locale \<open>codec\<close> of a writer that a reader
    undoes. Each locale is interpreted on the model's own operations in the theory that defines them.
  \<^item> \<open>Js_Strings\<close>, \<open>Js_Numbers\<close>, \<open>Js_Values\<close>, \<open>Js_Json\<close>, \<open>Js_Text\<close>, \<open>Js_Locale\<close>: what the code uses of the language
    and its library: strings as lists of 16-bit units, numbers as rounded rationals with the infinities and NaN, values with
    the identity of objects and the order of keys, JSON, UTF-8, percent encoding, query strings, and the comparison of texts
    by a locale, which is a parameter.

  \<^bold>\<open>Theories: the document and the request.\<close>
  \<^item> \<open>Spec_Resolve\<close> (\<open>lib/openapi/resolve.ts\<close>), \<open>Spec_Schema\<close> (\<open>schema.ts\<close>), \<open>Spec_Normalize\<close> (\<open>types.ts\<close>,
    \<open>normalize.ts\<close>), \<open>Spec_Request\<close> (\<open>request.ts\<close>), \<open>Spec_Snippets\<close> (\<open>snippets.ts\<close>), \<open>Spec_History\<close>
    (\<open>lib/storage.ts\<close>, \<open>lib/history.ts\<close>), \<open>Spec_TryIt\<close> (\<open>pages/api/reference/TryIt.tsx\<close>).
  \<^item> Shown: a pointer reaches the part it names; a merged schema keeps its members; operations are listed once, with unique
    keys; an inserted path value stays one segment; validation accepts what fits; guarded headers need listing; the command
    reads back, in a shell, as the request; no snippet depends on a secret; the history refines a list per operation and keeps
    no details unless asked; the console sends only what it checked, one call at a time.

  \<^bold>\<open>Theories: client, session and pages.\<close>
  \<^item> \<open>Spec_Types\<close> and \<open>Spec_Api\<close> (\<open>lib/api.ts\<close>, \<open>lib/admin-api.ts\<close>): the types and every call, with what becomes of
    its answer. \<open>Spec_Session\<close> (\<open>lib/query.ts\<close>, \<open>hooks/queries.ts\<close>): the end of a session, retries, and favourites.
  \<^item> \<open>Spec_Format\<close> (\<open>lib/format.ts\<close>), \<open>Spec_Fuzzy\<close> (\<open>lib/fuzzy.ts\<close>), \<open>Spec_Catalog\<close> (\<open>lib/catalog.ts\<close>),
    \<open>Spec_Shortcuts\<close> (\<open>lib/shortcuts.ts\<close>), \<open>I18n_Base\<close>, \<open>I18n_En\<close>, \<open>I18n_Tr\<close>, \<open>I18n_Admin_En\<close>,
    \<open>I18n_Admin_Tr\<close> and \<open>Spec_I18n\<close> (\<open>i18n\<close>).
  \<^item> \<open>Spec_Sign_In\<close> (\<open>routes/AuthGate.tsx\<close>, \<open>app.tsx\<close>, \<open>pages/LoginPage.tsx\<close>), \<open>Spec_Catalog_Page\<close>
    (\<open>pages/CatalogPage.tsx\<close>, \<open>components/shell/GlobalSearch.tsx\<close>), \<open>Spec_Workspace\<close> (\<open>pages/api/context.ts\<close>,
    \<open>ApiLayout.tsx\<close>, \<open>ReferenceTab.tsx\<close>, \<open>OverviewTab.tsx\<close>, \<open>reference/OperationTree.tsx\<close>), \<open>Spec_Api_Pages\<close>
    (\<open>AccessTab.tsx\<close>, \<open>ActivityTab.tsx\<close>, \<open>reference/OperationDoc.tsx\<close>, \<open>ResponseViewer.tsx\<close>), \<open>Spec_Schema_Tree\<close>
    (\<open>components/api/SchemaTree.tsx\<close>, \<open>JsonTree.tsx\<close>), \<open>Spec_Account\<close> (\<open>pages/AccountPage.tsx\<close>).
  \<^item> \<open>Spec_Palette\<close> (\<open>components/shell/CommandPalette.tsx\<close>, \<open>lib/theme.tsx\<close>), \<open>Spec_Highlight\<close>, \<open>Spec_Table\<close> and
    \<open>Spec_Combobox\<close> (\<open>components/ui\<close>), \<open>Spec_Menus\<close> (errors, the top bar's menus, tabs and small forms).
  \<^item> Shown: every call goes to the API, with the protection header; the first 401 after a sign-in ends the session once;
    signing in leads back; the catalog page refines a stack of filters, which its addresses write and read back; a search hit
    opens its operation; the tree lists each matching operation once; a table's pages show every row once; marks cover exactly
    the matches; a combobox holds known values, each once; a schema's tree ends; the password form agrees with the server's
    policy; both languages define the same texts.

  \<^bold>\<open>Theories: the administration console.\<close>
  \<^item> \<open>Spec_Admin\<close> (\<open>lib/admin-sections.ts\<close>, \<open>pages/AdminPage.tsx\<close>), \<open>Spec_Common\<close> (\<open>pages/admin/common.tsx\<close>),
    \<open>Spec_Users\<close> (\<open>users/rules.ts\<close>, \<open>UserBulkActions.tsx\<close>, \<open>UserDrawer.tsx\<close>), \<open>Spec_Roles\<close> (\<open>roles\<close>),
    \<open>Spec_Groups\<close> (\<open>groups\<close>, \<open>users/EffectivePermissions.tsx\<close>), \<open>Spec_ApiForm\<close> (\<open>apis\<close>), \<open>Spec_Directory\<close>
    (\<open>LdapSection.tsx\<close>, \<open>AzureSection.tsx\<close>, \<open>SessionSettingsSection.tsx\<close>, \<open>users/LdapImportDrawer.tsx\<close>),
    \<open>Spec_Audit\<close> (\<open>AuditSection.tsx\<close>, \<open>audit/AuditDrawer.tsx\<close>) and \<open>Spec_Sections\<close> (the lists, the overview and
    \<open>components/shell/AppShell.tsx\<close>).
  \<^item> Shown: no sequence of account changes removes the last active administrator or the own account; the matrix agrees with
    the server's permission engine (\<open>backend/internal/rbac/engine.go\<close>); saving a role sets exactly what was chosen; a
    section is shown exactly to who may open it; members are changed only as the rules allow; what the wizard creates passed
    its checks; the session form agrees with the server's ranges; the filter of the audit log is what its form says; a link to
    an API's definition opens it; an export reads back.

  \<^bold>\<open>State, errors and bounds.\<close>
  A component's state is a record or a tuple and an event is a function on it; sequences of events are folds, and invariants
  are proved by induction on them. What throws is the left of a sum, with the kind of the error; an absent value is \<open>None\<close>.
  Recursion that the code leaves unbounded has the call stack that is left as an argument: \<open>typeLabel\<close> and \<open>mergeAllOf\<close>
  give \<open>RangeError\<close> when none is left; it is proved that more stack does not change a result, that a rank of the schemas
  below bounds what is needed, and that a schema without one overflows any stack. The tree of a schema has the number of
  nested components as an argument; eleven more than the nesting of variants are enough. The parser of JSON has fuel of twice
  the length of its input, which is proved to be enough. All other loops terminate by measures. Identifiers in addresses are
  taken to be below \<open>10 ^ 15\<close>, which numbers hold exactly.

  \<^bold>\<open>Parameters.\<close>
  Lower case beyond ASCII (\<open>lo\<close>), the order of texts in a locale, the formatting of numbers and times (\<open>Intl\<close>), the clock,
  the network (\<open>fetch\<close>) and the store of the browser are arguments of the definitions. What a theorem needs of them is a
  premise or a locale's assumption, and a witness instantiates it.

  \<^bold>\<open>Not modelled.\<close>
  The markup of the pages: elements, class names, focus and scrolling, and the primitives of \<open>components/ui\<close> that are
  nothing else. The libraries (React's scheduling, the router's matching, TanStack Query's cache beyond the entries that the
  code reads and writes, i18next, zod, CodeMirror, Swagger UI, Radix), whose code is not in the repository; where the code
  relies on one, what it relies on is written out in the definition or is a parameter. The upload of a logo and the download of
  files. The server but for the permission engine, the password policy (\<open>backend/internal/password/policy.go\<close>) and the range
  check of the session settings (\<open>backend/internal/api/admin_settings.go\<close>). Tests, browser tests, scripts, deployment and the
  page for developers that shows every component.
\<close>

end
